(* ===== verification/Prelude.thy ===== *)
theory Prelude
  imports Complex_Main "HOL-Library.AList" "HOL-Library.Sublist" "HOL-Library.Char_ord"
    "HOL-Library.List_Lexorder"
begin

text \<open>
  What the components share: the named theorem collections, the outcome of a fallible Go
  call (\<open>Ret\<close>, \<open>Err\<close>, \<open>Panic\<close>), the functions of Go's \<^verbatim>\<open>strings\<close>, \<^verbatim>\<open>strconv\<close>
  and \<^verbatim>\<open>fmt\<close> packages that the repository uses, and Go's maps.

  A Go string is a list of bytes. Case conversion acts on the ASCII letters and leaves every other
  byte alone. A Go map is an association list with distinct keys: the list order stands for the
  unspecified order in which \<^verbatim>\<open>range\<close> visits the map, so a theorem that holds for every
  list holds for every visiting order.
\<close>

named_theorems go_string \<open>facts on the string functions\<close>
named_theorems go_map \<open>facts on Go maps as association lists\<close>

section \<open>Outcomes and errors\<close>

datatype errno = ECONNRESET | ECONNREFUSED

text \<open>
  A Go error is its message and the system errors that \<^verbatim>\<open>errors.Is\<close> finds in its chain.
\<close>

record goerr =
  err_msg :: string
  err_is :: "errno list"

datatype 'a outcome = Ret 'a | Err goerr | Panic string

definition errorf :: "string \<Rightarrow> goerr" where
  "errorf m = \<lparr>err_msg = m, err_is = []\<rparr>"

definition wrapf :: "string \<Rightarrow> goerr \<Rightarrow> string \<Rightarrow> goerr" where
  "wrapf pre e post = \<lparr>err_msg = pre @ err_msg e @ post, err_is = err_is e\<rparr>"

fun bind_out :: "'a outcome \<Rightarrow> ('a \<Rightarrow> 'b outcome) \<Rightarrow> 'b outcome" where
  "bind_out (Ret x) f = f x"
| "bind_out (Err e) f = Err e"
| "bind_out (Panic m) f = Panic m"

fun wrap_out :: "string \<Rightarrow> 'a outcome \<Rightarrow> 'a outcome" where
  "wrap_out pre (Err e) = Err (wrapf pre e [])"
| "wrap_out pre r = r"

fun is_ret :: "'a outcome \<Rightarrow> bool" where
  "is_ret (Ret x) = True"
| "is_ret (Err e) = False"
| "is_ret (Panic m) = False"

fun mapM_out :: "('a \<Rightarrow> 'b outcome) \<Rightarrow> 'a list \<Rightarrow> 'b list outcome" where
  "mapM_out f [] = Ret []"
| "mapM_out f (x # xs) = bind_out (f x) (\<lambda>y. bind_out (mapM_out f xs) (\<lambda>ys. Ret (y # ys)))"

section \<open>Strings\<close>

text \<open>Changing case covers the ASCII letters only; \<^verbatim>\<open>strings.ToLower\<close> and \<^verbatim>\<open>ToUpper\<close> cover Unicode.\<close>

definition to_lower_char :: "char \<Rightarrow> char" where
  "to_lower_char c =
     (let n = (of_char c :: nat) in if 65 \<le> n \<and> n \<le> 90 then char_of (n + 32) else c)"

definition to_upper_char :: "char \<Rightarrow> char" where
  "to_upper_char c =
     (let n = (of_char c :: nat) in if 97 \<le> n \<and> n \<le> 122 then char_of (n - 32) else c)"

definition to_lower :: "string \<Rightarrow> string" where
  "to_lower s = map to_lower_char s"

definition to_upper :: "string \<Rightarrow> string" where
  "to_upper s = map to_upper_char s"

definition contains :: "string \<Rightarrow> string \<Rightarrow> bool" where
  "contains s sub = sublist sub s"

definition has_prefix :: "string \<Rightarrow> string \<Rightarrow> bool" where
  "has_prefix s p = prefix p s"

definition has_suffix :: "string \<Rightarrow> string \<Rightarrow> bool" where
  "has_suffix s p = prefix (rev p) (rev s)"

definition trim_prefix :: "string \<Rightarrow> string \<Rightarrow> string" where
  "trim_prefix s p = (if has_prefix s p then drop (length p) s else s)"

definition trim_suffix :: "string \<Rightarrow> string \<Rightarrow> string" where
  "trim_suffix s p = (if has_suffix s p then take (length s - length p) s else s)"

text \<open>\<^verbatim>\<open>strings.Split\<close> on a one-byte separator, \<^verbatim>\<open>strings.Join\<close>, \<^verbatim>\<open>strings.Index\<close> of one byte.\<close>

fun split_on :: "char \<Rightarrow> string \<Rightarrow> string list" where
  "split_on c [] = [[]]"
| "split_on c (x # xs) =
     (if x = c then [] # split_on c xs
      else (case split_on c xs of [] \<Rightarrow> [[x]] | y # ys \<Rightarrow> (x # y) # ys))"

fun join :: "string \<Rightarrow> string list \<Rightarrow> string" where
  "join sep [] = []"
| "join sep [x] = x"
| "join sep (x # y # ys) = x @ sep @ join sep (y # ys)"

definition index_byte :: "string \<Rightarrow> char \<Rightarrow> nat option" where
  "index_byte s c = (if c \<in> set s then Some (length (takeWhile (\<lambda>x. x \<noteq> c) s)) else None)"

definition replace_byte :: "char \<Rightarrow> string \<Rightarrow> string \<Rightarrow> string" where
  "replace_byte c new s = concat (map (\<lambda>x. if x = c then new else [x]) s)"

definition is_space :: "char \<Rightarrow> bool" where
  "is_space c = (let n = (of_char c :: nat) in n = 32 \<or> (9 \<le> n \<and> n \<le> 13))"

definition trim_space :: "string \<Rightarrow> string" where
  "trim_space s = rev (dropWhile is_space (rev (dropWhile is_space s)))"

section \<open>Decimal numbers\<close>

definition digit_char :: "nat \<Rightarrow> char" where
  "digit_char d = char_of (48 + d)"

fun show_nat :: "nat \<Rightarrow> string" where
  "show_nat n = (if n < 10 then [digit_char n] else show_nat (n div 10) @ [digit_char (n mod 10)])"

declare show_nat.simps [simp del]

definition show_int :: "int \<Rightarrow> string" where
  "show_int i = (if i < 0 then ''-'' @ show_nat (nat (- i)) else show_nat (nat i))"

definition show_bool :: "bool \<Rightarrow> string" where
  "show_bool b = (if b then ''true'' else ''false'')"

definition is_digit :: "char \<Rightarrow> bool" where
  "is_digit c = (let n = (of_char c :: nat) in 48 \<le> n \<and> n \<le> 57)"

definition digits_val :: "string \<Rightarrow> nat" where
  "digits_val ds = foldl (\<lambda>a c. 10 * a + (of_char c - 48)) 0 ds"

definition max_int64 :: int where
  "max_int64 = 9223372036854775807"

definition min_int64 :: int where
  "min_int64 = - 9223372036854775808"

text \<open>
  \<^verbatim>\<open>strconv.Atoi\<close>: an optional sign, at least one decimal digit and nothing else, and a value in
  the 64-bit range. \<open>None\<close> is the error.
\<close>

definition atoi :: "string \<Rightarrow> int option" where
  "atoi s =
     (let neg = (s \<noteq> [] \<and> hd s = CHR ''-'');
          ds = (if s \<noteq> [] \<and> (hd s = CHR ''-'' \<or> hd s = CHR ''+'') then tl s else s);
          v = (if neg then - int (digits_val ds) else int (digits_val ds))
      in if ds \<noteq> [] \<and> (\<forall>c\<in>set ds. is_digit c) \<and> min_int64 \<le> v \<and> v \<le> max_int64
         then Some v else None)"

section \<open>Maps\<close>

type_synonym 'v gomap = "(string \<times> 'v) list"

definition gm_get :: "'v gomap \<Rightarrow> string \<Rightarrow> 'v option" where
  "gm_get m k = map_of m k"

definition gm_put :: "string \<Rightarrow> 'v \<Rightarrow> 'v gomap \<Rightarrow> 'v gomap" where
  "gm_put k v m = AList.update k v m"

definition gm_del :: "string \<Rightarrow> 'v gomap \<Rightarrow> 'v gomap" where
  "gm_del k m = AList.delete k m"

definition gm_wf :: "'v gomap \<Rightarrow> bool" where
  "gm_wf m = distinct (map fst m)"

text \<open>\<^verbatim>\<open>for k, v := range src { dst[k] = v }\<close>\<close>

definition gm_put_all :: "'v gomap \<Rightarrow> 'v gomap \<Rightarrow> 'v gomap" where
  "gm_put_all src dst = foldl (\<lambda>m (k, v). gm_put k v m) dst src"


section \<open>Facts on outcomes\<close>

lemma bind_out_Ret_iff [simp]:
  "bind_out r f = Ret y \<longleftrightarrow> (\<exists>x. r = Ret x \<and> f x = Ret y)"
  by (cases r) auto

lemma wrap_out_Ret_iff [simp]: "wrap_out pre r = Ret y \<longleftrightarrow> r = Ret y"
  by (cases r) auto

lemma is_ret_iff: "is_ret r \<longleftrightarrow> (\<exists>x. r = Ret x)"
  by (cases r) auto

lemma err_is_wrapf [simp]: "err_is (wrapf pre e post) = err_is e"
  by (simp add: wrapf_def)

lemma wrapf_contains [go_string]:
  "contains (err_msg e) sub \<Longrightarrow> contains (err_msg (wrapf pre e post)) sub"
  by (auto simp: contains_def wrapf_def intro: sublist_order.order_trans)

lemma mapM_out_Ret:
  "mapM_out f xs = Ret ys \<Longrightarrow>
     length ys = length xs \<and> (\<forall>i<length xs. f (xs ! i) = Ret (ys ! i))"
proof (induction xs arbitrary: ys)
  case Nil
  then show ?case by simp
next
  case (Cons x xs)
  then obtain y zs where "f x = Ret y" "mapM_out f xs = Ret zs" "ys = y # zs"
    by auto
  with Cons.IH [of zs] show ?case by (auto simp: nth_Cons split: nat.splits)
qed

section \<open>Facts on strings\<close>

lemma of_char_char_of_small: "n < 256 \<Longrightarrow> (of_char (char_of n :: char) :: nat) = n"
  by simp

lemma to_lower_char_idem [simp]: "to_lower_char (to_lower_char c) = to_lower_char c"
  by (simp add: to_lower_char_def Let_def)

lemma to_lower_idem [simp]: "to_lower (to_lower s) = to_lower s"
  by (simp add: to_lower_def)

lemma length_to_lower [simp]: "length (to_lower s) = length s"
  by (simp add: to_lower_def)

lemma to_lower_eq_Nil [simp]: "to_lower s = [] \<longleftrightarrow> s = []" "[] = to_lower s \<longleftrightarrow> s = []"
  by (auto simp: to_lower_def)

lemma to_lower_append: "to_lower (a @ b) = to_lower a @ to_lower b"
  by (simp add: to_lower_def)

lemma split_on_not_Nil [simp]: "split_on c s \<noteq> []"
  by (induction s) (auto split: list.splits)

lemma join_split_on [go_string]: "join [c] (split_on c s) = s"
proof (induction s)
  case Nil
  then show ?case by simp
next
  case (Cons x xs)
  obtain y ys where sp: "split_on c xs = y # ys"
    by (cases "split_on c xs") auto
  with Cons show ?case by (cases ys) auto
qed

lemma split_on_free [go_string]: "c \<notin> set s \<Longrightarrow> split_on c s = [s]"
  by (induction s) auto

lemma split_on_append_sep [go_string]:
  "c \<notin> set a \<Longrightarrow> split_on c (a @ c # s) = a # split_on c s"
  by (induction a) auto

lemma split_on_parts_free: "p \<in> set (split_on c s) \<Longrightarrow> c \<notin> set p"
  by (induction s arbitrary: p) (auto split: if_splits list.splits)

lemma split_on_join [go_string]:
  "xs \<noteq> [] \<Longrightarrow> (\<forall>x\<in>set xs. c \<notin> set x) \<Longrightarrow> split_on c (join [c] xs) = xs"
  by (induction "[c]" xs rule: join.induct)
    (auto simp: split_on_free split_on_append_sep)

lemma set_join: "set (join sep xs) \<subseteq> set sep \<union> (\<Union>x\<in>set xs. set x)"
  by (induction sep xs rule: join.induct) auto

lemma replace_byte_free [go_string]: "c \<notin> set new \<Longrightarrow> c \<notin> set (replace_byte c new s)"
  by (induction s) (auto simp: replace_byte_def)

lemma replace_byte_id [go_string]: "c \<notin> set s \<Longrightarrow> replace_byte c new s = s"
  by (induction s) (auto simp: replace_byte_def)

lemma replace_byte_Nil_iff: "new \<noteq> [] \<Longrightarrow> replace_byte c new s = [] \<longleftrightarrow> s = []"
  by (induction s) (auto simp: replace_byte_def)

section \<open>Facts on numbers\<close>

lemma of_char_digit_char: "d < 10 \<Longrightarrow> (of_char (digit_char d) :: nat) = 48 + d"
  by (simp add: digit_char_def)

lemma is_digit_digit_char: "d < 10 \<Longrightarrow> is_digit (digit_char d)"
  by (simp add: is_digit_def of_char_digit_char)

lemma show_nat_digits: "\<forall>c\<in>set (show_nat n). is_digit c"
proof (induction n rule: show_nat.induct)
  case (1 n)
  then show ?case
    by (subst show_nat.simps) (auto simp: is_digit_digit_char)
qed

lemma show_nat_not_Nil [simp]: "show_nat n \<noteq> []"
  by (subst show_nat.simps) simp

lemma digits_val_append: "digits_val (a @ [c]) = 10 * digits_val a + (of_char c - 48)"
  by (simp add: digits_val_def)

lemma digits_val_show_nat: "digits_val (show_nat n) = n"
proof (induction n rule: show_nat.induct)
  case (1 n)
  show ?case
  proof (cases "n < 10")
    case True
    then show ?thesis
      by (subst show_nat.simps) (simp add: digits_val_def of_char_digit_char)
  next
    case False
    with 1 show ?thesis
      by (subst show_nat.simps) (simp add: digits_val_append of_char_digit_char)
  qed
qed

lemma hd_show_nat_digit: "is_digit (hd (show_nat n))"
  using show_nat_digits [of n] by (simp add: hd_in_set)

lemma not_sign_digit: "is_digit c \<Longrightarrow> c \<noteq> CHR ''-'' \<and> c \<noteq> CHR ''+''"
  by (auto simp: is_digit_def Let_def)

lemma not_in_show_int: "\<not> is_digit c \<Longrightarrow> c \<noteq> CHR ''-'' \<Longrightarrow> c \<notin> set (show_int i)"
  using show_nat_digits by (auto simp: show_int_def)

lemma atoi_show_int:
  assumes "min_int64 \<le> i" and "i \<le> max_int64"
  shows "atoi (show_int i) = Some i"
proof (cases "i < 0")
  case True
  then show ?thesis using assms show_nat_digits
    by (auto simp: atoi_def show_int_def Let_def digits_val_show_nat)
next
  case False
  have "hd (show_nat (nat i)) \<noteq> CHR ''-''" "hd (show_nat (nat i)) \<noteq> CHR ''+''"
    using hd_show_nat_digit not_sign_digit by blast+
  then show ?thesis using assms False show_nat_digits
    by (auto simp: atoi_def show_int_def Let_def digits_val_show_nat)
qed

section \<open>Maps: the interface and its association-list implementation\<close>

locale map_store =
  fixes get :: "'m \<Rightarrow> string \<Rightarrow> 'v option"
    and put :: "string \<Rightarrow> 'v \<Rightarrow> 'm \<Rightarrow> 'm"
    and del :: "string \<Rightarrow> 'm \<Rightarrow> 'm"
    and wf_store :: "'m \<Rightarrow> bool"
  assumes get_put: "get (put k v m) j = (if j = k then Some v else get m j)"
    and get_del: "get (del k m) j = (if j = k then None else get m j)"
    and wf_put: "wf_store m \<Longrightarrow> wf_store (put k v m)"
    and wf_del: "wf_store m \<Longrightarrow> wf_store (del k m)"
begin

lemma get_put_same: "get (put k v m) k = Some v"
  by (simp add: get_put)

lemma get_foldl_put:
  "get (foldl (\<lambda>m (k, v). put k v m) m0 kvs) j =
     (case map_of (rev kvs) j of None \<Rightarrow> get m0 j | Some v \<Rightarrow> Some v)"
proof (induction kvs arbitrary: m0)
  case Nil
  then show ?case by simp
next
  case (Cons kv kvs)
  then show ?case
    by (cases kv) (auto simp: get_put map_add_def split: option.splits)
qed

lemma wf_foldl_put: "wf_store m0 \<Longrightarrow> wf_store (foldl (\<lambda>m (k, v). put k v m) m0 kvs)"
  by (induction kvs arbitrary: m0) (auto simp: wf_put)

end

interpretation gm: map_store gm_get gm_put gm_del gm_wf
  by unfold_locales
    (auto simp: gm_get_def gm_put_def gm_del_def gm_wf_def update_conv' delete_conv'
      distinct_update distinct_delete)

lemmas gm_simps [simp, go_map] = gm.get_put gm.get_del gm.wf_put gm.wf_del

lemma gm_get_Nil [simp]: "gm_get [] k = None"
  by (simp add: gm_get_def)

lemma gm_wf_Nil [simp]: "gm_wf []"
  by (simp add: gm_wf_def)

lemma gm_get_Some_mem: "gm_get m k = Some v \<Longrightarrow> (k, v) \<in> set m"
  by (simp add: gm_get_def map_of_SomeD)

lemma gm_get_iff_mem: "gm_wf m \<Longrightarrow> gm_get m k = Some v \<longleftrightarrow> (k, v) \<in> set m"
  by (simp add: gm_get_def gm_wf_def)

lemma gm_get_None_iff: "gm_get m k = None \<longleftrightarrow> k \<notin> fst ` set m"
  by (simp add: gm_get_def map_of_eq_None_iff)

lemma map_of_rev_distinct: "distinct (map fst kvs) \<Longrightarrow> map_of (rev kvs) = map_of kvs"
  by (rule map_of_eqI) (auto simp: rev_map [symmetric])

lemma gm_get_put_all [go_map]:
  "gm_wf src \<Longrightarrow> gm_get (gm_put_all src dst) k =
     (case gm_get src k of None \<Rightarrow> gm_get dst k | Some v \<Rightarrow> Some v)"
  unfolding gm_put_all_def gm.get_foldl_put
  by (simp add: gm_get_def gm_wf_def map_of_rev_distinct)

lemma gm_wf_put_all [simp]: "gm_wf dst \<Longrightarrow> gm_wf (gm_put_all src dst)"
  by (simp add: gm_put_all_def gm.wf_foldl_put)

text \<open>A total over the entries of a map changes by the difference at the key that is stored.\<close>

lemma sum_list_gm_put:
  fixes f :: "'v \<Rightarrow> int"
  assumes "gm_wf m"
  shows "(\<Sum>(k, v)\<leftarrow>gm_put k v m. f v) =
     (\<Sum>(k, v)\<leftarrow>m. f v) + f v - (case gm_get m k of None \<Rightarrow> 0 | Some w \<Rightarrow> f w)"
  using assms
proof (induction m)
  case Nil
  then show ?case by (simp add: gm_put_def)
next
  case (Cons a m)
  obtain j w where a: "a = (j, w)" by (cases a)
  show ?case
  proof (cases "j = k")
    case True
    then show ?thesis by (simp add: a gm_put_def gm_get_def)
  next
    case False
    with Cons show ?thesis
      by (simp add: a gm_put_def gm_get_def gm_wf_def)
  qed
qed

lemma length_gm_put:
  "length (gm_put k v m) = (if gm_get m k = None then Suc (length m) else length m)"
  by (induction m) (auto simp: gm_put_def gm_get_def)

section \<open>Operations that keep an invariant\<close>

text \<open>
  The shape of every argument on a sequence of operations: each operation keeps the invariant, so
  every sequence does. It is interpreted on the row buffer, the in-memory database and the flush.
\<close>

locale step_invariant =
  fixes step :: "'e \<Rightarrow> 's \<Rightarrow> 's"
    and inv_state :: "'s \<Rightarrow> bool"
  assumes inv_step: "inv_state s \<Longrightarrow> inv_state (step e s)"
begin

lemma inv_run: "inv_state s \<Longrightarrow> inv_state (fold step es s)"
  by (induction es arbitrary: s) (simp_all add: inv_step)

end

end
