(* ===== verification/Constants.thy ===== *)
theory Constants
  imports Prelude
begin

text \<open>
  The enumerations, markers and reserved words of \<^verbatim>\<open>lib/config/constants\<close> and the
  modes of \<^verbatim>\<open>lib/config/config.go\<close>. A Go string type with named constants is a datatype
  with one constructor per constant and one for every other string.
\<close>

section \<open>Enumerations\<close>

datatype destination_kind =
  Snowflake | Test | BigQuery | Redshift | S3 | MSSQL | OtherDestination string

datatype queue_kind = KafkaQueue | PubSubQueue | OtherQueue string

datatype mode = History | Replication | OtherMode string

datatype column_operation = Add | Delete

fun show_mode :: "mode \<Rightarrow> string" where
  "show_mode History = ''history''"
| "show_mode Replication = ''replication''"
| "show_mode (OtherMode s) = s"

fun show_column_operation :: "column_operation \<Rightarrow> string" where
  "show_column_operation Add = ''add''"
| "show_column_operation Delete = ''drop''"

fun show_destination :: "destination_kind \<Rightarrow> string" where
  "show_destination Snowflake = ''snowflake''"
| "show_destination Test = ''test''"
| "show_destination BigQuery = ''bigquery''"
| "show_destination Redshift = ''redshift''"
| "show_destination S3 = ''s3''"
| "show_destination MSSQL = ''mssql''"
| "show_destination (OtherDestination s) = s"

definition ValidDestinations :: "destination_kind list" where
  "ValidDestinations = [BigQuery, Snowflake, Redshift, S3, MSSQL, Test]"

fun IsValidDestination_loop :: "destination_kind list \<Rightarrow> destination_kind \<Rightarrow> bool" where
  "IsValidDestination_loop [] d = False"
| "IsValidDestination_loop (v # vs) d = (if d = v then True else IsValidDestination_loop vs d)"

definition IsValidDestination :: "destination_kind \<Rightarrow> bool" where
  "IsValidDestination d = IsValidDestination_loop ValidDestinations d"

definition IsValidS3OutputFormat :: "string \<Rightarrow> bool" where
  "IsValidS3OutputFormat f = (f = ''parquet'')"

section \<open>Markers\<close>

definition ToastUnavailableValuePlaceholder :: string where
  "ToastUnavailableValuePlaceholder = ''__debezium_unavailable_value''"

definition DebeziumTopicRoutingKey :: string where
  "DebeziumTopicRoutingKey = ''__dbz__physicalTableIdentifier''"

definition HistoryModeSuffix :: string where
  "HistoryModeSuffix = ''__history''"

definition ArtiePrefix :: string where
  "ArtiePrefix = ''__artie''"

definition DeleteColumnMarker :: string where
  "DeleteColumnMarker = ''__artie_delete''"

definition UpdateColumnMarker :: string where
  "UpdateColumnMarker = ''__artie_updated_at''"

definition DatabaseUpdatedColumnMarker :: string where
  "DatabaseUpdatedColumnMarker = ''__artie_db_updated_at''"

definition OperationColumnMarker :: string where
  "OperationColumnMarker = ''__artie_operation''"

definition ExceededValueMarker :: string where
  "ExceededValueMarker = ''__artie_exceeded_value''"

text \<open>Durations are integers in nanoseconds, as in Go's \<^verbatim>\<open>time.Duration\<close>.\<close>

definition nanos_per_second :: int where
  "nanos_per_second = 1000000000"

definition DeletionConfidencePadding :: int where
  "DeletionConfidencePadding = 4 * 60 * 60 * nanos_per_second"

definition TemporaryTableTTL :: int where
  "TemporaryTableTTL = 6 * 60 * 60 * nanos_per_second"

definition DBZPostgresFormat :: string where
  "DBZPostgresFormat = ''debezium.postgres''"

definition DBZPostgresAltFormat :: string where
  "DBZPostgresAltFormat = ''debezium.postgres.wal2json''"

definition DBZMongoFormat :: string where
  "DBZMongoFormat = ''debezium.mongodb''"

definition DBZMySQLFormat :: string where
  "DBZMySQLFormat = ''debezium.mysql''"

section \<open>Reserved words\<close>

definition ReservedKeywords :: "string list" where
  "ReservedKeywords = [
    ''all'', ''alter'', ''and'', ''any'', ''as'', ''between'', ''by'', ''case'', ''cast'',
    ''check'', ''column'', ''connect'', ''create'', ''current'', ''delete'', ''distinct'',
    ''drop'', ''else'', ''exists'', ''following'', ''for'', ''from'', ''grant'', ''group'',
    ''having'', ''in'', ''insert'', ''intersect'', ''into'', ''is'', ''like'', ''not'', ''null'',
    ''of'', ''on'', ''or'', ''order'', ''revoke'', ''row'', ''rows'', ''sample'', ''select'',
    ''set'', ''some'', ''start'', ''table'', ''tablesample'', ''then'', ''to'', ''trigger'',
    ''union'', ''unique'', ''update'', ''values'', ''whenever'', ''where'', ''with'']"

definition MSSQLReservedKeywords :: "string list" where
  "MSSQLReservedKeywords = [
    ''add'', ''external'', ''procedure'', ''all'', ''fetch'', ''public'', ''alter'', ''file'',
    ''raiserror'', ''and'', ''fillfactor'', ''read'', ''any'', ''for'', ''readtext'', ''as'',
    ''foreign'', ''reconfigure'', ''asc'', ''freetext'', ''references'', ''authorization'',
    ''freetexttable'', ''replication'', ''backup'', ''from'', ''restore'', ''begin'', ''full'',
    ''restrict'', ''between'', ''function'', ''return'', ''break'', ''goto'', ''revert'',
    ''browse'', ''grant'', ''revoke'', ''bulk'', ''group'', ''right'', ''by'', ''having'',
    ''rollback'', ''cascade'', ''holdlock'', ''rowcount'', ''case'', ''identity'',
    ''rowguidcol'', ''check'', ''identity_insert'', ''rule'', ''checkpoint'', ''identitycol'',
    ''save'', ''close'', ''if'', ''schema'', ''clustered'', ''in'', ''securityaudit'',
    ''coalesce'', ''index'', ''select'', ''collate'', ''inner'', ''semantickeyphrasetable'',
    ''column'', ''insert'', ''semanticsimilaritydetailstable'', ''commit'', ''intersect'',
    ''semanticsimilaritytable'', ''compute'', ''into'', ''session_user'', ''constraint'', ''is'',
    ''set'', ''contains'', ''join'', ''setuser'', ''containstable'', ''key'', ''shutdown'',
    ''continue'', ''kill'', ''some'', ''convert'', ''left'', ''statistics'', ''create'',
    ''like'', ''system_user'', ''cross'', ''lineno'', ''table'', ''current'', ''load'',
    ''tablesample'', ''current_date'', ''merge'', ''textsize'', ''current_time'', ''national'',
    ''then'', ''current_timestamp'', ''nocheck'', ''to'', ''current_user'', ''nonclustered'',
    ''top'', ''cursor'', ''not'', ''tran'', ''database'', ''null'', ''transaction'', ''dbcc'',
    ''nullif'', ''trigger'', ''deallocate'', ''of'', ''truncate'', ''declare'', ''off'',
    ''try_convert'', ''default'', ''offsets'', ''tsequal'', ''delete'', ''on'', ''union'',
    ''deny'', ''open'', ''unique'', ''desc'', ''opendatasource'', ''unpivot'', ''disk'',
    ''openquery'', ''update'', ''distinct'', ''openrowset'', ''updatetext'', ''distributed'',
    ''openxml'', ''use'', ''double'', ''option'', ''user'', ''drop'', ''or'', ''values'',
    ''dump'', ''order'', ''varying'', ''else'', ''outer'', ''view'', ''end'', ''over'',
    ''waitfor'', ''errlvl'', ''percent'', ''when'', ''escape'', ''pivot'', ''where'', ''except'',
    ''plan'', ''while'', ''exec'', ''precision'', ''with'', ''execute'', ''primary'',
    ''within group'', ''exists'', ''print'', ''writetext'', ''exit'', ''proc'']"

definition RedshiftReservedKeywords :: "string list" where
  "RedshiftReservedKeywords = [
    ''aes128'', ''aes256'', ''all'', ''allowoverwrite'', ''analyse'', ''analyze'', ''and'',
    ''any'', ''array'', ''as'', ''asc'', ''authorization'', ''az64'', ''backup'', ''between'',
    ''binary'', ''blanksasnull'', ''both'', ''bytedict'', ''bzip2'', ''case'', ''cast'',
    ''check'', ''collate'', ''column'', ''connect'', ''constraint'', ''create'', ''credentials'',
    ''cross'', ''current_date'', ''current_time'', ''current_timestamp'', ''current_user'',
    ''current_user_id'', ''default'', ''deferrable'', ''deflate'', ''defrag'', ''delta'',
    ''delta32k'', ''desc'', ''disable'', ''distinct'', ''do'', ''else'', ''emptyasnull'',
    ''enable'', ''encode'', ''encrypt'', ''encryption'', ''end'', ''except'', ''explicit'',
    ''false'', ''for'', ''foreign'', ''freeze'', ''from'', ''full'', ''globaldict256'',
    ''globaldict64k'', ''grant'', ''group'', ''gzip'', ''having'', ''identity'', ''ignore'',
    ''ilike'', ''in'', ''initially'', ''inner'', ''intersect'', ''interval'', ''into'', ''is'',
    ''isnull'', ''join'', ''language'', ''leading'', ''left'', ''like'', ''limit'',
    ''localtime'', ''localtimestamp'', ''lun'', ''luns'', ''lzo'', ''lzop'', ''minus'',
    ''mostly16'', ''mostly32'', ''mostly8'', ''natural'', ''new'', ''not'', ''notnull'',
    ''null'', ''nulls'', ''off'', ''offline'', ''offset'', ''oid'', ''old'', ''on'', ''only'',
    ''open'', ''or'', ''order'', ''outer'', ''overlaps'', ''parallel'', ''partition'',
    ''percent'', ''permissions'', ''pivot'', ''placing'', ''primary'', ''raw'', ''readratio'',
    ''recover'', ''references'', ''rejectlog'', ''resort'', ''respect'', ''restore'', ''right'',
    ''select'', ''session_user'', ''similar'', ''snapshot'', ''some'', ''sysdate'', ''system'',
    ''start'', ''table'', ''tag'', ''tdes'', ''text255'', ''text32k'', ''then'', ''timestamp'',
    ''to'', ''top'', ''trailing'', ''true'', ''truncatecolumns'', ''union'', ''unique'',
    ''unnest'', ''unpivot'', ''user'', ''using'', ''verbose'', ''wallet'', ''when'', ''where'',
    ''with'', ''without'']"

section \<open>Facts\<close>

lemma IsValidDestination_iff:
  "IsValidDestination d \<longleftrightarrow> d \<in> {BigQuery, Snowflake, Redshift, S3, MSSQL, Test}"
  by (simp add: IsValidDestination_def ValidDestinations_def)

text \<open>Every column marker carries the prefix that keeps it out of the schema diff.\<close>

lemma markers_contain_prefix:
  "contains DeleteColumnMarker ArtiePrefix" "contains UpdateColumnMarker ArtiePrefix"
  "contains DatabaseUpdatedColumnMarker ArtiePrefix" "contains OperationColumnMarker ArtiePrefix"
  by (simp_all add: contains_def ArtiePrefix_def DeleteColumnMarker_def UpdateColumnMarker_def
      DatabaseUpdatedColumnMarker_def OperationColumnMarker_def sublist_def)
    (metis append_Nil)+

lemma markers_distinct:
  "distinct [DeleteColumnMarker, UpdateColumnMarker, DatabaseUpdatedColumnMarker,
     OperationColumnMarker]"
  by (simp add: DeleteColumnMarker_def UpdateColumnMarker_def DatabaseUpdatedColumnMarker_def
      OperationColumnMarker_def)

end
