(* ===== verification/Stringutil.thy ===== *)
theory Stringutil
  imports Constants
begin

text \<open>
  The string helpers: \<^verbatim>\<open>lib/stringutil\<close>, the joining functions of \<^verbatim>\<open>lib/array\<close>,
  \<^verbatim>\<open>lib/numbers\<close>, the identifier escaping of \<^verbatim>\<open>lib/sql/escape.go\<close> and
  \<^verbatim>\<open>columns.EscapeName\<close>, with what they guarantee.
\<close>

section \<open>Definitions\<close>

definition CapitalizeFirstLetter :: "string \<Rightarrow> string" where
  "CapitalizeFirstLetter s = (case s of [] \<Rightarrow> s | c # cs \<Rightarrow> to_upper [c] @ cs)"

fun Override_loop :: "string \<Rightarrow> string list \<Rightarrow> string" where
  "Override_loop retVal [] = retVal"
| "Override_loop retVal (v # vs) = Override_loop (if v \<noteq> [] then v else retVal) vs"

definition Override :: "string list \<Rightarrow> string" where
  "Override vals = Override_loop [] vals"

text \<open>\<^verbatim>\<open>Wrap\<close> on the printed value: backslashes are doubled, then quotes are escaped.\<close>

definition Wrap :: "string \<Rightarrow> bool \<Rightarrow> string" where
  "Wrap printed noQuotes =
     (let colVal = replace_byte (CHR 0x5C) [CHR 0x5C, CHR 0x5C] printed
      in if noQuotes then colVal
         else [CHR 0x27] @ replace_byte (CHR 0x27) [CHR 0x5C, CHR 0x27] colVal @ [CHR 0x27])"

fun stringutil_Empty :: "string list \<Rightarrow> bool" where
  "stringutil_Empty [] = False"
| "stringutil_Empty (v # vs) = (if v = [] then True else stringutil_Empty vs)"

definition EscapeSpaces :: "string \<Rightarrow> bool \<times> string" where
  "EscapeSpaces col = (contains col '' '', replace_byte (CHR '' '') ''__'' col)"

definition columns_EscapeName :: "string \<Rightarrow> string" where
  "columns_EscapeName name = snd (EscapeSpaces (to_lower name))"

definition random_charset :: string where
  "random_charset = ''abcdefghijklmnopqrstuvwxyzABCDEFGHIJKLMNOPQRSTUVWXYZ0123456789''"

text \<open>\<open>stringWithCharset\<close> takes the numbers \<^verbatim>\<open>rand.Intn(len(charset))\<close> returned, one per byte.\<close>

definition stringWithCharset :: "nat list \<Rightarrow> string \<Rightarrow> string" where
  "stringWithCharset rnds charset = map (\<lambda>r. charset ! r) rnds"

definition Random :: "nat list \<Rightarrow> string" where
  "Random rnds = stringWithCharset rnds random_charset"

definition StringsJoinAddSingleQuotes :: "string list \<Rightarrow> string" where
  "StringsJoinAddSingleQuotes values =
     join '','' (map (\<lambda>value. [CHR 0x27] @ value @ [CHR 0x27]) values)"

record StringsJoinAddPrefixArgs =
  Vals :: "string list"
  Separator :: string
  Prefix :: string
  Suffix :: string

definition StringsJoinAddPrefix :: "StringsJoinAddPrefixArgs \<Rightarrow> string" where
  "StringsJoinAddPrefix args =
     join (Separator args) (map (\<lambda>val. Prefix args @ val @ Suffix args) (Vals args))"

fun array_Empty :: "string list \<Rightarrow> bool" where
  "array_Empty [] = False"
| "array_Empty (v # vs) = (if v = [] then True else array_Empty vs)"

definition BetweenEq :: "int \<Rightarrow> int \<Rightarrow> int \<Rightarrow> bool" where
  "BetweenEq start en number = (number \<ge> start \<and> number \<le> en)"

record NameArgs =
  Escape :: bool
  na_DestKind :: destination_kind

definition symbolsToEscape :: "string list" where
  "symbolsToEscape = ['':'']"

definition reserved_for :: "destination_kind \<Rightarrow> string list" where
  "reserved_for d =
     (if d = Redshift then RedshiftReservedKeywords
      else if d = MSSQL then MSSQLReservedKeywords
      else ReservedKeywords)"

definition needs_escaping :: "string \<Rightarrow> destination_kind \<Rightarrow> bool" where
  "needs_escaping name d =
     (name \<in> set (reserved_for d)
      \<or> (\<exists>symbol\<in>set symbolsToEscape. contains name symbol)
      \<or> atoi name \<noteq> None)"

definition sql_EscapeName :: "string \<Rightarrow> bool \<Rightarrow> NameArgs option \<Rightarrow> string" where
  "sql_EscapeName name uppercaseEscNames args =
     (case args of None \<Rightarrow> name
      | Some a \<Rightarrow>
          if Escape a \<and> needs_escaping name (na_DestKind a)
          then (let name' = (if uppercaseEscNames then to_upper name else name)
                in if na_DestKind a = BigQuery then [CHR 0x60] @ name' @ [CHR 0x60]
                   else [CHR 0x22] @ name' @ [CHR 0x22])
          else name)"

section \<open>Facts\<close>

lemma stringutil_Empty_iff [simp]: "stringutil_Empty vs \<longleftrightarrow> [] \<in> set vs"
  by (induction vs) auto

lemma array_Empty_iff [simp]: "array_Empty vs \<longleftrightarrow> [] \<in> set vs"
  by (induction vs) auto

lemma Override_loop_eq:
  "Override_loop r vs = (if \<exists>v\<in>set vs. v \<noteq> [] then last (filter (\<lambda>v. v \<noteq> []) vs) else r)"
  by (induction vs arbitrary: r) (auto simp: filter_empty_conv)

lemma contains_single [go_string]: "contains s [c] \<longleftrightarrow> c \<in> set s"
  by (auto simp: contains_def sublist_def in_set_conv_decomp)

lemma EscapeSpaces_flag: "fst (EscapeSpaces s) \<longleftrightarrow> snd (EscapeSpaces s) \<noteq> s"
proof (cases "CHR '' '' \<in> set s")
  case True
  have "CHR '' '' \<notin> set (replace_byte (CHR '' '') ''__'' s)"
    by (rule replace_byte_free) simp
  with True show ?thesis by (auto simp: EscapeSpaces_def contains_single)
next
  case False
  then show ?thesis by (simp add: EscapeSpaces_def contains_single replace_byte_id)
qed

lemma set_replace_byte: "set (replace_byte c new s) \<subseteq> set new \<union> (set s - {c})"
  by (induction s) (auto simp: replace_byte_def)

lemma to_lower_char_space: "to_lower_char c = CHR '' '' \<longleftrightarrow> c = CHR '' ''"
proof -
  have "char_of (n + 32) \<noteq> CHR '' ''" if "65 \<le> n" "n \<le> 90" for n :: nat
    using that of_char_char_of_small [of "n + 32"] by (auto dest: arg_cong [where f = "of_char :: char \<Rightarrow> nat"])
  then show ?thesis by (auto simp: to_lower_char_def Let_def)
qed

lemma to_lower_replace_space:
  "to_lower (replace_byte (CHR '' '') ''__'' s) = replace_byte (CHR '' '') ''__'' (to_lower s)"
proof -
  have "to_lower_char CHR ''_'' = CHR ''_''"
    by (simp add: to_lower_char_def Let_def)
  then show ?thesis
    by (induction s) (auto simp: replace_byte_def to_lower_def to_lower_char_space)
qed

lemma columns_EscapeName_Nil [simp]: "columns_EscapeName s = [] \<longleftrightarrow> s = []"
  by (simp add: columns_EscapeName_def EscapeSpaces_def replace_byte_Nil_iff)

lemma columns_EscapeName_no_space: "CHR '' '' \<notin> set (columns_EscapeName s)"
  by (simp add: columns_EscapeName_def EscapeSpaces_def replace_byte_free)

lemma columns_EscapeName_lower [simp]: "to_lower (columns_EscapeName s) = columns_EscapeName s"
  by (simp add: columns_EscapeName_def EscapeSpaces_def to_lower_replace_space)

lemma columns_EscapeName_idem [simp]:
  "columns_EscapeName (columns_EscapeName s) = columns_EscapeName s"
proof -
  have "columns_EscapeName (columns_EscapeName s)
      = replace_byte (CHR '' '') ''__'' (columns_EscapeName s)"
    by (simp only: columns_EscapeName_def [of "columns_EscapeName s"] EscapeSpaces_def snd_conv
        columns_EscapeName_lower)
  also have "\<dots> = columns_EscapeName s"
    by (rule replace_byte_id) (rule columns_EscapeName_no_space)
  finally show ?thesis .
qed

lemma sql_EscapeName_None [simp]: "sql_EscapeName name u None = name"
  by (simp add: sql_EscapeName_def)

lemma sql_EscapeName_off [simp]:
  "sql_EscapeName name u (Some \<lparr>Escape = False, na_DestKind = d\<rparr>) = name"
  by (simp add: sql_EscapeName_def)

lemma sql_EscapeName_plain:
  "\<not> needs_escaping name d \<Longrightarrow>
     sql_EscapeName name u (Some \<lparr>Escape = True, na_DestKind = d\<rparr>) = name"
  by (simp add: sql_EscapeName_def)

lemma sql_EscapeName_not_Nil: "name \<noteq> [] \<Longrightarrow> sql_EscapeName name u args \<noteq> []"
  by (auto simp: sql_EscapeName_def Let_def split: option.splits)

text \<open>The delete marker is no reserved word, holds no symbol and is no number.\<close>

lemma DeleteColumnMarker_plain: "\<not> needs_escaping DeleteColumnMarker d"
proof -
  have "DeleteColumnMarker \<notin> set (reserved_for d)"
    by (simp add: reserved_for_def DeleteColumnMarker_def RedshiftReservedKeywords_def
        MSSQLReservedKeywords_def ReservedKeywords_def)
  moreover have "\<not> contains DeleteColumnMarker '':''"
    by (simp add: contains_single DeleteColumnMarker_def)
  moreover have "atoi DeleteColumnMarker = None"
    by (simp add: atoi_def DeleteColumnMarker_def is_digit_def Let_def)
  ultimately show ?thesis by (simp add: needs_escaping_def symbolsToEscape_def)
qed

text \<open>An escaped name starts with its quote, so it is never the delete marker.\<close>

lemma sql_EscapeName_eq_marker:
  "sql_EscapeName name u (Some \<lparr>Escape = True, na_DestKind = d\<rparr>) = DeleteColumnMarker
     \<longleftrightarrow> name = DeleteColumnMarker"
proof (cases "needs_escaping name d")
  case True
  then show ?thesis
    using DeleteColumnMarker_plain [of d]
    by (auto simp: sql_EscapeName_def Let_def DeleteColumnMarker_def)
next
  case False
  then show ?thesis by (simp add: sql_EscapeName_plain)
qed

end
