(* ===== verification/Values.thy ===== *)
theory Values
  imports Stringutil
begin

text \<open>
  The dynamic values that flow through the system (Go's \<^verbatim>\<open>any\<close>), the column types
  (\<^verbatim>\<open>typing.KindDetails\<close>), the size estimate of \<^verbatim>\<open>lib/size\<close>, the map
  readers of \<^verbatim>\<open>lib/maputil\<close> and the slice reader of \<^verbatim>\<open>lib/array\<close>.

  What Go's standard library prints for floats, times, big floats and JSON is not modelled: it is
  the record \<open>gostd\<close>, a parameter of every definition that needs it, so every theorem holds
  whatever those functions return.
\<close>

section \<open>Times, decimals and column types\<close>

text \<open>A \<^verbatim>\<open>time.Time\<close>: nanoseconds since the epoch and the name of its location.\<close>

record gotime =
  t_nanos :: int
  t_zone :: string

definition time_After :: "gotime \<Rightarrow> gotime \<Rightarrow> bool" where
  "time_After a b = (t_nanos a > t_nanos b)"

definition time_Add :: "gotime \<Rightarrow> int \<Rightarrow> gotime" where
  "time_Add t d = t\<lparr>t_nanos := t_nanos t + d\<rparr>"

definition time_UTC :: "gotime \<Rightarrow> gotime" where
  "time_UTC t = t\<lparr>t_zone := ''UTC''\<rparr>"

datatype ExtendedTimeKindType =
  DateTimeKindType | DateKindType | TimeKindType | OtherTimeKind string

record NestedKind =
  nk_Type :: ExtendedTimeKindType
  nk_Format :: string

record ExtendedTime =
  et_Time :: gotime
  et_NestedKind :: NestedKind

record Decimal =
  dec_scale :: int
  dec_precision :: "int option"
  dec_value :: "rat option"

record KindDetails =
  Kind :: string
  ExtendedTimeDetails :: "NestedKind option"
  ExtendedDecimalDetails :: "Decimal option"
  OptionalStringPrecision :: "int option"

section \<open>Values\<close>

datatype int_kind =
  KInt | KInt8 | KInt16 | KInt32 | KInt64 | KUint | KUint8 | KUint16 | KUint32 | KUint64 | KUintptr

datatype float_kind = F32 | F64

text \<open>
  Values of other Go types; slices of other element types do not occur in the model. Floating-point
  numbers are rationals, so NaN and the infinities are left out.
\<close>

datatype reflect_kind = RMap | RStruct | ROther

datatype val =
  VNil
| VString string
| VBool bool
| VInt int_kind int
| VFloat float_kind rat
| VComplex64 rat rat
| VComplex128 rat rat
| VDecimal Decimal
| VBigFloat "rat option"
| VTime ExtendedTime
| VBytes "nat list"
| VMap "(string \<times> val) list"
| VMaps "(string \<times> val) list list"
| VStrings "string list"
| VList "val list"
| VByteSlices "nat list list"
| VOther reflect_kind string

type_synonym row = "val gomap"

text \<open>
  The functions of Go's standard library that stay parameters, and the two of \<^verbatim>\<open>go-geom\<close>.
  \<open>go_bigfloat_scaled s n\<close> is the text \<open>s\<close> read as a \<^verbatim>\<open>big.Float\<close>, times ten to the \<open>n\<close>,
  cut to an integer.
\<close>

record gostd =
  go_sprint :: "val \<Rightarrow> string"
  go_json_marshal :: "val \<Rightarrow> string outcome"
  go_json_unmarshal :: "string \<Rightarrow> val outcome"
  go_time_parse :: "string \<Rightarrow> string \<Rightarrow> gotime outcome"
  go_time_format :: "gotime \<Rightarrow> string \<Rightarrow> string"
  go_time_year :: "gotime \<Rightarrow> int"
  go_bigfloat_text :: "rat option \<Rightarrow> int \<Rightarrow> string"
  go_bigfloat_quo :: "int \<Rightarrow> int \<Rightarrow> rat"
  go_parse_float :: "string \<Rightarrow> rat outcome"
  go_base64_decode :: "string \<Rightarrow> nat list outcome"
  go_base64_encode :: "nat list \<Rightarrow> string"
  go_bigfloat_scaled :: "string \<Rightarrow> int \<Rightarrow> int option"
  go_ewkb_unmarshal :: "nat list \<Rightarrow> string outcome"
  go_geojson_marshal :: "string \<Rightarrow> string outcome"

text \<open>\<^verbatim>\<open>fmt.Sprint\<close>: strings, booleans, integers and nil print by definition.\<close>

fun sprint :: "gostd \<Rightarrow> val \<Rightarrow> string" where
  "sprint std VNil = ''<nil>''"
| "sprint std (VString s) = s"
| "sprint std (VBool b) = show_bool b"
| "sprint std (VInt k i) = show_int i"
| "sprint std v = go_sprint std v"

text \<open>
  A 64-bit float, and \<^verbatim>\<open>strconv.ParseFloat\<close>: the special values by their names in any case, a sign
  only before an infinity, everything else by \<open>go_parse_float\<close>.
\<close>

datatype go_float = Finite rat | Infinite bool | NotANumber

definition parse_float64 :: "gostd \<Rightarrow> string \<Rightarrow> go_float outcome" where
  "parse_float64 std s =
     (let l = to_lower s; u = (if l \<noteq> [] \<and> hd l \<in> {CHR ''+'', CHR ''-''} then tl l else l)
      in if l = ''nan'' then Ret NotANumber
         else if u \<in> {''inf'', ''infinity''} then Ret (Infinite (hd l = CHR ''-''))
         else bind_out (go_parse_float std s) (\<lambda>r. Ret (Finite r)))"

text \<open>\<^verbatim>\<open>reflect.TypeOf(v).Kind()\<close> as far as the code asks for it.\<close>

fun reflect_is_slice :: "val \<Rightarrow> bool" where
  "reflect_is_slice (VBytes b) = True"
| "reflect_is_slice (VMaps m) = True"
| "reflect_is_slice (VStrings s) = True"
| "reflect_is_slice (VList l) = True"
| "reflect_is_slice (VByteSlices b) = True"
| "reflect_is_slice v = False"

fun reflect_is_map :: "val \<Rightarrow> bool" where
  "reflect_is_map (VMap m) = True"
| "reflect_is_map (VOther k s) = (k = RMap)"
| "reflect_is_map v = False"

fun int_size :: "int_kind \<Rightarrow> int" where
  "int_size KInt8 = 1"
| "int_size KUint8 = 1"
| "int_size KInt16 = 2"
| "int_size KUint16 = 2"
| "int_size KInt32 = 4"
| "int_size KUint32 = 4"
| "int_size k = 8"

fun GetApproxSize :: "gostd \<Rightarrow> val \<Rightarrow> int" where
  "GetApproxSize std VNil = 0"
| "GetApproxSize std (VString s) = int (length s)"
| "GetApproxSize std (VBytes b) = int (length b)"
| "GetApproxSize std (VBool b) = 1"
| "GetApproxSize std (VInt k i) = int_size k"
| "GetApproxSize std (VFloat F32 x) = 4"
| "GetApproxSize std (VFloat F64 x) = 8"
| "GetApproxSize std (VComplex64 a b) = 8"
| "GetApproxSize std (VComplex128 a b) = 16"
| "GetApproxSize std (VMap m) = sum_list (map (\<lambda>(k, v). GetApproxSize std v) m)"
| "GetApproxSize std (VMaps ms) =
     sum_list (map (\<lambda>m. sum_list (map (\<lambda>(k, v). GetApproxSize std v) m)) ms)"
| "GetApproxSize std (VStrings ss) = sum_list (map (\<lambda>s. int (length s)) ss)"
| "GetApproxSize std (VList vs) = sum_list (map (\<lambda>v. GetApproxSize std v) vs)"
| "GetApproxSize std (VByteSlices bs) = sum_list (map (\<lambda>b. int (length b)) bs)"
| "GetApproxSize std v = int (length (sprint std v))"

definition row_size :: "gostd \<Rightarrow> row \<Rightarrow> int" where
  "row_size std r = GetApproxSize std (VMap r)"

section \<open>Readers of maps and slices\<close>

definition GetKeyFromMap :: "row \<Rightarrow> string \<Rightarrow> val \<Rightarrow> val" where
  "GetKeyFromMap obj key defaultValue =
     (if obj = [] then defaultValue
      else (case gm_get obj key of None \<Rightarrow> defaultValue | Some v \<Rightarrow> v))"

definition GetIntegerFromMap :: "gostd \<Rightarrow> row \<Rightarrow> string \<Rightarrow> int outcome" where
  "GetIntegerFromMap std obj key =
     (if obj = [] then Err (errorf ''object is empty'')
      else (case gm_get obj key of
          None \<Rightarrow> Err (errorf (''key: '' @ key @ '' does not exist in object''))
        | Some v \<Rightarrow> (case atoi (sprint std v) of
              None \<Rightarrow> Err (errorf (''key: '' @ key @ '' is not type integer: ''))
            | Some i \<Rightarrow> Ret i)))"

text \<open>
  The elements of a slice as \<^verbatim>\<open>reflect\<close> sees them: an element of a \<^verbatim>\<open>[]any\<close> has
  kind Interface and one of a \<^verbatim>\<open>[]map[string]any\<close> kind Map, and both are marshalled; the
  others are printed.
\<close>

fun slice_elements :: "val \<Rightarrow> (bool \<times> val) list option" where
  "slice_elements (VList vs) = Some (map (\<lambda>v. (True, v)) vs)"
| "slice_elements (VMaps ms) = Some (map (\<lambda>m. (True, VMap m)) ms)"
| "slice_elements (VStrings ss) = Some (map (\<lambda>s. (False, VString s)) ss)"
| "slice_elements (VBytes bs) = Some (map (\<lambda>b. (False, VInt KUint8 (int b))) bs)"
| "slice_elements (VByteSlices bs) = Some (map (\<lambda>b. (False, VBytes b)) bs)"
| "slice_elements v = None"

definition array_element :: "gostd \<Rightarrow> bool \<times> val \<Rightarrow> string outcome" where
  "array_element std e =
     (if fst e then go_json_marshal std (snd e) else Ret (Wrap (sprint std (snd e)) True))"

definition InterfaceToArrayString :: "gostd \<Rightarrow> val \<Rightarrow> bool \<Rightarrow> string list outcome" where
  "InterfaceToArrayString std v recastAsArray =
     (if v = VNil then Ret []
      else (case slice_elements v of
          Some es \<Rightarrow> mapM_out (array_element std) es
        | None \<Rightarrow>
            if recastAsArray then mapM_out (array_element std) [(True, v)]
            else Err (errorf ''wrong data type, kind: '')))"

section \<open>Facts\<close>

lemma int_size_nonneg [simp]: "0 \<le> int_size k"
  by (cases k) auto

lemma sum_list_nonneg_map:
  fixes f :: "'a \<Rightarrow> int"
  shows "(\<And>x. x \<in> set xs \<Longrightarrow> 0 \<le> f x) \<Longrightarrow> 0 \<le> sum_list (map f xs)"
  by (induction xs) auto

lemma GetApproxSize_nonneg: "0 \<le> GetApproxSize std v"
proof (induction std v rule: GetApproxSize.induct)
  case (10 std m)
  then show ?case by (auto intro!: sum_list_nonneg_map)
next
  case (11 std ms)
  then show ?case by (auto intro!: sum_list_nonneg_map)
next
  case (13 std vs)
  then show ?case by (auto intro!: sum_list_nonneg_map)
qed (auto intro!: sum_list_nonneg_map)

lemma row_size_nonneg: "0 \<le> row_size std r"
  unfolding row_size_def by (rule GetApproxSize_nonneg)

lemma row_size_eq: "row_size std r = (\<Sum>(k, v)\<leftarrow>r. GetApproxSize std v)"
  by (simp add: row_size_def)

end
