(* ===== verification/Typing.thy ===== *)
theory Typing
  imports Values
begin

text \<open>
  Column types: \<^verbatim>\<open>lib/typing\<close> with its decimals (\<^verbatim>\<open>lib/typing/decimal\<close>) and
  extended times (\<^verbatim>\<open>lib/typing/ext\<close>), the inference of a type from a value
  (\<^verbatim>\<open>ParseValue\<close>) and the translation between types and the type names of the four
  warehouses, with the round trips.
\<close>

section \<open>Kinds\<close>

definition basic_kind :: "string \<Rightarrow> KindDetails" where
  "basic_kind k = \<lparr>Kind = k, ExtendedTimeDetails = None, ExtendedDecimalDetails = None,
     OptionalStringPrecision = None\<rparr>"

definition Invalid :: KindDetails where
  "Invalid = basic_kind ''invalid''"

definition Float :: KindDetails where
  "Float = basic_kind ''float''"

definition Integer :: KindDetails where
  "Integer = basic_kind ''int''"

definition EDecimal :: KindDetails where
  "EDecimal = basic_kind ''decimal''"

definition Boolean :: KindDetails where
  "Boolean = basic_kind ''bool''"

definition Array :: KindDetails where
  "Array = basic_kind ''array''"

definition Struct :: KindDetails where
  "Struct = basic_kind ''struct''"

definition KString :: KindDetails where
  "KString = basic_kind ''string''"

definition ETime :: KindDetails where
  "ETime = basic_kind ''extended_time''"

lemmas kind_defs = basic_kind_def Invalid_def Float_def Integer_def EDecimal_def Boolean_def
  Array_def Struct_def KString_def ETime_def

definition NewKindDetailsFromTemplate ::
  "KindDetails \<Rightarrow> ExtendedTimeKindType \<Rightarrow> KindDetails" where
  "NewKindDetailsFromTemplate details extendedType =
     (let nk = (case ExtendedTimeDetails details of
                  None \<Rightarrow> \<lparr>nk_Type = OtherTimeKind [], nk_Format = []\<rparr>
                | Some nk \<Rightarrow> nk)
      in details\<lparr>ExtendedTimeDetails := Some (nk\<lparr>nk_Type := extendedType\<rparr>)\<rparr>)"

record Settings =
  AdditionalDateFormats :: "string list"
  CreateAllColumnsIfAvailable :: bool

section \<open>Decimals\<close>

definition DefaultScale :: int where
  "DefaultScale = 5"

definition PrecisionNotSpecified :: int where
  "PrecisionNotSpecified = -1"

definition MaxPrecisionBeforeString :: int where
  "MaxPrecisionBeforeString = 38"

definition NewDecimal :: "int option \<Rightarrow> int \<Rightarrow> rat option \<Rightarrow> Decimal" where
  "NewDecimal prec scale v =
     \<lparr>dec_scale = scale,
      dec_precision =
        (case prec of None \<Rightarrow> None
         | Some p \<Rightarrow> if scale > p \<and> p \<noteq> -1 then Some (scale + 1) else Some p),
      dec_value = v\<rparr>"

definition Decimal_String :: "gostd \<Rightarrow> Decimal \<Rightarrow> string" where
  "Decimal_String std d = go_bigfloat_text std (dec_value d) (dec_scale d)"

definition Decimal_Value :: "gostd \<Rightarrow> Decimal \<Rightarrow> val" where
  "Decimal_Value std d =
     (case dec_precision d of
        Some p \<Rightarrow> if p > MaxPrecisionBeforeString \<or> p = -1
                  then VString (Decimal_String std d) else VBigFloat (dec_value d)
      | None \<Rightarrow> VBigFloat (dec_value d))"

definition isNumeric :: "Decimal \<Rightarrow> bool" where
  "isNumeric d =
     (case dec_precision d of None \<Rightarrow> False
      | Some p \<Rightarrow>
          if p = PrecisionNotSpecified then False
          else if \<not> BetweenEq 0 9 (dec_scale d) then False
          else BetweenEq (max 1 (dec_scale d)) (dec_scale d + 29) p)"

definition isBigNumeric :: "Decimal \<Rightarrow> bool" where
  "isBigNumeric d =
     (case dec_precision d of None \<Rightarrow> False
      | Some p \<Rightarrow>
          if p = -1 then False
          else if \<not> BetweenEq 0 38 (dec_scale d) then False
          else BetweenEq (max 1 (dec_scale d)) (dec_scale d + 38) p)"

definition numeric_type :: "string \<Rightarrow> int \<Rightarrow> int \<Rightarrow> string" where
  "numeric_type nm p s = nm @ ''('' @ show_int p @ '', '' @ show_int s @ '')''"

definition toKind :: "Decimal \<Rightarrow> int \<Rightarrow> string \<Rightarrow> string" where
  "toKind d maxPrecision exceededKind =
     (let precision = (case dec_precision d of None \<Rightarrow> maxPrecision | Some p \<Rightarrow> p)
      in if precision > maxPrecision \<or> precision = -1 then exceededKind
         else numeric_type ''NUMERIC'' precision (dec_scale d))"

definition SnowflakeKind :: "Decimal \<Rightarrow> string" where
  "SnowflakeKind d = toKind d MaxPrecisionBeforeString ''STRING''"

definition MsSQLKind :: "Decimal \<Rightarrow> string" where
  "MsSQLKind d = toKind d MaxPrecisionBeforeString ''TEXT''"

definition RedshiftKind :: "Decimal \<Rightarrow> string" where
  "RedshiftKind d = toKind d MaxPrecisionBeforeString ''TEXT''"

definition BigQueryKind :: "Decimal \<Rightarrow> string" where
  "BigQueryKind d =
     (if isNumeric d then numeric_type ''NUMERIC'' (the (dec_precision d)) (dec_scale d)
      else if isBigNumeric d then numeric_type ''BIGNUMERIC'' (the (dec_precision d)) (dec_scale d)
      else ''STRING'')"

text \<open>A method call on a nil \<^verbatim>\<open>*Decimal\<close> or \<^verbatim>\<open>*NestedKind\<close> dereferences nil.\<close>

definition nil_dereference :: string where
  "nil_dereference = ''invalid memory address or nil pointer dereference''"

fun deref :: "'a option \<Rightarrow> ('a \<Rightarrow> 'b) \<Rightarrow> 'b outcome" where
  "deref None f = Panic nil_dereference"
| "deref (Some x) f = Ret (f x)"

section \<open>Extended times\<close>

definition RFC3339Nano :: string where
  "RFC3339Nano = ''2006-01-02T15:04:05.999999999Z07:00''"

definition ISO8601 :: string where
  "ISO8601 = ''2006-01-02T15:04:05-07:00''"

definition BigQueryDateTimeFormat :: string where
  "BigQueryDateTimeFormat = ''2006-01-02 15:04:05.999999''"

definition PostgresDateFormat :: string where
  "PostgresDateFormat = ''2006-01-02''"

definition PostgresTimeFormat :: string where
  "PostgresTimeFormat = ''15:04:05.999999-07''"

definition AdditionalTimeFormat :: string where
  "AdditionalTimeFormat = ''15:04:05.999999Z07''"

definition PostgresTimeFormatNoTZ :: string where
  "PostgresTimeFormatNoTZ = ''15:04:05.999999''"

definition supportedDateTimeLayouts :: "string list" where
  "supportedDateTimeLayouts =
     [RFC3339Nano, ISO8601,
      ''01/02 03:04:05PM '' @ [CHR 0x27] @ ''06 -0700'',
      ''Mon Jan _2 15:04:05 2006'',
      ''Mon Jan _2 15:04:05 MST 2006'',
      ''Mon Jan 02 15:04:05 -0700 2006'',
      ''02 Jan 06 15:04 MST'',
      ''02 Jan 06 15:04 -0700'',
      ''Monday, 02-Jan-06 15:04:05 MST'',
      ''Mon, 02 Jan 2006 15:04:05 MST'',
      ''Mon, 02 Jan 2006 15:04:05 -0700'',
      ''2006-01-02T15:04:05Z07:00'']"

definition supportedDateFormats :: "string list" where
  "supportedDateFormats = [PostgresDateFormat]"

definition supportedTimeFormats :: "string list" where
  "supportedTimeFormats = [PostgresTimeFormat, PostgresTimeFormatNoTZ, AdditionalTimeFormat]"

definition ExtendedTime_IsValid :: "gostd \<Rightarrow> ExtendedTime \<Rightarrow> bool" where
  "ExtendedTime_IsValid std e =
     (\<not> (go_time_year std (et_Time e) > 9999 \<or> go_time_year std (et_Time e) < 0))"

definition NewExtendedTime :: "gotime \<Rightarrow> ExtendedTimeKindType \<Rightarrow> string \<Rightarrow> ExtendedTime" where
  "NewExtendedTime t kindType originalFormat =
     (let fmt = (if originalFormat = [] then
                   (case kindType of
                      DateTimeKindType \<Rightarrow> RFC3339Nano
                    | DateKindType \<Rightarrow> PostgresDateFormat
                    | TimeKindType \<Rightarrow> PostgresTimeFormat
                    | OtherTimeKind s \<Rightarrow> originalFormat)
                 else originalFormat)
      in \<lparr>et_Time = t, et_NestedKind = \<lparr>nk_Type = kindType, nk_Format = fmt\<rparr>\<rparr>)"

definition ExtendedTime_String :: "gostd \<Rightarrow> ExtendedTime \<Rightarrow> string \<Rightarrow> string" where
  "ExtendedTime_String std e overrideFormat =
     go_time_format std (et_Time e)
       (if overrideFormat \<noteq> [] then overrideFormat else nk_Format (et_NestedKind e))"

definition ExtendedTime_StringUTC :: "gostd \<Rightarrow> ExtendedTime \<Rightarrow> string \<Rightarrow> string" where
  "ExtendedTime_StringUTC std e overrideFormat =
     go_time_format std (time_UTC (et_Time e))
       (if overrideFormat \<noteq> [] then overrideFormat else nk_Format (et_NestedKind e))"

definition ParseTimeExactMatch :: "gostd \<Rightarrow> string \<Rightarrow> string \<Rightarrow> (gotime \<times> bool) outcome" where
  "ParseTimeExactMatch std layout s =
     bind_out (go_time_parse std layout s) (\<lambda>ts. Ret (ts, go_time_format std ts layout = s))"

text \<open>
  The first loop of \<^verbatim>\<open>ParseExtendedDateTime\<close>: an exact match returns at once, an inexact
  one is kept as the fallback. \<open>Inl\<close> is the early return, \<open>Inr\<close> the fallback.
\<close>

fun datetime_loop ::
  "gostd \<Rightarrow> string \<Rightarrow> (string \<times> gotime) option \<Rightarrow> string list \<Rightarrow>
     ExtendedTime + (string \<times> gotime) option" where
  "datetime_loop std s potential [] = Inr potential"
| "datetime_loop std s potential (layout # layouts) =
     (case ParseTimeExactMatch std layout s of
        Ret (ts, exactMatch) \<Rightarrow>
          if exactMatch then Inl (NewExtendedTime ts DateTimeKindType layout)
          else datetime_loop std s (Some (layout, ts)) layouts
      | _ \<Rightarrow> datetime_loop std s potential layouts)"

text \<open>The loops over the date and the time formats only accept an exact match.\<close>

fun exact_loop ::
  "gostd \<Rightarrow> string \<Rightarrow> ExtendedTimeKindType \<Rightarrow> string list \<Rightarrow> ExtendedTime option" where
  "exact_loop std s kt [] = None"
| "exact_loop std s kt (fmt # fmts) =
     (case ParseTimeExactMatch std fmt s of
        Ret (ts, exactMatch) \<Rightarrow>
          if exactMatch then Some (NewExtendedTime ts kt fmt) else exact_loop std s kt fmts
      | _ \<Rightarrow> exact_loop std s kt fmts)"

definition ParseExtendedDateTime :: "gostd \<Rightarrow> string \<Rightarrow> string list \<Rightarrow> ExtendedTime outcome" where
  "ParseExtendedDateTime std dtString additionalDateFormats =
     (case datetime_loop std dtString None supportedDateTimeLayouts of
        Inl e \<Rightarrow> Ret e
      | Inr potential \<Rightarrow>
          (case exact_loop std dtString DateKindType (supportedDateFormats @ additionalDateFormats) of
             Some e \<Rightarrow> Ret e
           | None \<Rightarrow>
               (case exact_loop std dtString TimeKindType supportedTimeFormats of
                  Some e \<Rightarrow> Ret e
                | None \<Rightarrow>
                    (case potential of
                       Some (fmt, t) \<Rightarrow> Ret (NewExtendedTime t DateTimeKindType fmt)
                     | None \<Rightarrow> Err (errorf (''dtString: '' @ dtString @ '' is not supported''))))))"

definition ParseFromInterface :: "gostd \<Rightarrow> val \<Rightarrow> string list \<Rightarrow> ExtendedTime outcome" where
  "ParseFromInterface std v additionalDateFormats =
     (case v of
        VNil \<Rightarrow> Err (errorf ''val is nil'')
      | VTime e \<Rightarrow> Ret e
      | _ \<Rightarrow> wrap_out (''failed to cast colVal as time.Time, colVal: '' @ sprint std v @ '', err: '')
               (ParseExtendedDateTime std (sprint std v) additionalDateFormats))"

section \<open>Inference of a kind from a value\<close>

definition IsJSON :: "gostd \<Rightarrow> string \<Rightarrow> bool" where
  "IsJSON std str =
     (let s = trim_space str
      in if length s < 2 then False
         else if (hd s = CHR ''{'' \<and> last s = CHR ''}'') \<or> (hd s = CHR ''['' \<and> last s = CHR '']'')
         then is_ret (go_json_unmarshal std s)
         else False)"

definition kind_of_value :: "gostd \<Rightarrow> Settings \<Rightarrow> val \<Rightarrow> KindDetails" where
  "kind_of_value std settings v =
     (case v of
        VNil \<Rightarrow> Invalid
      | VInt k i \<Rightarrow> if k = KUintptr then Invalid else Integer
      | VFloat k x \<Rightarrow> Float
      | VBool b \<Rightarrow> Boolean
      | VString s \<Rightarrow>
          (if contains s '':'' \<or> contains s ''-'' then
             (case ParseExtendedDateTime std s (AdditionalDateFormats settings) of
                Ret e \<Rightarrow> ETime\<lparr>ExtendedTimeDetails := Some (et_NestedKind e)\<rparr>
              | _ \<Rightarrow> if IsJSON std s then Struct else KString)
           else if IsJSON std s then Struct else KString)
      | VDecimal d \<Rightarrow> EDecimal\<lparr>ExtendedDecimalDetails := Some d\<rparr>
      | VTime e \<Rightarrow> ETime\<lparr>ExtendedTimeDetails := Some (et_NestedKind e)\<rparr>
      | _ \<Rightarrow> if reflect_is_slice v then Array
              else if reflect_is_map v then Struct
              else Invalid)"

definition ParseValue ::
  "gostd \<Rightarrow> Settings \<Rightarrow> string \<Rightarrow> KindDetails gomap \<Rightarrow> val \<Rightarrow> KindDetails" where
  "ParseValue std settings key optionalSchema v =
     (if v = VNil \<and> \<not> CreateAllColumnsIfAvailable settings then Invalid
      else (case gm_get optionalSchema key of
          Some kindDetail \<Rightarrow>
            if v \<noteq> VNil \<and> (Kind kindDetail = Kind ETime \<or> Kind kindDetail = Kind EDecimal)
            then kind_of_value std settings v
            else kindDetail
        | None \<Rightarrow> kind_of_value std settings v))"

section \<open>Numeric type names\<close>

definition defaultPrefix :: string where
  "defaultPrefix = ''numeric''"

fun parse_ints :: "string list \<Rightarrow> int list option" where
  "parse_ints [] = Some []"
| "parse_ints (part # parts) =
     (case atoi (trim_space part) of
        None \<Rightarrow> None
      | Some n \<Rightarrow> (case parse_ints parts of None \<Rightarrow> None | Some ns \<Rightarrow> Some (n # ns)))"

definition ParseNumeric :: "string \<Rightarrow> string \<Rightarrow> KindDetails" where
  "ParseNumeric pre valString =
     (if \<not> has_prefix valString pre then Invalid
      else
        let parts = split_on (CHR '','') (trim_suffix (trim_prefix valString (pre @ ''('')) '')'')
        in if length parts = 0 \<or> length parts > 2 then Invalid
           else (case parse_ints parts of
                   None \<Rightarrow> Invalid
                 | Some ns \<Rightarrow>
                     if length ns = 1 \<or> ns ! 1 = 0 then Integer
                     else EDecimal\<lparr>ExtendedDecimalDetails :=
                            Some (NewDecimal (Some (ns ! 0)) (ns ! 1) None)\<rparr>))"

section \<open>Warehouse type names\<close>

definition cut_at :: "char \<Rightarrow> string \<Rightarrow> string" where
  "cut_at c s =
     (case index_byte s c of None \<Rightarrow> s | Some i \<Rightarrow> if i > 0 then take i s else s)"

definition snowflakeTypeToKind :: "string \<Rightarrow> KindDetails" where
  "snowflakeTypeToKind t =
     (if length t = 0 then Invalid
      else
        let b = trim_space (cut_at (CHR ''('') t)
        in if b = ''number'' then ParseNumeric ''number'' t
           else if b = ''numeric'' then ParseNumeric defaultPrefix t
           else if b = ''decimal'' then EDecimal
           else if b \<in> set [''float'', ''float4'', ''float8'', ''double'', ''double precision'', ''real'']
           then Float
           else if b \<in> set [''int'', ''integer'', ''bigint'', ''smallint'', ''tinyint'', ''byteint'']
           then Integer
           else if b \<in> set [''varchar'', ''char'', ''character'', ''string'', ''text''] then KString
           else if b = ''boolean'' then Boolean
           else if b \<in> set [''variant'', ''object''] then Struct
           else if b = ''array'' then Array
           else if b \<in> set [''datetime'', ''timestamp'', ''timestamp_ltz'', ''timestamp_ntz'', ''timestamp_tz'']
           then NewKindDetailsFromTemplate ETime DateTimeKindType
           else if b = ''time'' then NewKindDetailsFromTemplate ETime TimeKindType
           else if b = ''date'' then NewKindDetailsFromTemplate ETime DateKindType
           else Invalid)"

definition kindToSnowflake :: "KindDetails \<Rightarrow> string outcome" where
  "kindToSnowflake kd =
     (if Kind kd = Kind Struct then Ret ''variant''
      else if Kind kd = Kind Boolean then Ret ''boolean''
      else if Kind kd = Kind ETime then
        (case ExtendedTimeDetails kd of
           None \<Rightarrow> Panic nil_dereference
         | Some nk \<Rightarrow>
             (case nk_Type nk of
                DateTimeKindType \<Rightarrow> Ret ''timestamp_tz''
              | DateKindType \<Rightarrow> Ret ''date''
              | TimeKindType \<Rightarrow> Ret ''time''
              | OtherTimeKind s \<Rightarrow> Ret (Kind kd)))
      else if Kind kd = Kind EDecimal then deref (ExtendedDecimalDetails kd) SnowflakeKind
      else Ret (Kind kd))"

definition bigQueryTypeToKind :: "string \<Rightarrow> KindDetails" where
  "bigQueryTypeToKind t =
     (if length t = 0 then Invalid
      else
        let b = trim_space (cut_at (CHR ''<'') (cut_at (CHR ''('') t))
        in if b = ''numeric'' then
             (if t = ''numeric'' \<or> t = ''bignumeric'' then EDecimal else ParseNumeric defaultPrefix t)
           else if b = ''bignumeric'' then
             (if t = ''bignumeric'' then EDecimal else ParseNumeric ''bignumeric'' t)
           else if b \<in> set [''decimal'', ''float'', ''float64'', ''bigdecimal''] then Float
           else if b \<in> set [''int'', ''integer'', ''int64''] then Integer
           else if b \<in> set [''varchar'', ''string''] then KString
           else if b \<in> set [''bool'', ''boolean''] then Boolean
           else if b \<in> set [''struct'', ''json'', ''record''] then Struct
           else if b = ''array'' then Array
           else if b \<in> set [''datetime'', ''timestamp'']
           then NewKindDetailsFromTemplate ETime DateTimeKindType
           else if b = ''time'' then NewKindDetailsFromTemplate ETime TimeKindType
           else if b = ''date'' then NewKindDetailsFromTemplate ETime DateKindType
           else Invalid)"

definition kindToBigQuery :: "KindDetails \<Rightarrow> string outcome" where
  "kindToBigQuery kd =
     (if Kind kd = Kind Float then Ret ''float64''
      else if Kind kd = Kind Array then Ret ''array<string>''
      else if Kind kd = Kind Struct then Ret ''json''
      else if Kind kd = Kind ETime then
        (case ExtendedTimeDetails kd of
           None \<Rightarrow> Panic nil_dereference
         | Some nk \<Rightarrow>
             (case nk_Type nk of
                DateTimeKindType \<Rightarrow> Ret ''timestamp''
              | DateKindType \<Rightarrow> Ret ''date''
              | TimeKindType \<Rightarrow> Ret ''time''
              | OtherTimeKind s \<Rightarrow> Ret (Kind kd)))
      else if Kind kd = Kind EDecimal then deref (ExtendedDecimalDetails kd) BigQueryKind
      else Ret (Kind kd))"

definition redshiftTypeToKind :: "string \<Rightarrow> string \<Rightarrow> KindDetails" where
  "redshiftTypeToKind rawType stringPrecision =
     (if has_prefix rawType ''numeric'' then ParseNumeric defaultPrefix rawType
      else if contains rawType ''character varying''
      then KString\<lparr>OptionalStringPrecision := atoi stringPrecision\<rparr>
      else if rawType = ''super'' then Struct
      else if rawType \<in> set [''integer'', ''bigint''] then Integer
      else if rawType = ''double precision'' then Float
      else if rawType \<in> set [''timestamp with time zone'', ''timestamp without time zone'']
      then NewKindDetailsFromTemplate ETime DateTimeKindType
      else if rawType = ''time without time zone'' then NewKindDetailsFromTemplate ETime TimeKindType
      else if rawType = ''date'' then NewKindDetailsFromTemplate ETime DateKindType
      else if rawType = ''boolean'' then Boolean
      else Invalid)"

definition varchar_n :: "int \<Rightarrow> string" where
  "varchar_n n = ''VARCHAR('' @ show_int n @ '')''"

definition kindToRedshift :: "KindDetails \<Rightarrow> string outcome" where
  "kindToRedshift kd =
     (if Kind kd = Kind Integer then Ret ''INT8''
      else if Kind kd = Kind Struct then Ret ''SUPER''
      else if Kind kd = Kind Array then Ret ''VARCHAR(MAX)''
      else if Kind kd = Kind KString then
        (case OptionalStringPrecision kd of
           Some p \<Rightarrow> Ret (varchar_n p) | None \<Rightarrow> Ret ''VARCHAR(MAX)'')
      else if Kind kd = Kind Boolean then Ret ''BOOLEAN NULL''
      else if Kind kd = Kind ETime then
        (case ExtendedTimeDetails kd of
           None \<Rightarrow> Panic nil_dereference
         | Some nk \<Rightarrow>
             (case nk_Type nk of
                DateTimeKindType \<Rightarrow> Ret ''timestamp with time zone''
              | DateKindType \<Rightarrow> Ret ''date''
              | TimeKindType \<Rightarrow> Ret ''time''
              | OtherTimeKind s \<Rightarrow> Ret (Kind kd)))
      else if Kind kd = Kind EDecimal then deref (ExtendedDecimalDetails kd) RedshiftKind
      else Ret (Kind kd))"

text \<open>
  In \<^verbatim>\<open>mssqlTypeToKind\<close> a precision that does not parse leaves \<^verbatim>\<open>precision\<close> at 0.
\<close>

definition mssqlTypeToKind :: "string \<Rightarrow> string \<Rightarrow> KindDetails" where
  "mssqlTypeToKind rawType stringPrecision =
     (if has_prefix rawType ''numeric'' then ParseNumeric defaultPrefix rawType
      else if rawType \<in> set [''char'', ''varchar'', ''nchar'', ''nvarchar'', ''ntext''] then
        KString\<lparr>OptionalStringPrecision :=
          (case atoi stringPrecision of
             Some p \<Rightarrow> if p = -1 then None else Some p | None \<Rightarrow> None)\<rparr>
      else if rawType \<in> set [''smallint'', ''tinyint'', ''bigint'', ''int''] then Integer
      else if rawType \<in> set [''float'', ''real''] then Float
      else if rawType \<in> set [''datetime'', ''datetime2'']
      then NewKindDetailsFromTemplate ETime DateTimeKindType
      else if rawType = ''time'' then NewKindDetailsFromTemplate ETime TimeKindType
      else if rawType = ''date'' then NewKindDetailsFromTemplate ETime DateKindType
      else if rawType = ''bit'' then Boolean
      else if rawType = ''text'' then KString
      else Invalid)"

definition maxVarCharLengthForPrimaryKey :: int where
  "maxVarCharLengthForPrimaryKey = 900"

definition kindToMSSQL :: "KindDetails \<Rightarrow> bool \<Rightarrow> string outcome" where
  "kindToMSSQL kd isPk =
     (if Kind kd = Kind Float then Ret ''float''
      else if Kind kd = Kind Integer then Ret ''bigint''
      else if Kind kd = Kind Struct \<or> Kind kd = Kind Array then Ret ''NVARCHAR(MAX)''
      else if Kind kd = Kind KString then
        (case OptionalStringPrecision kd of
           Some p \<Rightarrow> Ret (varchar_n (if isPk then min maxVarCharLengthForPrimaryKey p else p))
         | None \<Rightarrow> if isPk then Ret (varchar_n maxVarCharLengthForPrimaryKey) else Ret ''VARCHAR(MAX)'')
      else if Kind kd = Kind Boolean then Ret ''BIT''
      else if Kind kd = Kind ETime then
        (case ExtendedTimeDetails kd of
           None \<Rightarrow> Panic nil_dereference
         | Some nk \<Rightarrow>
             (case nk_Type nk of
                DateTimeKindType \<Rightarrow> Ret ''datetime2''
              | DateKindType \<Rightarrow> Ret ''date''
              | TimeKindType \<Rightarrow> Ret ''time''
              | OtherTimeKind s \<Rightarrow> Ret (Kind kd)))
      else if Kind kd = Kind EDecimal then deref (ExtendedDecimalDetails kd) MsSQLKind
      else Ret (Kind kd))"

definition KindToDWHType :: "KindDetails \<Rightarrow> destination_kind \<Rightarrow> bool \<Rightarrow> string outcome" where
  "KindToDWHType kd dwh isPk =
     (case dwh of
        Snowflake \<Rightarrow> kindToSnowflake kd
      | BigQuery \<Rightarrow> kindToBigQuery kd
      | Redshift \<Rightarrow> kindToRedshift kd
      | MSSQL \<Rightarrow> kindToMSSQL kd isPk
      | _ \<Rightarrow> Ret [])"

definition DwhTypeToKind :: "destination_kind \<Rightarrow> string \<Rightarrow> string \<Rightarrow> KindDetails outcome" where
  "DwhTypeToKind dwh dwhType stringPrecision =
     (let t = to_lower dwhType
      in case dwh of
           Snowflake \<Rightarrow> Ret (snowflakeTypeToKind t)
         | BigQuery \<Rightarrow> Ret (bigQueryTypeToKind t)
         | Redshift \<Rightarrow> Ret (redshiftTypeToKind t stringPrecision)
         | MSSQL \<Rightarrow> Ret (mssqlTypeToKind t stringPrecision)
         | _ \<Rightarrow> Err (errorf (''unexpected dwh kind, label: '' @ show_destination dwh)))"

section \<open>Facts on kinds and decimals\<close>

lemma Kind_simps [simp]:
  "Kind Invalid = ''invalid''" "Kind Float = ''float''" "Kind Integer = ''int''"
  "Kind EDecimal = ''decimal''" "Kind Boolean = ''bool''" "Kind Array = ''array''"
  "Kind Struct = ''struct''" "Kind KString = ''string''" "Kind ETime = ''extended_time''"
  by (simp_all add: kind_defs)

lemma Kind_basic_kind [simp]: "Kind (basic_kind k) = k"
  by (simp add: basic_kind_def)

lemma Kind_NewKindDetailsFromTemplate [simp]:
  "Kind (NewKindDetailsFromTemplate kd t) = Kind kd"
  by (simp add: NewKindDetailsFromTemplate_def Let_def)

text \<open>What \<open>NewDecimal\<close> establishes: the scale fits the precision, unless that is unspecified.\<close>

definition decimal_wf :: "Decimal \<Rightarrow> bool" where
  "decimal_wf d =
     (case dec_precision d of None \<Rightarrow> True | Some p \<Rightarrow> p = -1 \<or> dec_scale d \<le> p)"

lemma NewDecimal_wf: "decimal_wf (NewDecimal p s v)"
  by (auto simp: decimal_wf_def NewDecimal_def split: option.splits)

lemma NewDecimal_stable:
  "decimal_wf d \<Longrightarrow> NewDecimal (dec_precision d) (dec_scale d) (dec_value d) = d"
  by (cases d) (auto simp: decimal_wf_def NewDecimal_def split: option.splits)

section \<open>Facts on printed numbers\<close>

definition number_chars :: "string \<Rightarrow> bool" where
  "number_chars s = (\<forall>c\<in>set s. is_digit c \<or> c = CHR ''-'')"

lemma number_chars_show_int: "number_chars (show_int i)"
  using show_nat_digits by (auto simp: number_chars_def show_int_def)

lemma number_char_facts:
  assumes "is_digit c \<or> c = CHR ''-''"
  shows "\<not> is_space c" "to_lower_char c = c" "c \<noteq> CHR '',''" "c \<noteq> CHR '')''" "c \<noteq> CHR ''(''"
  using assms by (auto simp: is_digit_def is_space_def to_lower_char_def Let_def)

lemma dropWhile_none: "(\<forall>c\<in>set s. \<not> P c) \<Longrightarrow> dropWhile P s = s"
  by (cases s) auto

lemma trim_space_none: "(\<forall>c\<in>set s. \<not> is_space c) \<Longrightarrow> trim_space s = s"
  by (simp add: trim_space_def dropWhile_none)

lemma trim_space_number: "number_chars s \<Longrightarrow> trim_space s = s"
  using number_char_facts(1) by (auto simp: number_chars_def intro!: trim_space_none)

lemma trim_space_blank_number: "number_chars s \<Longrightarrow> trim_space (CHR '' '' # s) = s"
proof -
  assume n: "number_chars s"
  have "is_space CHR '' ''" by (simp add: is_space_def)
  then have "trim_space (CHR '' '' # s) = trim_space s" by (simp add: trim_space_def)
  with n show ?thesis by (simp add: trim_space_number)
qed

lemma to_lower_number: "number_chars s \<Longrightarrow> to_lower s = s"
  using number_char_facts(2) by (auto simp: number_chars_def to_lower_def intro!: map_idI)

lemma comma_free_number: "number_chars s \<Longrightarrow> CHR '','' \<notin> set s"
  using number_char_facts(3) by (auto simp: number_chars_def)

lemma to_lower_numeric_type:
  "to_lower (numeric_type nm p s) = numeric_type (to_lower nm) p s"
proof -
  have low: "to_lower (show_int i) = show_int i" for i
    by (rule to_lower_number) (rule number_chars_show_int)
  have "to_lower ''('' = ''(''" "to_lower '', '' = '', ''" "to_lower '')'' = '')''"
    by (simp_all add: to_lower_def to_lower_char_def)
  then show ?thesis by (simp only: numeric_type_def to_lower_append low)
qed

lemma trim_suffix_append: "trim_suffix (s @ p) p = s"
  by (simp add: trim_suffix_def has_suffix_def)

lemma trim_prefix_append: "trim_prefix (p @ s) p = s"
  by (simp add: trim_prefix_def has_prefix_def)

definition int64 :: "int \<Rightarrow> bool" where
  "int64 i = (min_int64 \<le> i \<and> i \<le> max_int64)"

lemma ParseNumeric_numeric_type:
  assumes "int64 p" and "int64 s"
  shows "ParseNumeric pre (numeric_type pre p s) =
    (if s = 0 then Integer
     else EDecimal\<lparr>ExtendedDecimalDetails := Some (NewDecimal (Some p) s None)\<rparr>)"
proof -
  let ?body = "show_int p @ CHR '','' # CHR '' '' # show_int s"
  have "trim_suffix (trim_prefix (numeric_type pre p s) (pre @ ''('')) '')'' = ?body"
  proof -
    have "numeric_type pre p s = (pre @ ''('') @ (?body @ '')'')"
      by (simp add: numeric_type_def)
    then show ?thesis by (simp only: trim_prefix_append trim_suffix_append)
  qed
  moreover have "split_on (CHR '','') ?body = [show_int p, CHR '' '' # show_int s]"
    using comma_free_number [OF number_chars_show_int]
    by (simp add: split_on_append_sep split_on_free)
  moreover have "parse_ints [show_int p, CHR '' '' # show_int s] = Some [p, s]"
    using assms
    by (simp add: trim_space_number trim_space_blank_number number_chars_show_int atoi_show_int
        int64_def)
  moreover have "has_prefix (numeric_type pre p s) pre"
    by (simp add: has_prefix_def numeric_type_def)
  ultimately show ?thesis by (simp add: ParseNumeric_def Let_def)
qed

lemma ParseNumeric_parts:
  "ParseNumeric pre (pre @ ''('' @ body @ '')'') =
     (let parts = split_on (CHR '','') body
      in if length parts = 0 \<or> length parts > 2 then Invalid
         else (case parse_ints parts of
                 None \<Rightarrow> Invalid
               | Some ns \<Rightarrow>
                   if length ns = 1 \<or> ns ! 1 = 0 then Integer
                   else EDecimal\<lparr>ExtendedDecimalDetails := Some (NewDecimal (Some (ns ! 0)) (ns ! 1) None)\<rparr>))"
proof -
  have "pre @ ''('' @ body @ '')'' = (pre @ ''('') @ (body @ '')'')" by simp
  then have "trim_suffix (trim_prefix (pre @ ''('' @ body @ '')'') (pre @ ''('')) '')'' = body"
    by (simp only: trim_prefix_append trim_suffix_append)
  then show ?thesis by (simp add: ParseNumeric_def has_prefix_def)
qed

lemma cut_at_paren:
  assumes "CHR ''('' \<notin> set nm" and "nm \<noteq> []"
  shows "cut_at (CHR ''('') (nm @ CHR ''('' # rest) = nm"
proof -
  have "takeWhile (\<lambda>x. x \<noteq> CHR ''('') (nm @ CHR ''('' # rest) = nm"
    using assms(1) by (induction nm) auto
  with assms(2) show ?thesis by (simp add: cut_at_def index_byte_def)
qed

lemma cut_at_numeric_type:
  "CHR ''('' \<notin> set nm \<Longrightarrow> nm \<noteq> [] \<Longrightarrow> cut_at (CHR ''('') (numeric_type nm p s) = nm"
  by (simp add: numeric_type_def cut_at_paren)

section \<open>Round trips through the warehouse\<close>

text \<open>
  The kind that is read back from the type name a column of kind \<open>kd\<close> is created with. What is lost:
  the layout of a time, the precision of a string, every detail that does not belong to the kind, and
  the decimal itself when it has no decimal places (an integer) or exceeds the limits of the
  warehouse (a string). A decimal without a precision is created, and read back, with 38 digits in
  Snowflake and as a string in BigQuery.
\<close>

definition stored_decimal :: "int \<Rightarrow> int \<Rightarrow> KindDetails" where
  "stored_decimal p s =
     (if s = 0 then Integer
      else EDecimal\<lparr>ExtendedDecimalDetails := Some (NewDecimal (Some p) s None)\<rparr>)"

definition snowflake_stored :: "KindDetails \<Rightarrow> KindDetails" where
  "snowflake_stored kd =
     (if Kind kd = Kind ETime
      then NewKindDetailsFromTemplate ETime (nk_Type (the (ExtendedTimeDetails kd)))
      else if Kind kd = Kind EDecimal then
        (let d = the (ExtendedDecimalDetails kd);
             p = (case dec_precision d of None \<Rightarrow> 38 | Some p \<Rightarrow> p)
         in if p > 38 \<or> p = -1 then KString else stored_decimal p (dec_scale d))
      else basic_kind (Kind kd))"

definition bigquery_stored :: "KindDetails \<Rightarrow> KindDetails" where
  "bigquery_stored kd =
     (if Kind kd = Kind ETime
      then NewKindDetailsFromTemplate ETime (nk_Type (the (ExtendedTimeDetails kd)))
      else if Kind kd = Kind EDecimal then
        (let d = the (ExtendedDecimalDetails kd)
         in if isNumeric d \<or> isBigNumeric d
            then stored_decimal (the (dec_precision d)) (dec_scale d) else KString)
      else basic_kind (Kind kd))"

definition known_kinds :: "string list" where
  "known_kinds = [''invalid'', ''float'', ''int'', ''decimal'', ''bool'', ''array'', ''struct'',
     ''string'', ''extended_time'']"

fun decimal_int64 :: "Decimal \<Rightarrow> bool" where
  "decimal_int64 d =
     (int64 (dec_scale d) \<and> (case dec_precision d of None \<Rightarrow> True | Some p \<Rightarrow> int64 p))"

text \<open>A kind the pipeline can create a column with: its details are present.\<close>

definition creatable :: "KindDetails \<Rightarrow> bool" where
  "creatable kd =
     (Kind kd \<in> set known_kinds
      \<and> (Kind kd = Kind ETime \<longrightarrow>
           (\<exists>nk. ExtendedTimeDetails kd = Some nk
              \<and> nk_Type nk \<in> {DateTimeKindType, DateKindType, TimeKindType}))
      \<and> (Kind kd = Kind EDecimal \<longrightarrow>
           (\<exists>d. ExtendedDecimalDetails kd = Some d \<and> decimal_int64 d)))"

lemma snowflakeTypeToKind_numeric:
  assumes "int64 p" and "int64 s"
  shows "snowflakeTypeToKind (numeric_type ''numeric'' p s) = stored_decimal p s"
proof -
  have "trim_space ''numeric'' = ''numeric''"
    by (rule trim_space_none) (simp add: is_space_def)
  moreover have "numeric_type ''numeric'' p s \<noteq> []" by (simp add: numeric_type_def)
  ultimately show ?thesis
    using assms
    by (simp add: snowflakeTypeToKind_def cut_at_numeric_type defaultPrefix_def
        ParseNumeric_numeric_type stored_decimal_def)
qed

lemma bigQueryTypeToKind_numeric:
  assumes "int64 p" and "int64 s" and "nm \<in> {''numeric'', ''bignumeric''}"
  shows "bigQueryTypeToKind (numeric_type nm p s) = stored_decimal p s"
proof -
  have "trim_space nm = nm"
    using assms(3) by (auto simp: is_space_def intro!: trim_space_none)
  moreover have "cut_at (CHR ''<'') nm = nm"
    using assms(3) by (auto simp: cut_at_def index_byte_def)
  moreover have "cut_at (CHR ''('') (numeric_type nm p s) = nm"
    using assms(3) by (auto intro!: cut_at_numeric_type)
  moreover have "numeric_type nm p s \<noteq> []" "numeric_type nm p s \<noteq> ''numeric''"
    "numeric_type nm p s \<noteq> ''bignumeric''"
    using assms(3) by (auto simp: numeric_type_def)
  ultimately have b: "bigQueryTypeToKind (numeric_type nm p s) = ParseNumeric nm (numeric_type nm p s)"
    using assms(3) by (cases "nm = ''numeric''") (simp_all add: bigQueryTypeToKind_def defaultPrefix_def Let_def)
  show ?thesis
    unfolding b ParseNumeric_numeric_type [OF assms(1,2)] stored_decimal_def ..
qed

lemma snowflake_roundtrip_lemma:
  assumes "creatable kd"
  shows "bind_out (KindToDWHType kd Snowflake pk) (\<lambda>t. DwhTypeToKind Snowflake t sp)
    = Ret (snowflake_stored kd)"
proof -
  have lit: "trim_space b = b" if "\<forall>c\<in>set b. \<not> is_space c" for b
    using that by (rule trim_space_none)
  from assms have "Kind kd \<in> set known_kinds" by (simp add: creatable_def)
  then consider "Kind kd = ''extended_time''" | "Kind kd = ''decimal''"
    | "Kind kd \<in> {''invalid'', ''float'', ''int'', ''bool'', ''array'', ''struct'', ''string''}"
    by (auto simp: known_kinds_def)
  then show ?thesis
  proof cases
    case 1
    with assms obtain nk where "ExtendedTimeDetails kd = Some nk"
      "nk_Type nk \<in> {DateTimeKindType, DateKindType, TimeKindType}"
      by (auto simp: creatable_def)
    with 1 show ?thesis
      by (auto simp: KindToDWHType_def DwhTypeToKind_def kindToSnowflake_def snowflake_stored_def
          snowflakeTypeToKind_def cut_at_def index_byte_def to_lower_def to_lower_char_def lit is_space_def)
  next
    case 2
    with assms obtain d where d: "ExtendedDecimalDetails kd = Some d" "decimal_int64 d"
      by (auto simp: creatable_def)
    define p where "p = (case dec_precision d of None \<Rightarrow> 38 | Some p \<Rightarrow> p)"
    have p: "int64 p" "int64 (dec_scale d)"
      using d(2) by (auto simp: p_def int64_def min_int64_def max_int64_def split: option.splits)
    have k: "kindToSnowflake kd =
        Ret (if p > 38 \<or> p = -1 then ''STRING'' else numeric_type ''NUMERIC'' p (dec_scale d))"
      using 2 d(1) by (simp add: kindToSnowflake_def SnowflakeKind_def toKind_def p_def
          MaxPrecisionBeforeString_def Let_def)
    have "to_lower ''NUMERIC'' = ''numeric''" "to_lower ''STRING'' = ''string''"
      by code_simp+
    moreover have "snowflakeTypeToKind ''string'' = KString"
      by (simp add: snowflakeTypeToKind_def cut_at_def index_byte_def lit is_space_def)
    ultimately show ?thesis
      using 2 d(1) p
      by (simp add: KindToDWHType_def DwhTypeToKind_def k to_lower_numeric_type
          snowflakeTypeToKind_numeric snowflake_stored_def p_def Let_def)
  next
    case 3
    then show ?thesis
      by (auto simp: KindToDWHType_def DwhTypeToKind_def kindToSnowflake_def snowflake_stored_def
          snowflakeTypeToKind_def cut_at_def index_byte_def to_lower_def to_lower_char_def lit is_space_def
          kind_defs)
  qed
qed

lemma isNumeric_precision: "isNumeric d \<or> isBigNumeric d \<Longrightarrow> \<exists>p. dec_precision d = Some p"
  by (auto simp: isNumeric_def isBigNumeric_def split: option.splits)

lemma bigquery_roundtrip_lemma:
  assumes "creatable kd"
  shows "bind_out (KindToDWHType kd BigQuery pk) (\<lambda>t. DwhTypeToKind BigQuery t sp)
    = Ret (bigquery_stored kd)"
proof -
  have lit: "trim_space b = b" if "\<forall>c\<in>set b. \<not> is_space c" for b
    using that by (rule trim_space_none)
  from assms have "Kind kd \<in> set known_kinds" by (simp add: creatable_def)
  then consider "Kind kd = ''extended_time''" | "Kind kd = ''decimal''"
    | "Kind kd \<in> {''invalid'', ''float'', ''int'', ''bool'', ''array'', ''struct'', ''string''}"
    by (auto simp: known_kinds_def)
  then show ?thesis
  proof cases
    case 1
    with assms obtain nk where "ExtendedTimeDetails kd = Some nk"
      "nk_Type nk \<in> {DateTimeKindType, DateKindType, TimeKindType}"
      by (auto simp: creatable_def)
    with 1 show ?thesis
      by (auto simp: KindToDWHType_def DwhTypeToKind_def kindToBigQuery_def bigquery_stored_def
          bigQueryTypeToKind_def cut_at_def index_byte_def to_lower_def to_lower_char_def lit is_space_def)
  next
    case 2
    with assms obtain d where d: "ExtendedDecimalDetails kd = Some d" "decimal_int64 d"
      by (auto simp: creatable_def)
    have low: "to_lower ''NUMERIC'' = ''numeric''" "to_lower ''BIGNUMERIC'' = ''bignumeric''"
      "to_lower ''STRING'' = ''string''"
      by code_simp+
    have str: "bigQueryTypeToKind ''string'' = KString"
      by (simp add: bigQueryTypeToKind_def cut_at_def index_byte_def lit is_space_def)
    show ?thesis
    proof (cases "isNumeric d \<or> isBigNumeric d")
      case True
      then obtain p where p: "dec_precision d = Some p" using isNumeric_precision by blast
      with d(2) have "int64 p" "int64 (dec_scale d)" by simp_all
      with 2 d(1) True p low show ?thesis
        by (auto simp: KindToDWHType_def DwhTypeToKind_def kindToBigQuery_def BigQueryKind_def
            to_lower_numeric_type bigQueryTypeToKind_numeric bigquery_stored_def Let_def)
    next
      case False
      with 2 d(1) low str show ?thesis
        by (simp add: KindToDWHType_def DwhTypeToKind_def kindToBigQuery_def BigQueryKind_def
            bigquery_stored_def Let_def)
    qed
  next
    case 3
    then show ?thesis
      by (auto simp: KindToDWHType_def DwhTypeToKind_def kindToBigQuery_def bigquery_stored_def
          bigQueryTypeToKind_def cut_at_def index_byte_def to_lower_def to_lower_char_def lit is_space_def
          kind_defs)
  qed
qed

text \<open>
  A column type can be printed for every warehouse exactly when the details its kind needs are
  there: a decimal kind without decimal details, and an extended time without its nested kind,
  dereference nil.
\<close>

lemma KindToDWHType_Panic_iff:
  assumes "dwh \<in> {Snowflake, BigQuery, Redshift, MSSQL}"
  shows "KindToDWHType kd dwh pk = Panic nil_dereference \<longleftrightarrow>
    (Kind kd = ''extended_time'' \<and> ExtendedTimeDetails kd = None)
    \<or> (Kind kd = ''decimal'' \<and> ExtendedDecimalDetails kd = None)"
  using assms
  by (cases "ExtendedDecimalDetails kd"; cases "ExtendedTimeDetails kd"; cases dwh)
    (simp_all add: KindToDWHType_def kindToSnowflake_def kindToBigQuery_def kindToRedshift_def
      kindToMSSQL_def split: option.splits ExtendedTimeKindType.splits)

lemma KindToDWHType_not_Err: "KindToDWHType kd dwh pk \<noteq> Err e"
  by (cases "ExtendedDecimalDetails kd"; cases "ExtendedTimeDetails kd"; cases dwh)
    (simp_all add: KindToDWHType_def kindToSnowflake_def kindToBigQuery_def kindToRedshift_def
      kindToMSSQL_def split: option.splits ExtendedTimeKindType.splits)

section \<open>Names the warehouse reports\<close>

text \<open>
  A warehouse does not echo the name a column was created with. Case never matters. Snowflake documents
  that \<^verbatim>\<open>INT\<close> and \<^verbatim>\<open>NUMERIC\<close> are synonyms of \<^verbatim>\<open>NUMBER\<close> and \<^verbatim>\<open>STRING\<close> one of \<^verbatim>\<open>VARCHAR\<close>, whose size
  it reports, and that times have a precision in parentheses; BigQuery documents that \<^verbatim>\<open>INT\<close> is an alias of
  \<^verbatim>\<open>INT64\<close> and that a scale of zero can be left out. The relations hold between the name of the
  \<^verbatim>\<open>CREATE\<close> statement and a name the warehouse may report.
\<close>

definition sized :: "string \<Rightarrow> nat \<Rightarrow> string" where
  "sized nm n = nm @ ''('' @ show_nat n @ '')''"

definition number_type :: "int \<Rightarrow> int \<Rightarrow> string" where
  "number_type p s = ''number('' @ show_int p @ '','' @ show_int s @ '')''"

definition unscaled :: "string \<Rightarrow> int \<Rightarrow> string" where
  "unscaled nm p = nm @ ''('' @ show_int p @ '')''"

definition snowflake_reports :: "string \<Rightarrow> string \<Rightarrow> bool" where
  "snowflake_reports created reported \<longleftrightarrow>
     (let t = to_lower created; r = to_lower reported
      in r = t
       \<or> t = ''int'' \<and> r = number_type 38 0
       \<or> (\<exists>p s. int64 p \<and> int64 s \<and> t = numeric_type ''numeric'' p s \<and> r = number_type p s)
       \<or> (\<exists>n. t = ''string'' \<and> r = sized ''varchar'' n)
       \<or> (\<exists>n. (t = ''timestamp_tz'' \<or> t = ''time'') \<and> r = sized t n))"

definition bigquery_reports :: "string \<Rightarrow> string \<Rightarrow> bool" where
  "bigquery_reports created reported \<longleftrightarrow>
     (let t = to_lower created; r = to_lower reported
      in r = t
       \<or> t = ''int'' \<and> r = ''int64''
       \<or> (\<exists>nm p. nm \<in> {''numeric'', ''bignumeric''} \<and> int64 p
            \<and> t = numeric_type nm p 0 \<and> r = unscaled nm p))"

lemma word_names:
  "trim_space ''number'' = ''number''" "trim_space ''varchar'' = ''varchar''" "trim_space ''string'' = ''string''"
  "trim_space ''timestamp_tz'' = ''timestamp_tz''" "trim_space ''time'' = ''time''" "trim_space ''int'' = ''int''"
  "trim_space ''int64'' = ''int64''" "trim_space ''numeric'' = ''numeric''" "trim_space ''bignumeric'' = ''bignumeric''"
  by (rule trim_space_none, simp add: is_space_def)+

lemma snowflakeTypeToKind_number:
  assumes "int64 p" and "int64 s"
  shows "snowflakeTypeToKind (number_type p s) = stored_decimal p s"
proof -
  let ?body = "show_int p @ CHR '','' # show_int s"
  have t: "number_type p s = ''number'' @ ''('' @ ?body @ '')''" by (simp add: number_type_def)
  have "split_on (CHR '','') ?body = [show_int p, show_int s]"
    using comma_free_number [OF number_chars_show_int] by (simp add: split_on_append_sep split_on_free)
  moreover have "parse_ints [show_int p, show_int s] = Some [p, s]"
    using assms by (simp add: trim_space_number number_chars_show_int atoi_show_int int64_def)
  ultimately have "ParseNumeric ''number'' (''number'' @ ''('' @ ?body @ '')'') = stored_decimal p s"
    unfolding ParseNumeric_parts by (simp add: stored_decimal_def)
  moreover have "cut_at (CHR ''('') (''number'' @ ''('' @ ?body @ '')'') = ''number''"
    using cut_at_paren [of "''number''"] by simp
  ultimately show ?thesis unfolding t by (simp add: snowflakeTypeToKind_def word_names)
qed

lemma snowflakeTypeToKind_sized:
  "nm \<noteq> [] \<Longrightarrow> CHR ''('' \<notin> set nm \<Longrightarrow> trim_space nm = nm \<Longrightarrow> nm \<noteq> ''number'' \<Longrightarrow> nm \<noteq> ''numeric''
     \<Longrightarrow> snowflakeTypeToKind (sized nm n) = snowflakeTypeToKind nm"
proof -
  assume nm: "nm \<noteq> []" "CHR ''('' \<notin> set nm" "trim_space nm = nm" "nm \<noteq> ''number''" "nm \<noteq> ''numeric''"
  have "cut_at (CHR ''('') (sized nm n) = nm" using cut_at_paren [OF nm(2,1)] by (simp add: sized_def)
  moreover have "cut_at (CHR ''('') nm = nm"
    using nm(2) by (auto simp: cut_at_def index_byte_def split: option.splits if_splits)
  moreover have "sized nm n \<noteq> []" by (simp add: sized_def)
  ultimately show ?thesis using nm by (simp add: snowflakeTypeToKind_def)
qed

lemma snowflake_reports_same:
  assumes "snowflake_reports t t'"
  shows "DwhTypeToKind Snowflake t' sp = DwhTypeToKind Snowflake t sp"
proof -
  have "int64 38" "int64 0" by (simp_all add: int64_def min_int64_def max_int64_def)
  then have "snowflakeTypeToKind (number_type 38 0) = snowflakeTypeToKind ''int''"
    by (simp only: snowflakeTypeToKind_number)
      (simp add: stored_decimal_def snowflakeTypeToKind_def cut_at_def index_byte_def word_names)
  moreover have "snowflakeTypeToKind (sized ''varchar'' n) = snowflakeTypeToKind ''string''" for n
    by (simp add: snowflakeTypeToKind_sized word_names)
      (simp add: snowflakeTypeToKind_def cut_at_def index_byte_def word_names)
  moreover have "snowflakeTypeToKind (sized nm n) = snowflakeTypeToKind nm"
    if "nm = ''timestamp_tz'' \<or> nm = ''time''" for nm n
    using that by (auto intro!: snowflakeTypeToKind_sized simp: word_names)
  ultimately show ?thesis
    using assms
    by (auto simp: snowflake_reports_def DwhTypeToKind_def Let_def snowflakeTypeToKind_number
        snowflakeTypeToKind_numeric)
qed

lemma bigQueryTypeToKind_unscaled:
  assumes p: "int64 p" and nm: "nm \<in> {''numeric'', ''bignumeric''}"
  shows "bigQueryTypeToKind (unscaled nm p) = Integer"
proof -
  have "CHR ''('' \<notin> set nm" "nm \<noteq> []" using nm by auto
  then have cut: "cut_at (CHR ''('') (unscaled nm p) = nm"
    using cut_at_paren [of nm] by (simp add: unscaled_def)
  have angle: "cut_at (CHR ''<'') nm = nm" "trim_space nm = nm"
    using nm by (auto simp: cut_at_def index_byte_def word_names)
  have "ParseNumeric nm (unscaled nm p) = Integer"
    unfolding unscaled_def ParseNumeric_parts using p
    by (simp add: split_on_free [OF comma_free_number] number_chars_show_int trim_space_number atoi_show_int int64_def)
  moreover have "unscaled nm p \<noteq> ''numeric''" "unscaled nm p \<noteq> ''bignumeric''" "unscaled nm p \<noteq> []"
    using nm by (auto simp: unscaled_def)
  ultimately show ?thesis
    using nm cut angle by (cases "nm = ''numeric''") (simp_all add: bigQueryTypeToKind_def defaultPrefix_def Let_def)
qed

lemma bigquery_reports_same:
  assumes "bigquery_reports t t'"
  shows "DwhTypeToKind BigQuery t' sp = DwhTypeToKind BigQuery t sp"
proof -
  have "bigQueryTypeToKind ''int64'' = bigQueryTypeToKind ''int''"
    by (simp add: bigQueryTypeToKind_def cut_at_def index_byte_def word_names)
  moreover have "bigQueryTypeToKind (unscaled nm p) = bigQueryTypeToKind (numeric_type nm p 0)"
    if nm: "nm \<in> {''numeric'', ''bignumeric''}" and p: "int64 p" for nm p
    using bigQueryTypeToKind_unscaled [OF p nm] bigQueryTypeToKind_numeric [OF p _ nm, of 0]
    by (simp add: stored_decimal_def int64_def min_int64_def max_int64_def)
  ultimately show ?thesis
    using assms by (auto simp: bigquery_reports_def DwhTypeToKind_def Let_def)
qed

text \<open>
  C28. A column survives its warehouse. For a kind whose details are present the code prints a type
  name, and whichever of its documented names the warehouse then reports, the code reads the same kind
  back, apart from the listed losses: the layout of a time, the precision of a string, a decimal
  without decimal places (an integer) or beyond the limits of the warehouse (a string), and a decimal without
  a precision, which Snowflake gets with 38 digits and BigQuery as a string.
\<close>

theorem warehouse_type_roundtrip:
  assumes "creatable kd"
  shows "(\<exists>t. KindToDWHType kd Snowflake pk = Ret t
        \<and> (\<forall>t'. snowflake_reports t t' \<longrightarrow> DwhTypeToKind Snowflake t' sp = Ret (snowflake_stored kd)))
    \<and> (\<exists>t. KindToDWHType kd BigQuery pk = Ret t
        \<and> (\<forall>t'. bigquery_reports t t' \<longrightarrow> DwhTypeToKind BigQuery t' sp = Ret (bigquery_stored kd)))"
  using snowflake_roundtrip_lemma [OF assms, of pk sp] bigquery_roundtrip_lemma [OF assms, of pk sp]
    snowflake_reports_same bigquery_reports_same
  by (auto simp: bind_out_Ret_iff)

theorem warehouse_type_roundtrip_witness:
  "\<exists>t. KindToDWHType (EDecimal\<lparr>ExtendedDecimalDetails := Some (NewDecimal (Some 9) 2 None)\<rparr>) Snowflake False = Ret t
     \<and> snowflake_reports t ''NUMBER(9,2)''
     \<and> DwhTypeToKind Snowflake ''NUMBER(9,2)'' [] =
         Ret (EDecimal\<lparr>ExtendedDecimalDetails := Some (NewDecimal (Some 9) 2 None)\<rparr>)"
proof -
  let ?kd = "EDecimal\<lparr>ExtendedDecimalDetails := Some (NewDecimal (Some 9) 2 None)\<rparr>"
  have c: "creatable ?kd"
    by (simp add: creatable_def known_kinds_def kind_defs NewDecimal_def int64_def min_int64_def max_int64_def)
  have t: "KindToDWHType ?kd Snowflake False = Ret ''NUMERIC(9, 2)''" by code_simp
  have "to_lower ''NUMERIC(9, 2)'' = numeric_type ''numeric'' 9 2"
    "to_lower ''NUMBER(9,2)'' = number_type 9 2" "int64 9" "int64 2"
    by code_simp+
  then have rep: "snowflake_reports ''NUMERIC(9, 2)'' ''NUMBER(9,2)''"
    unfolding snowflake_reports_def Let_def by blast
  have "snowflake_stored ?kd = ?kd" by code_simp
  with warehouse_type_roundtrip [OF c, of False "[]"] t rep show ?thesis by auto
qed

end
