(* ===== verification/Columns.thy ===== *)
theory Columns
  imports Typing
begin

text \<open>
  The column store of \<^verbatim>\<open>lib/typing/columns\<close>: columns, the operations on a list of
  columns, the schema diff between the stream and the warehouse, and the \<^verbatim>\<open>SET\<close> list of a
  merge. The interface \<open>column_store\<close> states what the operations promise; it is interpreted on
  the list model, whose invariant is that names are non-empty and distinct.

  The mutex of \<^verbatim>\<open>Columns\<close> is not modelled: each operation holds it for its whole body, so an
  operation is one step. \<^verbatim>\<open>GetColumns\<close> copies the slice, which is the identity here.
\<close>

section \<open>Columns\<close>

record Column =
  col_name :: string
  col_primaryKey :: bool
  col_KindDetails :: KindDetails
  col_ToastColumn :: bool
  col_defaultValue :: val
  col_backfilled :: bool

type_synonym Columns = "Column list"

definition NewColumn :: "string \<Rightarrow> KindDetails \<Rightarrow> Column" where
  "NewColumn name kd =
     \<lparr>col_name = name, col_primaryKey = False, col_KindDetails = kd, col_ToastColumn = False,
      col_defaultValue = VNil, col_backfilled = False\<rparr>"

definition ShouldSkip :: "Column \<Rightarrow> bool" where
  "ShouldSkip c = (Kind (col_KindDetails c) = Kind Invalid)"

definition SetBackfilled :: "bool \<Rightarrow> Column \<Rightarrow> Column" where
  "SetBackfilled b c = c\<lparr>col_backfilled := b\<rparr>"

definition SetDefaultValue :: "val \<Rightarrow> Column \<Rightarrow> Column" where
  "SetDefaultValue v c = c\<lparr>col_defaultValue := v\<rparr>"

definition ToLowerName :: "Column \<Rightarrow> Column" where
  "ToLowerName c = c\<lparr>col_name := to_lower (col_name c)\<rparr>"

definition ShouldBackfill :: "Column \<Rightarrow> bool" where
  "ShouldBackfill c =
     (if col_primaryKey c then False
      else if ShouldSkip c then False
      else col_defaultValue c \<noteq> VNil \<and> \<not> col_backfilled c)"

definition Column_Name :: "bool \<Rightarrow> NameArgs option \<Rightarrow> Column \<Rightarrow> string" where
  "Column_Name uppercaseEscNames args c = sql_EscapeName (col_name c) uppercaseEscNames args"

section \<open>Operations on a list of columns\<close>

fun GetColumn :: "Columns \<Rightarrow> string \<Rightarrow> Column option" where
  "GetColumn [] name = None"
| "GetColumn (c # cs) name = (if col_name c = name then Some c else GetColumn cs name)"

definition AddColumn :: "Column \<Rightarrow> Columns \<Rightarrow> Columns" where
  "AddColumn col cs =
     (if col_name col = [] then cs
      else if GetColumn cs (col_name col) \<noteq> None then cs
      else cs @ [col])"

fun UpdateColumn :: "Column \<Rightarrow> Columns \<Rightarrow> Columns" where
  "UpdateColumn u [] = []"
| "UpdateColumn u (c # cs) = (if col_name c = col_name u then u # cs else c # UpdateColumn u cs)"

fun DeleteColumn :: "string \<Rightarrow> Columns \<Rightarrow> Columns" where
  "DeleteColumn name [] = []"
| "DeleteColumn name (c # cs) = (if col_name c = name then cs else c # DeleteColumn name cs)"

record UpsertColumnArg =
  ToastCol :: "bool option"
  PrimaryKey :: "bool option"
  Backfilled :: "bool option"

definition apply_upsert :: "UpsertColumnArg \<Rightarrow> Column \<Rightarrow> Column" where
  "apply_upsert arg col =
     (let col1 = (case ToastCol arg of None \<Rightarrow> col | Some b \<Rightarrow> col\<lparr>col_ToastColumn := b\<rparr>);
          col2 = (case PrimaryKey arg of None \<Rightarrow> col1 | Some b \<Rightarrow> col1\<lparr>col_primaryKey := b\<rparr>)
      in case Backfilled arg of None \<Rightarrow> col2 | Some b \<Rightarrow> col2\<lparr>col_backfilled := b\<rparr>)"

definition UpsertColumn :: "string \<Rightarrow> UpsertColumnArg \<Rightarrow> Columns \<Rightarrow> Columns" where
  "UpsertColumn colName arg cs =
     (if colName = [] then cs
      else (case GetColumn cs colName of
          Some col \<Rightarrow> UpdateColumn (apply_upsert arg col) cs
        | None \<Rightarrow> AddColumn (apply_upsert arg (NewColumn colName Invalid)) cs))"

definition Columns_EscapeName :: "bool \<Rightarrow> NameArgs option \<Rightarrow> Columns \<Rightarrow> Columns" where
  "Columns_EscapeName u args cs = map (\<lambda>c. c\<lparr>col_name := Column_Name u args c\<rparr>) cs"

definition GetColumnsToUpdate :: "bool \<Rightarrow> NameArgs option \<Rightarrow> Columns \<Rightarrow> string list" where
  "GetColumnsToUpdate u args cs =
     map (Column_Name u args) (filter (\<lambda>c. col_KindDetails c \<noteq> Invalid) cs)"

section \<open>The SET list of a merge\<close>

definition toast :: string where
  "toast = ToastUnavailableValuePlaceholder"

definition processToastStructCol :: "string \<Rightarrow> destination_kind \<Rightarrow> string" where
  \<open>processToastStructCol colName destKind =
     (case destKind of
        BigQuery \<Rightarrow> colName @ ''= CASE WHEN COALESCE(TO_JSON_STRING(cc.'' @ colName @ '') != '' @
          [CHR 0x27] @ ''{"key":"'' @ toast @ ''"}'' @ [CHR 0x27] @ '', true) THEN cc.'' @ colName @
          '' ELSE c.'' @ colName @ '' END''
      | Redshift \<Rightarrow> colName @ ''= CASE WHEN COALESCE(cc.'' @ colName @ '' != JSON_PARSE('' @
          [CHR 0x27] @ ''{"key":"'' @ toast @ ''"}'' @ [CHR 0x27] @ ''), true) THEN cc.'' @ colName @
          '' ELSE c.'' @ colName @ '' END''
      | MSSQL \<Rightarrow> colName @ ''= CASE WHEN COALESCE(cc.'' @ colName @ '', {}) != {'' @
          [CHR 0x27] @ ''key'' @ [CHR 0x27] @ '': '' @ [CHR 0x27] @ toast @ [CHR 0x27] @
          ''} THEN cc.'' @ colName @ '' ELSE c.'' @ colName @ '' END''
      | _ \<Rightarrow> colName @ ''= CASE WHEN COALESCE(cc.'' @ colName @ '' != {'' @
          [CHR 0x27] @ ''key'' @ [CHR 0x27] @ '': '' @ [CHR 0x27] @ toast @ [CHR 0x27] @
          ''}, true) THEN cc.'' @ colName @ '' ELSE c.'' @ colName @ '' END'')\<close>

definition processToastCol :: "string \<Rightarrow> destination_kind \<Rightarrow> string" where
  "processToastCol colName destKind =
     (if destKind = MSSQL then
        colName @ ''= CASE WHEN COALESCE(cc.'' @ colName @ '', '' @ [CHR 0x27, CHR 0x27] @ '') != '' @
          [CHR 0x27] @ toast @ [CHR 0x27] @ '' THEN cc.'' @ colName @ '' ELSE c.'' @ colName @ '' END''
      else
        colName @ ''= CASE WHEN COALESCE(cc.'' @ colName @ '' != '' @ [CHR 0x27] @ toast @
          [CHR 0x27] @ '', true) THEN cc.'' @ colName @ '' ELSE c.'' @ colName @ '' END'')"

definition update_entry :: "destination_kind \<Rightarrow> bool \<Rightarrow> Column \<Rightarrow> string" where
  "update_entry destKind u column =
     (let colName = Column_Name u (Some \<lparr>Escape = True, na_DestKind = destKind\<rparr>) column
      in if col_ToastColumn column then
           (if col_KindDetails column = Struct then processToastStructCol colName destKind
            else processToastCol colName destKind)
         else colName @ ''=cc.'' @ colName)"

definition UpdateQuery :: "destination_kind \<Rightarrow> bool \<Rightarrow> bool \<Rightarrow> Columns \<Rightarrow> string" where
  "UpdateQuery destKind u skipDeleteCol cs =
     join '',''
       (map (update_entry destKind u)
         (filter (\<lambda>c. \<not> ShouldSkip c \<and> \<not> (skipDeleteCol \<and> col_name c = DeleteColumnMarker)) cs))"

section \<open>The schema diff\<close>

definition shouldSkipColumn :: "string \<Rightarrow> bool \<Rightarrow> bool \<Rightarrow> bool \<Rightarrow> mode \<Rightarrow> bool" where
  "shouldSkipColumn colName softDelete includeArtieUpdatedAt includeDatabaseUpdatedAt m =
     (if colName = DeleteColumnMarker \<and> softDelete then False
      else if colName = UpdateColumnMarker \<and> includeArtieUpdatedAt then False
      else if colName = DatabaseUpdatedColumnMarker \<and> includeDatabaseUpdatedAt then False
      else if colName = OperationColumnMarker \<and> m = History then False
      else contains colName ArtiePrefix)"

definition CloneColumns :: "Columns \<Rightarrow> Columns" where
  "CloneColumns cols = foldl (\<lambda>acc col. AddColumn (ToLowerName col) acc) [] cols"

definition keep_columns :: "(string \<Rightarrow> bool) \<Rightarrow> Columns \<Rightarrow> Columns" where
  "keep_columns skip cols =
     foldl (\<lambda>acc col. if skip (col_name col) then acc else AddColumn col acc) [] cols"

definition Diff ::
  "Columns \<Rightarrow> Columns \<Rightarrow> bool \<Rightarrow> bool \<Rightarrow> bool \<Rightarrow> mode \<Rightarrow> Columns \<times> Columns" where
  "Diff columnsInSource columnsInDestination softDelete includeArtieUpdatedAt
     includeDatabaseUpdatedAt m =
     (let src = CloneColumns columnsInSource;
          targ = CloneColumns columnsInDestination;
          colsToDelete = filter (\<lambda>col. GetColumn targ (col_name col) \<noteq> None) src;
          src' = foldl (\<lambda>cs col. DeleteColumn (col_name col) cs) src colsToDelete;
          targ' = foldl (\<lambda>cs col. DeleteColumn (col_name col) cs) targ colsToDelete;
          skip = (\<lambda>n. shouldSkipColumn n softDelete includeArtieUpdatedAt includeDatabaseUpdatedAt m)
      in (keep_columns skip targ', keep_columns skip src'))"

section \<open>Default values\<close>

record DefaultValueArgs =
  dva_Escape :: bool
  dva_DestKind :: destination_kind

definition column_DefaultValue ::
  "gostd \<Rightarrow> DefaultValueArgs option \<Rightarrow> string list \<Rightarrow> Column \<Rightarrow> val outcome" where
  "column_DefaultValue std args additionalDateFmts c =
     (let v = col_defaultValue c; kd = col_KindDetails c
      in case args of
           None \<Rightarrow> Ret v
         | Some a \<Rightarrow>
             if \<not> dva_Escape a \<or> v = VNil then Ret v
             else if Kind kd = Kind Struct \<or> Kind kd = Kind Array then
               (case dva_DestKind a of
                  BigQuery \<Rightarrow> Ret (VString (''JSON'' @ Wrap (sprint std v) False))
                | Redshift \<Rightarrow> Ret (VString (''JSON_PARSE('' @ Wrap (sprint std v) False @ '')''))
                | Snowflake \<Rightarrow> Ret (VString (Wrap (sprint std v) False))
                | _ \<Rightarrow> Ret v)
             else if Kind kd = Kind ETime then
               (case ExtendedTimeDetails kd of
                  None \<Rightarrow> Err (errorf ''column kind details for extended time is nil'')
                | Some nk \<Rightarrow>
                    bind_out
                      (wrap_out (''failed to cast colVal as time.Time, colVal: '' @ sprint std v @ '', err: '')
                        (ParseFromInterface std v additionalDateFmts))
                      (\<lambda>extTime.
                        if nk_Type nk = TimeKindType
                        then Ret (VString (Wrap (ExtendedTime_String std extTime PostgresTimeFormatNoTZ) False))
                        else Ret (VString (Wrap (ExtendedTime_String std extTime (nk_Format nk)) False))))
             else if Kind kd = Kind EDecimal then
               (case v of
                  VDecimal d \<Rightarrow> Ret (Decimal_Value std d)
                | _ \<Rightarrow> Err (errorf ''colVal is not type *decimal.Decimal''))
             else if Kind kd = Kind KString then Ret (VString (Wrap (sprint std v) False))
             else Ret v)"

section \<open>Facts on single columns\<close>

lemma NewColumn_simps [simp]:
  "col_name (NewColumn n kd) = n" "col_KindDetails (NewColumn n kd) = kd"
  "col_primaryKey (NewColumn n kd) = False" "col_ToastColumn (NewColumn n kd) = False"
  "col_defaultValue (NewColumn n kd) = VNil" "col_backfilled (NewColumn n kd) = False"
  by (simp_all add: NewColumn_def)

lemma col_name_apply_upsert [simp]: "col_name (apply_upsert arg c) = col_name c"
  by (simp add: apply_upsert_def Let_def split: option.splits)

lemma col_KindDetails_apply_upsert [simp]:
  "col_KindDetails (apply_upsert arg c) = col_KindDetails c"
  by (simp add: apply_upsert_def Let_def split: option.splits)

lemma col_name_ToLowerName [simp]: "col_name (ToLowerName c) = to_lower (col_name c)"
  by (simp add: ToLowerName_def)

lemma ShouldBackfill_iff:
  "ShouldBackfill c \<longleftrightarrow> \<not> col_primaryKey c \<and> Kind (col_KindDetails c) \<noteq> ''invalid''
     \<and> col_defaultValue c \<noteq> VNil \<and> \<not> col_backfilled c"
  by (simp add: ShouldBackfill_def ShouldSkip_def)

section \<open>The column store interface\<close>

definition columns_inv :: "Columns \<Rightarrow> bool" where
  "columns_inv cs = (distinct (map col_name cs) \<and> [] \<notin> col_name ` set cs)"

locale column_store =
  fixes get :: "'c \<Rightarrow> string \<Rightarrow> Column option"
    and add :: "Column \<Rightarrow> 'c \<Rightarrow> 'c"
    and upd :: "Column \<Rightarrow> 'c \<Rightarrow> 'c"
    and del :: "string \<Rightarrow> 'c \<Rightarrow> 'c"
    and inv_store :: "'c \<Rightarrow> bool"
  assumes get_add: "get (add col c) n =
      (if col_name col \<noteq> [] \<and> get c (col_name col) = None \<and> n = col_name col then Some col
       else get c n)"
    and get_upd: "get (upd col c) n =
      (if get c n \<noteq> None \<and> n = col_name col then Some col else get c n)"
    and get_del: "inv_store c \<Longrightarrow> get (del m c) n = (if n = m then None else get c n)"
    and get_name: "get c n = Some col \<Longrightarrow> col_name col = n"
    and inv_add: "inv_store c \<Longrightarrow> inv_store (add col c)"
    and inv_upd: "inv_store c \<Longrightarrow> inv_store (upd col c)"
    and inv_del: "inv_store c \<Longrightarrow> inv_store (del m c)"
begin

lemma get_foldl_add:
  "get (foldl (\<lambda>acc col. add col acc) c cols) n =
     (case get c n of Some col \<Rightarrow> Some col
      | None \<Rightarrow> if n = [] then None else find (\<lambda>col. col_name col = n) cols)"
proof (induction cols arbitrary: c)
  case Nil
  then show ?case by (auto split: option.splits)
next
  case (Cons a cols)
  show ?case
    by (simp only: foldl_Cons Cons.IH get_add)
      (auto split: option.splits)
qed

lemma inv_foldl_add: "inv_store c \<Longrightarrow> inv_store (foldl (\<lambda>acc col. add col acc) c cols)"
  by (induction cols arbitrary: c) (auto simp: inv_add)

lemma inv_foldl_del:
  "inv_store c \<Longrightarrow> inv_store (foldl (\<lambda>acc col. del (col_name col) acc) c cols)"
  by (induction cols arbitrary: c) (auto simp: inv_del)

lemma get_foldl_del:
  "inv_store c \<Longrightarrow> get (foldl (\<lambda>acc col. del (col_name col) acc) c cols) n =
     (if n \<in> col_name ` set cols then None else get c n)"
proof (induction cols arbitrary: c)
  case Nil
  then show ?case by simp
next
  case (Cons a cols)
  then show ?case by (simp add: inv_del) (auto simp: get_del)
qed

text \<open>An upsert is the last writer of the flags it carries and never loses the kind.\<close>

lemma get_upsert:
  assumes "n \<noteq> []"
  shows "get (case get c n of Some col \<Rightarrow> upd (apply_upsert arg col) c
              | None \<Rightarrow> add (apply_upsert arg (NewColumn n Invalid)) c) m =
    (if m = n
     then Some (apply_upsert arg (case get c n of Some col \<Rightarrow> col | None \<Rightarrow> NewColumn n Invalid))
     else get c m)"
  using assms get_name [of c n]
  by (cases "get c n") (auto simp: get_add get_upd)

end

lemma GetColumn_name: "GetColumn cs n = Some c \<Longrightarrow> col_name c = n"
  by (induction cs) (auto split: if_splits)

lemma GetColumn_mem: "GetColumn cs n = Some c \<Longrightarrow> c \<in> set cs"
  by (induction cs) (auto split: if_splits)

lemma GetColumn_None_iff: "GetColumn cs n = None \<longleftrightarrow> n \<notin> col_name ` set cs"
  by (induction cs) auto

lemma GetColumn_append:
  "GetColumn (xs @ ys) n = (case GetColumn xs n of Some c \<Rightarrow> Some c | None \<Rightarrow> GetColumn ys n)"
  by (induction xs) auto

lemma GetColumn_UpdateColumn:
  "GetColumn (UpdateColumn u cs) n =
     (if GetColumn cs n \<noteq> None \<and> n = col_name u then Some u else GetColumn cs n)"
  by (induction cs) auto

lemma names_UpdateColumn [simp]: "map col_name (UpdateColumn u cs) = map col_name cs"
  by (induction cs) auto

lemma names_set_UpdateColumn [simp]: "col_name ` set (UpdateColumn u cs) = col_name ` set cs"
  by (metis names_UpdateColumn set_map)

lemma GetColumn_DeleteColumn:
  "distinct (map col_name cs) \<Longrightarrow>
     GetColumn (DeleteColumn m cs) n = (if n = m then None else GetColumn cs n)"
  by (induction cs) (auto simp: GetColumn_None_iff)

lemma DeleteColumn_filter:
  "distinct (map col_name cs) \<Longrightarrow> DeleteColumn m cs = filter (\<lambda>c. col_name c \<noteq> m) cs"
  by (induction cs) (auto intro!: filter_True [symmetric] intro: rev_image_eqI)

lemma columns_inv_Nil [simp]: "columns_inv []"
  by (simp add: columns_inv_def)

lemma columns_inv_AddColumn: "columns_inv cs \<Longrightarrow> columns_inv (AddColumn col cs)"
  by (auto simp: columns_inv_def AddColumn_def GetColumn_None_iff)

lemma columns_inv_UpdateColumn: "columns_inv cs \<Longrightarrow> columns_inv (UpdateColumn u cs)"
  by (simp add: columns_inv_def)

lemma columns_inv_filter: "columns_inv cs \<Longrightarrow> columns_inv (filter P cs)"
  by (auto simp: columns_inv_def intro: distinct_map_filter)

lemma columns_inv_DeleteColumn: "columns_inv cs \<Longrightarrow> columns_inv (DeleteColumn m cs)"
  by (simp add: columns_inv_def DeleteColumn_filter) (auto intro: distinct_map_filter)

interpretation cs: column_store GetColumn AddColumn UpdateColumn DeleteColumn columns_inv
proof (unfold_locales, goal_cases)
  case (1 col c n)
  then show ?case by (auto simp: AddColumn_def GetColumn_append split: option.splits)
next
  case (2 col c n)
  then show ?case by (rule GetColumn_UpdateColumn)
next
  case (3 c m n)
  then show ?case by (simp add: columns_inv_def GetColumn_DeleteColumn)
qed (auto simp: GetColumn_name columns_inv_AddColumn columns_inv_UpdateColumn
    columns_inv_DeleteColumn)

lemma GetColumn_UpsertColumn:
  "GetColumn (UpsertColumn n arg cs) m =
     (if n \<noteq> [] \<and> m = n
      then Some (apply_upsert arg (case GetColumn cs n of Some c \<Rightarrow> c | None \<Rightarrow> NewColumn n Invalid))
      else GetColumn cs m)"
  by (cases "n = []") (auto simp: UpsertColumn_def cs.get_upsert)

lemma columns_inv_UpsertColumn: "columns_inv cs \<Longrightarrow> columns_inv (UpsertColumn n arg cs)"
  by (simp add: UpsertColumn_def columns_inv_AddColumn columns_inv_UpdateColumn split: option.splits)

section \<open>Facts on the diff\<close>

lemma foldl_AddColumn_distinct:
  "columns_inv (acc @ cs) \<Longrightarrow> foldl (\<lambda>a c. AddColumn c a) acc cs = acc @ cs"
proof (induction cs arbitrary: acc)
  case Nil
  then show ?case by simp
next
  case (Cons c cs)
  then have "AddColumn c acc = acc @ [c]"
    by (auto simp: AddColumn_def columns_inv_def GetColumn_None_iff)
  with Cons show ?case by simp
qed

lemma keep_columns_filter:
  assumes "columns_inv cs"
  shows "keep_columns skip cs = filter (\<lambda>c. \<not> skip (col_name c)) cs"
proof -
  have "foldl (\<lambda>acc col. if skip (col_name col) then acc else AddColumn col acc) a xs =
      foldl (\<lambda>a c. AddColumn c a) a (filter (\<lambda>c. \<not> skip (col_name c)) xs)" for a xs
    by (induction xs arbitrary: a) auto
  then show ?thesis
    using foldl_AddColumn_distinct [of "[]"] columns_inv_filter [OF assms]
    by (simp add: keep_columns_def)
qed

lemma CloneColumns_foldl: "CloneColumns cs = foldl (\<lambda>a c. AddColumn c a) [] (map ToLowerName cs)"
  by (simp add: CloneColumns_def foldl_map)

lemma columns_inv_CloneColumns: "columns_inv (CloneColumns cs)"
  by (simp add: CloneColumns_foldl cs.inv_foldl_add)

lemma GetColumn_CloneColumns:
  "GetColumn (CloneColumns cs) n =
     (if n = [] then None else find (\<lambda>c. col_name c = n) (map ToLowerName cs))"
  by (simp add: CloneColumns_foldl cs.get_foldl_add)

lemma find_name_None_iff: "find (\<lambda>c. col_name c = n) cs = None \<longleftrightarrow> n \<notin> col_name ` set cs"
  by (auto simp: find_None_iff)

lemma names_CloneColumns: "col_name ` set (CloneColumns cs) = to_lower ` col_name ` set cs - {[]}"
proof (rule set_eqI)
  fix n
  have "n \<in> col_name ` set (CloneColumns cs) \<longleftrightarrow> GetColumn (CloneColumns cs) n \<noteq> None"
    by (simp add: GetColumn_None_iff)
  also have "\<dots> \<longleftrightarrow> n \<in> to_lower ` col_name ` set cs - {[]}"
    using find_name_None_iff [of n "map ToLowerName cs"]
    by (cases "n = []") (simp_all add: GetColumn_CloneColumns image_image del: not_None_eq)
  finally show "n \<in> col_name ` set (CloneColumns cs) \<longleftrightarrow> n \<in> to_lower ` col_name ` set cs - {[]}" .
qed

lemma foldl_DeleteColumn_filter:
  "columns_inv cs \<Longrightarrow> foldl (\<lambda>cs c. DeleteColumn (col_name c) cs) cs ds =
     filter (\<lambda>c. col_name c \<notin> col_name ` set ds) cs"
proof (induction ds arbitrary: cs)
  case Nil
  then show ?case by simp
next
  case (Cons d ds)
  then have "DeleteColumn (col_name d) cs = filter (\<lambda>c. col_name c \<noteq> col_name d) cs"
    by (simp add: columns_inv_def DeleteColumn_filter)
  with Cons show ?case
    by (simp add: columns_inv_filter)
qed

lemma names_filter: "col_name ` set (filter (\<lambda>c. P (col_name c)) cs) = {n \<in> col_name ` set cs. P n}"
  by auto

text \<open>
  The two deletion loops of \<open>Diff\<close> remove exactly the names both sides have, so its results are
  the columns of each side whose lower-cased name the other side does not have and that are not
  skipped.
\<close>

lemma Diff_eq:
  fixes S T sd au du m
  defines "src \<equiv> CloneColumns S" and "targ \<equiv> CloneColumns T"
    and "skip \<equiv> \<lambda>n. shouldSkipColumn n sd au du m"
  shows "Diff S T sd au du m =
    (filter (\<lambda>c. GetColumn src (col_name c) = None \<and> \<not> skip (col_name c)) targ,
     filter (\<lambda>c. GetColumn targ (col_name c) = None \<and> \<not> skip (col_name c)) src)"
proof -
  let ?del = "filter (\<lambda>col. GetColumn targ (col_name col) \<noteq> None) src"
  have inv: "columns_inv src" "columns_inv targ"
    by (simp_all add: src_def targ_def columns_inv_CloneColumns)
  have names: "col_name ` set ?del = col_name ` set src \<inter> col_name ` set targ"
    by (subst names_filter [of "\<lambda>n. GetColumn targ n \<noteq> None"])
      (simp only: GetColumn_None_iff not_not Collect_conj_eq Collect_mem_eq)
  have "foldl (\<lambda>cs col. DeleteColumn (col_name col) cs) src ?del =
      filter (\<lambda>c. GetColumn targ (col_name c) = None) src"
    unfolding foldl_DeleteColumn_filter [OF inv(1)] names unfolding GetColumn_None_iff
    by (rule filter_cong) auto
  moreover have "foldl (\<lambda>cs col. DeleteColumn (col_name col) cs) targ ?del =
      filter (\<lambda>c. GetColumn src (col_name c) = None) targ"
    unfolding foldl_DeleteColumn_filter [OF inv(2)] names unfolding GetColumn_None_iff
    by (rule filter_cong) auto
  ultimately show ?thesis
    using inv
    by (auto simp: Diff_def Let_def keep_columns_filter columns_inv_filter src_def [symmetric]
        targ_def [symmetric] skip_def [symmetric] intro!: filter_cong)
qed

lemma Diff_names:
  assumes "Diff S T sd au du m = (sourceMissing, targetMissing)"
  shows "col_name ` set targetMissing =
      {n \<in> to_lower ` col_name ` set S - {[]}. n \<notin> to_lower ` col_name ` set T
         \<and> \<not> shouldSkipColumn n sd au du m}"
    and "col_name ` set sourceMissing =
      {n \<in> to_lower ` col_name ` set T - {[]}. n \<notin> to_lower ` col_name ` set S
         \<and> \<not> shouldSkipColumn n sd au du m}"
    and "columns_inv targetMissing" and "columns_inv sourceMissing"
proof -
  note eq = assms [unfolded Diff_eq]
  from eq have t: "targetMissing = filter (\<lambda>c. GetColumn (CloneColumns T) (col_name c) = None
      \<and> \<not> shouldSkipColumn (col_name c) sd au du m) (CloneColumns S)"
    and s: "sourceMissing = filter (\<lambda>c. GetColumn (CloneColumns S) (col_name c) = None
      \<and> \<not> shouldSkipColumn (col_name c) sd au du m) (CloneColumns T)"
    by auto
  show "col_name ` set targetMissing =
      {n \<in> to_lower ` col_name ` set S - {[]}. n \<notin> to_lower ` col_name ` set T
         \<and> \<not> shouldSkipColumn n sd au du m}"
    unfolding t
    by (subst names_filter [of "\<lambda>n. GetColumn (CloneColumns T) n = None \<and> \<not> shouldSkipColumn n sd au du m"])
      (simp only: GetColumn_None_iff names_CloneColumns, blast)
  show "col_name ` set sourceMissing =
      {n \<in> to_lower ` col_name ` set T - {[]}. n \<notin> to_lower ` col_name ` set S
         \<and> \<not> shouldSkipColumn n sd au du m}"
    unfolding s
    by (subst names_filter [of "\<lambda>n. GetColumn (CloneColumns S) n = None \<and> \<not> shouldSkipColumn n sd au du m"])
      (simp only: GetColumn_None_iff names_CloneColumns, blast)
  show "columns_inv targetMissing" "columns_inv sourceMissing"
    by (simp_all add: t s columns_inv_filter columns_inv_CloneColumns)
qed

text \<open>
  C29. The schema diff is exact: it reports as missing in the target the lower-cased names of the
  stream that the target lacks, and as missing in the source the converse, in both cases without
  the internal columns that the settings switch off; both results have distinct, non-empty names.
\<close>

theorem Diff_exact:
  "col_name ` set (snd (Diff S T sd au du m)) =
     {n. n \<in> to_lower ` col_name ` set S \<and> n \<noteq> [] \<and> n \<notin> to_lower ` col_name ` set T
        \<and> \<not> shouldSkipColumn n sd au du m}
   \<and> col_name ` set (fst (Diff S T sd au du m)) =
     {n. n \<in> to_lower ` col_name ` set T \<and> n \<noteq> [] \<and> n \<notin> to_lower ` col_name ` set S
        \<and> \<not> shouldSkipColumn n sd au du m}
   \<and> columns_inv (fst (Diff S T sd au du m)) \<and> columns_inv (snd (Diff S T sd au du m))"
  using Diff_names [OF prod.collapse [symmetric], of S T sd au du m] by auto

end
