(* ===== verification/Config.thy ===== *)
theory Config
  imports Typing "HOL-Library.Word"
begin

text \<open>
  Configuration: topic configs (\<^verbatim>\<open>lib/kafkalib/topic.go\<close>), BigQuery partition settings
  (\<^verbatim>\<open>lib/kafkalib/partition\<close>), the file's sections, defaults and validation
  (\<^verbatim>\<open>lib/config\<close>). A pointer field of the Go struct is an option. The bytes of the file and
  the YAML decoder are not modelled: \<open>readFileToConfig\<close> takes the decoded value or the error.
  \<^verbatim>\<open>BufferRows\<close> is a Go \<^verbatim>\<open>uint\<close>, so it is a 64-bit word and
  \<^verbatim>\<open>int(c.BufferRows)\<close> is its signed reading.
\<close>

section \<open>Partition settings\<close>

record BigQuerySettings =
  PartitionType :: string
  PartitionField :: string
  PartitionBy :: string

definition ValidPartitionTypes :: "string list" where
  "ValidPartitionTypes = [''time'']"

definition ValidPartitionBy :: "string list" where
  "ValidPartitionBy = [''daily'']"

definition show_strings :: "string list \<Rightarrow> string" where
  "show_strings ss = ''['' @ join '' '' ss @ '']''"

definition BigQuerySettings_Valid :: "BigQuerySettings option \<Rightarrow> unit outcome" where
  "BigQuerySettings_Valid s =
     (case s of None \<Rightarrow> Err (errorf ''bigQuerySettings is nil'')
      | Some b \<Rightarrow>
          if PartitionType b = [] then Err (errorf ''partitionTypes cannot be empty'')
          else if PartitionField b = [] then Err (errorf ''partitionField cannot be empty'')
          else if PartitionBy b = [] then Err (errorf ''partitionBy cannot be empty'')
          else if PartitionType b \<notin> set ValidPartitionTypes
          then Err (errorf (''partitionType must be one of: '' @ show_strings ValidPartitionTypes))
          else if PartitionBy b \<notin> set ValidPartitionBy
          then Err (errorf (''partitionBy must be one of: '' @ show_strings ValidPartitionBy))
          else Ret ())"

definition GenerateMergeString :: "BigQuerySettings option \<Rightarrow> string list \<Rightarrow> string outcome" where
  "GenerateMergeString s values =
     bind_out (wrap_out ''failed to validate bigQuerySettings: '' (BigQuerySettings_Valid s))
       (\<lambda>_. if values = [] then Err (errorf ''values cannot be empty'')
            else (case s of None \<Rightarrow> Panic nil_dereference
              | Some b \<Rightarrow>
                  if PartitionType b = ''time'' \<and> PartitionBy b = ''daily''
                  then Ret (''DATE(c.'' @ PartitionField b @ '') IN ('' @
                         StringsJoinAddSingleQuotes values @ '')'')
                  else Err (errorf (''unexpected partitionType: '' @ PartitionType b @
                         '' and/or partitionBy: '' @ PartitionBy b))))"

section \<open>Topic configs\<close>

record TopicConfig =
  tc_Database :: string
  tc_TableName :: string
  tc_Schema :: string
  tc_Topic :: string
  tc_IdempotentKey :: string
  tc_CDCFormat :: string
  tc_CDCKeyFormat :: string
  tc_DropDeletedColumns :: bool
  tc_SoftDelete :: bool
  tc_SkippedOperations :: string
  tc_IncludeArtieUpdatedAt :: bool
  tc_IncludeDatabaseUpdatedAt :: bool
  tc_BigQueryPartitionSettings :: "BigQuerySettings option"
  tc_opsToSkipMap :: "bool gomap option"

definition StringKeyFmt :: string where
  "StringKeyFmt = ''org.apache.kafka.connect.storage.StringConverter''"

definition JSONKeyFmt :: string where
  "JSONKeyFmt = ''org.apache.kafka.connect.json.JsonConverter''"

definition validKeyFormats :: "string list" where
  "validKeyFormats = [StringKeyFmt, JSONKeyFmt]"

definition TopicConfig_Load :: "TopicConfig \<Rightarrow> TopicConfig" where
  "TopicConfig_Load t =
     t\<lparr>tc_opsToSkipMap :=
        Some (foldl (\<lambda>m op. gm_put (to_lower (trim_space op)) True m) []
               (split_on (CHR '','') (tc_SkippedOperations t)))\<rparr>"

definition TopicConfig_ShouldSkip :: "TopicConfig \<Rightarrow> string \<Rightarrow> bool outcome" where
  "TopicConfig_ShouldSkip t op =
     (case tc_opsToSkipMap t of
        None \<Rightarrow> Panic ''opsToSkipMap is nil, Load() was never called''
      | Some m \<Rightarrow> Ret (gm_get m op \<noteq> None))"

definition TopicConfig_String :: "TopicConfig \<Rightarrow> string" where
  "TopicConfig_String t =
     ''db='' @ tc_Database t @ '', schema='' @ tc_Schema t @ '', tableNameOverride='' @ tc_TableName t @
     '', topic='' @ tc_Topic t @ '', idempotentKey='' @ tc_IdempotentKey t @ '', cdcFormat='' @
     tc_CDCFormat t @ '', dropDeletedColumns='' @ show_bool (tc_DropDeletedColumns t) @
     '', skippedOperations='' @ tc_SkippedOperations t"

definition TopicConfig_Validate :: "TopicConfig \<Rightarrow> unit outcome" where
  "TopicConfig_Validate t =
     (if array_Empty [tc_Database t, tc_Schema t, tc_Topic t, tc_CDCFormat t]
      then Err (errorf ''database, schema, topic or cdc format is empty'')
      else if tc_CDCKeyFormat t \<notin> set validKeyFormats
      then Err (errorf (''invalid cdc key format: '' @ tc_CDCKeyFormat t))
      else if tc_opsToSkipMap t = None
      then Err (errorf ''opsToSkipMap is nil, call Load() first'')
      else Ret ())"

record DatabaseSchemaPair =
  dsp_Database :: string
  dsp_Schema :: string

text \<open>
  The pairs come from a range over a Go map and may be in any order; the model lists them in the
  order of insertion.
\<close>

definition GetUniqueDatabaseAndSchema :: "TopicConfig list \<Rightarrow> DatabaseSchemaPair list" where
  "GetUniqueDatabaseAndSchema tcs =
     map snd (foldl (\<lambda>dbMap tc.
         gm_put (tc_Database tc @ ''###'' @ tc_Schema tc)
           \<lparr>dsp_Database = tc_Database tc, dsp_Schema = tc_Schema tc\<rparr> dbMap) [] tcs)"

section \<open>The sections of the configuration file\<close>

record Pubsub_config =
  ps_ProjectID :: string
  ps_TopicConfigs :: "TopicConfig list"
  ps_PathToCredentials :: string

record Kafka_config =
  k_BootstrapServer :: string
  k_GroupID :: string
  k_Username :: string
  k_Password :: string
  k_EnableAWSMSKIAM :: bool
  k_TopicConfigs :: "TopicConfig list"

record S3Settings =
  s3_OptionalPrefix :: string
  s3_Bucket :: string
  s3_AwsAccessKeyID :: string
  s3_AwsSecretAccessKey :: string
  s3_OutputFormat :: string

record Redshift_config =
  rs_Host :: string
  rs_Port :: int
  rs_Database :: string
  rs_Username :: string
  rs_Password :: string
  rs_Bucket :: string
  rs_OptionalS3Prefix :: string
  rs_CredentialsClause :: string
  rs_SkipLgCols :: bool

record MSSQL_config =
  ms_Host :: string
  ms_Port :: int
  ms_Username :: string
  ms_Password :: string
  ms_Database :: string

record BigQuery_config =
  bq_PathToCredentials :: string
  bq_DefaultDataset :: string
  bq_ProjectID :: string
  bq_Location :: string
  bq_BatchSize :: int

record Snowflake_config =
  sn_AccountID :: string
  sn_Username :: string
  sn_Password :: string
  sn_Warehouse :: string
  sn_Region :: string
  sn_Host :: string
  sn_Application :: string

record Config =
  cfg_Mode :: mode
  cfg_Output :: destination_kind
  cfg_Queue :: queue_kind
  cfg_FlushIntervalSeconds :: int
  cfg_FlushSizeKb :: int
  cfg_BufferRows :: "64 word"
  cfg_Pubsub :: "Pubsub_config option"
  cfg_Kafka :: "Kafka_config option"
  cfg_TypingSettings :: Settings
  cfg_UppercaseEscapedNames :: bool
  cfg_MSSQL :: "MSSQL_config option"
  cfg_BigQuery :: "BigQuery_config option"
  cfg_Redshift :: "Redshift_config option"
  cfg_S3 :: "S3Settings option"
  cfg_Snowflake :: "Snowflake_config option"
  cfg_MetricsProvider :: string
  cfg_MetricsSettings :: row

definition defaultFlushTimeSeconds :: int where "defaultFlushTimeSeconds = 10"
definition defaultFlushSizeKb :: int where "defaultFlushSizeKb = 25 * 1024"
definition defaultBufferPoolSize :: "64 word" where "defaultBufferPoolSize = 30000"
definition bufferPoolSizeMin :: int where "bufferPoolSizeMin = 5"
definition FlushIntervalSecondsMin :: int where "FlushIntervalSecondsMin = 5"
definition FlushIntervalSecondsMax :: int where "FlushIntervalSecondsMax = 6 * 60 * 60"

definition BootstrapServers :: "Kafka_config \<Rightarrow> string list" where
  "BootstrapServers k = split_on (CHR '','') (k_BootstrapServer k)"

definition Pubsub_String :: "Pubsub_config \<Rightarrow> string" where
  "Pubsub_String p =
     ''project_id='' @ ps_ProjectID p @ '', pathToCredentials='' @ ps_PathToCredentials p"

definition Kafka_String :: "Kafka_config \<Rightarrow> string" where
  "Kafka_String k =
     ''bootstrapServer='' @ k_BootstrapServer k @ '', groupID='' @ k_GroupID k @ '', user_set='' @
     show_bool (k_Username k \<noteq> []) @ '', pass_set='' @ show_bool (k_Password k \<noteq> [])"

definition S3Settings_Validate :: "S3Settings option \<Rightarrow> unit outcome" where
  "S3Settings_Validate so =
     (case so of None \<Rightarrow> Err (errorf ''s3 settings are nil'')
      | Some s \<Rightarrow>
          if stringutil_Empty [s3_Bucket s, s3_AwsSecretAccessKey s, s3_AwsAccessKeyID s]
          then Err (errorf ''one of s3 settings is empty'')
          else if \<not> IsValidS3OutputFormat (s3_OutputFormat s)
          then Err (errorf (''invalid s3 output format '' @ [CHR 0x22] @ s3_OutputFormat s @ [CHR 0x22]))
          else Ret ())"

definition BigQuery_LoadDefaultValues :: "BigQuery_config \<Rightarrow> BigQuery_config" where
  "BigQuery_LoadDefaultValues b = (if bq_BatchSize b = 0 then b\<lparr>bq_BatchSize := 1000\<rparr> else b)"

definition BigQuery_DSN :: "BigQuery_config \<Rightarrow> string" where
  "BigQuery_DSN b =
     (if bq_Location b \<noteq> []
      then ''bigquery://'' @ bq_ProjectID b @ ''/'' @ bq_Location b @ ''/'' @ bq_DefaultDataset b
      else ''bigquery://'' @ bq_ProjectID b @ ''/'' @ bq_DefaultDataset b)"

definition ValidateMSSQL :: "Config \<Rightarrow> unit outcome" where
  "ValidateMSSQL c =
     (if cfg_Output c \<noteq> MSSQL
      then Err (errorf (''output is not mssql, output: '' @ show_destination (cfg_Output c)))
      else (case cfg_MSSQL c of None \<Rightarrow> Err (errorf ''mssql config is nil'')
        | Some m \<Rightarrow>
            if stringutil_Empty [ms_Host m, ms_Username m, ms_Password m, ms_Database m]
            then Err (errorf ''one of mssql settings is empty (host, username, password, database)'')
            else if ms_Port m \<le> 0 then Err (errorf (''invalid mssql port: '' @ show_int (ms_Port m)))
            else Ret ()))"

definition ValidateRedshift :: "Config \<Rightarrow> unit outcome" where
  "ValidateRedshift c =
     (if cfg_Output c \<noteq> Redshift
      then Err (errorf (''output is not redshift, output: '' @ show_destination (cfg_Output c)))
      else (case cfg_Redshift c of None \<Rightarrow> Err (errorf ''redshift cfg is nil'')
        | Some r \<Rightarrow>
            if stringutil_Empty [rs_Host r, rs_Database r, rs_Username r, rs_Password r, rs_Bucket r,
                 rs_CredentialsClause r]
            then Err (errorf ''one of redshift settings is empty'')
            else if rs_Port r \<le> 0 then Err (errorf ''redshift invalid port'')
            else Ret ()))"

fun show_queue :: "queue_kind \<Rightarrow> string" where
  "show_queue KafkaQueue = ''kafka''"
| "show_queue PubSubQueue = ''pubsub''"
| "show_queue (OtherQueue s) = s"

definition TopicConfigs :: "Config \<Rightarrow> TopicConfig list outcome" where
  "TopicConfigs c =
     (case cfg_Queue c of
        KafkaQueue \<Rightarrow> deref (cfg_Kafka c) k_TopicConfigs
      | PubSubQueue \<Rightarrow> deref (cfg_Pubsub c) ps_TopicConfigs
      | OtherQueue s \<Rightarrow> Err (errorf (''unsupported queue: '' @ s)))"

section \<open>Validation and loading\<close>

fun validate_topics :: "mode \<Rightarrow> TopicConfig list \<Rightarrow> unit outcome" where
  "validate_topics m [] = Ret ()"
| "validate_topics m (tc # tcs) =
     bind_out (wrap_out ''failed to validate topic config: '' (TopicConfig_Validate tc))
       (\<lambda>_. if m = History \<and> tc_DropDeletedColumns tc
            then Err (errorf (''dropDeletedColumns is not supported in history mode, topic: '' @
                   TopicConfig_String tc))
            else if m = History \<and> \<not> tc_IncludeDatabaseUpdatedAt tc
            then Err (errorf (''includeDatabaseUpdatedAt is required in history mode, topic: '' @
                   TopicConfig_String tc))
            else validate_topics m tcs)"

definition validate_output :: "Config \<Rightarrow> unit outcome" where
  "validate_output c =
     (case cfg_Output c of
        MSSQL \<Rightarrow> ValidateMSSQL c
      | Redshift \<Rightarrow> ValidateRedshift c
      | S3 \<Rightarrow> S3Settings_Validate (cfg_S3 c)
      | _ \<Rightarrow> Ret ())"

definition validate_queue :: "Config \<Rightarrow> unit outcome" where
  "validate_queue c =
     (if cfg_Queue c = KafkaQueue then
        (case cfg_Kafka c of None \<Rightarrow> Err (errorf ''kafka config is nil'')
         | Some k \<Rightarrow>
             if array_Empty [k_GroupID k, k_BootstrapServer k]
             then Err (errorf ''kafka group or bootstrap server is empty'') else Ret ())
      else if cfg_Queue c = PubSubQueue then
        (case cfg_Pubsub c of None \<Rightarrow> Err (errorf ''pubsub config is nil'')
         | Some p \<Rightarrow>
             if array_Empty [ps_ProjectID p, ps_PathToCredentials p]
             then Err (errorf ''pubsub projectID or pathToCredentials is empty'') else Ret ())
      else Ret ())"

definition Config_Validate :: "Config \<Rightarrow> unit outcome" where
  "Config_Validate c =
     (if cfg_FlushSizeKb c \<le> 0
      then Err (errorf (''flush size pool has to be a positive number, current value: '' @
             show_int (cfg_FlushSizeKb c)))
      else if \<not> BetweenEq FlushIntervalSecondsMin FlushIntervalSecondsMax (cfg_FlushIntervalSeconds c)
      then Err (errorf (''flush interval is outside of our range, seconds: '' @
             show_int (cfg_FlushIntervalSeconds c) @ '', expected start: '' @
             show_int FlushIntervalSecondsMin @ '', end: '' @ show_int FlushIntervalSecondsMax))
      else if bufferPoolSizeMin > sint (cfg_BufferRows c)
      then Err (errorf (''buffer pool is too small, min value: '' @ show_int bufferPoolSizeMin @
             '', actual: '' @ show_int (sint (cfg_BufferRows c))))
      else if \<not> IsValidDestination (cfg_Output c)
      then Err (errorf (''invalid destination: '' @ show_destination (cfg_Output c)))
      else bind_out (validate_output c) (\<lambda>_.
           bind_out (validate_queue c) (\<lambda>_.
           bind_out (wrap_out ''failed to retrieve topic configs: '' (TopicConfigs c)) (\<lambda>tcs.
             if tcs = [] then Err (errorf ''no topic configs found'')
             else validate_topics (cfg_Mode c) tcs))))"

definition config_defaults :: "Config \<Rightarrow> Config" where
  "config_defaults c =
     (let c1 = (if cfg_Queue c = OtherQueue [] then c\<lparr>cfg_Queue := KafkaQueue\<rparr> else c);
          c2 = (if cfg_FlushIntervalSeconds c1 = 0
                then c1\<lparr>cfg_FlushIntervalSeconds := defaultFlushTimeSeconds\<rparr> else c1);
          c3 = (if cfg_BufferRows c2 = 0 then c2\<lparr>cfg_BufferRows := defaultBufferPoolSize\<rparr> else c2);
          c4 = (if cfg_FlushSizeKb c3 = 0 then c3\<lparr>cfg_FlushSizeKb := defaultFlushSizeKb\<rparr> else c3)
      in if cfg_Mode c4 = OtherMode [] then c4\<lparr>cfg_Mode := Replication\<rparr> else c4)"

definition readFileToConfig :: "Config outcome \<Rightarrow> Config outcome" where
  "readFileToConfig decoded = bind_out decoded (\<lambda>c. Ret (config_defaults c))"

text \<open>The loop of \<^verbatim>\<open>LoadSettings\<close> calls \<^verbatim>\<open>Load\<close> through the pointers of the list.\<close>

definition load_topics :: "Config \<Rightarrow> Config" where
  "load_topics c =
     (case cfg_Queue c of
        KafkaQueue \<Rightarrow>
          c\<lparr>cfg_Kafka := map_option (\<lambda>k. k\<lparr>k_TopicConfigs := map TopicConfig_Load (k_TopicConfigs k)\<rparr>)
              (cfg_Kafka c)\<rparr>
      | PubSubQueue \<Rightarrow>
          c\<lparr>cfg_Pubsub := map_option (\<lambda>p. p\<lparr>ps_TopicConfigs := map TopicConfig_Load (ps_TopicConfigs p)\<rparr>)
              (cfg_Pubsub c)\<rparr>
      | OtherQueue s \<Rightarrow> c)"

definition LoadSettings :: "Config outcome \<Rightarrow> Config outcome" where
  "LoadSettings decoded =
     bind_out (wrap_out ''failed to parse config file: '' (readFileToConfig decoded)) (\<lambda>c.
     bind_out (TopicConfigs c) (\<lambda>tcs.
     let c' = load_topics c in
     bind_out (wrap_out ''failed to validate config: '' (Config_Validate c')) (\<lambda>_. Ret c')))"


section \<open>Facts\<close>

lemma gm_get_foldl_set:
  "gm_get (foldl (\<lambda>m x. gm_put (f x) True m) m0 xs) k \<noteq> None
     \<longleftrightarrow> k \<in> f ` set xs \<or> gm_get m0 k \<noteq> None"
  by (induction xs arbitrary: m0) auto

lemma TopicConfig_ShouldSkip_Load:
  "TopicConfig_ShouldSkip (TopicConfig_Load t) op =
     Ret (\<exists>p\<in>set (split_on (CHR '','') (tc_SkippedOperations t)). op = to_lower (trim_space p))"
  using gm_get_foldl_set [of "\<lambda>p. to_lower (trim_space p)" "[]" _ op]
  by (auto simp: TopicConfig_ShouldSkip_def TopicConfig_Load_def simp del: not_None_eq)

lemma deref_Ret_iff [simp]: "deref p f = Ret y \<longleftrightarrow> (\<exists>x. p = Some x \<and> y = f x)"
  by (cases p) auto

lemma TopicConfig_Validate_Ret:
  "TopicConfig_Validate t = Ret () \<longleftrightarrow>
     tc_Database t \<noteq> [] \<and> tc_Schema t \<noteq> [] \<and> tc_Topic t \<noteq> [] \<and> tc_CDCFormat t \<noteq> []
     \<and> tc_CDCKeyFormat t \<in> {StringKeyFmt, JSONKeyFmt} \<and> tc_opsToSkipMap t \<noteq> None"
  by (auto simp: TopicConfig_Validate_def validKeyFormats_def)

lemma validate_topics_Ret:
  "validate_topics m tcs = Ret () \<longleftrightarrow>
     (\<forall>tc\<in>set tcs. TopicConfig_Validate tc = Ret ()
        \<and> (m = History \<longrightarrow> \<not> tc_DropDeletedColumns tc \<and> tc_IncludeDatabaseUpdatedAt tc))"
  by (induction m tcs rule: validate_topics.induct) auto

lemma sint_le_uint64: "sint (w :: 64 word) \<le> uint w"
  using zmod_le_nonneg_dividend [of "uint w" "2 ^ 64"]
  by (simp add: sint_uint signed_take_bit_eq_take_bit_minus take_bit_eq_mod)

lemma Config_Validate_Ret:
  assumes "Config_Validate c = Ret ()"
  shows "0 < cfg_FlushSizeKb c"
    and "5 \<le> cfg_FlushIntervalSeconds c" and "cfg_FlushIntervalSeconds c \<le> 21600"
    and "5 \<le> unat (cfg_BufferRows c)"
    and "IsValidDestination (cfg_Output c)"
    and "\<exists>tcs. TopicConfigs c = Ret tcs \<and> tcs \<noteq> [] \<and> validate_topics (cfg_Mode c) tcs = Ret ()"
proof -
  have "sint (cfg_BufferRows c) \<ge> 5"
    using assms by (auto simp: Config_Validate_def bufferPoolSizeMin_def split: if_splits)
  then show "5 \<le> unat (cfg_BufferRows c)"
    using sint_le_uint64 [of "cfg_BufferRows c"] unfolding unat_eq_nat_uint by linarith
qed (use assms in \<open>auto simp: Config_Validate_def BetweenEq_def FlushIntervalSecondsMin_def
       FlushIntervalSecondsMax_def split: if_splits\<close>)

lemma TopicConfigs_load_topics:
  "TopicConfigs c = Ret tcs \<Longrightarrow> TopicConfigs (load_topics c) = Ret (map TopicConfig_Load tcs)"
  by (auto simp: TopicConfigs_def load_topics_def split: queue_kind.splits)

lemma LoadSettings_Ret:
  assumes "LoadSettings decoded = Ret c"
  obtains c0 tcs where "decoded = Ret c0" and "c = load_topics (config_defaults c0)"
    and "Config_Validate c = Ret ()" and "TopicConfigs c = Ret (map TopicConfig_Load tcs)"
    and "tcs \<noteq> []"
proof -
  from assms obtain c0 tcs where "decoded = Ret c0" and c: "c = load_topics (config_defaults c0)"
    and v: "Config_Validate c = Ret ()" and t: "TopicConfigs (config_defaults c0) = Ret tcs"
    by (auto simp: LoadSettings_def readFileToConfig_def Let_def)
  moreover have "TopicConfigs c = Ret (map TopicConfig_Load tcs)"
    using TopicConfigs_load_topics [OF t] c by simp
  moreover from calculation have "tcs \<noteq> []"
    using Config_Validate_Ret(6) [OF v] by auto
  ultimately show ?thesis using that by blast
qed

definition tc_pair :: "TopicConfig \<Rightarrow> DatabaseSchemaPair" where
  "tc_pair tc = \<lparr>dsp_Database = tc_Database tc, dsp_Schema = tc_Schema tc\<rparr>"

definition tc_key :: "TopicConfig \<Rightarrow> string" where
  "tc_key tc = tc_Database tc @ ''###'' @ tc_Schema tc"

lemma unique_map_invariant:
  assumes "gm_wf m" and "\<And>k v. gm_get m k = Some v \<Longrightarrow> \<exists>tc\<in>A. k = tc_key tc \<and> v = tc_pair tc"
  shows "gm_wf (foldl (\<lambda>m tc. gm_put (tc_key tc) (tc_pair tc) m) m tcs)
     \<and> (\<forall>k v. gm_get (foldl (\<lambda>m tc. gm_put (tc_key tc) (tc_pair tc) m) m tcs) k = Some v
           \<longrightarrow> (\<exists>tc\<in>A \<union> set tcs. k = tc_key tc \<and> v = tc_pair tc))
     \<and> (\<forall>k. gm_get (foldl (\<lambda>m tc. gm_put (tc_key tc) (tc_pair tc) m) m tcs) k \<noteq> None
           \<longleftrightarrow> gm_get m k \<noteq> None \<or> k \<in> tc_key ` set tcs)"
  using assms
proof (induction tcs arbitrary: m A)
  case Nil
  then show ?case by auto
next
  case (Cons t tcs)
  let ?m = "gm_put (tc_key t) (tc_pair t) m"
  have "gm_wf ?m" using Cons.prems by simp
  moreover have "\<And>k v. gm_get ?m k = Some v \<Longrightarrow> \<exists>tc\<in>insert t A. k = tc_key tc \<and> v = tc_pair tc"
    using Cons.prems(2) by (auto split: if_splits)
  ultimately show ?case
    using Cons.IH [of ?m "insert t A"] by auto
qed

lemma GetUniqueDatabaseAndSchema_eq:
  "GetUniqueDatabaseAndSchema tcs = map snd (foldl (\<lambda>m tc. gm_put (tc_key tc) (tc_pair tc) m) [] tcs)"
  by (simp add: GetUniqueDatabaseAndSchema_def tc_pair_def tc_key_def)

text \<open>
  The pairs returned are pairs of topic configs; when the joined key tells the configs apart, every
  config's pair is returned, once.
\<close>

lemma GetUniqueDatabaseAndSchema_set:
  assumes "\<And>a b. \<lbrakk>a \<in> set tcs; b \<in> set tcs; tc_key a = tc_key b\<rbrakk> \<Longrightarrow> tc_pair a = tc_pair b"
  shows "set (GetUniqueDatabaseAndSchema tcs) = tc_pair ` set tcs"
    and "distinct (GetUniqueDatabaseAndSchema tcs)"
proof -
  define m where "m = foldl (\<lambda>m tc. gm_put (tc_key tc) (tc_pair tc) m) [] tcs"
  have wf: "gm_wf m" and get: "\<And>k v. gm_get m k = Some v \<Longrightarrow> \<exists>tc\<in>set tcs. k = tc_key tc \<and> v = tc_pair tc"
    and dom: "\<And>k. gm_get m k \<noteq> None \<longleftrightarrow> k \<in> tc_key ` set tcs"
    using unique_map_invariant [of "[]" "{}" tcs] by (auto simp: m_def)
  have mem: "(k, v) \<in> set m \<longleftrightarrow> (\<exists>tc\<in>set tcs. k = tc_key tc \<and> v = tc_pair tc)" for k v
  proof
    assume "(k, v) \<in> set m"
    then show "\<exists>tc\<in>set tcs. k = tc_key tc \<and> v = tc_pair tc"
      using get wf by (auto simp: gm_get_iff_mem)
  next
    assume "\<exists>tc\<in>set tcs. k = tc_key tc \<and> v = tc_pair tc"
    then obtain tc where tc: "tc \<in> set tcs" "k = tc_key tc" "v = tc_pair tc" by auto
    then obtain w where w: "gm_get m k = Some w" using dom [of k] by auto
    then have "w = v" using get [OF w] assms tc by metis
    with w wf show "(k, v) \<in> set m" by (simp add: gm_get_iff_mem)
  qed
  show "set (GetUniqueDatabaseAndSchema tcs) = tc_pair ` set tcs"
    unfolding GetUniqueDatabaseAndSchema_eq m_def [symmetric] set_map using mem
    by (auto simp: image_def) (metis snd_conv)
  have "inj_on snd (set m)"
    by (auto simp: inj_on_def mem tc_pair_def tc_key_def)
  then show "distinct (GetUniqueDatabaseAndSchema tcs)"
    using wf by (simp add: GetUniqueDatabaseAndSchema_eq m_def [symmetric] distinct_map gm_wf_def)
qed

section \<open>Properties\<close>

text \<open>
  C37. A configuration that loads is safe to run: the flush rules are in range, the destination is
  a known one, there is at least one topic, and every topic has its names and key format, answers
  \<^verbatim>\<open>ShouldSkip\<close> without panicking, and in history mode keeps its dropped columns and carries
  the database timestamp.
\<close>

theorem LoadSettings_sound:
  assumes "LoadSettings decoded = Ret c"
  shows "0 < cfg_FlushSizeKb c \<and> 5 \<le> cfg_FlushIntervalSeconds c
    \<and> cfg_FlushIntervalSeconds c \<le> 21600 \<and> 5 \<le> unat (cfg_BufferRows c)
    \<and> cfg_Output c \<in> {BigQuery, Snowflake, Redshift, S3, MSSQL, Test}
    \<and> (\<exists>tcs. TopicConfigs c = Ret tcs \<and> tcs \<noteq> []
        \<and> (\<forall>tc\<in>set tcs. tc_Database tc \<noteq> [] \<and> tc_Schema tc \<noteq> [] \<and> tc_Topic tc \<noteq> []
             \<and> tc_CDCFormat tc \<noteq> [] \<and> tc_CDCKeyFormat tc \<in> {StringKeyFmt, JSONKeyFmt}
             \<and> (\<forall>op. is_ret (TopicConfig_ShouldSkip tc op))
             \<and> (cfg_Mode c = History \<longrightarrow>
                  \<not> tc_DropDeletedColumns tc \<and> tc_IncludeDatabaseUpdatedAt tc)))"
proof -
  from assms obtain tcs where v: "Config_Validate c = Ret ()"
    and t: "TopicConfigs c = Ret (map TopicConfig_Load tcs)" and ne: "tcs \<noteq> []"
    by (rule LoadSettings_Ret)
  have "validate_topics (cfg_Mode c) (map TopicConfig_Load tcs) = Ret ()"
    using Config_Validate_Ret(6) [OF v] t by simp
  then have "\<forall>tc\<in>set (map TopicConfig_Load tcs). TopicConfig_Validate tc = Ret ()
      \<and> (cfg_Mode c = History \<longrightarrow> \<not> tc_DropDeletedColumns tc \<and> tc_IncludeDatabaseUpdatedAt tc)"
    by (simp only: validate_topics_Ret)
  moreover have "\<forall>tc\<in>set (map TopicConfig_Load tcs). \<forall>op. is_ret (TopicConfig_ShouldSkip tc op)"
    by (simp add: TopicConfig_ShouldSkip_Load)
  ultimately show ?thesis
    using t ne Config_Validate_Ret(1-5) [OF v]
    by (simp add: TopicConfig_Validate_Ret IsValidDestination_iff)
qed

definition sample_topic :: TopicConfig where
  "sample_topic =
     \<lparr>tc_Database = ''db'', tc_TableName = [], tc_Schema = ''public'', tc_Topic = ''orders'',
      tc_IdempotentKey = [], tc_CDCFormat = ''debezium.postgres'', tc_CDCKeyFormat = JSONKeyFmt,
      tc_DropDeletedColumns = False, tc_SoftDelete = False, tc_SkippedOperations = ''R, d'',
      tc_IncludeArtieUpdatedAt = False, tc_IncludeDatabaseUpdatedAt = True,
      tc_BigQueryPartitionSettings = None, tc_opsToSkipMap = None\<rparr>"

definition sample_config :: Config where
  "sample_config =
     \<lparr>cfg_Mode = OtherMode [], cfg_Output = Snowflake, cfg_Queue = OtherQueue [],
      cfg_FlushIntervalSeconds = 0, cfg_FlushSizeKb = 0, cfg_BufferRows = 0, cfg_Pubsub = None,
      cfg_Kafka = Some \<lparr>k_BootstrapServer = ''localhost:9092'', k_GroupID = ''g'', k_Username = [],
        k_Password = [], k_EnableAWSMSKIAM = False, k_TopicConfigs = [sample_topic]\<rparr>,
      cfg_TypingSettings = \<lparr>AdditionalDateFormats = [], CreateAllColumnsIfAvailable = False\<rparr>,
      cfg_UppercaseEscapedNames = False, cfg_MSSQL = None, cfg_BigQuery = None,
      cfg_Redshift = None, cfg_S3 = None, cfg_Snowflake = None, cfg_MetricsProvider = [],
      cfg_MetricsSettings = []\<rparr>"

theorem LoadSettings_sound_witness:
  "is_ret (LoadSettings (Ret sample_config))
     \<and> cfg_FlushIntervalSeconds (load_topics (config_defaults sample_config)) = 10
     \<and> 5 \<le> unat (cfg_BufferRows (load_topics (config_defaults sample_config)))"
proof -
  have "LoadSettings (Ret sample_config) = Ret (load_topics (config_defaults sample_config))"
    by code_simp
  moreover from LoadSettings_sound [OF this]
  have "5 \<le> unat (cfg_BufferRows (load_topics (config_defaults sample_config)))"
    by blast
  ultimately show ?thesis
    by (simp add: config_defaults_def load_topics_def sample_config_def defaultFlushTimeSeconds_def)
qed

text \<open>
  C2. A file that selects Kafka (or names no queue) and has no Kafka section makes the loader
  dereference nil before validation can report the missing section.
\<close>

theorem LoadSettings_missing_kafka_panics:
  assumes "cfg_Queue c = KafkaQueue \<or> cfg_Queue c = OtherQueue []" and "cfg_Kafka c = None"
  shows "LoadSettings (Ret c) = Panic nil_dereference"
  using assms
  by (auto simp: LoadSettings_def readFileToConfig_def config_defaults_def TopicConfigs_def Let_def)

theorem LoadSettings_missing_kafka_panics_witness:
  "LoadSettings (Ret (sample_config\<lparr>cfg_Kafka := None\<rparr>)) = Panic nil_dereference"
  by (rule LoadSettings_missing_kafka_panics) (simp_all add: sample_config_def)

end
