(* ===== verification/Message.thy ===== *)
theory Message
  imports Values
begin

text \<open>
  Queue messages (\<^verbatim>\<open>lib/artie/message.go\<close>): a wrapper that holds a Kafka message, a Pub/Sub
  message or neither. The two message types belong to client libraries; the model keeps the fields
  the code reads. The metrics of a message are in \<open>Metrics\<close>.
\<close>

datatype Message_Kind = InvalidMessage | KafkaMessage | PubSubMessage

record kafka_Message =
  km_Topic :: string
  km_Partition :: int
  km_Offset :: int
  km_Key :: string
  km_Value :: string
  km_Time :: gotime

record pubsubWrapper =
  pm_topic :: string
  pm_ID :: string
  pm_OrderingKey :: string
  pm_Data :: string
  pm_PublishTime :: gotime

record Message =
  KafkaMsg :: "kafka_Message option"
  PubSub :: "pubsubWrapper option"

definition zero_time :: gotime where
  "zero_time = \<lparr>t_nanos = - 62135596800 * nanos_per_second, t_zone = ''UTC''\<rparr>"

text \<open>A Pub/Sub message is passed without its topic, which \<^verbatim>\<open>NewMessage\<close> fills in.\<close>

definition NewMessage :: "kafka_Message option \<Rightarrow> pubsubWrapper option \<Rightarrow> string \<Rightarrow> Message" where
  "NewMessage kafkaMsg pubsubMsg topic =
     \<lparr>KafkaMsg = kafkaMsg, PubSub = map_option (\<lambda>p. p\<lparr>pm_topic := topic\<rparr>) pubsubMsg\<rparr>"

definition Message_Kind_of :: "Message \<Rightarrow> Message_Kind" where
  "Message_Kind_of m =
     (if KafkaMsg m \<noteq> None then KafkaMessage
      else if PubSub m \<noteq> None then PubSubMessage
      else InvalidMessage)"

definition Message_PublishTime :: "Message \<Rightarrow> gotime" where
  "Message_PublishTime m =
     (case KafkaMsg m of Some k \<Rightarrow> km_Time k
      | None \<Rightarrow> (case PubSub m of Some p \<Rightarrow> pm_PublishTime p | None \<Rightarrow> zero_time))"

definition Message_Topic :: "Message \<Rightarrow> string" where
  "Message_Topic m =
     (case KafkaMsg m of Some k \<Rightarrow> km_Topic k
      | None \<Rightarrow> (case PubSub m of Some p \<Rightarrow> pm_topic p | None \<Rightarrow> []))"

definition Message_Partition :: "Message \<Rightarrow> string" where
  "Message_Partition m =
     (case KafkaMsg m of Some k \<Rightarrow> show_int (km_Partition k)
      | None \<Rightarrow> (case PubSub m of Some p \<Rightarrow> ''no_partition'' | None \<Rightarrow> []))"

definition Message_Key :: "Message \<Rightarrow> string" where
  "Message_Key m =
     (case KafkaMsg m of Some k \<Rightarrow> km_Key k
      | None \<Rightarrow> (case PubSub m of Some p \<Rightarrow> pm_OrderingKey p | None \<Rightarrow> []))"

definition Message_Value :: "Message \<Rightarrow> string" where
  "Message_Value m =
     (case KafkaMsg m of Some k \<Rightarrow> km_Value k
      | None \<Rightarrow> (case PubSub m of Some p \<Rightarrow> pm_Data p | None \<Rightarrow> []))"

lemma Message_Kind_of_kafka [simp]: "Message_Kind_of (NewMessage (Some k) p t) = KafkaMessage"
  by (simp add: Message_Kind_of_def NewMessage_def)

text \<open>Partitions of Kafka messages are told apart by their printed number.\<close>

lemma show_nat_inj: "show_nat a = show_nat b \<longleftrightarrow> a = b"
  by (metis digits_val_show_nat)

lemma show_int_inj: "show_int a = show_int b \<longleftrightarrow> a = b"
proof -
  have "''-'' @ x \<noteq> show_nat n" for x n
    using hd_show_nat_digit [of n] not_sign_digit by (metis append_Cons list.sel(1))
  then show ?thesis
    by (auto simp: show_int_def show_nat_inj) metis+
qed

end
