(* ===== verification/TableData.thy ===== *)
theory TableData
  imports Columns Config Message
begin

text \<open>
  The in-memory buffer of one table, \<^verbatim>\<open>lib/optimization/table_data.go\<close>: rows by primary key in
  replication mode and a list of rows in history mode, the running size estimate, the two delete
  flags, the columns and the last message of each partition.

  The lemmas show that the running size is the size of the buffered rows after every sequence of
  inserts, that the buffer refines a map from primary keys to the last row written with unavailable
  TOAST values filled in from the row before, what the flags mean, and what
  \<^verbatim>\<open>MergeColumnsFromDestination\<close> changes. Sizes are unbounded integers: a buffer whose size
  estimate passes 2^63 does not fit in memory.
\<close>

section \<open>The buffer\<close>

record Wrapper =
  wr_name :: string
  wr_escapedName :: string

definition NewWrapper :: "Column \<Rightarrow> bool \<Rightarrow> NameArgs option \<Rightarrow> Wrapper" where
  "NewWrapper col u args = \<lparr>wr_name = col_name col, wr_escapedName = Column_Name u args col\<rparr>"

record TableData =
  td_mode :: mode
  td_inMemoryColumns :: "Columns option"
  td_rowsData :: "row gomap"
  td_rows :: "row list"
  td_primaryKeys :: "string list"
  td_TopicConfig :: TopicConfig
  td_PartitionsToLastMessage :: "Message list gomap"
  td_LatestCDCTs :: gotime
  td_approxSize :: int
  td_containOtherOperations :: bool
  td_containsHardDeletes :: bool
  td_temporaryTableSuffix :: string
  td_name :: string

definition NewTableData ::
  "Columns option \<Rightarrow> mode \<Rightarrow> string list \<Rightarrow> TopicConfig \<Rightarrow> string \<Rightarrow> TableData" where
  "NewTableData cols m pks tc name =
     \<lparr>td_mode = m, td_inMemoryColumns = cols, td_rowsData = [], td_rows = [], td_primaryKeys = pks,
      td_TopicConfig = tc, td_PartitionsToLastMessage = [], td_LatestCDCTs = zero_time,
      td_approxSize = 0, td_containOtherOperations = False, td_containsHardDeletes = False,
      td_temporaryTableSuffix = [], td_name = name\<rparr>"

definition TableData_PrimaryKeys :: "bool \<Rightarrow> NameArgs option \<Rightarrow> TableData \<Rightarrow> Wrapper list" where
  "TableData_PrimaryKeys u args t =
     map (\<lambda>pk. NewWrapper (NewColumn pk Invalid) u args) (td_primaryKeys t)"

definition TableData_Name :: "bool \<Rightarrow> NameArgs option \<Rightarrow> TableData \<Rightarrow> string" where
  "TableData_Name u args t = sql_EscapeName (td_name t) u args"

definition SetInMemoryColumns :: "Columns option \<Rightarrow> TableData \<Rightarrow> TableData" where
  "SetInMemoryColumns cols t = t\<lparr>td_inMemoryColumns := cols\<rparr>"

definition AddInMemoryCol :: "Column \<Rightarrow> TableData \<Rightarrow> TableData" where
  "AddInMemoryCol col t = t\<lparr>td_inMemoryColumns := map_option (AddColumn col) (td_inMemoryColumns t)\<rparr>"

definition ReadOnlyInMemoryCols :: "TableData \<Rightarrow> Columns option" where
  "ReadOnlyInMemoryCols t =
     map_option (foldl (\<lambda>cols col. AddColumn col cols) []) (td_inMemoryColumns t)"

definition NumberOfRows :: "TableData \<Rightarrow> nat" where
  "NumberOfRows t = (if td_mode t = History then length (td_rows t) else length (td_rowsData t))"

definition ShouldSkipUpdate :: "TableData \<Rightarrow> bool" where
  "ShouldSkipUpdate t = (NumberOfRows t = 0 \<or> ReadOnlyInMemoryCols t = None)"

section \<open>Inserting rows\<close>

definition toast_placeholder :: val where
  "toast_placeholder = VString ToastUnavailableValuePlaceholder"

text \<open>The loop of \<^verbatim>\<open>InsertRow\<close> that copies unavailable values from the previous row.\<close>

definition fill_toast :: "row \<Rightarrow> row \<Rightarrow> row" where
  "fill_toast prevRow rowData =
     map (\<lambda>(key, v).
       if v = toast_placeholder
       then (case gm_get prevRow key of None \<Rightarrow> (key, v) | Some prevVal \<Rightarrow> (key, prevVal))
       else (key, v)) rowData"

definition InsertRow :: "gostd \<Rightarrow> string \<Rightarrow> row \<Rightarrow> bool \<Rightarrow> TableData \<Rightarrow> TableData" where
  "InsertRow std pk rowData del t =
     (if td_mode t = History
      then t\<lparr>td_rows := td_rows t @ [rowData], td_approxSize := td_approxSize t + row_size std rowData\<rparr>
      else
        (let prev = gm_get (td_rowsData t) pk;
             prevRowSize = (case prev of None \<Rightarrow> 0 | Some prevRow \<Rightarrow> row_size std prevRow);
             rowData' = (case prev of None \<Rightarrow> rowData | Some prevRow \<Rightarrow> fill_toast prevRow rowData);
             newRowSize = row_size std rowData';
             t1 = t\<lparr>td_approxSize := td_approxSize t + (newRowSize - prevRowSize),
                    td_rowsData := gm_put pk rowData' (td_rowsData t)\<rparr>;
             t2 = (if \<not> del \<and> \<not> td_containOtherOperations t1
                   then t1\<lparr>td_containOtherOperations := True\<rparr> else t1)
         in if \<not> td_containsHardDeletes t2 \<and> \<not> tc_SoftDelete (td_TopicConfig t2) \<and> del
            then t2\<lparr>td_containsHardDeletes := True\<rparr> else t2))"

definition Rows :: "TableData \<Rightarrow> row list" where
  "Rows t = (if td_mode t = History then td_rows t else map snd (td_rowsData t))"

section \<open>Names, dates and flushing\<close>

record FqNameOpts =
  BigQueryProjectID :: string
  MsSQLSchemaOverride :: string

definition ToFqName :: "destination_kind \<Rightarrow> bool \<Rightarrow> bool \<Rightarrow> FqNameOpts \<Rightarrow> TableData \<Rightarrow> string" where
  "ToFqName kind escape u opts t =
     (let tc = td_TopicConfig t;
          name = (\<lambda>e. TableData_Name u (Some \<lparr>Escape = e, na_DestKind = kind\<rparr>) t)
      in case kind of
           S3 \<Rightarrow> tc_Database tc @ ''.'' @ tc_Schema tc @ ''.'' @ name False
         | Redshift \<Rightarrow> tc_Schema tc @ ''.'' @ name escape
         | MSSQL \<Rightarrow> Override [tc_Schema tc, MsSQLSchemaOverride opts] @ ''.'' @ name escape
         | BigQuery \<Rightarrow> [CHR 0x60] @ BigQueryProjectID opts @ [CHR 0x60] @ ''.'' @ [CHR 0x60] @
             tc_Database tc @ [CHR 0x60] @ ''.'' @ name escape
         | _ \<Rightarrow> tc_Database tc @ ''.'' @ tc_Schema tc @ ''.'' @ name escape)"

fun distinct_dates_loop ::
  "gostd \<Rightarrow> string \<Rightarrow> string list \<Rightarrow> row gomap \<Rightarrow> bool gomap \<Rightarrow> bool gomap outcome" where
  "distinct_dates_loop std colName fmts [] retMap = Ret retMap"
| "distinct_dates_loop std colName fmts ((pk, r) # rest) retMap =
     (case gm_get r colName of
        None \<Rightarrow> Err (errorf (''col: '' @ colName @ '' does not exist on row: '' @ sprint std (VMap r)))
      | Some v \<Rightarrow>
          (case ParseFromInterface std v fmts of
             Err e \<Rightarrow> Err (wrapf (''col: '' @ colName @ '' is not a time column, value: '' @
                 sprint std v @ '', err: '') e [])
           | Panic m \<Rightarrow> Panic m
           | Ret extTime \<Rightarrow> distinct_dates_loop std colName fmts rest
               (gm_put (ExtendedTime_String std extTime PostgresDateFormat) True retMap)))"

definition DistinctDates :: "gostd \<Rightarrow> string \<Rightarrow> string list \<Rightarrow> TableData \<Rightarrow> string list outcome" where
  "DistinctDates std colName fmts t =
     bind_out (distinct_dates_loop std colName fmts (td_rowsData t) []) (\<lambda>m. Ret (map fst m))"

definition ResetTempTableSuffix :: "nat list \<Rightarrow> TableData \<Rightarrow> TableData" where
  "ResetTempTableSuffix rnds t =
     t\<lparr>td_temporaryTableSuffix := to_lower (ArtiePrefix @ ''_'' @ Random rnds)\<rparr>"

definition time_Unix :: "gotime \<Rightarrow> int" where
  "time_Unix t = t_nanos t div nanos_per_second"

definition TempTableSuffix :: "gotime \<Rightarrow> TableData \<Rightarrow> string" where
  "TempTableSuffix now t =
     td_temporaryTableSuffix t @ ''_'' @ show_int (time_Unix (time_Add now TemporaryTableTTL))"

definition ShouldFlush :: "Config \<Rightarrow> TableData \<Rightarrow> bool \<times> string" where
  "ShouldFlush cfg t =
     (if NumberOfRows t > unat (cfg_BufferRows cfg) then (True, ''rows'')
      else if td_approxSize t > cfg_FlushSizeKb cfg * 1024 then (True, ''size'')
      else (False, []))"

section \<open>Merging the destination's columns\<close>

text \<open>
  \<open>merge_column\<close> is the body of the loop: the in-memory column after the destination's column of
  the same name was found.
\<close>

definition merge_column :: "Column \<Rightarrow> Column \<Rightarrow> Column" where
  "merge_column inMemoryCol foundColumn =
     (let kd = col_KindDetails inMemoryCol;
          fd = col_KindDetails foundColumn;
          shouldSkip = (Kind kd = Kind EDecimal \<and> Kind fd = Kind Integer);
          kd1 = (if shouldSkip then kd
                 else (let k = kd\<lparr>Kind := Kind fd\<rparr>
                       in if OptionalStringPrecision fd \<noteq> None
                          then k\<lparr>OptionalStringPrecision := OptionalStringPrecision fd\<rparr> else k));
          kd2 = (case ExtendedTimeDetails fd of None \<Rightarrow> kd1
                 | Some ft \<Rightarrow>
                     kd1\<lparr>ExtendedTimeDetails :=
                        Some (case ExtendedTimeDetails kd1 of
                                None \<Rightarrow> \<lparr>nk_Type = nk_Type ft, nk_Format = []\<rparr>
                              | Some nk \<Rightarrow> nk\<lparr>nk_Type := nk_Type ft\<rparr>)\<rparr>);
          kd3 = (if ExtendedDecimalDetails fd \<noteq> None \<and> ExtendedDecimalDetails kd2 = None
                 then kd2\<lparr>ExtendedDecimalDetails := ExtendedDecimalDetails fd\<rparr> else kd2)
      in (SetBackfilled (col_backfilled foundColumn) inMemoryCol)\<lparr>col_KindDetails := kd3\<rparr>)"

fun found_column :: "string \<Rightarrow> Columns \<Rightarrow> Column option" where
  "found_column name [] = None"
| "found_column name (destCol # destCols) =
     (if col_name destCol = to_lower name then Some destCol else found_column name destCols)"

definition merge_step :: "Columns \<Rightarrow> Columns \<Rightarrow> Column \<Rightarrow> Columns" where
  "merge_step destCols cols inMemoryCol =
     (case found_column (col_name inMemoryCol) destCols of
        None \<Rightarrow> cols
      | Some foundColumn \<Rightarrow> UpdateColumn (merge_column inMemoryCol foundColumn) cols)"

definition MergeColumnsFromDestination :: "Columns \<Rightarrow> TableData \<Rightarrow> TableData" where
  "MergeColumnsFromDestination destCols t =
     (if destCols = [] then t
      else (case td_inMemoryColumns t of
          None \<Rightarrow> t
        | Some cols \<Rightarrow> t\<lparr>td_inMemoryColumns := Some (foldl (merge_step destCols) cols cols)\<rparr>))"

section \<open>The abstract buffer\<close>

text \<open>
  What the replication buffer promises: a map from primary keys to rows, a row being a map from
  columns to values. Writing a row replaces the row of its key, except that an unavailable value
  takes the value the key had before for that column.
\<close>

definition merge_spec :: "(string \<Rightarrow> val option) \<Rightarrow> (string \<Rightarrow> val option) \<Rightarrow> string \<Rightarrow> val option" where
  "merge_spec prev new c =
     (if new c = Some toast_placeholder \<and> prev c \<noteq> None then prev c else new c)"

definition abs_rows :: "TableData \<Rightarrow> string \<Rightarrow> (string \<Rightarrow> val option) option" where
  "abs_rows t pk = map_option gm_get (gm_get (td_rowsData t) pk)"

definition write_spec ::
  "string \<Rightarrow> (string \<Rightarrow> val option) \<Rightarrow> (string \<Rightarrow> (string \<Rightarrow> val option) option)
     \<Rightarrow> (string \<Rightarrow> (string \<Rightarrow> val option) option)" where
  "write_spec pk new s = s(pk := Some (case s pk of None \<Rightarrow> new | Some prev \<Rightarrow> merge_spec prev new))"

text \<open>A sequence of inserts, in order.\<close>

definition insert_event :: "gostd \<Rightarrow> string \<times> row \<times> bool \<Rightarrow> TableData \<Rightarrow> TableData" where
  "insert_event std e t = (case e of (pk, r, del) \<Rightarrow> InsertRow std pk r del t)"

definition insert_all :: "gostd \<Rightarrow> (string \<times> row \<times> bool) list \<Rightarrow> TableData \<Rightarrow> TableData" where
  "insert_all std es t = fold (insert_event std) es t"

definition buffer_inv :: "gostd \<Rightarrow> TableData \<Rightarrow> bool" where
  "buffer_inv std t =
     (gm_wf (td_rowsData t) \<and> (td_mode t = History \<or> td_rows t = [])
      \<and> td_approxSize t = (\<Sum>r\<leftarrow>Rows t. row_size std r))"

section \<open>Facts on inserting\<close>

lemma gm_get_fill_toast: "gm_get (fill_toast prev r) c = merge_spec (gm_get prev) (gm_get r) c"
  by (induction r)
    (auto simp: fill_toast_def merge_spec_def gm_get_def split: option.splits if_splits)

lemma fst_fill_toast [simp]: "map fst (fill_toast prev r) = map fst r"
  by (induction r) (auto simp: fill_toast_def split: option.splits)

lemma InsertRow_frame [simp]:
  "td_mode (InsertRow std pk r del t) = td_mode t"
  "td_inMemoryColumns (InsertRow std pk r del t) = td_inMemoryColumns t"
  "td_primaryKeys (InsertRow std pk r del t) = td_primaryKeys t"
  "td_TopicConfig (InsertRow std pk r del t) = td_TopicConfig t"
  "td_PartitionsToLastMessage (InsertRow std pk r del t) = td_PartitionsToLastMessage t"
  "td_name (InsertRow std pk r del t) = td_name t"
  by (simp_all add: InsertRow_def Let_def)

lemma InsertRow_rowsData:
  "td_mode t \<noteq> History \<Longrightarrow>
     td_rowsData (InsertRow std pk r del t) =
       gm_put pk (case gm_get (td_rowsData t) pk of None \<Rightarrow> r | Some p \<Rightarrow> fill_toast p r) (td_rowsData t)"
  by (simp add: InsertRow_def Let_def)

lemma InsertRow_rows:
  "td_rows (InsertRow std pk r del t) = (if td_mode t = History then td_rows t @ [r] else td_rows t)"
  by (simp add: InsertRow_def Let_def)

lemma InsertRow_rowsData_History:
  "td_mode t = History \<Longrightarrow> td_rowsData (InsertRow std pk r del t) = td_rowsData t"
  by (simp add: InsertRow_def)

lemma InsertRow_flags:
  "td_containOtherOperations (InsertRow std pk r del t) \<longleftrightarrow>
     td_containOtherOperations t \<or> (td_mode t \<noteq> History \<and> \<not> del)"
  "td_containsHardDeletes (InsertRow std pk r del t) \<longleftrightarrow>
     td_containsHardDeletes t \<or> (td_mode t \<noteq> History \<and> \<not> tc_SoftDelete (td_TopicConfig t) \<and> del)"
  by (auto simp: InsertRow_def Let_def)

lemma InsertRow_approxSize:
  "td_approxSize (InsertRow std pk r del t) =
     (if td_mode t = History then td_approxSize t + row_size std r
      else td_approxSize t
        + row_size std (case gm_get (td_rowsData t) pk of None \<Rightarrow> r | Some p \<Rightarrow> fill_toast p r)
        - (case gm_get (td_rowsData t) pk of None \<Rightarrow> 0 | Some p \<Rightarrow> row_size std p))"
  by (simp add: InsertRow_def Let_def)

lemmas InsertRow_effects =
  InsertRow_rowsData InsertRow_rows InsertRow_rowsData_History InsertRow_flags InsertRow_approxSize

lemma buffer_inv_New: "buffer_inv std (NewTableData cols m pks tc name)"
  by (simp add: buffer_inv_def NewTableData_def Rows_def)

lemma sum_rows_snd: "sum_list (map (f \<circ> snd) m) = (\<Sum>(k, r)\<leftarrow>m. f r)"
  by (induction m) auto

lemma buffer_inv_InsertRow:
  assumes "buffer_inv std t"
  shows "buffer_inv std (InsertRow std pk r del t)"
proof (cases "td_mode t = History")
  case True
  with assms show ?thesis by (simp add: buffer_inv_def Rows_def InsertRow_effects)
next
  case False
  with assms show ?thesis
    by (simp add: buffer_inv_def Rows_def InsertRow_effects sum_rows_snd sum_list_gm_put)
qed

interpretation rows: step_invariant "insert_event std" "buffer_inv std" for std
  by unfold_locales (auto simp: insert_event_def buffer_inv_InsertRow split: prod.splits)

lemma buffer_inv_insert_all: "buffer_inv std t \<Longrightarrow> buffer_inv std (insert_all std es t)"
  unfolding insert_all_def by (rule rows.inv_run)

lemma abs_rows_InsertRow:
  assumes "td_mode t \<noteq> History"
  shows "abs_rows (InsertRow std pk r del t) = write_spec pk (gm_get r) (abs_rows t)"
  using assms
  by (auto simp: abs_rows_def write_spec_def InsertRow_rowsData gm_get_fill_toast fun_eq_iff
      split: option.splits)

lemma insert_all_frame [simp]:
  "td_mode (insert_all std es t) = td_mode t"
  "td_TopicConfig (insert_all std es t) = td_TopicConfig t"
  by (induction es arbitrary: t)
    (auto simp: insert_all_def insert_event_def split: prod.splits)

lemma insert_all_Cons:
  "insert_all std ((pk, r, del) # es) t = insert_all std es (InsertRow std pk r del t)"
  by (simp add: insert_all_def insert_event_def)

lemma insert_all_append: "insert_all std (es @ fs) t = insert_all std fs (insert_all std es t)"
  by (simp add: insert_all_def)

lemma insert_all_flags:
  assumes "td_mode t \<noteq> History"
  shows "td_containOtherOperations (insert_all std es t) \<longleftrightarrow>
      td_containOtherOperations t \<or> (\<exists>(pk, r, del)\<in>set es. \<not> del)"
    and "td_containsHardDeletes (insert_all std es t) \<longleftrightarrow>
      td_containsHardDeletes t \<or> (\<not> tc_SoftDelete (td_TopicConfig t) \<and> (\<exists>(pk, r, del)\<in>set es. del))"
  using assms
  by (induction es arbitrary: t)
    (auto simp: insert_all_Cons InsertRow_flags, auto simp: insert_all_def)

text \<open>A buffered row that is marked deleted was inserted as a delete, when rows carry their own marker.\<close>

lemma fill_toast_marker:
  "gm_get r DeleteColumnMarker = Some (VBool d) \<Longrightarrow> gm_get (fill_toast prev r) DeleteColumnMarker = Some (VBool d)"
  by (simp add: gm_get_fill_toast merge_spec_def toast_placeholder_def)

lemma snd_gm_put: "snd ` set (gm_put k v m) \<subseteq> insert v (snd ` set m)"
  by (induction m) (auto simp: gm_put_def)

lemma marked_row_inserted:
  assumes "td_mode t \<noteq> History"
    and "\<forall>(pk, r, del)\<in>set es. gm_get r DeleteColumnMarker = Some (VBool del)"
    and "row \<in> snd ` set (td_rowsData (insert_all std es t))" "gm_get row DeleteColumnMarker = Some (VBool True)"
    and "\<forall>row\<in>snd ` set (td_rowsData t). gm_get row DeleteColumnMarker \<noteq> Some (VBool True)"
  shows "\<exists>(pk, r, del)\<in>set es. del"
  using assms
proof (induction es arbitrary: t)
  case Nil
  then show ?case by (simp add: insert_all_def)
next
  case (Cons e es)
  obtain pk r del where e: "e = (pk, r, del)" by (cases e)
  show ?case
  proof (cases del)
    case True
    with e show ?thesis by auto
  next
    case False
    let ?v = "case gm_get (td_rowsData t) pk of None \<Rightarrow> r | Some p \<Rightarrow> fill_toast p r"
    from Cons.prems(2) e False have "gm_get r DeleteColumnMarker = Some (VBool False)" by simp
    then have "gm_get ?v DeleteColumnMarker = Some (VBool False)" by (simp add: fill_toast_marker split: option.split)
    with Cons.prems(5) have "\<forall>row\<in>insert ?v (snd ` set (td_rowsData t)).
        gm_get row DeleteColumnMarker \<noteq> Some (VBool True)" by simp
    then have unmarked: "\<forall>row\<in>snd ` set (td_rowsData (InsertRow std pk r del t)).
        gm_get row DeleteColumnMarker \<noteq> Some (VBool True)"
      unfolding InsertRow_rowsData [OF Cons.prems(1)] by (meson snd_gm_put subsetD)
    have "\<exists>(pk, r, del)\<in>set es. del"
      using Cons.prems e unmarked
      by (intro Cons.IH [of "InsertRow std pk r del t"]) (simp_all add: insert_all_Cons)
    then show ?thesis by auto
  qed
qed

lemma insert_all_keys:
  assumes "td_mode t \<noteq> History"
  shows "fst ` set (td_rowsData (insert_all std es t)) = fst ` set (td_rowsData t) \<union> fst ` set es"
  using assms
proof (induction es arbitrary: t)
  case Nil
  then show ?case by (simp add: insert_all_def)
next
  case (Cons e es)
  obtain pk r del where e: "e = (pk, r, del)" by (cases e)
  have "fst ` set (gm_put k v m) = insert k (fst ` set m)" for k and v :: row and m
    by (simp add: gm_put_def dom_update)
  with Cons show ?case by (simp add: e insert_all_Cons InsertRow_rowsData)
qed

lemma insert_all_rows:
  "td_mode t = History \<Longrightarrow> td_rows (insert_all std es t) = td_rows t @ map (fst \<circ> snd) es"
  by (induction es arbitrary: t)
    (auto simp: insert_all_Cons InsertRow_rows, auto simp: insert_all_def)

text \<open>
  The value of one column of one key after a sequence of inserts that all carry the column: the
  last value that was available, and the placeholder when none was.
\<close>

fun last_available :: "val option \<Rightarrow> val list \<Rightarrow> val option" where
  "last_available cur [] = cur"
| "last_available cur (v # vs) =
     last_available (if v = toast_placeholder \<and> cur \<noteq> None then cur else Some v) vs"

definition column_writes :: "string \<Rightarrow> string \<Rightarrow> (string \<times> row \<times> bool) list \<Rightarrow> val list" where
  "column_writes pk c es =
     map (\<lambda>(p, r, del). the (gm_get r c)) (filter (\<lambda>(p, r, del). p = pk) es)"

definition cell :: "TableData \<Rightarrow> string \<Rightarrow> string \<Rightarrow> val option" where
  "cell t pk c = Option.bind (gm_get (td_rowsData t) pk) (\<lambda>r. gm_get r c)"

lemma cell_InsertRow:
  assumes "td_mode t \<noteq> History"
  shows "cell (InsertRow std pk r del t) q c =
    (if q = pk then (if gm_get r c = Some toast_placeholder \<and> cell t pk c \<noteq> None then cell t pk c
                     else gm_get r c)
     else cell t q c)"
  using assms
  by (auto simp: cell_def InsertRow_rowsData gm_get_fill_toast merge_spec_def split: option.splits)

lemma cell_insert_all:
  assumes "td_mode t \<noteq> History" and "\<forall>(p, r, del)\<in>set es. p = pk \<longrightarrow> gm_get r c \<noteq> None"
  shows "cell (insert_all std es t) pk c = last_available (cell t pk c) (column_writes pk c es)"
  using assms
proof (induction es arbitrary: t)
  case Nil
  then show ?case by (simp add: insert_all_def column_writes_def)
next
  case (Cons e es)
  obtain p r del where e: "e = (p, r, del)" by (cases e)
  with Cons show ?case
    by (auto simp: insert_all_Cons cell_InsertRow column_writes_def)
qed

lemma last_available_eq:
  "last_available cur vs =
     (let avail = filter (\<lambda>v. v \<noteq> toast_placeholder) vs
      in if avail \<noteq> [] then Some (last avail)
         else if cur \<noteq> None then cur
         else if vs \<noteq> [] then Some toast_placeholder else None)"
  by (induction vs arbitrary: cur) (auto simp: Let_def)

section \<open>Facts on merging the destination's columns\<close>

lemma merge_column_frame [simp]:
  "col_name (merge_column c f) = col_name c"
  "col_primaryKey (merge_column c f) = col_primaryKey c"
  "col_ToastColumn (merge_column c f) = col_ToastColumn c"
  "col_defaultValue (merge_column c f) = col_defaultValue c"
  "col_backfilled (merge_column c f) = col_backfilled f"
  by (simp_all add: merge_column_def Let_def SetBackfilled_def)

lemma merge_column_Kind:
  "Kind (col_KindDetails (merge_column c f)) =
     (if Kind (col_KindDetails c) = ''decimal'' \<and> Kind (col_KindDetails f) = ''int''
      then ''decimal'' else Kind (col_KindDetails f))"
  by (auto simp: merge_column_def Let_def kind_defs split: option.splits)

lemma names_merge_step [simp]: "map col_name (merge_step d cols c) = map col_name cols"
  by (simp add: merge_step_def split: option.splits)

lemma names_foldl_merge_step: "map col_name (foldl (merge_step d) cols cs) = map col_name cols"
  by (induction cs arbitrary: cols) simp_all

lemma GetColumn_merge_step:
  "GetColumn (merge_step d cols c) n =
     (case found_column (col_name c) d of
        None \<Rightarrow> GetColumn cols n
      | Some f \<Rightarrow> if n = col_name c \<and> GetColumn cols n \<noteq> None then Some (merge_column c f)
                  else GetColumn cols n)"
  by (auto simp: merge_step_def GetColumn_UpdateColumn split: option.splits)

definition merged :: "Columns \<Rightarrow> Column \<Rightarrow> Column" where
  "merged d c = (case found_column (col_name c) d of None \<Rightarrow> c | Some f \<Rightarrow> merge_column c f)"

lemma GetColumn_foldl_merge_other:
  "n \<notin> col_name ` set cs \<Longrightarrow> GetColumn (foldl (merge_step d) cols cs) n = GetColumn cols n"
  by (induction cs arbitrary: cols) (auto simp: GetColumn_merge_step split: option.splits)

lemma GetColumn_foldl_merge:
  assumes "distinct (map col_name cs)" and "c \<in> set cs" and "GetColumn cols (col_name c) = Some c"
  shows "GetColumn (foldl (merge_step d) cols cs) (col_name c) = Some (merged d c)"
  using assms
proof (induction cs arbitrary: cols)
  case Nil
  then show ?case by simp
next
  case (Cons x cs)
  show ?case
  proof (cases "c = x")
    case True
    with Cons.prems show ?thesis
      by (auto simp: GetColumn_foldl_merge_other GetColumn_merge_step merged_def split: option.splits)
  next
    case False
    with Cons.prems have "c \<in> set cs" "col_name c \<noteq> col_name x"
      by (auto intro: rev_image_eqI)
    with Cons show ?thesis
      by (auto simp: GetColumn_merge_step split: option.splits)
  qed
qed

lemma GetColumn_self:
  "distinct (map col_name cs) \<Longrightarrow> c \<in> set cs \<Longrightarrow> GetColumn cs (col_name c) = Some c"
  by (induction cs) (auto simp: rev_image_eqI)

section \<open>Properties\<close>

text \<open>
  C11. The running total that \<^verbatim>\<open>InsertRow\<close> maintains is exact: after any sequence of inserts
  into a new buffer, in either mode, it is the sum of the sizes of the buffered rows, and the rows
  keep one entry per primary key.
\<close>

theorem approxSize_exact:
  "td_approxSize (insert_all std es (NewTableData cols m pks tc name)) =
     (\<Sum>r\<leftarrow>Rows (insert_all std es (NewTableData cols m pks tc name)). row_size std r)
   \<and> distinct (map fst (td_rowsData (insert_all std es (NewTableData cols m pks tc name))))"
  using buffer_inv_insert_all [OF buffer_inv_New [of std cols m pks tc name], of es]
  by (simp add: buffer_inv_def gm_wf_def)

text \<open>
  C10. The replication buffer refines the map from primary keys to last written rows: inserting a
  row is the abstract write of that row under its key, unavailable values filled in from the
  previous row, and no other key changes.
\<close>

theorem InsertRow_refines_write:
  assumes "td_mode t \<noteq> History"
  shows "abs_rows (InsertRow std pk r del t) = write_spec pk (gm_get r) (abs_rows t)"
  by (rule abs_rows_InsertRow [OF assms])

definition sample_std :: gostd where
  "sample_std =
     \<lparr>go_sprint = (\<lambda>v. []), go_json_marshal = (\<lambda>v. Ret []), go_json_unmarshal = (\<lambda>s. Ret VNil),
      go_time_parse = (\<lambda>a b. Err (errorf [])), go_time_format = (\<lambda>t f. []), go_time_year = (\<lambda>t. 0),
      go_bigfloat_text = (\<lambda>v p. []), go_bigfloat_quo = (\<lambda>a b. 0), go_parse_float = (\<lambda>s. Err (errorf [])),
      go_base64_decode = (\<lambda>s. Err (errorf [])), go_base64_encode = (\<lambda>b. []),
      go_bigfloat_scaled = (\<lambda>s n. None), go_ewkb_unmarshal = (\<lambda>b. Ret []),
      go_geojson_marshal = (\<lambda>g. Ret [])\<rparr>"

definition sample_table :: TableData where
  "sample_table = NewTableData (Some []) Replication [''id''] sample_topic ''orders''"

theorem InsertRow_refines_write_witness:
  "abs_rows (InsertRow sample_std ''id=1'' [(''id'', VInt KInt 1)] False sample_table) ''id=1'' =
     Some [''id'' \<mapsto> VInt KInt 1]"
proof -
  have "td_mode sample_table \<noteq> History" by (simp add: sample_table_def NewTableData_def)
  note InsertRow_refines_write [OF this, of sample_std "''id=1''" "[(''id'', VInt KInt 1)]" False]
  then show ?thesis
    by (simp add: write_spec_def abs_rows_def sample_table_def NewTableData_def gm_get_def fun_eq_iff)
qed

text \<open>
  C12. An unavailable TOAST value never overwrites a known one: when every row of a key carries the
  column, the buffer holds the last value that was available, and the placeholder only if none was.
\<close>

theorem toast_never_overwrites:
  assumes "td_mode t \<noteq> History" and "cell t pk c = None"
    and "\<forall>(p, r, del)\<in>set es. p = pk \<longrightarrow> gm_get r c \<noteq> None"
    and "\<exists>(p, r, del)\<in>set es. p = pk"
  shows "cell (insert_all std es t) pk c =
    (let avail = filter (\<lambda>v. v \<noteq> toast_placeholder) (column_writes pk c es)
     in if avail \<noteq> [] then Some (last avail) else Some toast_placeholder)"
proof -
  have "column_writes pk c es \<noteq> []"
    using assms(4) by (auto simp: column_writes_def filter_empty_conv)
  then show ?thesis
    using assms by (simp add: cell_insert_all last_available_eq Let_def)
qed

definition toast_events :: "(string \<times> row \<times> bool) list" where
  "toast_events =
     [(''id=1'', [(''id'', VInt KInt 1), (''doc'', VString ''big'')], False),
      (''id=2'', [(''id'', VInt KInt 2), (''doc'', VString ''other'')], False),
      (''id=1'', [(''id'', VInt KInt 1), (''doc'', toast_placeholder)], False)]"

theorem toast_never_overwrites_witness:
  "cell (insert_all sample_std toast_events sample_table) ''id=1'' ''doc'' = Some (VString ''big'')"
proof -
  have "cell (insert_all sample_std toast_events sample_table) ''id=1'' ''doc'' =
    (let avail = filter (\<lambda>v. v \<noteq> toast_placeholder) (column_writes ''id=1'' ''doc'' toast_events)
     in if avail \<noteq> [] then Some (last avail) else Some toast_placeholder)"
    by (rule toast_never_overwrites)
      (simp_all add: sample_table_def NewTableData_def cell_def toast_events_def gm_get_def)
  then show ?thesis
    by (simp add: column_writes_def toast_events_def gm_get_def toast_placeholder_def
        ToastUnavailableValuePlaceholder_def Let_def)
qed

text \<open>
  C36. What the two flags of a replication buffer say: \<^verbatim>\<open>containsHardDeletes\<close> is set exactly when a delete
  was inserted since the buffer was created and the topic does not soft delete,
  \<^verbatim>\<open>containOtherOperations\<close> exactly when something else was inserted. So when every row carries its own
  delete marker and a buffered row is marked deleted, a topic with hard deletes has the flag, and the
  merge sends its \<^verbatim>\<open>DELETE\<close>. The converse fails: the flag stays when the key is inserted again.
\<close>

theorem delete_flags_exact:
  assumes "m \<noteq> History"
    and t: "t = insert_all std es (NewTableData cols m pks tc name)"
  shows "(td_containsHardDeletes t \<longleftrightarrow> \<not> tc_SoftDelete tc \<and> (\<exists>(pk, r, del)\<in>set es. del))
    \<and> (td_containOtherOperations t \<longleftrightarrow> (\<exists>(pk, r, del)\<in>set es. \<not> del))
    \<and> ((\<forall>(pk, r, del)\<in>set es. gm_get r DeleteColumnMarker = Some (VBool del)) \<longrightarrow> \<not> tc_SoftDelete tc \<longrightarrow>
        (\<exists>row\<in>set (Rows t). gm_get row DeleteColumnMarker = Some (VBool True)) \<longrightarrow> td_containsHardDeletes t)"
proof -
  note flags = insert_all_flags [of "NewTableData cols m pks tc name" std es]
  have hard: "td_containsHardDeletes t \<longleftrightarrow> \<not> tc_SoftDelete tc \<and> (\<exists>(pk, r, del)\<in>set es. del)"
    and other: "td_containOtherOperations t \<longleftrightarrow> (\<exists>(pk, r, del)\<in>set es. \<not> del)"
    using assms(1) flags by (simp_all add: t NewTableData_def)
  have "\<exists>(pk, r, del)\<in>set es. del"
    if own: "\<forall>(pk, r, del)\<in>set es. gm_get r DeleteColumnMarker = Some (VBool del)"
      and row: "row \<in> set (Rows t)" "gm_get row DeleteColumnMarker = Some (VBool True)" for row
    using marked_row_inserted [OF _ own, of "NewTableData cols m pks tc name" row std] row assms(1)
    by (simp add: t NewTableData_def Rows_def)
  with hard other show ?thesis by blast
qed

text \<open>A key that is deleted and inserted again: the flag is set, and no buffered row is marked.\<close>

definition reinserted :: "(string \<times> row \<times> bool) list" where
  "reinserted = [(''1'', [(DeleteColumnMarker, VBool True)], True), (''1'', [(DeleteColumnMarker, VBool False)], False)]"

theorem delete_flags_exact_witness:
  "td_containsHardDeletes (insert_all sample_std reinserted (NewTableData None Replication [] sample_topic []))
   \<and> td_containOtherOperations (insert_all sample_std reinserted (NewTableData None Replication [] sample_topic []))
   \<and> td_containsHardDeletes (insert_all sample_std (take 1 reinserted) (NewTableData None Replication [] sample_topic []))
   \<and> Rows (insert_all sample_std (take 1 reinserted) (NewTableData None Replication [] sample_topic [])) =
       [[(DeleteColumnMarker, VBool True)]]"
proof -
  have "Rows (insert_all sample_std (take 1 reinserted) (NewTableData None Replication [] sample_topic [])) =
      [[(DeleteColumnMarker, VBool True)]]"
    by code_simp
  moreover have "\<not> tc_SoftDelete sample_topic" by code_simp
  ultimately show ?thesis
    using delete_flags_exact [OF _ refl, of Replication sample_std reinserted None "[]" sample_topic "[]"]
      delete_flags_exact [OF _ refl, of Replication sample_std "take 1 reinserted" None "[]" sample_topic "[]"]
    by (simp add: reinserted_def gm_get_def)
qed

lemma delete_flag_outlives_delete:
  "td_containsHardDeletes (insert_all sample_std reinserted (NewTableData None Replication [] sample_topic []))"
  "Rows (insert_all sample_std reinserted (NewTableData None Replication [] sample_topic [])) =
     [[(DeleteColumnMarker, VBool False)]]"
  by code_simp+

text \<open>
  A flush is requested exactly when the buffer has more distinct keys (in history mode, more
  rows) than \<^verbatim>\<open>bufferRows\<close> or more bytes than \<^verbatim>\<open>flushSizeKb\<close> allows.
\<close>

theorem ShouldFlush_exact:
  "fst (ShouldFlush cfg (insert_all std es (NewTableData cols m pks tc name))) \<longleftrightarrow>
     unat (cfg_BufferRows cfg) < (if m = History then length es else card (fst ` set es))
     \<or> cfg_FlushSizeKb cfg * 1024 <
         (\<Sum>r\<leftarrow>Rows (insert_all std es (NewTableData cols m pks tc name)). row_size std r)"
proof -
  let ?new = "NewTableData cols m pks tc name"
  let ?t = "insert_all std es ?new"
  have inv: "buffer_inv std ?t" by (rule buffer_inv_insert_all [OF buffer_inv_New])
  have "NumberOfRows ?t = (if m = History then length es else card (fst ` set es))"
  proof (cases "m = History")
    case True
    then show ?thesis
      using insert_all_rows [of ?new std es] by (simp add: NumberOfRows_def NewTableData_def)
  next
    case False
    then have keys: "fst ` set (td_rowsData ?t) = fst ` set es"
      using insert_all_keys [of ?new std es] by (simp add: NewTableData_def)
    have "length (td_rowsData ?t) = card (fst ` set (td_rowsData ?t))"
      using inv by (metis buffer_inv_def distinct_card gm_wf_def length_map set_map)
    with False keys show ?thesis by (simp add: NumberOfRows_def NewTableData_def)
  qed
  then show ?thesis using inv by (auto simp: ShouldFlush_def buffer_inv_def)
qed

text \<open>
  C35. Merging the destination's columns changes types only: the names and their order, the primary
  keys, the TOAST flags and the default values stay, each column that the destination has gets the
  destination's kind and backfill state (a decimal is never turned into an integer), and every other
  column is untouched.
\<close>

theorem MergeColumns_frame:
  assumes "td_inMemoryColumns t = Some cols" and "columns_inv cols"
  shows "\<exists>cols'. td_inMemoryColumns (MergeColumnsFromDestination dest t) = Some cols'
    \<and> map col_name cols' = map col_name cols
    \<and> (\<forall>c\<in>set cols. \<exists>c'. GetColumn cols' (col_name c) = Some c'
        \<and> col_primaryKey c' = col_primaryKey c \<and> col_ToastColumn c' = col_ToastColumn c
        \<and> col_defaultValue c' = col_defaultValue c
        \<and> (case found_column (col_name c) dest of
             None \<Rightarrow> c' = c
           | Some f \<Rightarrow> col_backfilled c' = col_backfilled f
               \<and> Kind (col_KindDetails c') =
                   (if Kind (col_KindDetails c) = ''decimal'' \<and> Kind (col_KindDetails f) = ''int''
                    then ''decimal'' else Kind (col_KindDetails f))))"
proof (cases "dest = []")
  case True
  then show ?thesis
    using assms by (auto simp: MergeColumnsFromDestination_def columns_inv_def GetColumn_self)
next
  case False
  let ?cols = "foldl (merge_step dest) cols cols"
  have d: "distinct (map col_name cols)" using assms(2) by (simp add: columns_inv_def)
  have get: "GetColumn ?cols (col_name c) = Some (merged dest c)" if "c \<in> set cols" for c
    by (rule GetColumn_foldl_merge [OF d that GetColumn_self [OF d that]])
  have "td_inMemoryColumns (MergeColumnsFromDestination dest t) = Some ?cols"
    using False assms by (simp add: MergeColumnsFromDestination_def)
  moreover have "map col_name ?cols = map col_name cols" by (rule names_foldl_merge_step)
  ultimately show ?thesis
    by (auto simp: get merged_def merge_column_Kind split: option.splits)
qed

theorem MergeColumns_frame_witness:
  "\<exists>cols'. td_inMemoryColumns (MergeColumnsFromDestination [NewColumn ''a'' Integer]
       (sample_table\<lparr>td_inMemoryColumns := Some [NewColumn ''a'' Invalid]\<rparr>)) = Some cols'
     \<and> map col_name cols' = [''a'']"
  using MergeColumns_frame [of "sample_table\<lparr>td_inMemoryColumns := Some [NewColumn ''a'' Invalid]\<rparr>"
      "[NewColumn ''a'' Invalid]" "[NewColumn ''a'' Integer]"]
  by (auto simp: columns_inv_def)

end
