(* ===== verification/DDL.thy ===== *)
theory DDL
  imports TableData
begin

text \<open>
  What the pipeline knows of a destination table (\<^verbatim>\<open>lib/destination/types\<close>) and the statements
  that change its schema (\<^verbatim>\<open>lib/destination/ddl\<close>).

  A warehouse is its label and the function that executes one statement on its state; it is a
  parameter, so every theorem holds for every warehouse. A session is the warehouse's state with
  the list of the statements sent so far. \<^verbatim>\<open>time.Now()\<close> is an input: \<open>clk n\<close> is the reading
  while column \<open>n\<close> is examined, and \<open>clk []\<close> the one taken for an expiry date. Table configs are
  shared by pointer in Go; here an operation returns the updated config.
\<close>

section \<open>Table configs\<close>

record DwhTableConfig =
  dc_columns :: Columns
  dc_columnsToDelete :: "gotime gomap"
  dc_createTable :: bool
  dc_dropDeletedColumns :: bool

definition NewDwhTableConfig ::
  "Columns \<Rightarrow> gotime gomap \<Rightarrow> bool \<Rightarrow> bool \<Rightarrow> DwhTableConfig" where
  "NewDwhTableConfig cols colsToDelete createTable dropDeletedColumns =
     \<lparr>dc_columns = cols, dc_columnsToDelete = colsToDelete, dc_createTable = createTable,
      dc_dropDeletedColumns = dropDeletedColumns\<rparr>"

definition add_column_step :: "DwhTableConfig \<Rightarrow> Column \<Rightarrow> DwhTableConfig" where
  "add_column_step d col =
     d\<lparr>dc_columns := AddColumn col (dc_columns d),
       dc_columnsToDelete := gm_del (col_name col) (dc_columnsToDelete d)\<rparr>"

definition delete_column_step :: "DwhTableConfig \<Rightarrow> Column \<Rightarrow> DwhTableConfig" where
  "delete_column_step d col =
     d\<lparr>dc_columns := DeleteColumn (col_name col) (dc_columns d),
       dc_columnsToDelete := gm_del (col_name col) (dc_columnsToDelete d)\<rparr>"

definition MutateInMemoryColumns ::
  "bool \<Rightarrow> column_operation \<Rightarrow> Columns \<Rightarrow> DwhTableConfig \<Rightarrow> DwhTableConfig" where
  "MutateInMemoryColumns createTable columnOp cols d =
     (case columnOp of
        Add \<Rightarrow> (foldl add_column_step d cols)\<lparr>dc_createTable := createTable\<rparr>
      | Delete \<Rightarrow> foldl delete_column_step d cols)"

definition AuditColumnsToDelete :: "Columns \<Rightarrow> DwhTableConfig \<Rightarrow> DwhTableConfig" where
  "AuditColumnsToDelete colsToDelete d =
     (if \<not> dc_dropDeletedColumns d then d
      else d\<lparr>dc_columnsToDelete :=
               filter (\<lambda>(colName, ts). \<exists>col\<in>set colsToDelete. col_name col = colName)
                 (dc_columnsToDelete d)\<rparr>)"

definition AddColumnsToDelete :: "string \<Rightarrow> gotime \<Rightarrow> DwhTableConfig \<Rightarrow> DwhTableConfig" where
  "AddColumnsToDelete colName ts d =
     d\<lparr>dc_columnsToDelete := gm_put colName ts (dc_columnsToDelete d)\<rparr>"

definition ShouldDeleteColumn ::
  "gotime \<Rightarrow> string \<Rightarrow> gotime \<Rightarrow> bool \<Rightarrow> DwhTableConfig \<Rightarrow> DwhTableConfig \<times> bool" where
  "ShouldDeleteColumn now colName cdcTime containOtherOperations d =
     (if \<not> containOtherOperations then (d, False)
      else if \<not> dc_dropDeletedColumns d then (d, False)
      else (case gm_get (dc_columnsToDelete d) colName of
          Some ts \<Rightarrow> (d, time_After cdcTime ts)
        | None \<Rightarrow>
            (AddColumnsToDelete colName (time_Add (time_UTC now) DeletionConfidencePadding) d, False)))"

type_synonym DwhToTablesConfigMap = "DwhTableConfig gomap"

definition TableConfig :: "DwhToTablesConfigMap \<Rightarrow> string \<Rightarrow> DwhTableConfig option" where
  "TableConfig d fqName = gm_get d fqName"

definition AddTableToConfig ::
  "string \<Rightarrow> DwhTableConfig \<Rightarrow> DwhToTablesConfigMap \<Rightarrow> DwhToTablesConfigMap" where
  "AddTableToConfig fqName config d = gm_put fqName config d"

record MergeOpts =
  UseMergeParts :: bool
  SubQueryDedupe :: bool
  AdditionalEqualityStrings :: "string list"
  RetryColBackfill :: bool

record AppendOpts =
  TempTableName :: string
  AdditionalCopyClause :: string

definition AppendOpts_Validate :: "AppendOpts \<Rightarrow> unit outcome" where
  "AppendOpts_Validate a =
     (if TempTableName a = [] then Err (errorf ''temp table name is required'') else Ret ())"

section \<open>Warehouses and sessions\<close>

record 'w dwh =
  dw_Label :: destination_kind
  dw_Exec :: "string \<Rightarrow> 'w \<Rightarrow> 'w \<times> goerr option"

record 'w session =
  db_state :: 'w
  db_log :: "string list"

definition exec_sql :: "'w dwh \<Rightarrow> string \<Rightarrow> 'w session \<Rightarrow> 'w session \<times> goerr option" where
  "exec_sql dw q s =
     (case dw_Exec dw q (db_state s) of
        (w, r) \<Rightarrow> (\<lparr>db_state = w, db_log = db_log s @ [q]\<rparr>, r))"

section \<open>Errors that mean the column is already there\<close>

definition ColumnAlreadyExistErr :: "goerr option \<Rightarrow> destination_kind \<Rightarrow> bool" where
  "ColumnAlreadyExistErr err kind =
     (case err of None \<Rightarrow> False
      | Some e \<Rightarrow>
          (case kind of
             BigQuery \<Rightarrow> contains (err_msg e) ''Column already exists''
           | Snowflake \<Rightarrow> contains (err_msg e) ''already exists''
           | Redshift \<Rightarrow> contains (err_msg e) ''already exists''
           | MSSQL \<Rightarrow>
               (\<exists>alreadyExistErr\<in>set [''Column names in each table must be unique'',
                    ''There is already an object named''].
                  contains (err_msg e) alreadyExistErr)
           | _ \<Rightarrow> False))"

section \<open>Temporary tables\<close>

definition DropTemporaryTable ::
  "'w dwh \<Rightarrow> string \<Rightarrow> bool \<Rightarrow> 'w session \<Rightarrow> 'w session \<times> unit outcome" where
  "DropTemporaryTable dw fqTableName shouldReturnError s =
     (if contains (to_lower fqTableName) ArtiePrefix
      then (case exec_sql dw (''DROP TABLE IF EXISTS '' @ fqTableName) s of
          (s', Some err) \<Rightarrow>
            if shouldReturnError then (s', Err (wrapf ''failed to drop temp table: '' err []))
            else (s', Ret ())
        | (s', None) \<Rightarrow> (s', Ret ()))
      else (s, Ret ()))"

definition time_of_unix :: "int \<Rightarrow> gotime" where
  "time_of_unix unix = \<lparr>t_nanos = unix * nanos_per_second, t_zone = ''Local''\<rparr>"

definition ShouldDeleteFromName :: "gotime \<Rightarrow> string \<Rightarrow> bool" where
  "ShouldDeleteFromName now name =
     (let nameParts = split_on (CHR ''_'') name
      in if length nameParts < 2 then False
         else (case atoi (last nameParts) of
             None \<Rightarrow> False
           | Some unix \<Rightarrow> time_After (time_UTC now) (time_of_unix unix)))"

definition bqLayout :: string where
  "bqLayout = ''2006-01-02 15:04:05 MST''"

definition ExpiresDate :: "gostd \<Rightarrow> gotime \<Rightarrow> string" where
  "ExpiresDate std t = go_time_format std t bqLayout"

section \<open>Altering a table\<close>

record AlterTableArgs =
  at_Tc :: DwhTableConfig
  at_ContainOtherOperations :: bool
  at_FqTableName :: string
  at_CreateTable :: bool
  at_TemporaryTable :: bool
  at_UppercaseEscNames :: "bool option"
  at_ColumnOp :: column_operation
  at_Mode :: mode
  at_CdcTime :: gotime

definition AlterTableArgs_Validate :: "AlterTableArgs \<Rightarrow> unit outcome" where
  "AlterTableArgs_Validate a =
     (if at_ColumnOp a = Delete \<and> at_CreateTable a
      then Err (errorf ''incompatible operation - cannot drop columns and create table at the same time'')
      else if \<not> (at_Mode a = History \<or> at_Mode a = Replication)
      then Err (errorf (''unexpected mode: '' @ show_mode (at_Mode a)))
      else if at_TemporaryTable a \<and> \<not> at_CreateTable a
      then Err (errorf ''incompatible operation - we should not be altering temporary tables, only create'')
      else if at_UppercaseEscNames a = None
      then Err (errorf ''uppercaseEscNames cannot be nil'')
      else Ret ())"

text \<open>The loop over the columns: the config, the columns to mutate, the SQL parts and the keys.\<close>

record alter_acc =
  ac_tc :: DwhTableConfig
  ac_mutateCol :: Columns
  ac_colSQLParts :: "string list"
  ac_pkCols :: "string list"

definition alter_column ::
  "(string \<Rightarrow> gotime) \<Rightarrow> destination_kind \<Rightarrow> bool \<Rightarrow> AlterTableArgs \<Rightarrow> Column \<Rightarrow> alter_acc
     \<Rightarrow> alter_acc outcome" where
  "alter_column clk label u a col acc =
     (if ShouldSkip col then Ret acc
      else
        (let colName = Column_Name u (Some \<lparr>Escape = True, na_DestKind = label\<rparr>) col
         in case at_ColumnOp a of
              Delete \<Rightarrow>
                (case ShouldDeleteColumn (clk (col_name col)) (col_name col) (at_CdcTime a)
                        (at_ContainOtherOperations a) (ac_tc acc) of
                   (tc', ok) \<Rightarrow>
                     if \<not> ok then Ret (acc\<lparr>ac_tc := tc'\<rparr>)
                     else Ret (acc\<lparr>ac_tc := tc', ac_mutateCol := ac_mutateCol acc @ [col],
                                   ac_colSQLParts := ac_colSQLParts acc @ [colName]\<rparr>))
            | Add \<Rightarrow>
                bind_out (KindToDWHType (col_KindDetails col) label (col_primaryKey col)) (\<lambda>ty.
                  Ret (acc\<lparr>ac_mutateCol := ac_mutateCol acc @ [col],
                           ac_pkCols := ac_pkCols acc @
                             (if col_primaryKey col \<and> at_Mode a \<noteq> History then [colName] else []),
                           ac_colSQLParts := ac_colSQLParts acc @ [colName @ '' '' @ ty]\<rparr>))))"

fun alter_columns ::
  "(string \<Rightarrow> gotime) \<Rightarrow> destination_kind \<Rightarrow> bool \<Rightarrow> AlterTableArgs \<Rightarrow> Columns \<Rightarrow> alter_acc
     \<Rightarrow> alter_acc outcome" where
  "alter_columns clk label u a [] acc = Ret acc"
| "alter_columns clk label u a (col # cols) acc =
     bind_out (alter_column clk label u a col acc) (alter_columns clk label u a cols)"

definition pk_statement :: "destination_kind \<Rightarrow> string list \<Rightarrow> string list" where
  "pk_statement label pkCols =
     (if pkCols = [] then []
      else [''PRIMARY KEY ('' @ join '', '' pkCols @ '')'' @
            (if label = BigQuery then '' NOT ENFORCED'' else [])])"

definition snowflake_stage_options :: string where
  "snowflake_stage_options =
     '' STAGE_COPY_OPTIONS = ( PURGE = TRUE ) STAGE_FILE_FORMAT = ( TYPE = '' @ [CHR 0x27] @ ''csv'' @
     [CHR 0x27] @ '' FIELD_DELIMITER= '' @ [CHR 0x27, CHR 0x5C] @ ''t'' @ [CHR 0x27] @
     '' FIELD_OPTIONALLY_ENCLOSED_BY='' @ [CHR 0x27, CHR 0x22, CHR 0x27] @ '' NULL_IF='' @
     [CHR 0x27, CHR 0x5C, CHR 0x5C] @ ''N'' @ [CHR 0x27] @ '' EMPTY_FIELD_AS_NULL=FALSE)''"

definition create_table_sql ::
  "gostd \<Rightarrow> gotime \<Rightarrow> destination_kind \<Rightarrow> AlterTableArgs \<Rightarrow> string list \<Rightarrow> string outcome" where
  "create_table_sql std now label a parts =
     (let body = at_FqTableName a @ '' ('' @ join '','' parts @ '')''
      in if at_TemporaryTable a then
           (case label of
              MSSQL \<Rightarrow> Ret (''CREATE TABLE '' @ body @ '';'')
            | Redshift \<Rightarrow> Ret (''CREATE TABLE IF NOT EXISTS '' @ body @ '';'')
            | BigQuery \<Rightarrow> Ret (''CREATE TABLE IF NOT EXISTS '' @ body @
                '' OPTIONS (expiration_timestamp = TIMESTAMP('' @ [CHR 0x22] @
                ExpiresDate std (time_Add (time_UTC now) TemporaryTableTTL) @ [CHR 0x22] @ ''))'')
            | Snowflake \<Rightarrow> Ret (''CREATE TABLE IF NOT EXISTS '' @ body @ snowflake_stage_options)
            | _ \<Rightarrow> Err (errorf (''unexpected dwh: '' @ show_destination label @
                '' trying to create a temporary table'')))
         else if label = MSSQL then Ret (''CREATE TABLE '' @ body)
         else Ret (''CREATE TABLE IF NOT EXISTS '' @ body))"

definition alter_sql :: "destination_kind \<Rightarrow> AlterTableArgs \<Rightarrow> string \<Rightarrow> string" where
  "alter_sql label a part =
     ''ALTER TABLE '' @ at_FqTableName a @ '' '' @ show_column_operation (at_ColumnOp a) @
     (if label = MSSQL then '' '' else '' COLUMN '') @ part"

fun run_alters ::
  "'w dwh \<Rightarrow> AlterTableArgs \<Rightarrow> string list \<Rightarrow> 'w session \<Rightarrow> 'w session \<times> unit outcome" where
  "run_alters dw a [] s = (s, Ret ())"
| "run_alters dw a (part # parts) s =
     (let q = alter_sql (dw_Label dw) a part
      in case exec_sql dw q s of
           (s', None) \<Rightarrow> run_alters dw a parts s'
         | (s', Some err) \<Rightarrow>
             if ColumnAlreadyExistErr (Some err) (dw_Label dw) then run_alters dw a parts s'
             else (s', Err (wrapf (''failed to apply ddl, sql: '' @ q @ '', err: '') err [])))"

definition run_ddl ::
  "gostd \<Rightarrow> gotime \<Rightarrow> 'w dwh \<Rightarrow> AlterTableArgs \<Rightarrow> string list \<Rightarrow> 'w session
     \<Rightarrow> 'w session \<times> unit outcome" where
  "run_ddl std now dw a parts s =
     (if at_CreateTable a
      then (case create_table_sql std now (dw_Label dw) a parts of
          Ret q \<Rightarrow>
            (case exec_sql dw q s of
               (s', None) \<Rightarrow> (s', Ret ())
             | (s', Some err) \<Rightarrow>
                 if ColumnAlreadyExistErr (Some err) (dw_Label dw) then (s', Ret ())
                 else (s', Err err))
        | Err e \<Rightarrow> (s, Err e)
        | Panic m \<Rightarrow> (s, Panic m))
      else run_alters dw a parts s)"

text \<open>
  The result is the session, the table config after the call and the outcome: on an error the
  statements already sent stay sent and the deletion timestamps already taken stay taken.
\<close>

definition AlterTable ::
  "gostd \<Rightarrow> (string \<Rightarrow> gotime) \<Rightarrow> 'w dwh \<Rightarrow> AlterTableArgs \<Rightarrow> Columns \<Rightarrow> 'w session
     \<Rightarrow> 'w session \<times> DwhTableConfig \<times> unit outcome" where
  "AlterTable std clk dw a cols s =
     (case AlterTableArgs_Validate a of
        Err e \<Rightarrow> (s, at_Tc a, Err e)
      | Panic m \<Rightarrow> (s, at_Tc a, Panic m)
      | Ret _ \<Rightarrow>
          if cols = [] then (s, at_Tc a, Ret ())
          else (case at_UppercaseEscNames a of
              None \<Rightarrow> (s, at_Tc a, Panic nil_dereference)
            | Some u \<Rightarrow>
                (case alter_columns clk (dw_Label dw) u a cols
                        \<lparr>ac_tc = at_Tc a, ac_mutateCol = [], ac_colSQLParts = [], ac_pkCols = []\<rparr> of
                   Err e \<Rightarrow> (s, at_Tc a, Err e)
                 | Panic m \<Rightarrow> (s, at_Tc a, Panic m)
                 | Ret acc \<Rightarrow>
                     (case run_ddl std (clk []) dw a
                             (ac_colSQLParts acc @ pk_statement (dw_Label dw) (ac_pkCols acc)) s of
                        (s', Ret _) \<Rightarrow>
                          (s', MutateInMemoryColumns False (at_ColumnOp a) (ac_mutateCol acc) (ac_tc acc),
                           Ret ())
                      | (s', Err e) \<Rightarrow> (s', ac_tc acc, Err e)
                      | (s', Panic m) \<Rightarrow> (s', ac_tc acc, Panic m)))))"

section \<open>Histories of a table config\<close>

text \<open>The operations that touch the deletion timestamps, with their inputs.\<close>

datatype tc_event =
  EvShould string gotime gotime bool
| EvAudit Columns
| EvMutate bool column_operation Columns

fun tc_apply :: "tc_event \<Rightarrow> DwhTableConfig \<Rightarrow> DwhTableConfig" where
  "tc_apply (EvShould c now cdc other) d = fst (ShouldDeleteColumn now c cdc other d)"
| "tc_apply (EvAudit cols) d = AuditColumnsToDelete cols d"
| "tc_apply (EvMutate ct op cols) d = MutateInMemoryColumns ct op cols d"

definition tc_run :: "tc_event list \<Rightarrow> DwhTableConfig \<Rightarrow> DwhTableConfig" where
  "tc_run es d = fold tc_apply es d"

text \<open>An event that does not reset the timestamp of a column.\<close>

fun keeps_stamp :: "bool \<Rightarrow> string \<Rightarrow> tc_event \<Rightarrow> bool" where
  "keeps_stamp drp c (EvShould n now cdc other) = True"
| "keeps_stamp drp c (EvAudit cols) = (drp \<longrightarrow> c \<in> col_name ` set cols)"
| "keeps_stamp drp c (EvMutate ct op cols) = (c \<notin> col_name ` set cols)"

section \<open>Facts on table configs\<close>

lemma mutate_steps:
  "dc_dropDeletedColumns (foldl add_column_step d cols) = dc_dropDeletedColumns d"
  "dc_dropDeletedColumns (foldl delete_column_step d cols) = dc_dropDeletedColumns d"
  "gm_get (dc_columnsToDelete (foldl add_column_step d cols)) c =
     (if c \<in> col_name ` set cols then None else gm_get (dc_columnsToDelete d) c)"
  "gm_get (dc_columnsToDelete (foldl delete_column_step d cols)) c =
     (if c \<in> col_name ` set cols then None else gm_get (dc_columnsToDelete d) c)"
  "dc_columns (foldl add_column_step d cols) = foldl (\<lambda>cs col. AddColumn col cs) (dc_columns d) cols"
  "dc_columns (foldl delete_column_step d cols) =
     foldl (\<lambda>cs col. DeleteColumn (col_name col) cs) (dc_columns d) cols"
  "dc_createTable (foldl delete_column_step d cols) = dc_createTable d"
  by (induction cols arbitrary: d) (auto simp: add_column_step_def delete_column_step_def)

lemma Mutate_frame [simp]:
  "dc_dropDeletedColumns (MutateInMemoryColumns ct op cols d) = dc_dropDeletedColumns d"
  "gm_get (dc_columnsToDelete (MutateInMemoryColumns ct op cols d)) c =
     (if c \<in> col_name ` set cols then None else gm_get (dc_columnsToDelete d) c)"
  by (auto simp: MutateInMemoryColumns_def mutate_steps split: column_operation.splits)

lemma gm_get_filter_key:
  "gm_get (filter (\<lambda>(k, v). P k) m) c = (if P c then gm_get m c else None)"
  by (induction m) (auto simp: gm_get_def)

lemma Audit_frame [simp]:
  "dc_dropDeletedColumns (AuditColumnsToDelete cols d) = dc_dropDeletedColumns d"
  "dc_columns (AuditColumnsToDelete cols d) = dc_columns d"
  "dc_createTable (AuditColumnsToDelete cols d) = dc_createTable d"
  by (simp_all add: AuditColumnsToDelete_def)

lemma gm_get_Audit:
  "gm_get (dc_columnsToDelete (AuditColumnsToDelete cols d)) c =
     (if dc_dropDeletedColumns d \<and> c \<notin> col_name ` set cols then None
      else gm_get (dc_columnsToDelete d) c)"
  using gm_get_filter_key [of "\<lambda>n. \<exists>col\<in>set cols. col_name col = n" "dc_columnsToDelete d" c]
  by (auto simp: AuditColumnsToDelete_def)

lemma ShouldDelete_frame [simp]:
  "dc_dropDeletedColumns (fst (ShouldDeleteColumn now c cdc other d)) = dc_dropDeletedColumns d"
  "dc_columns (fst (ShouldDeleteColumn now c cdc other d)) = dc_columns d"
  "dc_createTable (fst (ShouldDeleteColumn now c cdc other d)) = dc_createTable d"
  by (simp_all add: ShouldDeleteColumn_def AddColumnsToDelete_def split: option.splits)

lemma ShouldDelete_True_iff:
  "snd (ShouldDeleteColumn now c cdc other d) \<longleftrightarrow>
     other \<and> dc_dropDeletedColumns d
     \<and> (\<exists>ts. gm_get (dc_columnsToDelete d) c = Some ts \<and> t_nanos ts < t_nanos cdc)"
  by (auto simp: ShouldDeleteColumn_def time_After_def split: option.splits)

lemma ShouldDelete_stamps:
  "gm_get (dc_columnsToDelete (fst (ShouldDeleteColumn now c cdc other d))) n =
     (if n = c \<and> other \<and> dc_dropDeletedColumns d \<and> gm_get (dc_columnsToDelete d) c = None
      then Some (time_Add (time_UTC now) DeletionConfidencePadding)
      else gm_get (dc_columnsToDelete d) n)"
  by (auto simp: ShouldDeleteColumn_def AddColumnsToDelete_def split: option.splits)

lemma tc_run_snoc: "tc_run (es @ [e]) d = tc_apply e (tc_run es d)"
  by (simp add: tc_run_def)

lemma tc_run_drop [simp]: "dc_dropDeletedColumns (tc_run es d) = dc_dropDeletedColumns d"
proof (induction es rule: rev_induct)
  case Nil
  then show ?case by (simp add: tc_run_def)
next
  case (snoc e es)
  then show ?case by (cases e) (simp_all add: tc_run_snoc)
qed

text \<open>Where a timestamp comes from: the first examination of the column, never reset since.\<close>

definition stamped_by :: "bool \<Rightarrow> tc_event list \<Rightarrow> string \<Rightarrow> gotime \<Rightarrow> bool" where
  "stamped_by drp es c ts \<longleftrightarrow>
     (\<exists>pre now cdc post. es = pre @ EvShould c now cdc True # post
        \<and> ts = time_Add (time_UTC now) DeletionConfidencePadding
        \<and> (\<forall>e\<in>set post. keeps_stamp drp c e))"

lemma stamped_by_snoc:
  "stamped_by drp es c ts \<Longrightarrow> keeps_stamp drp c e \<Longrightarrow> stamped_by drp (es @ [e]) c ts"
  unfolding stamped_by_def by (elim exE conjE, rule exI, rule exI, rule exI, rule exI [of _ "_ @ [e]"]) auto

lemma stamp_origin:
  assumes "dc_columnsToDelete d = []"
    and "gm_get (dc_columnsToDelete (tc_run es d)) c = Some ts"
  shows "stamped_by (dc_dropDeletedColumns d) es c ts"
  using assms(2)
proof (induction es arbitrary: ts rule: rev_induct)
  case Nil
  then show ?case using assms(1) by (simp add: tc_run_def)
next
  case (snoc e es)
  show ?case
  proof (cases e)
    case (EvShould n now cdc other)
    show ?thesis
    proof (cases "gm_get (dc_columnsToDelete (tc_run es d)) c")
      case None
      with snoc.prems EvShould have "n = c" "other"
        "ts = time_Add (time_UTC now) DeletionConfidencePadding"
        by (auto simp: tc_run_snoc ShouldDelete_stamps split: if_splits)
      then show ?thesis unfolding stamped_by_def EvShould by force
    next
      case (Some ts')
      with snoc.prems EvShould have "ts' = ts"
        by (auto simp: tc_run_snoc ShouldDelete_stamps split: if_splits)
      with snoc.IH Some EvShould show ?thesis by (simp add: stamped_by_snoc)
    qed
  next
    case (EvAudit cols)
    with snoc show ?thesis
      by (auto simp: tc_run_snoc gm_get_Audit intro!: stamped_by_snoc split: if_splits)
  next
    case (EvMutate ct op cols)
    with snoc show ?thesis
      by (auto simp: tc_run_snoc intro!: stamped_by_snoc split: if_splits)
  qed
qed

section \<open>Facts on altering a table\<close>

lemma fst_exec_sql_log: "db_log (fst (exec_sql dw q s)) = db_log s @ [q]"
  by (simp add: exec_sql_def split: prod.splits)

lemma alter_column_tc:
  assumes "alter_column clk label u a col acc = Ret acc'"
  shows "ac_tc acc' = ac_tc acc \<or> ac_tc acc' =
    fst (ShouldDeleteColumn (clk (col_name col)) (col_name col) (at_CdcTime a)
      (at_ContainOtherOperations a) (ac_tc acc))"
proof (cases "ShouldDeleteColumn (clk (col_name col)) (col_name col) (at_CdcTime a)
    (at_ContainOtherOperations a) (ac_tc acc)")
  case (Pair tc' ok)
  with assms show ?thesis
    by (cases "at_ColumnOp a") (auto simp: alter_column_def Let_def split: if_splits)
qed

lemma alter_column_frame:
  "alter_column clk label u a col acc = Ret acc' \<Longrightarrow>
     dc_columns (ac_tc acc') = dc_columns (ac_tc acc)
     \<and> dc_createTable (ac_tc acc') = dc_createTable (ac_tc acc)
     \<and> dc_dropDeletedColumns (ac_tc acc') = dc_dropDeletedColumns (ac_tc acc)"
  by (drule alter_column_tc) auto

lemma alter_columns_frame:
  "alter_columns clk label u a cols acc = Ret acc' \<Longrightarrow>
     dc_columns (ac_tc acc') = dc_columns (ac_tc acc)
     \<and> dc_createTable (ac_tc acc') = dc_createTable (ac_tc acc)
     \<and> dc_dropDeletedColumns (ac_tc acc') = dc_dropDeletedColumns (ac_tc acc)"
  by (induction cols arbitrary: acc) (auto dest!: alter_column_frame)

lemma alter_columns_Add:
  "at_ColumnOp a = Add \<Longrightarrow> alter_columns clk label u a cols acc = Ret acc' \<Longrightarrow>
     ac_tc acc' = ac_tc acc \<and> ac_mutateCol acc' = ac_mutateCol acc @ filter (\<lambda>c. \<not> ShouldSkip c) cols"
proof (induction cols arbitrary: acc)
  case Nil
  then show ?case by simp
next
  case (Cons col cols)
  then obtain acc1 where 1: "alter_column clk label u a col acc = Ret acc1"
    and 2: "alter_columns clk label u a cols acc1 = Ret acc'"
    by auto
  from 1 Cons.prems(1)
  have "ac_tc acc1 = ac_tc acc \<and>
      ac_mutateCol acc1 = ac_mutateCol acc @ filter (\<lambda>c. \<not> ShouldSkip c) [col]"
    by (auto simp: alter_column_def Let_def split: if_splits)
  with Cons.IH [OF Cons.prems(1) 2] show ?case by auto
qed

text \<open>A column the warehouse may drop now: it was stamped before and the event is later.\<close>

definition due :: "AlterTableArgs \<Rightarrow> Column \<Rightarrow> bool" where
  "due a c \<longleftrightarrow> \<not> ShouldSkip c
     \<and> snd (ShouldDeleteColumn zero_time (col_name c) (at_CdcTime a) (at_ContainOtherOperations a) (at_Tc a))"

definition quoted :: "destination_kind \<Rightarrow> bool \<Rightarrow> Column \<Rightarrow> string" where
  "quoted label u c = Column_Name u (Some \<lparr>Escape = True, na_DestKind = label\<rparr>) c"

lemma alter_columns_Delete:
  assumes "at_ColumnOp a = Delete" and "distinct (map col_name cols)"
    and "\<forall>c\<in>set cols. gm_get (dc_columnsToDelete (ac_tc acc)) (col_name c) =
           gm_get (dc_columnsToDelete (at_Tc a)) (col_name c)"
    and "dc_dropDeletedColumns (ac_tc acc) = dc_dropDeletedColumns (at_Tc a)"
    and "alter_columns clk label u a cols acc = Ret acc'"
  shows "ac_mutateCol acc' = ac_mutateCol acc @ filter (due a) cols
     \<and> ac_colSQLParts acc' = ac_colSQLParts acc @ map (quoted label u) (filter (due a) cols)
     \<and> ac_pkCols acc' = ac_pkCols acc"
  using assms(2-5)
proof (induction cols arbitrary: acc)
  case Nil
  then show ?case by simp
next
  case (Cons col cols)
  then obtain acc1 where 1: "alter_column clk label u a col acc = Ret acc1"
    and 2: "alter_columns clk label u a cols acc1 = Ret acc'"
    by auto
  let ?sd = "ShouldDeleteColumn (clk (col_name col)) (col_name col) (at_CdcTime a)
    (at_ContainOtherOperations a) (ac_tc acc)"
  have due: "due a col \<longleftrightarrow> \<not> ShouldSkip col \<and> snd ?sd"
    using Cons.prems by (simp add: due_def ShouldDelete_True_iff)
  have acc1: "ac_mutateCol acc1 = ac_mutateCol acc @ filter (due a) [col]
     \<and> ac_colSQLParts acc1 = ac_colSQLParts acc @ map (quoted label u) (filter (due a) [col])
     \<and> ac_pkCols acc1 = ac_pkCols acc \<and> (ac_tc acc1 = ac_tc acc \<or> ac_tc acc1 = fst ?sd)"
    using 1 assms(1) due
    by (auto simp: alter_column_def Let_def quoted_def split: if_splits prod.splits)
  have "\<forall>c\<in>set cols. gm_get (dc_columnsToDelete (ac_tc acc1)) (col_name c) =
      gm_get (dc_columnsToDelete (at_Tc a)) (col_name c)"
  proof
    fix c assume c: "c \<in> set cols"
    then have "col_name c \<noteq> col_name col" using Cons.prems(1) by (auto intro: rev_image_eqI)
    then show "gm_get (dc_columnsToDelete (ac_tc acc1)) (col_name c) =
        gm_get (dc_columnsToDelete (at_Tc a)) (col_name c)"
      using acc1 Cons.prems(2) c by (auto simp: ShouldDelete_stamps)
  qed
  moreover have "dc_dropDeletedColumns (ac_tc acc1) = dc_dropDeletedColumns (at_Tc a)"
    using acc1 Cons.prems(3) by auto
  ultimately show ?case
    using Cons.IH [of acc1] Cons.prems(1) 2 acc1 by auto
qed

lemma run_alters_log:
  "run_alters dw a parts s = (s', r) \<Longrightarrow>
     \<exists>n. db_log s' = db_log s @ map (alter_sql (dw_Label dw) a) (take n parts)
       \<and> (r = Ret () \<longrightarrow> length parts \<le> n) \<and> r \<noteq> Panic m"
proof (induction parts arbitrary: s)
  case Nil
  then show ?case by auto
next
  case (Cons part parts)
  let ?q = "alter_sql (dw_Label dw) a part"
  obtain s1 e where x: "exec_sql dw ?q s = (s1, e)" by (cases "exec_sql dw ?q s")
  then have log1: "db_log s1 = db_log s @ [?q]" using fst_exec_sql_log [of dw ?q s] by simp
  show ?case
  proof (cases "e = None \<or> ColumnAlreadyExistErr e (dw_Label dw)")
    case True
    then have "run_alters dw a parts s1 = (s', r)"
      using Cons.prems x by (auto simp: Let_def ColumnAlreadyExistErr_def split: option.splits)
    then obtain n where "db_log s' = db_log s1 @ map (alter_sql (dw_Label dw) a) (take n parts)"
      "r = Ret () \<longrightarrow> length parts \<le> n" "r \<noteq> Panic m"
      using Cons.IH by blast
    with log1 show ?thesis by (intro exI [of _ "Suc n"]) simp
  next
    case False
    then show ?thesis
      using Cons.prems x log1 by (intro exI [of _ 1]) (auto simp: Let_def)
  qed
qed

lemma run_ddl_not_Panic: "run_ddl std now dw a parts s \<noteq> (s', Panic m)"
proof (cases "at_CreateTable a")
  case True
  then show ?thesis
    by (auto simp: run_ddl_def create_table_sql_def Let_def
        split: outcome.splits prod.splits option.splits destination_kind.splits if_splits)
next
  case False
  then show ?thesis using run_alters_log [of dw a parts s s' "Panic m" m]
    by (auto simp: run_ddl_def)
qed

lemma alter_columns_not_Err: "alter_columns clk label u a cols acc \<noteq> Err e"
proof (induction cols arbitrary: acc)
  case Nil
  then show ?case by simp
next
  case (Cons col cols)
  have "alter_column clk label u a col acc \<noteq> Err e" for e
    by (cases "KindToDWHType (col_KindDetails col) label (col_primaryKey col)")
      (auto simp: alter_column_def Let_def KindToDWHType_not_Err
        split: column_operation.splits prod.splits)
  with Cons show ?case by (cases "alter_column clk label u a col acc") auto
qed

definition alter_start :: "AlterTableArgs \<Rightarrow> alter_acc" where
  "alter_start a = \<lparr>ac_tc = at_Tc a, ac_mutateCol = [], ac_colSQLParts = [], ac_pkCols = []\<rparr>"

lemma alter_start_simps [simp]:
  "ac_tc (alter_start a) = at_Tc a" "ac_mutateCol (alter_start a) = []"
  "ac_colSQLParts (alter_start a) = []" "ac_pkCols (alter_start a) = []"
  by (simp_all add: alter_start_def)

definition alter_parts :: "'w dwh \<Rightarrow> alter_acc \<Rightarrow> string list" where
  "alter_parts dw acc = ac_colSQLParts acc @ pk_statement (dw_Label dw) (ac_pkCols acc)"

text \<open>The ways a call can end.\<close>

lemma AlterTable_cases:
  assumes "AlterTable std clk dw a cols s = (s', tc', r)"
  obtains (invalid) e where "AlterTableArgs_Validate a = Err e" "s' = s" "tc' = at_Tc a" "r = Err e"
  | (empty) "cols = []" "s' = s" "tc' = at_Tc a" "r = Ret ()"
  | (panic) m where "s' = s" "tc' = at_Tc a" "r = Panic m"
  | (error) u acc e where "AlterTableArgs_Validate a = Ret ()" "cols \<noteq> []"
      "alter_columns clk (dw_Label dw) u a cols (alter_start a) = Ret acc"
      "run_ddl std (clk []) dw a (alter_parts dw acc) s = (s', Err e)"
      "tc' = ac_tc acc" "r = Err e"
  | (success) u acc where "AlterTableArgs_Validate a = Ret ()" "cols \<noteq> []"
      "alter_columns clk (dw_Label dw) u a cols (alter_start a) = Ret acc"
      "run_ddl std (clk []) dw a (alter_parts dw acc) s = (s', Ret ())"
      "tc' = MutateInMemoryColumns False (at_ColumnOp a) (ac_mutateCol acc) (ac_tc acc)" "r = Ret ()"
proof (cases "AlterTableArgs_Validate a")
  case (Err e)
  with assms show ?thesis by (intro invalid [of e]) (auto simp: AlterTable_def)
next
  case (Panic m)
  with assms show ?thesis by (intro panic [of m]) (auto simp: AlterTable_def)
next
  case (Ret v)
  show ?thesis
  proof (cases "cols = [] \<or> at_UppercaseEscNames a = None")
    case True
    with assms Ret empty panic show ?thesis by (auto simp: AlterTable_def split: if_splits)
  next
    case False
    then obtain u where u: "at_UppercaseEscNames a = Some u" and ne: "cols \<noteq> []" by auto
    show ?thesis
    proof (cases "alter_columns clk (dw_Label dw) u a cols (alter_start a)")
      case (Err e)
      then show ?thesis by (simp add: alter_columns_not_Err)
    next
      case (Panic m)
      with assms Ret u ne show ?thesis
        by (intro panic [of m]) (auto simp: AlterTable_def alter_start_def)
    next
      case acc: (Ret acc)
      obtain s1 r1 where d: "run_ddl std (clk []) dw a (alter_parts dw acc) s = (s1, r1)"
        by (cases "run_ddl std (clk []) dw a (alter_parts dw acc) s")
      show ?thesis
      proof (cases r1)
        case (Panic m)
        with d show ?thesis by (simp add: run_ddl_not_Panic)
      next
        case (Err e)
        with assms Ret u ne acc d show ?thesis
          by (intro error [of u acc e])
            (auto simp: AlterTable_def alter_start_def [symmetric] alter_parts_def)
      next
        case r1: (Ret x)
        with assms Ret u ne acc d show ?thesis
          by (intro success [of u acc])
            (auto simp: AlterTable_def alter_start_def [symmetric] alter_parts_def)
      qed
    qed
  qed
qed

lemma names_foldl_AddColumn:
  "col_name ` set (foldl (\<lambda>cs col. AddColumn col cs) acc cols) =
     col_name ` set acc \<union> (col_name ` set cols - {[]})"
  by (induction cols arbitrary: acc) (auto simp: AddColumn_def GetColumn_None_iff)

lemma names_foldl_DeleteColumn:
  assumes "columns_inv acc"
  shows "col_name ` set (foldl (\<lambda>cs col. DeleteColumn (col_name col) cs) acc cols) =
     col_name ` set acc - col_name ` set cols"
  unfolding foldl_DeleteColumn_filter [OF assms]
  by (subst names_filter [of "\<lambda>n. n \<notin> col_name ` set cols"]) blast

lemma delete_run:
  assumes "at_ColumnOp a = Delete" and "distinct (map col_name cols)"
    and "AlterTableArgs_Validate a = Ret ()"
    and "alter_columns clk (dw_Label dw) u a cols (alter_start a) = Ret acc"
    and "run_ddl std now dw a (alter_parts dw acc) s = (s', r)"
  shows "ac_mutateCol acc = filter (due a) cols"
    and "\<exists>n. db_log s' = db_log s @
      take n (map (\<lambda>c. alter_sql (dw_Label dw) a (quoted (dw_Label dw) u c)) (filter (due a) cols))
      \<and> (r = Ret () \<longrightarrow> length (filter (due a) cols) \<le> n)"
proof -
  have acc: "ac_mutateCol acc = filter (due a) cols"
    "alter_parts dw acc = map (quoted (dw_Label dw) u) (filter (due a) cols)"
    using alter_columns_Delete [OF assms(1,2) _ _ assms(4)]
    by (simp_all add: alter_parts_def pk_statement_def)
  show "ac_mutateCol acc = filter (due a) cols" by (rule acc)
  have "\<not> at_CreateTable a"
    using assms(1,3) by (auto simp: AlterTableArgs_Validate_def split: if_splits)
  then have "run_alters dw a (map (quoted (dw_Label dw) u) (filter (due a) cols)) s = (s', r)"
    using assms(5) by (simp add: run_ddl_def acc)
  from run_alters_log [OF this] show "\<exists>n. db_log s' = db_log s @
      take n (map (\<lambda>c. alter_sql (dw_Label dw) a (quoted (dw_Label dw) u c)) (filter (due a) cols))
      \<and> (r = Ret () \<longrightarrow> length (filter (due a) cols) \<le> n)"
    by (fastforce simp: take_map comp_def)
qed

lemma columns_Mutate_Delete:
  "dc_columns (MutateInMemoryColumns ct Delete cols d) =
     foldl (\<lambda>cs col. DeleteColumn (col_name col) cs) (dc_columns d) cols"
  by (simp add: MutateInMemoryColumns_def mutate_steps)

lemma columns_Mutate_Add:
  "dc_columns (MutateInMemoryColumns ct Add cols d) =
     foldl (\<lambda>cs col. AddColumn col cs) (dc_columns d) cols"
  "dc_createTable (MutateInMemoryColumns ct Add cols d) = ct"
  by (simp_all add: MutateInMemoryColumns_def mutate_steps)

section \<open>Properties\<close>

text \<open>
  C16. A column is dropped only after the confidence padding: in every history of a table config
  that starts without timestamps, an examination that answers ``delete'' comes with
  \<^verbatim>\<open>dropDeletedColumns\<close> on and a batch that has more than deletes, and was preceded by an
  examination of the same column at a time \<open>now\<close> such that the event time is later than
  \<open>now\<close> plus four hours, with no audit or schema change in between that cleared the column.
\<close>

theorem column_dropped_only_after_padding:
  assumes "dc_columnsToDelete d = []"
    and "snd (ShouldDeleteColumn now' c cdc' other' (tc_run es d))"
  shows "dc_dropDeletedColumns d \<and> other'
    \<and> (\<exists>pre now cdc post. es = pre @ EvShould c now cdc True # post
         \<and> t_nanos now + 4 * 60 * 60 * 1000000000 < t_nanos cdc'
         \<and> (\<forall>e\<in>set post. keeps_stamp True c e))"
proof -
  from assms(2) obtain ts where drp: "dc_dropDeletedColumns d" and o: other'
    and g: "gm_get (dc_columnsToDelete (tc_run es d)) c = Some ts" and lt: "t_nanos ts < t_nanos cdc'"
    by (auto simp: ShouldDelete_True_iff)
  from stamp_origin [OF assms(1) g] obtain pre now cdc post
    where es: "es = pre @ EvShould c now cdc True # post"
    and ts: "ts = time_Add (time_UTC now) DeletionConfidencePadding"
    and post: "\<forall>e\<in>set post. keeps_stamp (dc_dropDeletedColumns d) c e"
    unfolding stamped_by_def by blast
  have "t_nanos ts = t_nanos now + 4 * 60 * 60 * 1000000000"
    by (simp add: ts time_Add_def time_UTC_def DeletionConfidencePadding_def nanos_per_second_def)
  with es post drp o lt show ?thesis by auto
qed

definition at_nanos :: "int \<Rightarrow> gotime" where
  "at_nanos n = \<lparr>t_nanos = n, t_zone = ''UTC''\<rparr>"

theorem column_dropped_only_after_padding_witness:
  "\<exists>pre now cdc post. [EvShould ''c'' (at_nanos 0) (at_nanos 0) True] =
      pre @ EvShould ''c'' now cdc True # post \<and> t_nanos now + 14400000000000 < 15000000000000"
  using column_dropped_only_after_padding
    [of "NewDwhTableConfig [] [] False True" "at_nanos 0" "''c''" "at_nanos 15000000000000" True
      "[EvShould ''c'' (at_nanos 0) (at_nanos 0) True]"]
  by (fastforce simp: NewDwhTableConfig_def tc_run_def ShouldDelete_True_iff ShouldDeleteColumn_def
      AddColumnsToDelete_def time_Add_def time_UTC_def time_After_def at_nanos_def
      DeletionConfidencePadding_def nanos_per_second_def)

text \<open>
  C17. Dropping columns: for a list of distinct columns, the statements sent are a prefix of one
  \<^verbatim>\<open>ALTER TABLE ... drop\<close> per column that is due, in order, and nothing else; on success all of
  them were sent and exactly the due columns leave the in-memory schema; on an error the in-memory
  schema is unchanged.
\<close>

theorem AlterTable_drops_due_columns:
  assumes "AlterTable std clk dw a cols s = (s', tc', r)"
    and "at_ColumnOp a = Delete" and "distinct (map col_name cols)"
    and "columns_inv (dc_columns (at_Tc a))"
  shows "\<exists>n u. db_log s' = db_log s @
      take n (map (\<lambda>c. alter_sql (dw_Label dw) a (quoted (dw_Label dw) u c)) (filter (due a) cols))
    \<and> (r = Ret () \<longrightarrow> length (filter (due a) cols) \<le> n
        \<and> col_name ` set (dc_columns tc') =
            col_name ` set (dc_columns (at_Tc a)) - col_name ` set (filter (due a) cols))
    \<and> (r \<noteq> Ret () \<longrightarrow> dc_columns tc' = dc_columns (at_Tc a))"
  using assms(1)
proof (cases rule: AlterTable_cases)
  case (error u acc e)
  with delete_run(2) [OF assms(2,3) error(1,3,4)] alter_columns_frame [OF error(3)]
  show ?thesis by auto
next
  case (success u acc)
  have "col_name ` set (dc_columns tc') =
      col_name ` set (dc_columns (at_Tc a)) - col_name ` set (filter (due a) cols)"
    using success alter_columns_frame [OF success(3)] delete_run(1) [OF assms(2,3) success(1,3,4)]
      names_foldl_DeleteColumn [OF assms(4)] assms(2)
    by (simp add: columns_Mutate_Delete del: set_filter)
  with delete_run(2) [OF assms(2,3) success(1,3,4)] success(6) show ?thesis by blast
qed (auto intro: exI [of _ 0])

definition logging_dwh :: "destination_kind \<Rightarrow> unit dwh" where
  "logging_dwh label = \<lparr>dw_Label = label, dw_Exec = (\<lambda>q w. (w, None))\<rparr>"

definition empty_session :: "unit session" where
  "empty_session = \<lparr>db_state = (), db_log = []\<rparr>"

definition sample_drop :: AlterTableArgs where
  "sample_drop =
     \<lparr>at_Tc = NewDwhTableConfig [NewColumn ''a'' Integer, NewColumn ''b'' Integer]
        [(''b'', at_nanos 5)] False True,
      at_ContainOtherOperations = True, at_FqTableName = ''db.public.orders'', at_CreateTable = False,
      at_TemporaryTable = False, at_UppercaseEscNames = Some False, at_ColumnOp = Delete,
      at_Mode = Replication, at_CdcTime = at_nanos 6\<rparr>"

theorem AlterTable_drops_due_columns_witness:
  "\<exists>n u. db_log (fst (AlterTable sample_std (\<lambda>_. at_nanos 6) (logging_dwh Snowflake) sample_drop
        [NewColumn ''b'' Integer] empty_session)) =
     [] @ take n [alter_sql Snowflake sample_drop (quoted Snowflake u (NewColumn ''b'' Integer))]"
proof -
  obtain s' tc' r where x: "AlterTable sample_std (\<lambda>_. at_nanos 6) (logging_dwh Snowflake) sample_drop
        [NewColumn ''b'' Integer] empty_session = (s', tc', r)"
    by (metis prod_cases3)
  have "filter (due sample_drop) [NewColumn ''b'' Integer] = [NewColumn ''b'' Integer]"
    by (simp add: due_def ShouldSkip_def ShouldDelete_True_iff sample_drop_def NewDwhTableConfig_def
        gm_get_def at_nanos_def kind_defs)
  with AlterTable_drops_due_columns [OF x] x show ?thesis
    by (auto simp: sample_drop_def NewDwhTableConfig_def columns_inv_def empty_session_def
        logging_dwh_def)
qed

text \<open>
  C18. Adding columns: when the call succeeds, the in-memory schema is the old one and every column
  of the call with a valid kind and a name, none of these is marked for deletion any more, and the
  table counts as created. When it fails, the in-memory schema and the create flag are unchanged.
\<close>

theorem AlterTable_add_effect:
  assumes "AlterTable std clk dw a cols s = (s', tc', r)" and "at_ColumnOp a = Add"
  shows "(r = Ret () \<and> cols \<noteq> [] \<longrightarrow>
      col_name ` set (dc_columns tc') = col_name ` set (dc_columns (at_Tc a))
        \<union> (col_name ` {c \<in> set cols. \<not> ShouldSkip c} - {[]})
      \<and> \<not> dc_createTable tc'
      \<and> (\<forall>c\<in>set cols. \<not> ShouldSkip c \<longrightarrow> gm_get (dc_columnsToDelete tc') (col_name c) = None))
    \<and> (r \<noteq> Ret () \<longrightarrow> dc_columns tc' = dc_columns (at_Tc a)
        \<and> dc_createTable tc' = dc_createTable (at_Tc a))"
  using assms(1)
proof (cases rule: AlterTable_cases)
  case (error u acc e)
  with alter_columns_frame [OF error(3)] show ?thesis by auto
next
  case (success u acc)
  with alter_columns_Add [OF assms(2) success(3)] assms(2) show ?thesis
    by (auto simp: columns_Mutate_Add names_foldl_AddColumn)
qed auto

theorem AlterTable_add_effect_witness:
  "\<not> dc_createTable (fst (snd (AlterTable sample_std (\<lambda>_. at_nanos 6) (logging_dwh Snowflake)
      (sample_drop\<lparr>at_ColumnOp := Add\<rparr>) [NewColumn ''c'' Integer] empty_session)))"
proof -
  let ?r = "AlterTable sample_std (\<lambda>_. at_nanos 6) (logging_dwh Snowflake)
      (sample_drop\<lparr>at_ColumnOp := Add\<rparr>) [NewColumn ''c'' Integer] empty_session"
  obtain s' tc' r where x: "?r = (s', tc', r)" by (metis prod_cases3)
  then have "r = Ret () \<longrightarrow> \<not> dc_createTable tc'" "r \<noteq> Ret () \<longrightarrow> \<not> dc_createTable tc'"
    using AlterTable_add_effect [OF x] by (auto simp: sample_drop_def NewDwhTableConfig_def)
  with x show ?thesis by auto
qed

text \<open>
  Arguments that fail validation touch nothing: no statement is sent, the table config stays
  and the caller gets the validation error.
\<close>

theorem AlterTable_invalid_is_inert:
  assumes "AlterTableArgs_Validate a = Err e"
  shows "AlterTable std clk dw a cols s = (s, at_Tc a, Err e)"
  using assms by (simp add: AlterTable_def)

theorem AlterTable_invalid_is_inert_witness:
  "AlterTable sample_std (\<lambda>_. at_nanos 6) (logging_dwh Snowflake)
      (sample_drop\<lparr>at_CreateTable := True\<rparr>) [NewColumn ''b'' Integer] empty_session =
    (empty_session, at_Tc sample_drop,
     Err (errorf ''incompatible operation - cannot drop columns and create table at the same time''))"
proof -
  have "AlterTableArgs_Validate (sample_drop\<lparr>at_CreateTable := True\<rparr>) =
     Err (errorf ''incompatible operation - cannot drop columns and create table at the same time'')"
    by (simp add: AlterTableArgs_Validate_def sample_drop_def)
  from AlterTable_invalid_is_inert [OF this] show ?thesis by (simp add: sample_drop_def)
qed

text \<open>
  C19. Only temporary tables are dropped: the call sends nothing when the name does not contain the
  prefix, and otherwise sends exactly one \<^verbatim>\<open>DROP TABLE\<close> of that name; it never fails unless the
  caller asked for errors.
\<close>

theorem DropTemporaryTable_guarded:
  "db_log (fst (DropTemporaryTable dw name ret s)) =
     db_log s @ (if contains (to_lower name) ''__artie'' then [''DROP TABLE IF EXISTS '' @ name] else [])
   \<and> (\<not> is_ret (snd (DropTemporaryTable dw name ret s)) \<longrightarrow> ret \<and> contains (to_lower name) ''__artie'')"
proof (cases "contains (to_lower name) ''__artie''")
  case True
  obtain s' e where x: "exec_sql dw (''DROP TABLE IF EXISTS '' @ name) s = (s', e)"
    by (cases "exec_sql dw (''DROP TABLE IF EXISTS '' @ name) s")
  with fst_exec_sql_log [of dw "''DROP TABLE IF EXISTS '' @ name" s]
  have "db_log s' = db_log s @ [''DROP TABLE IF EXISTS '' @ name]" by simp
  with True x show ?thesis
    by (cases e) (auto simp: DropTemporaryTable_def ArtiePrefix_def)
next
  case False
  then show ?thesis by (simp add: DropTemporaryTable_def ArtiePrefix_def)
qed

theorem DropTemporaryTable_guarded_witness:
  "db_log (fst (DropTemporaryTable (logging_dwh Redshift) ''db.orders'' True empty_session)) = []"
  using DropTemporaryTable_guarded [of "logging_dwh Redshift" "''db.orders''" True empty_session]
  by (simp add: contains_def to_lower_def to_lower_char_def empty_session_def Let_def
      sublist_Cons_right)

lemma split_on_append: "split_on c (a @ c # s) = split_on c a @ split_on c s"
proof (induction a)
  case Nil
  then show ?case by simp
next
  case (Cons x a)
  then show ?case by (cases "split_on c a") auto
qed

lemma underscore_not_in_show_int: "CHR ''_'' \<notin> set (show_int i)"
  by (rule not_in_show_int) (simp_all add: is_digit_def)

text \<open>
  C20. Temporary tables live exactly their time: a name ending in the suffix that \<^verbatim>\<open>TempTableSuffix\<close> builds
  at time \<open>now\<close> is recognised as expired exactly when the clock has passed the whole second
  of \<open>now\<close> plus six hours, whatever precedes the suffix.
\<close>

theorem temp_table_expiry:
  assumes "min_int64 \<le> time_Unix (time_Add now TemporaryTableTTL)"
    and "time_Unix (time_Add now TemporaryTableTTL) \<le> max_int64"
  shows "ShouldDeleteFromName later (base @ ''_'' @ TempTableSuffix now t) \<longleftrightarrow>
    (t_nanos now + 6 * 60 * 60 * 1000000000) div 1000000000 * 1000000000 < t_nanos later"
proof -
  let ?u = "time_Unix (time_Add now TemporaryTableTTL)"
  let ?pre = "base @ ''_'' @ td_temporaryTableSuffix t"
  have parts: "split_on (CHR ''_'') (base @ ''_'' @ TempTableSuffix now t) =
      split_on (CHR ''_'') ?pre @ [show_int ?u]"
    using split_on_append [of "CHR ''_''" ?pre "show_int ?u"]
    by (simp add: TempTableSuffix_def split_on_free [OF underscore_not_in_show_int])
  have "0 < length (split_on (CHR ''_'') ?pre)" unfolding length_greater_0_conv by (rule split_on_not_Nil)
  then have "\<not> length (split_on (CHR ''_'') ?pre @ [show_int ?u]) < 2"
    unfolding length_append by simp
  then show ?thesis
    unfolding ShouldDeleteFromName_def parts Let_def last_snoc atoi_show_int [OF assms]
    by (simp add: time_After_def time_UTC_def time_of_unix_def time_Unix_def time_Add_def
        TemporaryTableTTL_def nanos_per_second_def)
qed

theorem temp_table_expiry_witness:
  "ShouldDeleteFromName (at_nanos 21601000000000) (''orders_'' @ TempTableSuffix (at_nanos 0) sample_table)
   \<and> \<not> ShouldDeleteFromName (at_nanos 21600000000000) (''orders_'' @ TempTableSuffix (at_nanos 0) sample_table)"
  using temp_table_expiry [of "at_nanos 0" "at_nanos 21601000000000" "''orders''" sample_table]
    temp_table_expiry [of "at_nanos 0" "at_nanos 21600000000000" "''orders''" sample_table]
  by (simp add: at_nanos_def time_Unix_def time_Add_def TemporaryTableTTL_def nanos_per_second_def
      min_int64_def max_int64_def)

text \<open>
  Adding a primary-key column to an existing table sends, after the column itself, an
  \<^verbatim>\<open>ALTER TABLE ... add COLUMN\<close> whose column is the \<^verbatim>\<open>PRIMARY KEY\<close> clause.
\<close>

theorem AlterTable_adds_key_clause_as_column:
  "db_log (fst (AlterTable sample_std (\<lambda>_. at_nanos 6) (logging_dwh Snowflake)
      (sample_drop\<lparr>at_ColumnOp := Add\<rparr>) [(NewColumn ''id'' Integer)\<lparr>col_primaryKey := True\<rparr>]
      empty_session)) =
   [''ALTER TABLE db.public.orders add COLUMN id int'',
    ''ALTER TABLE db.public.orders add COLUMN PRIMARY KEY (id)'']"
  by code_simp

end
