(* ===== verification/DML.thy ===== *)
theory DML
  imports TableData
begin

text \<open>
  The statements that merge a staging table into its target, \<^verbatim>\<open>lib/destination/dml/merge.go\<close>:
  one \<^verbatim>\<open>MERGE\<close> for Snowflake, BigQuery and MSSQL, and separate statements for Redshift. The
  lemmas say which columns the statements write and when a statement for deletes is present.
  The text that an error prints for the whole column list is left out of its message.
\<close>

section \<open>Arguments\<close>

record MergeArgument =
  ma_FqTableName :: string
  ma_SubQuery :: string
  ma_IdempotentKey :: string
  ma_PrimaryKeys :: "Wrapper list"
  ma_AdditionalEqualityStrings :: "string list"
  ma_Columns :: Columns
  ma_DestKind :: destination_kind
  ma_SoftDelete :: bool
  ma_ContainsHardDeletes :: "bool option"
  ma_UppercaseEscNames :: "bool option"

definition MergeArgument_Valid :: "MergeArgument \<Rightarrow> unit outcome" where
  "MergeArgument_Valid m =
     (if ma_PrimaryKeys m = []
      then Err (errorf ''merge argument does not contain primary keys'')
      else if ma_Columns m = [] then Err (errorf ''columns cannot be empty'')
      else if stringutil_Empty [ma_FqTableName m, ma_SubQuery m]
      then Err (errorf ''one of these arguments is empty: fqTableName, subQuery'')
      else if ma_UppercaseEscNames m = None
      then Err (errorf ''uppercaseEscNames cannot be nil'')
      else if \<not> IsValidDestination (ma_DestKind m)
      then Err (errorf (''invalid destination: '' @ show_destination (ma_DestKind m)))
      else Ret ())"

section \<open>The pieces of a statement\<close>

definition equality_sql :: "Wrapper \<Rightarrow> string" where
  "equality_sql pk = ''c.'' @ wr_escapedName pk @ '' = cc.'' @ wr_escapedName pk"

definition columns_to_update :: "MergeArgument \<Rightarrow> bool \<Rightarrow> string list" where
  "columns_to_update m u =
     GetColumnsToUpdate u (Some \<lparr>Escape = True, na_DestKind = ma_DestKind m\<rparr>) (ma_Columns m)"

text \<open>The loop that removes the first delete marker, \<open>None\<close> when there is none.\<close>

fun remove_marker :: "string list \<Rightarrow> string list option" where
  "remove_marker [] = None"
| "remove_marker (col # cols) =
     (if col = DeleteColumnMarker then Some cols
      else map_option (\<lambda>cs. col # cs) (remove_marker cols))"

definition prefixed :: "string list \<Rightarrow> string" where
  "prefixed cols =
     StringsJoinAddPrefix \<lparr>Vals = cols, Separator = '','', Prefix = ''cc.'', Suffix = []\<rparr>"

definition no_marker :: goerr where
  "no_marker = errorf (''artie delete flag doesn'' @ [CHR 0x27] @ ''t exist'')"

definition nl :: string where "nl = [CHR 0x0A]"

section \<open>Redshift: separate statements\<close>

definition parts_insert :: "MergeArgument \<Rightarrow> string list \<Rightarrow> string list \<Rightarrow> string" where
  "parts_insert m eqs cols =
     ''INSERT INTO '' @ ma_FqTableName m @ '' ('' @ join '','' cols @ '') SELECT '' @ prefixed cols @
     '' FROM '' @ ma_SubQuery m @ '' as cc LEFT JOIN '' @ ma_FqTableName m @ '' as c on '' @
     join '' and '' eqs @ '' WHERE c.'' @ wr_escapedName (hd (ma_PrimaryKeys m)) @ '' IS NULL;''"

definition GetParts :: "MergeArgument \<Rightarrow> string list outcome" where
  "GetParts m =
     bind_out (MergeArgument_Valid m) (\<lambda>_.
       if ma_DestKind m \<noteq> Redshift then Err (errorf ''err - this is meant for redshift only'')
       else (case (ma_ContainsHardDeletes m, ma_UppercaseEscNames m) of
           (None, _) \<Rightarrow> Err (errorf ''containsHardDeletes cannot be nil'')
         | (_, None) \<Rightarrow> Panic nil_dereference
         | (Some containsHardDeletes, Some u) \<Rightarrow>
             (let idempotentClause =
                    (if ma_IdempotentKey m \<noteq> []
                     then '' AND cc.'' @ ma_IdempotentKey m @ '' >= c.'' @ ma_IdempotentKey m else []);
                  eqs = map equality_sql (ma_PrimaryKeys m);
                  cols = columns_to_update m u
              in if ma_SoftDelete m then
                   Ret [parts_insert m eqs cols,
                        ''UPDATE '' @ ma_FqTableName m @ '' as c SET '' @
                        UpdateQuery (ma_DestKind m) u False (ma_Columns m) @ '' FROM '' @
                        ma_SubQuery m @ '' as cc WHERE '' @ join '' and '' eqs @ idempotentClause @ '';'']
                 else
                   (case remove_marker cols of
                      None \<Rightarrow> Err no_marker
                    | Some cols' \<Rightarrow>
                        (let pks = map wr_escapedName (ma_PrimaryKeys m)
                         in Ret ([parts_insert m eqs cols',
                               ''UPDATE '' @ ma_FqTableName m @ '' as c SET '' @
                               UpdateQuery (ma_DestKind m) u True (ma_Columns m) @ '' FROM '' @
                               ma_SubQuery m @ '' as cc WHERE '' @ join '' and '' eqs @ idempotentClause @
                               '' AND COALESCE(cc.'' @ DeleteColumnMarker @ '', false) = false;''] @
                             (if containsHardDeletes
                              then [''DELETE FROM '' @ ma_FqTableName m @ '' WHERE ('' @ join '','' pks @
                                    '') IN (SELECT '' @ prefixed pks @ '' FROM '' @ ma_SubQuery m @
                                    '' as cc WHERE cc.'' @ DeleteColumnMarker @ '' = true);'']
                              else [])))))))"

section \<open>One MERGE statement\<close>

fun statement_equalities :: "MergeArgument \<Rightarrow> Wrapper list \<Rightarrow> string list outcome" where
  "statement_equalities m [] = Ret []"
| "statement_equalities m (pk # pks) =
     (case GetColumn (ma_Columns m) (wr_name pk) of
        None \<Rightarrow> Err (errorf (''column: '' @ wr_name pk @ '' does not exist in columnToType: ''))
      | Some pkCol \<Rightarrow>
          bind_out (statement_equalities m pks) (\<lambda>rest. Ret (
            (if ma_DestKind m = BigQuery \<and> Kind (col_KindDetails pkCol) = Kind Struct
             then ''TO_JSON_STRING(c.'' @ wr_escapedName pk @ '') = TO_JSON_STRING(cc.'' @
                  wr_escapedName pk @ '')''
             else equality_sql pk) # rest)))"

definition idempotent_clause :: "MergeArgument \<Rightarrow> string" where
  "idempotent_clause m =
     (if ma_IdempotentKey m \<noteq> []
      then ''AND cc.'' @ ma_IdempotentKey m @ '' >= c.'' @ ma_IdempotentKey m @ '' '' else [])"

definition GetStatement :: "MergeArgument \<Rightarrow> string outcome" where
  "GetStatement m =
     bind_out (MergeArgument_Valid m) (\<lambda>_.
     bind_out (statement_equalities m (ma_PrimaryKeys m)) (\<lambda>eqs0.
       (case ma_UppercaseEscNames m of
          None \<Rightarrow> Panic nil_dereference
        | Some u \<Rightarrow>
            (let subQuery = (if ma_DestKind m = BigQuery then ma_SubQuery m
                             else ''( '' @ ma_SubQuery m @ '' )'');
                 eqs = (if ma_DestKind m = BigQuery then eqs0 @ ma_AdditionalEqualityStrings m else eqs0);
                 cols = columns_to_update m u;
                 hdr = nl @ ''MERGE INTO '' @ ma_FqTableName m @ '' c USING '' @ subQuery @
                   '' AS cc ON '' @ join '' and '' eqs @ nl
             in if ma_SoftDelete m then
                  Ret (hdr @ ''WHEN MATCHED '' @ idempotent_clause m @ ''THEN UPDATE SET '' @
                    UpdateQuery (ma_DestKind m) u False (ma_Columns m) @ nl @
                    ''WHEN NOT MATCHED AND IFNULL(cc.'' @ DeleteColumnMarker @
                    '', false) = false THEN INSERT ('' @ join '','' cols @ '') VALUES ('' @
                    prefixed cols @ '');'')
                else
                  (case remove_marker cols of
                     None \<Rightarrow> Err no_marker
                   | Some cols' \<Rightarrow>
                       Ret (hdr @ ''WHEN MATCHED AND cc.'' @ DeleteColumnMarker @ '' THEN DELETE'' @ nl @
                         ''WHEN MATCHED AND IFNULL(cc.'' @ DeleteColumnMarker @ '', false) = false '' @
                         idempotent_clause m @ ''THEN UPDATE SET '' @
                         UpdateQuery (ma_DestKind m) u True (ma_Columns m) @ nl @
                         ''WHEN NOT MATCHED AND IFNULL(cc.'' @ DeleteColumnMarker @
                         '', false) = false THEN INSERT ('' @ join '','' cols' @ '') VALUES ('' @
                         prefixed cols' @ '');''))))))"

definition GetMSSQLStatement :: "MergeArgument \<Rightarrow> string outcome" where
  "GetMSSQLStatement m =
     bind_out (MergeArgument_Valid m) (\<lambda>_.
       (case ma_UppercaseEscNames m of
          None \<Rightarrow> Panic nil_dereference
        | Some u \<Rightarrow>
            (let eqs = map equality_sql (ma_PrimaryKeys m);
                 cols = columns_to_update m u;
                 hdr = nl @ ''MERGE INTO '' @ ma_FqTableName m @ '' c'' @ nl @ ''USING '' @
                   ma_SubQuery m @ '' AS cc ON '' @ join '' and '' eqs @ nl
             in if ma_SoftDelete m then
                  Ret (hdr @ ''WHEN MATCHED '' @ idempotent_clause m @ ''THEN UPDATE SET '' @
                    UpdateQuery (ma_DestKind m) u False (ma_Columns m) @ nl @
                    ''WHEN NOT MATCHED AND COALESCE(cc.'' @ DeleteColumnMarker @
                    '', 0) = 0 THEN INSERT ('' @ join '','' cols @ '') VALUES ('' @
                    prefixed cols @ '');'')
                else
                  (case remove_marker cols of
                     None \<Rightarrow> Err no_marker
                   | Some cols' \<Rightarrow>
                       Ret (hdr @ ''WHEN MATCHED AND cc.'' @ DeleteColumnMarker @ '' = 1 THEN DELETE'' @ nl @
                         ''WHEN MATCHED AND COALESCE(cc.'' @ DeleteColumnMarker @ '', 0) = 0 '' @
                         idempotent_clause m @ ''THEN UPDATE SET '' @
                         UpdateQuery (ma_DestKind m) u True (ma_Columns m) @ nl @
                         ''WHEN NOT MATCHED AND COALESCE(cc.'' @ DeleteColumnMarker @
                         '', 1) = 0 THEN INSERT ('' @ join '','' cols' @ '') VALUES ('' @
                         prefixed cols' @ '');'')))))"

section \<open>Facts\<close>

lemma remove_marker_eq:
  "remove_marker cols =
     (if DeleteColumnMarker \<in> set cols then Some (remove1 DeleteColumnMarker cols) else None)"
  by (induction cols) auto

lemma quote_name_marker:
  "Column_Name u (Some \<lparr>Escape = True, na_DestKind = d\<rparr>) c = DeleteColumnMarker
     \<longleftrightarrow> col_name c = DeleteColumnMarker"
  by (simp add: Column_Name_def sql_EscapeName_eq_marker)

lemma marker_in_columns_to_update:
  "DeleteColumnMarker \<in> set (columns_to_update m u) \<longleftrightarrow>
     (\<exists>c\<in>set (ma_Columns m). col_name c = DeleteColumnMarker \<and> col_KindDetails c \<noteq> Invalid)"
proof -
  have "DeleteColumnMarker \<in> set (columns_to_update m u) \<longleftrightarrow>
      (\<exists>c\<in>set (ma_Columns m). col_KindDetails c \<noteq> Invalid
        \<and> Column_Name u (Some \<lparr>Escape = True, na_DestKind = ma_DestKind m\<rparr>) c = DeleteColumnMarker)"
    by (auto simp: columns_to_update_def GetColumnsToUpdate_def) (metis (lifting) image_eqI mem_Collect_eq)
  then show ?thesis by (auto simp: quote_name_marker)
qed

text \<open>The columns a hard-deleting merge inserts: typed, and not the marker.\<close>

definition merged_columns :: "MergeArgument \<Rightarrow> bool \<Rightarrow> string list" where
  "merged_columns m u =
     map (Column_Name u (Some \<lparr>Escape = True, na_DestKind = ma_DestKind m\<rparr>))
       (filter (\<lambda>c. col_KindDetails c \<noteq> Invalid \<and> col_name c \<noteq> DeleteColumnMarker) (ma_Columns m))"

lemma remove1_map_unique:
  "distinct (map col_name cs) \<Longrightarrow> (\<And>c. f c = k \<longleftrightarrow> col_name c = k) \<Longrightarrow>
     remove1 k (map f (filter P cs)) = map f (filter (\<lambda>c. P c \<and> col_name c \<noteq> k) cs)"
proof (induction cs)
  case Nil
  then show ?case by simp
next
  case (Cons c cs)
  show ?case
  proof (cases "col_name c = k")
    case True
    with Cons.prems(1) have "\<forall>x\<in>set cs. col_name x \<noteq> k" by (auto intro: rev_image_eqI)
    then have "filter (\<lambda>c. P c \<and> col_name c \<noteq> k) cs = filter P cs" by (auto intro: filter_cong)
    moreover from True Cons.prems(2) [of c] have "f c = k" by simp
    moreover have "k \<notin> set (map f (filter P cs))"
      using \<open>\<forall>x\<in>set cs. col_name x \<noteq> k\<close> Cons.prems(2) by auto
    ultimately show ?thesis using True by (simp add: remove1_idem)
  next
    case False
    with Cons show ?thesis by auto
  qed
qed

lemma remove_marker_columns:
  assumes "columns_inv (ma_Columns m)" and "remove_marker (columns_to_update m u) = Some cols"
  shows "cols = merged_columns m u"
  using assms remove1_map_unique [of "ma_Columns m"
      "Column_Name u (Some \<lparr>Escape = True, na_DestKind = ma_DestKind m\<rparr>)" DeleteColumnMarker
      "\<lambda>c. col_KindDetails c \<noteq> Invalid"]
  by (auto simp: remove_marker_eq columns_to_update_def GetColumnsToUpdate_def merged_columns_def
      quote_name_marker columns_inv_def split: if_splits)

lemma UpdateQuery_skip:
  "UpdateQuery d u True cs = UpdateQuery d u False (filter (\<lambda>c. col_name c \<noteq> DeleteColumnMarker) cs)"
  by (simp add: UpdateQuery_def conj_commute)

lemma equality_keys:
  "map equality_sql pks = map (\<lambda>k. ''c.'' @ k @ '' = cc.'' @ k) (map wr_escapedName pks)"
  by (simp add: equality_sql_def)

lemma prefixed_join: "prefixed cols = join '','' (map (\<lambda>c. ''cc.'' @ c) cols)"
  by (simp add: prefixed_def StringsJoinAddPrefix_def)

lemma MergeArgument_Valid_Ret:
  "MergeArgument_Valid m = Ret () \<longleftrightarrow>
     ma_PrimaryKeys m \<noteq> [] \<and> ma_Columns m \<noteq> [] \<and> ma_FqTableName m \<noteq> [] \<and> ma_SubQuery m \<noteq> []
     \<and> ma_UppercaseEscNames m \<noteq> None \<and> IsValidDestination (ma_DestKind m)"
  by (auto simp: MergeArgument_Valid_def)

lemma marker_not_merged: "DeleteColumnMarker \<notin> set (merged_columns m u)"
  by (auto simp: merged_columns_def dest: sym [of DeleteColumnMarker] simp: quote_name_marker)

lemma statement_equalities_Ret:
  "is_ret (statement_equalities m pks) \<longleftrightarrow> wr_name ` set pks \<subseteq> col_name ` set (ma_Columns m)"
proof (induction pks)
  case Nil
  then show ?case by simp
next
  case (Cons pk pks)
  have "GetColumn (ma_Columns m) (wr_name pk) = None \<longleftrightarrow> wr_name pk \<notin> col_name ` set (ma_Columns m)"
    by (rule GetColumn_None_iff)
  with Cons show ?case
    by (cases "statement_equalities m pks") (auto split: option.splits)
qed

section \<open>Properties\<close>

text \<open>
  C30. What a Redshift merge with hard deletes sends, word for word. The insert writes the typed
  columns without the delete marker, for the staged keys the target does not have. The update writes
  the columns that are not skipped, again without the marker, for equal keys, when the staged
  version is not older, and only from staged rows that are not marked. The delete is sent exactly
  when the batch contains hard deletes, and removes the keys whose staged row is marked.
\<close>

theorem GetParts_hard_delete:
  assumes "GetParts m = Ret parts" and "\<not> ma_SoftDelete m" and "columns_inv (ma_Columns m)"
  shows "\<exists>u. ma_UppercaseEscNames m = Some u \<and> ma_PrimaryKeys m \<noteq> [] \<and>
    (let target = ma_FqTableName m; staging = ma_SubQuery m;
         kept = filter (\<lambda>c. col_name c \<noteq> DeleteColumnMarker) (ma_Columns m);
         inserted = map (Column_Name u (Some \<lparr>Escape = True, na_DestKind = Redshift\<rparr>))
           (filter (\<lambda>c. col_KindDetails c \<noteq> Invalid) kept);
         updated = map (update_entry Redshift u) (filter (\<lambda>c. \<not> ShouldSkip c) kept);
         keys = map wr_escapedName (ma_PrimaryKeys m);
         equal_keys = join '' and '' (map (\<lambda>k. ''c.'' @ k @ '' = cc.'' @ k) keys);
         not_older = (if ma_IdempotentKey m \<noteq> []
           then '' AND cc.'' @ ma_IdempotentKey m @ '' >= c.'' @ ma_IdempotentKey m else [])
     in DeleteColumnMarker \<notin> set inserted
      \<and> parts =
          [''INSERT INTO '' @ target @ '' ('' @ join '','' inserted @ '') SELECT '' @
             join '','' (map (\<lambda>c. ''cc.'' @ c) inserted) @ '' FROM '' @ staging @ '' as cc LEFT JOIN '' @
             target @ '' as c on '' @ equal_keys @ '' WHERE c.'' @ hd keys @ '' IS NULL;'',
           ''UPDATE '' @ target @ '' as c SET '' @ join '','' updated @ '' FROM '' @ staging @
             '' as cc WHERE '' @ equal_keys @ not_older @
             '' AND COALESCE(cc.__artie_delete, false) = false;''] @
          (if ma_ContainsHardDeletes m = Some True
           then [''DELETE FROM '' @ target @ '' WHERE ('' @ join '','' keys @ '') IN (SELECT '' @
                   join '','' (map (\<lambda>k. ''cc.'' @ k) keys) @ '' FROM '' @ staging @
                   '' as cc WHERE cc.__artie_delete = true);'']
           else []))"
proof -
  from assms(1) obtain u chd cols where u: "ma_UppercaseEscNames m = Some u"
    and c: "ma_ContainsHardDeletes m = Some chd" and d: "ma_DestKind m = Redshift"
    and r: "remove_marker (columns_to_update m u) = Some cols" and v: "MergeArgument_Valid m = Ret ()"
    using assms(2) by (auto simp: GetParts_def Let_def split: option.splits if_splits)
  have keys: "ma_PrimaryKeys m \<noteq> []" using v by (simp add: MergeArgument_Valid_Ret)
  have "cols = merged_columns m u" by (rule remove_marker_columns [OF assms(3) r])
  then have cols: "cols = map (Column_Name u (Some \<lparr>Escape = True, na_DestKind = Redshift\<rparr>))
      (filter (\<lambda>c. col_KindDetails c \<noteq> Invalid) (filter (\<lambda>c. col_name c \<noteq> DeleteColumnMarker) (ma_Columns m)))"
    by (simp add: merged_columns_def d conj_commute)
  have updated: "UpdateQuery Redshift u True (ma_Columns m) = join '','' (map (update_entry Redshift u)
      (filter (\<lambda>c. \<not> ShouldSkip c) (filter (\<lambda>c. col_name c \<noteq> DeleteColumnMarker) (ma_Columns m))))"
    by (simp add: UpdateQuery_def conj_commute)
  have "DeleteColumnMarker \<notin> set cols" using marker_not_merged \<open>cols = merged_columns m u\<close> by simp
  moreover have "parts = [parts_insert m (map equality_sql (ma_PrimaryKeys m)) cols,
      ''UPDATE '' @ ma_FqTableName m @ '' as c SET '' @ UpdateQuery Redshift u True (ma_Columns m) @ '' FROM '' @
        ma_SubQuery m @ '' as cc WHERE '' @ join '' and '' (map equality_sql (ma_PrimaryKeys m)) @
        (if ma_IdempotentKey m \<noteq> [] then '' AND cc.'' @ ma_IdempotentKey m @ '' >= c.'' @ ma_IdempotentKey m else []) @
        '' AND COALESCE(cc.'' @ DeleteColumnMarker @ '', false) = false;''] @
      (if chd then [''DELETE FROM '' @ ma_FqTableName m @ '' WHERE ('' @ join '','' (map wr_escapedName (ma_PrimaryKeys m)) @
        '') IN (SELECT '' @ prefixed (map wr_escapedName (ma_PrimaryKeys m)) @ '' FROM '' @ ma_SubQuery m @
        '' as cc WHERE cc.'' @ DeleteColumnMarker @ '' = true);''] else [])"
    using assms(1,2) u c d r v by (simp add: GetParts_def Let_def cong: if_cong)
  ultimately show ?thesis
    by (intro exI [of _ u] conjI u keys, unfold Let_def cols [symmetric] updated [symmetric]
        equality_keys [symmetric] prefixed_join [symmetric])
      (use c keys in \<open>simp add: parts_insert_def hd_map DeleteColumnMarker_def cong: if_cong\<close>)
qed

definition sample_merge :: MergeArgument where
  "sample_merge =
     \<lparr>ma_FqTableName = ''public.orders'', ma_SubQuery = ''stage'', ma_IdempotentKey = [],
      ma_PrimaryKeys = [\<lparr>wr_name = ''id'', wr_escapedName = ''id''\<rparr>],
      ma_AdditionalEqualityStrings = [],
      ma_Columns = [NewColumn ''id'' Integer, NewColumn ''__artie_delete'' Boolean],
      ma_DestKind = Redshift, ma_SoftDelete = False, ma_ContainsHardDeletes = Some True,
      ma_UppercaseEscNames = Some False\<rparr>"

theorem GetParts_hard_delete_witness:
  "\<exists>insert update. GetParts sample_merge = Ret [insert, update,
     ''DELETE FROM public.orders WHERE (id) IN (SELECT cc.id FROM stage as cc WHERE cc.__artie_delete = true);'']"
proof -
  have "DeleteColumnMarker \<in> set (columns_to_update sample_merge False)"
    by (simp add: marker_in_columns_to_update)
      (simp add: sample_merge_def DeleteColumnMarker_def kind_defs)
  moreover have "MergeArgument_Valid sample_merge = Ret ()"
    by (simp add: sample_merge_def MergeArgument_Valid_Ret IsValidDestination_iff)
  moreover have "ma_DestKind sample_merge = Redshift" "\<not> ma_SoftDelete sample_merge"
    "ma_ContainsHardDeletes sample_merge = Some True" "ma_UppercaseEscNames sample_merge = Some False"
    by (simp_all add: sample_merge_def)
  ultimately have "is_ret (GetParts sample_merge)"
    by (simp add: GetParts_def Let_def remove_marker_eq)
  then obtain parts where p: "GetParts sample_merge = Ret parts" by (auto simp: is_ret_iff)
  have "\<not> ma_SoftDelete sample_merge" "columns_inv (ma_Columns sample_merge)"
    by (simp_all add: sample_merge_def columns_inv_def)
  from GetParts_hard_delete [OF p this] p show ?thesis by (auto simp: sample_merge_def Let_def)
qed

text \<open>
  C31. When a merge statement exists: with hard deletes, \<^verbatim>\<open>GetStatement\<close> succeeds exactly when the
  arguments are valid, every primary key is a column and the delete marker is a typed column; it
  never panics.
\<close>

theorem GetStatement_succeeds_iff:
  assumes "\<not> ma_SoftDelete m"
  shows "(is_ret (GetStatement m) \<longleftrightarrow> MergeArgument_Valid m = Ret ()
      \<and> wr_name ` set (ma_PrimaryKeys m) \<subseteq> col_name ` set (ma_Columns m)
      \<and> (\<exists>c\<in>set (ma_Columns m). col_name c = DeleteColumnMarker \<and> col_KindDetails c \<noteq> Invalid))
    \<and> (\<forall>msg. GetStatement m \<noteq> Panic msg)"
proof (cases "MergeArgument_Valid m = Ret ()")
  case True
  then obtain u where u: "ma_UppercaseEscNames m = Some u" by (auto simp: MergeArgument_Valid_Ret)
  have np: "statement_equalities m pks \<noteq> Panic msg" for pks msg
  proof (induction pks)
    case (Cons pk pks)
    then show ?case by (cases "statement_equalities m pks") (auto split: option.splits)
  qed simp
  show ?thesis
    using True u assms np statement_equalities_Ret [of m "ma_PrimaryKeys m"]
      marker_in_columns_to_update [of m u]
    by (cases "statement_equalities m (ma_PrimaryKeys m)")
      (auto simp: GetStatement_def Let_def remove_marker_eq)
next
  case False
  then obtain e where "MergeArgument_Valid m = Err e"
    by (auto simp: MergeArgument_Valid_def split: if_splits)
  then show ?thesis by (simp add: GetStatement_def)
qed

theorem GetStatement_succeeds_iff_witness:
  "is_ret (GetStatement (sample_merge\<lparr>ma_DestKind := Snowflake\<rparr>))"
proof -
  let ?m = "sample_merge\<lparr>ma_DestKind := Snowflake\<rparr>"
  have s: "\<not> ma_SoftDelete ?m" by (simp add: sample_merge_def)
  show ?thesis
    unfolding GetStatement_succeeds_iff [OF s, THEN conjunct1]
    by (simp add: sample_merge_def MergeArgument_Valid_Ret IsValidDestination_iff
        DeleteColumnMarker_def kind_defs)
qed

text \<open>
  The two tests for an untyped column disagree: when the destination reports an unsupported
  type for a time column, the merged column counts as skipped for the schema and the \<^verbatim>\<open>SET\<close> list
  but is still among the columns that are inserted and copied.
\<close>

theorem untyped_time_column_still_inserted:
  assumes "ExtendedTimeDetails (col_KindDetails c) \<noteq> None" and "col_KindDetails f = Invalid"
  shows "ShouldSkip (merge_column c f) \<and> UpdateQuery d u sk [merge_column c f] = []
    \<and> GetColumnsToUpdate u None [merge_column c f] = [col_name c]"
proof -
  have "ShouldSkip (merge_column c f)"
    using assms by (simp add: ShouldSkip_def merge_column_Kind kind_defs)
  moreover have "col_KindDetails (merge_column c f) \<noteq> Invalid"
    using assms by (auto simp: merge_column_def Let_def kind_defs
        dest!: arg_cong [where f = ExtendedTimeDetails])
  ultimately show ?thesis
    by (simp add: UpdateQuery_def GetColumnsToUpdate_def Column_Name_def)
qed

theorem untyped_time_column_still_inserted_witness:
  "GetColumnsToUpdate False None
     [merge_column (NewColumn ''ts'' (NewKindDetailsFromTemplate ETime DateKindType)) (NewColumn ''ts'' Invalid)]
     = [''ts'']"
  using untyped_time_column_still_inserted
    [of "NewColumn ''ts'' (NewKindDetailsFromTemplate ETime DateKindType)" "NewColumn ''ts'' Invalid"
      Snowflake False False]
  by (simp add: NewKindDetailsFromTemplate_def Let_def)

end
