(* ===== verification/Debezium.thy ===== *)
theory Debezium
  imports Columns Config
begin

text \<open>
  The Debezium layer, \<^verbatim>\<open>lib/debezium\<close> and \<^verbatim>\<open>lib/jsonutil\<close>: partition keys, the byte form of
  decimals, the schema of an event and the parsing of field values.

  Bytes are natural numbers below 256. \<^verbatim>\<open>big.Int.Bytes\<close> is the shortest big-endian form.
  \<^verbatim>\<open>EncodeDecimal\<close> and \<^verbatim>\<open>DecodeDecimal\<close> are split into the floating-point part, which stays a
  parameter, and the byte form of the integer, which is modelled and for which the round trip is
  characterised exactly. An error that quotes its input prints it between double quotes.
\<close>

section \<open>Partition keys\<close>

definition stringPrefix :: string where "stringPrefix = ''Struct{''"
definition stringSuffix :: string where "stringSuffix = ''}''"

definition sanitizePayload :: "row \<Rightarrow> row" where
  "sanitizePayload retMap = foldl (\<lambda>m (key, v). gm_put (columns_EscapeName key) v m) [] retMap"

fun parse_key_parts :: "string list \<Rightarrow> row \<Rightarrow> row outcome" where
  "parse_key_parts [] retMap = Ret retMap"
| "parse_key_parts (kvPartString # rest) retMap =
     (let kvParts = split_on (CHR ''='') kvPartString
      in if length kvParts < 2
         then Err (errorf (''malformed key value pair: '' @ [CHR 0x22] @ kvPartString @ [CHR 0x22]))
         else parse_key_parts rest
                (gm_put (hd kvParts) (VString (join ''='' (tl kvParts))) retMap))"

definition parsePartitionKeyString :: "string \<Rightarrow> row outcome" where
  "parsePartitionKeyString keyString =
     (if keyString = [] then Err (errorf ''key is nil'')
      else if length (stringPrefix @ stringSuffix) \<ge> length keyString
      then Err (errorf ''key is too short'')
      else if \<not> (has_prefix keyString stringPrefix \<and> has_suffix keyString stringSuffix)
      then Err (errorf ''incorrect key structure'')
      else
        (let parsedKeyString = drop (length stringPrefix) (take (length keyString - 1) keyString)
         in bind_out (parse_key_parts (split_on (CHR '','') parsedKeyString) [])
              (\<lambda>retMap. Ret (sanitizePayload (gm_del DebeziumTopicRoutingKey retMap)))))"

text \<open>\<^verbatim>\<open>json.Unmarshal\<close> into a \<^verbatim>\<open>map[string]any\<close>: an object, or \<^verbatim>\<open>null\<close> for the nil map.\<close>

definition unmarshal_map :: "gostd \<Rightarrow> string \<Rightarrow> row outcome" where
  "unmarshal_map std s =
     bind_out (go_json_unmarshal std s) (\<lambda>v.
       case v of VMap m \<Rightarrow> Ret m | VNil \<Rightarrow> Ret []
       | _ \<Rightarrow> Err (errorf ''json: cannot unmarshal value into map''))"

definition parsePartitionKeyStruct :: "gostd \<Rightarrow> string \<Rightarrow> row outcome" where
  "parsePartitionKeyStruct std keyBytes =
     (if keyBytes = [] then Err (errorf ''key is nil'')
      else bind_out (wrap_out ''failed to json unmarshal: '' (unmarshal_map std keyBytes)) (\<lambda>pkStruct.
        if pkStruct = [] then Err (errorf ''key is nil'')
        else (case gm_get pkStruct ''payload'' of
            None \<Rightarrow> Ret (sanitizePayload pkStruct)
          | Some (VMap payload) \<Rightarrow> Ret (sanitizePayload (gm_del DebeziumTopicRoutingKey payload))
          | Some _ \<Rightarrow> Err (errorf ''key object is malformated''))))"

definition ParsePartitionKey :: "gostd \<Rightarrow> string \<Rightarrow> string \<Rightarrow> row outcome" where
  "ParsePartitionKey std key cdcKeyFormat =
     (if cdcKeyFormat = JSONKeyFmt then parsePartitionKeyStruct std key
      else if cdcKeyFormat = StringKeyFmt then parsePartitionKeyString key
      else Err (errorf (''format: '' @ cdcKeyFormat @ '' is not supported'')))"

section \<open>Decimals as bytes\<close>

fun nat_bytes :: "nat \<Rightarrow> nat list" where
  "nat_bytes n = (if n = 0 then [] else nat_bytes (n div 256) @ [n mod 256])"

declare nat_bytes.simps [simp del]

definition bytes_nat :: "nat list \<Rightarrow> nat" where
  "bytes_nat bs = foldl (\<lambda>a b. 256 * a + b) 0 bs"

definition invert :: "nat list \<Rightarrow> nat list" where
  "invert data = map (\<lambda>b. 255 - b) data"

definition encode_int :: "int \<Rightarrow> nat list" where
  "encode_int i =
     (if i < 0 then
        (let data = nat_bytes (bytes_nat (invert (nat_bytes (nat (- i)))) + 1)
         in if hd data < 128 then 255 # data else data)
      else
        (let data = nat_bytes (nat i)
         in if data \<noteq> [] \<and> hd data \<ge> 128 then 0 # data else data))"

definition decode_int :: "nat list \<Rightarrow> int" where
  "decode_int data =
     (if data \<noteq> [] \<and> hd data \<ge> 128 then - (int (bytes_nat (invert data)) + 1)
      else int (bytes_nat data))"

definition EncodeDecimal :: "gostd \<Rightarrow> string \<Rightarrow> int \<Rightarrow> nat list outcome" where
  "EncodeDecimal std value scale =
     (case go_bigfloat_scaled std value scale of
        None \<Rightarrow> Err (errorf (''unable to use '' @ [CHR 0x27] @ value @ [CHR 0x27] @
                   '' as a floating-point number''))
      | Some i \<Rightarrow> Ret (encode_int i))"

definition DecodeDecimal :: "gostd \<Rightarrow> nat list \<Rightarrow> int option \<Rightarrow> int \<Rightarrow> Decimal" where
  "DecodeDecimal std data prec scale =
     NewDecimal prec scale (Some (go_bigfloat_quo std (decode_int data) scale))"

section \<open>Schemas\<close>

datatype FieldLabelKind = Before | After | Source | Op | TsMs | Transaction | OtherLabel string

datatype FieldType =
  FT_String | FT_Bytes | FT_Boolean | FT_Int16 | FT_Int32 | FT_Int64 | FT_Float | FT_Double
| FT_Struct | FT_Array | FT_Map | FT_Other string

datatype SupportedDebeziumType =
  DT_JSON | DT_Enum | DT_EnumSet | DT_UUID | DT_Timestamp | DT_MicroTimestamp | DT_Date | DT_Time
| DT_MicroTime | DT_Year | DT_TimeWithTimezone | DT_DateTimeWithTimezone | DT_MicroDuration
| DT_DateKafkaConnect | DT_TimeKafkaConnect | DT_DateTimeKafkaConnect | DT_KafkaDecimalType
| DT_KafkaVariableNumericType | DT_GeometryPointType | DT_GeometryType | DT_GeographyType
| DT_Other string

definition KafkaDecimalPrecisionKey :: string where
  "KafkaDecimalPrecisionKey = ''connect.decimal.precision''"

record Field =
  f_Type :: FieldType
  f_Optional :: bool
  f_Default :: val
  f_FieldName :: string
  f_DebeziumType :: SupportedDebeziumType
  f_Parameters :: row

record FieldsObject =
  FieldObjectType :: string
  Fields :: "Field list"
  fo_Optional :: bool
  FieldLabel :: FieldLabelKind

record Schema =
  SchemaType :: string
  sc_FieldsObject :: "FieldsObject list"

definition GetSchemaFromLabel :: "Schema \<Rightarrow> FieldLabelKind \<Rightarrow> FieldsObject option" where
  "GetSchemaFromLabel s kind = find (\<lambda>fo. FieldLabel fo = kind) (sc_FieldsObject s)"

definition GetScaleAndPrecision :: "gostd \<Rightarrow> Field \<Rightarrow> (int \<times> int option) outcome" where
  "GetScaleAndPrecision std f =
     bind_out (GetIntegerFromMap std (f_Parameters f) ''scale'') (\<lambda>scale.
       if gm_get (f_Parameters f) KafkaDecimalPrecisionKey \<noteq> None
       then bind_out (GetIntegerFromMap std (f_Parameters f) KafkaDecimalPrecisionKey)
              (\<lambda>prec. Ret (scale, Some prec))
       else Ret (scale, None))"

definition type_kind :: "FieldType \<Rightarrow> KindDetails" where
  "type_kind ft =
     (case ft of
        FT_Map \<Rightarrow> Struct
      | FT_Int16 \<Rightarrow> Integer | FT_Int32 \<Rightarrow> Integer | FT_Int64 \<Rightarrow> Integer
      | FT_Float \<Rightarrow> Float | FT_Double \<Rightarrow> Float
      | FT_String \<Rightarrow> KString | FT_Bytes \<Rightarrow> KString
      | FT_Struct \<Rightarrow> Struct
      | FT_Boolean \<Rightarrow> Boolean
      | FT_Array \<Rightarrow> Array
      | FT_Other s \<Rightarrow> Invalid)"

definition ToKindDetails :: "gostd \<Rightarrow> Field \<Rightarrow> KindDetails" where
  "ToKindDetails std f =
     (let dt = f_DebeziumType f
      in if dt \<in> {DT_Timestamp, DT_MicroTimestamp, DT_DateTimeKafkaConnect, DT_DateTimeWithTimezone}
         then NewKindDetailsFromTemplate ETime DateTimeKindType
         else if dt \<in> {DT_Date, DT_DateKafkaConnect} then NewKindDetailsFromTemplate ETime DateKindType
         else if dt \<in> {DT_Time, DT_MicroTime, DT_TimeKafkaConnect, DT_TimeWithTimezone}
         then NewKindDetailsFromTemplate ETime TimeKindType
         else if dt \<in> {DT_JSON, DT_GeometryPointType, DT_GeometryType, DT_GeographyType} then Struct
         else if dt = DT_KafkaDecimalType then
           (case GetScaleAndPrecision std f of
              Ret (scale, prec) \<Rightarrow> EDecimal\<lparr>ExtendedDecimalDetails := Some (NewDecimal prec scale None)\<rparr>
            | _ \<Rightarrow> Invalid)
         else if dt = DT_KafkaVariableNumericType then
           EDecimal\<lparr>ExtendedDecimalDetails :=
             Some (NewDecimal (Some PrecisionNotSpecified) DefaultScale None)\<rparr>
         else type_kind (f_Type f))"

definition IsInteger :: "gostd \<Rightarrow> Field \<Rightarrow> bool" where
  "IsInteger std f = (ToKindDetails std f = Integer)"

section \<open>Field values\<close>

definition toBytes :: "gostd \<Rightarrow> val \<Rightarrow> nat list outcome" where
  "toBytes std v =
     (case v of
        VBytes bs \<Rightarrow> Ret bs
      | VString s \<Rightarrow> wrap_out ''failed to base64 decode: '' (go_base64_decode std s)
      | _ \<Rightarrow> wrap_out ''failed to base64 decode: '' (go_base64_decode std (sprint std v)))"

text \<open>A float is cut towards zero; the result of a value outside the int64 range is not used.\<close>

definition trunc_rat :: "rat \<Rightarrow> int" where
  "trunc_rat x = (if x < 0 then \<lceil>x\<rceil> else \<lfloor>x\<rfloor>)"

definition toInt64 :: "gostd \<Rightarrow> val \<Rightarrow> int outcome" where
  "toInt64 std v =
     (case v of
        VInt k i \<Rightarrow>
          if k \<in> {KInt, KInt16, KInt32, KInt64} then Ret i
          else Err (errorf (''failed to cast value to int64''))
      | VFloat F64 x \<Rightarrow> Ret (trunc_rat x)
      | _ \<Rightarrow> Err (errorf (''failed to cast value to int64'')))"

definition SanitizePayload :: "gostd \<Rightarrow> val \<Rightarrow> val outcome" where
  "SanitizePayload std v =
     (case v of
        VString s \<Rightarrow>
          (case go_json_unmarshal std s of
             Ret obj \<Rightarrow>
               (case go_json_marshal std obj of
                  Ret bytes \<Rightarrow> Ret (VString bytes)
                | Err e \<Rightarrow> Ret VNil
                | Panic m \<Rightarrow> Panic m)
           | Err e \<Rightarrow> Err e
           | Panic m \<Rightarrow> Panic m)
      | _ \<Rightarrow> Ret v)"

definition parseGeometryPoint :: "gostd \<Rightarrow> val \<Rightarrow> string outcome" where
  \<open>parseGeometryPoint std v =
     (case v of
        VMap valMap \<Rightarrow>
          (case gm_get valMap ''x'' of
             None \<Rightarrow> Err (errorf ''x coordinate does not exist'')
           | Some x \<Rightarrow>
               (case gm_get valMap ''y'' of
                  None \<Rightarrow> Err (errorf ''y coordinate does not exist'')
                | Some y \<Rightarrow>
                    bind_out (go_json_marshal std x) (\<lambda>xs.
                    bind_out (go_json_marshal std y) (\<lambda>ys.
                      Ret (''{"type":"Feature","geometry":{"type":"Point","coordinates":['' @ xs @ '','' @
                           ys @ '']}}'')))))
      | _ \<Rightarrow> Err (errorf ''value is not map[string]any type''))\<close>

definition parseGeometry :: "gostd \<Rightarrow> val \<Rightarrow> string outcome" where
  "parseGeometry std v =
     (case v of
        VMap valMap \<Rightarrow>
          (case gm_get valMap ''wkb'' of
             None \<Rightarrow> Err (errorf ''wkb does not exist'')
           | Some wkbVal \<Rightarrow>
               bind_out (wrap_out ''error decoding base64: ''
                 (go_base64_decode std (sprint std wkbVal))) (\<lambda>wkbBytes.
               bind_out (wrap_out ''error unmarshalling WKB bytes: ''
                 (go_ewkb_unmarshal std wkbBytes)) (\<lambda>geom.
               wrap_out ''error marshalling GeoJSON: '' (go_geojson_marshal std geom))))
      | _ \<Rightarrow> Err (errorf ''value is not map[string]any type''))"

definition Field_DecodeDecimal :: "gostd \<Rightarrow> Field \<Rightarrow> nat list \<Rightarrow> Decimal outcome" where
  "Field_DecodeDecimal std f encoded =
     bind_out (wrap_out ''failed to get scale and/or precision: '' (GetScaleAndPrecision std f))
       (\<lambda>(scale, prec). Ret (DecodeDecimal std encoded prec scale))"

definition DecodeDebeziumVariableDecimal :: "gostd \<Rightarrow> val \<Rightarrow> Decimal outcome" where
  "DecodeDebeziumVariableDecimal std v =
     (case v of
        VMap valueStruct \<Rightarrow>
          bind_out (GetIntegerFromMap std valueStruct ''scale'') (\<lambda>scale.
            (case gm_get valueStruct ''value'' of
               None \<Rightarrow> Err (errorf ''encoded value does not exist'')
             | Some x \<Rightarrow>
                 bind_out (toBytes std x) (\<lambda>bytes.
                   Ret (DecodeDecimal std bytes (Some PrecisionNotSpecified) scale))))
      | _ \<Rightarrow> Err (errorf ''value is not map[string]any type''))"

definition utc_nanos :: "int \<Rightarrow> gotime" where
  "utc_nanos n = \<lparr>t_nanos = n, t_zone = ''UTC''\<rparr>"

definition debezium_time :: "SupportedDebeziumType \<Rightarrow> int \<Rightarrow> ExtendedTime option" where
  "debezium_time ty i =
     (if ty \<in> {DT_Timestamp, DT_DateTimeKafkaConnect}
      then Some (NewExtendedTime (utc_nanos (i * 1000000)) DateTimeKindType RFC3339Nano)
      else if ty = DT_MicroTimestamp
      then Some (NewExtendedTime (utc_nanos (i * 1000)) DateTimeKindType RFC3339Nano)
      else if ty \<in> {DT_Date, DT_DateKafkaConnect}
      then Some (NewExtendedTime (utc_nanos (i * 24 * 60 * 60 * nanos_per_second)) DateKindType [])
      else if ty \<in> {DT_Time, DT_TimeKafkaConnect}
      then Some (NewExtendedTime (utc_nanos (i * 1000000)) TimeKindType [])
      else if ty = DT_MicroTime
      then Some (NewExtendedTime (utc_nanos (i * 1000)) TimeKindType [])
      else None)"

definition FromDebeziumTypeToTime ::
  "gostd \<Rightarrow> SupportedDebeziumType \<Rightarrow> int \<Rightarrow> ExtendedTime outcome" where
  "FromDebeziumTypeToTime std ty i =
     (case debezium_time ty i of
        None \<Rightarrow> Err (errorf (''supportedType failed to be matched''))
      | Some extTime \<Rightarrow>
          if \<not> ExtendedTime_IsValid std extTime then Err (errorf ''extTime is invalid'')
          else Ret extTime)"

definition time_types :: "SupportedDebeziumType list" where
  "time_types = [DT_Timestamp, DT_MicroTimestamp, DT_Date, DT_Time, DT_MicroTime,
     DT_DateKafkaConnect, DT_TimeKafkaConnect, DT_DateTimeKafkaConnect]"

definition Field_ParseValue :: "gostd \<Rightarrow> Field \<Rightarrow> val \<Rightarrow> val outcome" where
  "Field_ParseValue std f v =
     (let dt = f_DebeziumType f
      in if v = VNil then Ret VNil
         else if IsInteger std f then bind_out (toInt64 std v) (\<lambda>i. Ret (VInt KInt i))
         else if dt = DT_JSON then
           (if v = VString ToastUnavailableValuePlaceholder then Ret v else SanitizePayload std v)
         else if dt \<in> {DT_GeometryType, DT_GeographyType} then
           bind_out (parseGeometry std v) (\<lambda>s. Ret (VString s))
         else if dt = DT_GeometryPointType then
           bind_out (parseGeometryPoint std v) (\<lambda>s. Ret (VString s))
         else if dt = DT_KafkaDecimalType then
           bind_out (toBytes std v) (\<lambda>bytes.
           bind_out (Field_DecodeDecimal std f bytes) (\<lambda>d. Ret (VDecimal d)))
         else if dt = DT_KafkaVariableNumericType then
           bind_out (DecodeDebeziumVariableDecimal std v) (\<lambda>d. Ret (VDecimal d))
         else if dt \<in> set time_types then
           bind_out (go_parse_float std (sprint std v)) (\<lambda>x.
           bind_out (FromDebeziumTypeToTime std dt (trunc_rat x)) (\<lambda>t. Ret (VTime t)))
         else (case v of
             VBytes bs \<Rightarrow> Ret (VString (go_base64_encode std bs))
           | _ \<Rightarrow> Ret v))"

section \<open>Facts on the byte form\<close>

lemma bytes_nat_snoc: "bytes_nat (bs @ [b]) = 256 * bytes_nat bs + b"
  by (simp add: bytes_nat_def)

lemma bytes_nat_Nil [simp]: "bytes_nat [] = 0"
  by (simp add: bytes_nat_def)

lemma bytes_nat_Cons: "bytes_nat (b # bs) = b * 256 ^ length bs + bytes_nat bs"
proof (induction bs rule: rev_induct)
  case Nil
  then show ?case by (simp add: bytes_nat_def)
next
  case (snoc x xs)
  have "bytes_nat (b # xs @ [x]) = 256 * bytes_nat (b # xs) + x"
    using bytes_nat_snoc [of "b # xs" x] by simp
  with snoc show ?case by (simp add: bytes_nat_snoc algebra_simps)
qed

lemma bytes_nat_less: "\<forall>b\<in>set bs. b < 256 \<Longrightarrow> bytes_nat bs < 256 ^ length bs"
  by (induction bs rule: rev_induct) (auto simp: bytes_nat_snoc)

lemma bytes_nat_nat_bytes [simp]: "bytes_nat (nat_bytes n) = n"
proof (induction n rule: nat_bytes.induct)
  case (1 n)
  then show ?case by (subst nat_bytes.simps) (auto simp: bytes_nat_snoc)
qed

lemma nat_bytes_less: "\<forall>b\<in>set (nat_bytes n). b < 256"
proof (induction n rule: nat_bytes.induct)
  case (1 n)
  then show ?case by (subst nat_bytes.simps) auto
qed

lemma nat_bytes_Nil_iff [simp]: "nat_bytes n = [] \<longleftrightarrow> n = 0"
  by (subst nat_bytes.simps) auto

lemma nat_bytes_lower: "n \<noteq> 0 \<Longrightarrow> 256 ^ (length (nat_bytes n) - 1) \<le> n"
proof (induction n rule: nat_bytes.induct)
  case (1 n)
  show ?case
  proof (cases "n div 256 = 0")
    case True
    then have "nat_bytes n = [n mod 256]"
      using 1(2) by (subst nat_bytes.simps) (simp add: nat_bytes.simps [of 0])
    with 1(2) show ?thesis by simp
  next
    case False
    then have len: "length (nat_bytes n) - 1 = Suc (length (nat_bytes (n div 256)) - 1)"
      using 1(2) nat_bytes_Nil_iff [of "n div 256"]
      by (subst nat_bytes.simps) (cases "nat_bytes (n div 256)", auto)
    have "256 ^ (length (nat_bytes (n div 256)) - 1) \<le> n div 256"
      using 1(1) [OF 1(2)] False by simp
    then have "256 * 256 ^ (length (nat_bytes (n div 256)) - 1) \<le> 256 * (n div 256)"
      by simp
    also have "\<dots> \<le> n" by simp
    finally show ?thesis unfolding len power_Suc .
  qed
qed

lemma nat_bytes_upper: "n < 256 ^ length (nat_bytes n)"
  using bytes_nat_less [OF nat_bytes_less [of n]] by simp

lemma nat_bytes_length_iff:
  "n \<noteq> 0 \<Longrightarrow> n < 256 ^ k \<Longrightarrow> length (nat_bytes n) = k \<longleftrightarrow> 256 ^ (k - 1) \<le> n"
proof
  assume n: "n \<noteq> 0" "n < 256 ^ k" and low: "256 ^ (k - 1) \<le> n"
  have "\<not> length (nat_bytes n) < k"
  proof
    assume "length (nat_bytes n) < k"
    then have "length (nat_bytes n) \<le> k - 1" by simp
    then have "(256 :: nat) ^ length (nat_bytes n) \<le> 256 ^ (k - 1)" by (rule power_increasing) simp
    with low nat_bytes_upper [of n] show False by linarith
  qed
  moreover have "\<not> k < length (nat_bytes n)"
  proof
    assume "k < length (nat_bytes n)"
    then have "k \<le> length (nat_bytes n) - 1" by simp
    then have "(256 :: nat) ^ k \<le> 256 ^ (length (nat_bytes n) - 1)" by (rule power_increasing) simp
    with nat_bytes_lower [OF n(1)] n(2) show False by linarith
  qed
  ultimately show "length (nat_bytes n) = k" by simp
next
  assume "n \<noteq> 0" "length (nat_bytes n) = k"
  then show "256 ^ (k - 1) \<le> n" using nat_bytes_lower by auto
qed

lemma bytes_nat_invert:
  "\<forall>b\<in>set bs. b < 256 \<Longrightarrow> int (bytes_nat (invert bs)) = 256 ^ length bs - 1 - int (bytes_nat bs)"
  by (induction bs rule: rev_induct) (auto simp: invert_def bytes_nat_snoc of_nat_diff)

lemma decode_negative:
  "\<lbrakk>data \<noteq> []; 128 \<le> hd data; \<forall>b\<in>set data. b < 256\<rbrakk> \<Longrightarrow>
     decode_int data = int (bytes_nat data) - 256 ^ length data"
  by (simp add: decode_int_def bytes_nat_invert)

lemma decode_encode_nonneg: "0 \<le> i \<Longrightarrow> decode_int (encode_int i) = i"
  by (auto simp: encode_int_def decode_int_def Let_def bytes_nat_Cons)

lemma decode_encode_negative:
  fixes i :: int
  assumes "i < 0"
  defines "k \<equiv> length (nat_bytes (nat (- i)))"
  defines "m \<equiv> 256 ^ k - nat (- i)"
  shows "decode_int (encode_int i) = int m - 256 ^ length (nat_bytes m)" and "0 < m" and "m < 256 ^ k"
proof -
  let ?n = "nat (- i)"
  have up: "?n < 256 ^ k" using nat_bytes_upper [of ?n] by (simp add: k_def)
  then show m0: "0 < m" and "m < 256 ^ k" using assms(1) by (auto simp: m_def)
  have "int (bytes_nat (invert (nat_bytes ?n)) + 1) = int m"
    using bytes_nat_invert [OF nat_bytes_less [of ?n]] up
    by (simp add: k_def m_def of_nat_diff)
  then have "bytes_nat (invert (nat_bytes ?n)) + 1 = m" by linarith
  then have enc: "encode_int i = (if hd (nat_bytes m) < 128 then 255 # nat_bytes m else nat_bytes m)"
    using assms(1) by (simp add: encode_int_def Let_def)
  show "decode_int (encode_int i) = int m - 256 ^ length (nat_bytes m)"
  proof (cases "hd (nat_bytes m) < 128")
    case True
    with enc show ?thesis
      using nat_bytes_less [of m] by (simp add: decode_negative bytes_nat_Cons)
  next
    case False
    with enc m0 show ?thesis
      using nat_bytes_less [of m] by (simp add: decode_negative)
  qed
qed

section \<open>Facts on keys\<close>

definition print_key :: "(string \<times> string) list \<Rightarrow> string" where
  "print_key kvs = stringPrefix @ join '','' (map (\<lambda>(k, v). k @ ''='' @ v) kvs) @ stringSuffix"

lemma gm_get_foldl_put_map:
  "gm_get (foldl (\<lambda>m (k, v). gm_put k (f v) m) m0 kvs) j =
     (case map_of (rev kvs) j of None \<Rightarrow> gm_get m0 j | Some v \<Rightarrow> Some (f v))"
  by (induction kvs arbitrary: m0) (auto simp: map_add_def split: option.splits)

lemma parse_key_parts_print:
  assumes "\<forall>(k, v)\<in>set kvs. CHR ''='' \<notin> set k"
  shows "parse_key_parts (map (\<lambda>(k, v). k @ ''='' @ v) kvs) m =
    Ret (foldl (\<lambda>m (k, v). gm_put k (VString v) m) m kvs)"
  using assms
proof (induction kvs arbitrary: m)
  case Nil
  then show ?case by simp
next
  case (Cons kv kvs)
  obtain k v where kv: "kv = (k, v)" by (cases kv)
  have "split_on (CHR ''='') (k @ ''='' @ v) = k # split_on (CHR ''='') v"
    using Cons.prems kv by (simp add: split_on_append_sep)
  moreover have "0 < length (split_on (CHR ''='') v)"
    unfolding length_greater_0_conv by (rule split_on_not_Nil)
  ultimately show ?case
    using Cons kv by (simp add: Let_def join_split_on [of "CHR ''=''"])
qed

lemma gm_get_sanitizePayload:
  assumes "inj_on columns_EscapeName (fst ` set m)" and "gm_wf m" and "gm_get m k = Some v"
  shows "gm_get (sanitizePayload m) (columns_EscapeName k) = Some v"
proof -
  have eq: "sanitizePayload m =
      foldl (\<lambda>m (k, v). gm_put k v m) [] (map (\<lambda>(k, v). (columns_EscapeName k, v)) m)"
    by (simp add: sanitizePayload_def foldl_map case_prod_unfold)
  have "distinct (map fst (map (\<lambda>(k, v). (columns_EscapeName k, v)) m))"
    using assms(1,2) by (simp add: gm_wf_def comp_def case_prod_unfold distinct_map inj_on_def)
  moreover have "(columns_EscapeName k, v) \<in> set (map (\<lambda>(k, v). (columns_EscapeName k, v)) m)"
    using assms(2,3) by (force simp: gm_get_iff_mem)
  ultimately have "map_of (rev (map (\<lambda>(k, v). (columns_EscapeName k, v)) m)) (columns_EscapeName k) = Some v"
    by (simp only: map_of_rev_distinct map_of_eq_Some_iff)
  then show ?thesis unfolding eq gm.get_foldl_put by simp
qed

lemma keys_sanitizePayload:
  "gm_get (sanitizePayload m) c \<noteq> None \<longleftrightarrow> c \<in> columns_EscapeName ` fst ` set m"
proof -
  have "gm_get (foldl (\<lambda>m (key, v). gm_put (columns_EscapeName key) v m) m0 m) c \<noteq> None
      \<longleftrightarrow> c \<in> columns_EscapeName ` fst ` set m \<or> gm_get m0 c \<noteq> None" for m0
    by (induction m arbitrary: m0) (auto simp del: not_None_eq)
  then show ?thesis by (simp add: sanitizePayload_def del: not_None_eq)
qed

section \<open>Properties\<close>

text \<open>
  C24. The byte form of decimals: decoding what was encoded gives the number back exactly when the
  number is not negative or its magnitude is at most 255 times the power of 256 below it; every
  other negative number decodes to a different number.
\<close>

theorem decimal_bytes_roundtrip_iff:
  "decode_int (encode_int i) = i \<longleftrightarrow>
     0 \<le> i \<or> - i \<le> 255 * 256 ^ (length (nat_bytes (nat (- i))) - 1)"
proof (cases "0 \<le> i")
  case True
  then show ?thesis by (simp add: decode_encode_nonneg)
next
  case False
  define k where "k = length (nat_bytes (nat (- i)))"
  define m where "m = 256 ^ k - nat (- i)"
  have i: "i < 0" using False by simp
  note d = decode_encode_negative [OF i, folded k_def, folded m_def]
  have im: "i = int m - 256 ^ k"
    using d(2) i by (simp add: m_def of_nat_diff)
  have "decode_int (encode_int i) = i \<longleftrightarrow> (256 :: int) ^ length (nat_bytes m) = 256 ^ k"
    unfolding d(1) by (subst im) simp
  also have "\<dots> \<longleftrightarrow> length (nat_bytes m) = k" by simp
  also have "\<dots> \<longleftrightarrow> 256 ^ (k - 1) \<le> m"
    using nat_bytes_length_iff [of m k] d(2,3) by simp
  also have "\<dots> \<longleftrightarrow> (256 :: int) ^ (k - 1) \<le> int m"
    by (metis of_nat_le_iff of_nat_numeral of_nat_power)
  also have "\<dots> \<longleftrightarrow> - i \<le> 255 * 256 ^ (k - 1)"
  proof -
    have "k \<noteq> 0" using i by (simp add: k_def)
    then have "(256 :: int) ^ k = 256 * 256 ^ (k - 1)" by (cases k) auto
    with im show ?thesis by auto
  qed
  finally show ?thesis using False by (simp add: k_def)
qed

text \<open>The number -65281 is encoded as the bytes of -1.\<close>

theorem encode_decimal_loses_magnitude:
  "encode_int (- 65281) = [255] \<and> decode_int (encode_int (- 65281)) = - 1"
  by (simp add: encode_int_def decode_int_def nat_bytes.simps bytes_nat_def invert_def)

text \<open>
  C25. Keys in string form parse back: when no name has a separator and no value a comma, the map
  read from the printed struct has, under the escaped name of every key but the routing key, the
  value that was printed, and no other entry.
\<close>

theorem parsePartitionKeyString_roundtrip:
  assumes "kvs \<noteq> []" and "\<forall>(k, v)\<in>set kvs. CHR ''='' \<notin> set k \<and> CHR '','' \<notin> set k \<and> CHR '','' \<notin> set v"
    and "distinct (map fst kvs)" and "inj_on columns_EscapeName (fst ` set kvs)"
  shows "\<exists>r. parsePartitionKeyString (print_key kvs) = Ret r
    \<and> (\<forall>(k, v)\<in>set kvs. k \<noteq> DebeziumTopicRoutingKey \<longrightarrow> gm_get r (columns_EscapeName k) = Some (VString v))
    \<and> (\<forall>c. gm_get r c \<noteq> None \<longleftrightarrow> c \<in> columns_EscapeName ` (fst ` set kvs - {DebeziumTopicRoutingKey}))"
proof -
  let ?body = "join '','' (map (\<lambda>(k, v). k @ ''='' @ v) kvs)"
  let ?m = "foldl (\<lambda>m (k, v). gm_put k (VString v) m) [] kvs"
  let ?m' = "gm_del DebeziumTopicRoutingKey ?m"
  have body: "?body \<noteq> []" using assms(1) by (cases kvs rule: remdups_adj.cases) auto
  have split: "split_on (CHR '','') ?body = map (\<lambda>(k, v). k @ ''='' @ v) kvs"
    using assms(1,2) by (intro split_on_join) auto
  have parse: "parse_key_parts (map (\<lambda>(k, v). k @ ''='' @ v) kvs) [] = Ret ?m"
    using assms(2) by (intro parse_key_parts_print) auto
  have "parsePartitionKeyString (print_key kvs) = Ret (sanitizePayload ?m')"
    using body parse split
    by (simp add: parsePartitionKeyString_def print_key_def stringPrefix_def stringSuffix_def
        has_prefix_def has_suffix_def Let_def)
  moreover have get: "gm_get ?m' k = (if k = DebeziumTopicRoutingKey then None
      else map_option VString (map_of kvs k))" for k
    using assms(3) by (simp add: gm_get_foldl_put_map map_of_rev_distinct split: option.splits)
  have wf: "gm_wf ?m'" using gm.wf_foldl_put [of "[]" "map (\<lambda>(k, v). (k, VString v)) kvs"]
    by (simp add: foldl_map case_prod_unfold)
  have keys: "fst ` set ?m' = fst ` set kvs - {DebeziumTopicRoutingKey}"
  proof (rule set_eqI)
    fix k
    have "k \<in> fst ` set ?m' \<longleftrightarrow> gm_get ?m' k \<noteq> None" by (simp only: gm_get_None_iff not_not)
    also have "\<dots> \<longleftrightarrow> k \<in> fst ` set kvs - {DebeziumTopicRoutingKey}"
      unfolding get using map_of_eq_None_iff [of kvs k] by auto
    finally show "k \<in> fst ` set ?m' \<longleftrightarrow> k \<in> fst ` set kvs - {DebeziumTopicRoutingKey}" .
  qed
  have "gm_get (sanitizePayload ?m') (columns_EscapeName k) = Some (VString v)"
    if "(k, v) \<in> set kvs" "k \<noteq> DebeziumTopicRoutingKey" for k v
  proof (rule gm_get_sanitizePayload [OF _ wf])
    show "inj_on columns_EscapeName (fst ` set ?m')"
      using assms(4) keys by (auto intro: inj_on_subset)
    show "gm_get ?m' k = Some (VString v)"
      unfolding get using that assms(3) by simp
  qed
  moreover have "gm_get (sanitizePayload ?m') c \<noteq> None \<longleftrightarrow>
      c \<in> columns_EscapeName ` (fst ` set kvs - {DebeziumTopicRoutingKey})" for c
    unfolding keys_sanitizePayload keys by simp
  ultimately show ?thesis by blast
qed

theorem parsePartitionKeyString_roundtrip_witness:
  "\<exists>r. parsePartitionKeyString (print_key [(''Id'', ''1'')]) = Ret r
     \<and> gm_get r (columns_EscapeName ''Id'') = Some (VString ''1'')"
  using parsePartitionKeyString_roundtrip [of "[(''Id'', ''1'')]"]
  by (auto simp: DebeziumTopicRoutingKey_def)

text \<open>
  A JSON key without a schema keeps the topic routing key: only the branch for keys with a
  \<^verbatim>\<open>payload\<close> strips it.
\<close>

theorem routing_key_kept_without_schema:
  assumes "keyBytes \<noteq> []" and "unmarshal_map std keyBytes = Ret m" and "gm_get m ''payload'' = None"
    and "gm_get m DebeziumTopicRoutingKey = Some v"
  shows "\<exists>r. parsePartitionKeyStruct std keyBytes = Ret r
    \<and> gm_get r (columns_EscapeName DebeziumTopicRoutingKey) \<noteq> None"
proof -
  have "m \<noteq> []" using assms(4) by auto
  moreover have "DebeziumTopicRoutingKey \<in> fst ` set m"
    using assms(4) gm_get_None_iff [of m DebeziumTopicRoutingKey] by auto
  ultimately show ?thesis
    using assms by (simp add: parsePartitionKeyStruct_def keys_sanitizePayload del: not_None_eq)
qed

definition key_std :: gostd where
  "key_std =
     \<lparr>go_sprint = (\<lambda>v. []), go_json_marshal = (\<lambda>v. Ret []),
      go_json_unmarshal = (\<lambda>s. Ret (VMap [(DebeziumTopicRoutingKey, VString ''t''), (''id'', VString ''1'')])),
      go_time_parse = (\<lambda>a b. Err (errorf [])), go_time_format = (\<lambda>t f. []), go_time_year = (\<lambda>t. 0),
      go_bigfloat_text = (\<lambda>v p. []), go_bigfloat_quo = (\<lambda>a b. 0), go_parse_float = (\<lambda>s. Err (errorf [])),
      go_base64_decode = (\<lambda>s. Err (errorf [])), go_base64_encode = (\<lambda>b. []),
      go_bigfloat_scaled = (\<lambda>s n. None), go_ewkb_unmarshal = (\<lambda>b. Ret []),
      go_geojson_marshal = (\<lambda>g. Ret [])\<rparr>"

theorem routing_key_kept_without_schema_witness:
  "\<exists>r. parsePartitionKeyStruct key_std ''key'' = Ret r
     \<and> gm_get r (columns_EscapeName DebeziumTopicRoutingKey) \<noteq> None"
proof (rule routing_key_kept_without_schema)
  show "unmarshal_map key_std ''key'' =
      Ret [(DebeziumTopicRoutingKey, VString ''t''), (''id'', VString ''1'')]"
    by (simp add: unmarshal_map_def key_std_def)
  show "gm_get [(DebeziumTopicRoutingKey, VString ''t''), (''id'', VString ''1'')] ''payload'' = None"
    by (simp add: gm_get_def DebeziumTopicRoutingKey_def)
  show "gm_get [(DebeziumTopicRoutingKey, VString ''t''), (''id'', VString ''1'')]
      DebeziumTopicRoutingKey = Some (VString ''t'')"
    by (simp add: gm_get_def)
qed simp

end
