(* ===== verification/Bson.thy ===== *)
theory Bson
  imports Debezium
begin

text \<open>
  MongoDB documents in extended JSON, \<^verbatim>\<open>lib/typing/mongo/bson.go\<close>: the literals that are replaced
  before parsing, the encoders of the registry and \<^verbatim>\<open>JSONEToMap\<close>.

  The BSON library, the UUID library and the text of a \<^verbatim>\<open>Decimal128\<close> are the parameter \<open>bsonlib\<close>; a
  document is the list of its bytes. The regular expression is matched the way Go does, leftmost
  first and with the alternatives in order. The reference is a list of JSON tokens: replacing the
  literals is right on texts whose strings do not contain their words; a string that merely
  mentions one of them is changed.
\<close>

section \<open>Replacing literals\<close>

text \<open>A pattern is a sequence of characters and word boundaries, as in the expression of the code.\<close>

datatype re_item = Lit char | Boundary

definition word_char :: "char \<Rightarrow> bool" where
  "word_char c =
     (let n = (of_char c :: nat)
      in 48 \<le> n \<and> n \<le> 57 \<or> 65 \<le> n \<and> n \<le> 90 \<or> 97 \<le> n \<and> n \<le> 122 \<or> n = 95)"

fun is_word :: "char option \<Rightarrow> bool" where
  "is_word None = False"
| "is_word (Some c) = word_char c"

fun first_char :: "string \<Rightarrow> char option" where
  "first_char [] = None"
| "first_char (c # s) = Some c"

text \<open>The text that a pattern matches at the beginning of \<open>s\<close>, when \<open>prev\<close> precedes it.\<close>

fun match_items :: "re_item list \<Rightarrow> char option \<Rightarrow> string \<Rightarrow> string option" where
  "match_items [] prev s = Some []"
| "match_items (Boundary # its) prev s =
     (if is_word prev \<noteq> is_word (first_char s) then match_items its prev s else None)"
| "match_items (Lit c # its) prev [] = None"
| "match_items (Lit c # its) prev (d # s) =
     (if c = d then map_option (\<lambda>m. d # m) (match_items its (Some d) s) else None)"

fun first_match :: "re_item list list \<Rightarrow> char option \<Rightarrow> string \<Rightarrow> string option" where
  "first_match [] prev s = None"
| "first_match (alt # alts) prev s =
     (case match_items alt prev s of Some m \<Rightarrow> Some m | None \<Rightarrow> first_match alts prev s)"

text \<open>\<^verbatim>\<open>ReplaceAllStringFunc\<close> for an expression that matches no empty text.\<close>

function replace_all :: "re_item list list \<Rightarrow> (string \<Rightarrow> string) \<Rightarrow> char option \<Rightarrow> string \<Rightarrow> string" where
  "replace_all alts f prev [] = []"
| "replace_all alts f prev (c # s) =
     (case first_match alts prev (c # s) of
        Some (d # m) \<Rightarrow> f (d # m) @ replace_all alts f (Some (last (d # m))) (drop (length m) s)
      | _ \<Rightarrow> c # replace_all alts f (Some c) s)"
  by pat_completeness auto
termination by (relation "measure (\<lambda>(alts, f, prev, s). length s)") auto

definition word_items :: "string \<Rightarrow> re_item list" where
  "word_items w = Boundary # map Lit w @ [Boundary]"

definition quoted_items :: "re_item list \<Rightarrow> re_item list" where
  "quoted_items its = Lit (CHR 0x22) # its @ [Lit (CHR 0x22)]"

definition literal_patterns :: "re_item list list" where
  "literal_patterns =
     [word_items ''NaN'', quoted_items (word_items ''NaN''),
      Lit (CHR ''-'') # word_items ''Infinity'', quoted_items (Lit (CHR ''-'') # word_items ''Infinity''),
      word_items ''Infinity'', quoted_items (word_items ''Infinity'')]"

definition escape_match :: "string \<Rightarrow> string" where
  "escape_match m = (if contains m [CHR 0x22] then m else ''null'')"

definition escape_literals :: "string \<Rightarrow> string" where
  "escape_literals s = replace_all literal_patterns escape_match None s"

section \<open>The encoders of the registry\<close>

datatype reflect_value =
  RInvalid
| RDateTime int
| RObjectID "nat list"
| RBinary nat "nat list"
| RDecimal "64 word" "64 word"
| RTimestamp "32 word" "32 word"
| ROther string

datatype written = WriteDouble go_float | WriteString string

record encoders =
  rg_DateTime :: "reflect_value \<Rightarrow> written outcome"
  rg_OID :: "reflect_value \<Rightarrow> written outcome"
  rg_Binary :: "reflect_value \<Rightarrow> written outcome"
  rg_Decimal :: "reflect_value \<Rightarrow> written outcome"
  rg_Timestamp :: "reflect_value \<Rightarrow> written outcome"

record bsonlib =
  bl_UnmarshalExtJSON :: "string \<Rightarrow> nat list outcome"
  bl_MarshalExtJSONWithRegistry :: "encoders \<Rightarrow> nat list \<Rightarrow> string outcome"
  bl_Decimal128_String :: "64 word \<Rightarrow> 64 word \<Rightarrow> string"
  bl_ObjectID_Hex :: "nat list \<Rightarrow> string"
  bl_uuid_FromBytes :: "nat list \<Rightarrow> string outcome"

definition ValueEncoderError :: "string \<Rightarrow> 'a outcome" where
  "ValueEncoderError name = Err (errorf name)"

fun decimalEncodeValue :: "gostd \<Rightarrow> bsonlib \<Rightarrow> reflect_value \<Rightarrow> written outcome" where
  "decimalEncodeValue std lib (RDecimal h l) =
     bind_out (parse_float64 std (bl_Decimal128_String lib h l)) (\<lambda>parsedFloat. Ret (WriteDouble parsedFloat))"
| "decimalEncodeValue std lib v = ValueEncoderError ''Decimal128EncodeValue''"

text \<open>The product is one of 64-bit integers, as \<^verbatim>\<open>time.Unix\<close> takes it.\<close>

fun dateTimeEncodeValue :: "gostd \<Rightarrow> reflect_value \<Rightarrow> written outcome" where
  "dateTimeEncodeValue std (RDateTime d) =
     (case atoi (show_int d) of
        None \<Rightarrow> Err (errorf ''invalid syntax'')
      | Some ints \<Rightarrow>
          Ret (WriteString (go_time_format std
            (utc_nanos (sint (word_of_int ints * 1000000 :: 64 word))) ISO8601)))"
| "dateTimeEncodeValue std v = ValueEncoderError ''DateTimeEncodeValue''"

fun objectIDEncodeValue :: "bsonlib \<Rightarrow> reflect_value \<Rightarrow> written outcome" where
  "objectIDEncodeValue lib (RObjectID bs) = Ret (WriteString (bl_ObjectID_Hex lib bs))"
| "objectIDEncodeValue lib v = ValueEncoderError ''ObjectIDEncodeValue''"

fun binaryEncodeValue :: "bsonlib \<Rightarrow> reflect_value \<Rightarrow> written outcome" where
  "binaryEncodeValue lib (RBinary subtype bs) =
     bind_out (bl_uuid_FromBytes lib bs) (\<lambda>parsedUUID. Ret (WriteString parsedUUID))"
| "binaryEncodeValue lib v = ValueEncoderError ''ObjectIDEncodeValue''"

fun timestampEncodeValue :: "gostd \<Rightarrow> reflect_value \<Rightarrow> written outcome" where
  "timestampEncodeValue std (RTimestamp t i) =
     Ret (WriteString (go_time_format std (utc_nanos (uint t * 1000000000)) ISO8601))"
| "timestampEncodeValue std v = ValueEncoderError ''ObjectIDEncodeValue''"

definition createCustomRegistry :: "gostd \<Rightarrow> bsonlib \<Rightarrow> encoders" where
  "createCustomRegistry std lib =
     \<lparr>rg_DateTime = dateTimeEncodeValue std, rg_OID = objectIDEncodeValue lib,
      rg_Binary = binaryEncodeValue lib, rg_Decimal = decimalEncodeValue std lib,
      rg_Timestamp = timestampEncodeValue std\<rparr>"

definition JSONEToMap :: "gostd \<Rightarrow> bsonlib \<Rightarrow> string \<Rightarrow> row outcome" where
  "JSONEToMap std lib val =
     bind_out (wrap_out ''failed to unmarshal ext json: ''
                 (bl_UnmarshalExtJSON lib (escape_literals val))) (\<lambda>bsonDoc.
     bind_out (bl_MarshalExtJSONWithRegistry lib (createCustomRegistry std lib) bsonDoc) (\<lambda>bytes.
     unmarshal_map std bytes))"

section \<open>JSON tokens\<close>

text \<open>
  A JSON text as a list of tokens: strings with their bodies, runs of word characters and other
  characters. In a JSON text a string is never followed by a word or a minus sign, and two words are
  never adjacent.
\<close>

datatype token = Str string | Bare string | Punct char

fun render :: "token \<Rightarrow> string" where
  "render (Str body) = CHR 0x22 # body @ [CHR 0x22]"
| "render (Bare w) = w"
| "render (Punct c) = [c]"

fun token_ok :: "token \<Rightarrow> bool" where
  "token_ok (Str body) = True"
| "token_ok (Bare w) = (w \<noteq> [] \<and> list_all word_char w)"
| "token_ok (Punct c) = (\<not> word_char c \<and> c \<noteq> CHR 0x22)"

fun follows :: "token \<Rightarrow> token \<Rightarrow> bool" where
  "follows (Str body) t = (case t of Punct c \<Rightarrow> c \<noteq> CHR ''-'' | _ \<Rightarrow> False)"
| "follows (Bare w) t = (case t of Bare v \<Rightarrow> False | _ \<Rightarrow> True)"
| "follows (Punct c) t = True"

fun tokens_ok :: "token list \<Rightarrow> bool" where
  "tokens_ok [] = True"
| "tokens_ok [t] = token_ok t"
| "tokens_ok (t # u # ts) = (token_ok t \<and> follows t u \<and> tokens_ok (u # ts))"

text \<open>A string that is one of the literals, or that contains none of their words.\<close>

fun string_safe :: "token \<Rightarrow> bool" where
  "string_safe (Str body) =
     (body \<in> {''NaN'', ''Infinity'', ''-Infinity''} \<or>
      \<not> contains body ''NaN'' \<and> \<not> contains body ''Infinity'')"
| "string_safe t = True"

fun escape_tokens :: "token list \<Rightarrow> token list" where
  "escape_tokens [] = []"
| "escape_tokens (Bare w # ts) =
     Bare (if w = ''NaN'' \<or> w = ''Infinity'' then ''null'' else w) # escape_tokens ts"
| "escape_tokens (Punct c # ts) =
     (case ts of
        Bare w # us \<Rightarrow> if c = CHR ''-'' \<and> w = ''Infinity'' then Bare ''null'' # escape_tokens us
                       else Punct c # escape_tokens ts
      | _ \<Rightarrow> Punct c # escape_tokens ts)"
| "escape_tokens (Str body # ts) = Str body # escape_tokens ts"


section \<open>Matching\<close>

fun lits :: "re_item list \<Rightarrow> string" where
  "lits [] = []"
| "lits (Boundary # its) = lits its"
| "lits (Lit c # its) = c # lits its"

lemma match_items_lits:
  "match_items its prev s = Some m \<Longrightarrow> m = lits its \<and> prefix m s"
  by (induction its prev s arbitrary: m rule: match_items.induct) (auto split: if_splits)

lemma first_match_lits:
  "first_match alts prev s = Some m \<Longrightarrow> m \<in> lits ` set alts \<and> prefix m s"
  by (induction alts) (auto dest!: match_items_lits split: option.splits)

text \<open>Whatever matches begins with a word, possibly behind a quote or a minus sign.\<close>

definition openings :: "string list" where
  "openings = [[], [CHR 0x22], ''-'', [CHR 0x22, CHR ''-'']]"

definition literal_words :: "string list" where
  "literal_words = [''NaN'', ''Infinity'']"

lemma openings_facts:
  "\<forall>its\<in>set literal_patterns. \<exists>p\<in>set openings. \<exists>w\<in>set literal_words. prefix (p @ w) (lits its)"
  "\<forall>p\<in>set openings. \<forall>w\<in>set literal_words. CHR 0x22 \<notin> set (tl p @ w) \<and> CHR 0x22 \<notin> set w"
  "\<forall>p\<in>set openings. \<forall>w\<in>set literal_words. p @ w \<noteq> []
     \<and> (hd (p @ w) = CHR 0x22 \<longrightarrow> tl (p @ w) \<noteq> []
        \<and> (word_char (hd (tl (p @ w))) \<or> hd (tl (p @ w)) = CHR ''-''))"
  by code_simp+

lemma first_match_prefix:
  assumes "first_match literal_patterns prev s \<noteq> None"
  obtains p w where "p \<in> set openings" "w \<in> set literal_words" "prefix (p @ w) s"
  using assms first_match_lits [of literal_patterns prev s] openings_facts(1)
  by (fastforce elim: prefix_order.order_trans)

lemma match_word_other: "w \<noteq> [] \<Longrightarrow> c \<noteq> hd w \<Longrightarrow> match_items (word_items w) prev (c # s) = None"
  by (cases w) (simp_all add: word_items_def)

lemma match_quoted_other: "c \<noteq> CHR 0x22 \<Longrightarrow> match_items (quoted_items its) prev (c # s) = None"
  by (simp add: quoted_items_def)

lemma first_match_word:
  assumes "word_char c"
  shows "first_match literal_patterns prev (c # s) =
     (if c = CHR ''N'' then match_items (word_items ''NaN'') prev (c # s)
      else if c = CHR ''I'' then match_items (word_items ''Infinity'') prev (c # s) else None)"
proof -
  have "c \<noteq> CHR 0x22" "c \<noteq> CHR ''-''" using assms by (auto simp: word_char_def)
  then show ?thesis
    by (simp add: literal_patterns_def match_word_other match_quoted_other split: option.splits)
qed

lemma first_match_word_None:
  assumes "word_char c" "match_items (word_items ''NaN'') prev (c # s) = None"
    "match_items (word_items ''Infinity'') prev (c # s) = None"
  shows "first_match literal_patterns prev (c # s) = None"
  by (simp only: first_match_word [OF assms(1)] assms(2,3) if_cancel)

lemma prefix_before_quote:
  "CHR 0x22 \<notin> set w \<Longrightarrow> prefix w (b @ CHR 0x22 # s) \<longleftrightarrow> prefix w b"
proof (induction w arbitrary: b)
  case (Cons c w)
  then show ?case by (cases b) auto
qed simp

lemma no_match_in_string:
  assumes clean: "\<forall>w\<in>set literal_words. \<not> contains (c # b) w"
  shows "first_match literal_patterns prev (c # b @ CHR 0x22 # s) = None"
proof (rule ccontr)
  assume "first_match literal_patterns prev (c # b @ CHR 0x22 # s) \<noteq> None"
  then obtain p w where p: "p \<in> set openings" and w: "w \<in> set literal_words"
    and pre: "prefix (p @ w) (c # b @ CHR 0x22 # s)" by (rule first_match_prefix)
  have quote: "CHR 0x22 \<notin> set (tl p @ w)" "CHR 0x22 \<notin> set w" using p w openings_facts(2) by auto
  have "sublist w (c # b)"
  proof (cases p)
    case Nil
    with pre quote prefix_before_quote [of w "c # b" s] show ?thesis by (simp add: prefix_imp_sublist)
  next
    case (Cons q p')
    with pre quote have "prefix (p' @ w) b" by (simp add: prefix_before_quote)
    then have "sublist w b" by (meson prefix_imp_sublist sublist_appendI sublist_append_leftI sublist_order.order_trans)
    then show ?thesis by (simp add: sublist_Cons_right)
  qed
  with clean w show False by (simp add: contains_def)
qed

lemma no_match_at_quote:
  assumes "\<forall>c. first_char s = Some c \<longrightarrow> \<not> word_char c \<and> c \<noteq> CHR ''-''"
  shows "first_match literal_patterns prev (CHR 0x22 # s) = None"
proof (rule ccontr)
  assume "first_match literal_patterns prev (CHR 0x22 # s) \<noteq> None"
  then obtain p w where p: "p \<in> set openings" and w: "w \<in> set literal_words"
    and pre: "prefix (p @ w) (CHR 0x22 # s)" by (rule first_match_prefix)
  obtain d v where dv: "p @ w = d # v" using openings_facts(3) p w by (cases "p @ w") auto
  with pre have d: "d = CHR 0x22" and v: "prefix v s" by simp_all
  from openings_facts(3) p w dv d have "v \<noteq> []" "word_char (hd v) \<or> hd v = CHR ''-''" by force+
  with assms v show False by (cases v; cases s) auto
qed

section \<open>Replacing in a token list\<close>

abbreviation escape_from :: "char option \<Rightarrow> string \<Rightarrow> string" where
  "escape_from prev s \<equiv> replace_all literal_patterns escape_match prev s"

lemma escape_from_None:
  "first_match literal_patterns prev (c # s) = None \<Longrightarrow> escape_from prev (c # s) = c # escape_from (Some c) s"
  by simp

lemma escape_from_Some:
  "first_match literal_patterns prev (m @ s) = Some m \<Longrightarrow> m \<noteq> [] \<Longrightarrow>
     escape_from prev (m @ s) = escape_match m @ escape_from (Some (last m)) s"
  by (cases m) (auto simp del: last.simps)

lemma escape_from_body:
  assumes "\<forall>w\<in>set literal_words. \<not> contains b w"
    "\<forall>c. first_char s = Some c \<longrightarrow> \<not> word_char c \<and> c \<noteq> CHR ''-''"
  shows "escape_from prev (b @ CHR 0x22 # s) = b @ CHR 0x22 # escape_from (Some (CHR 0x22)) s"
  using assms
proof (induction b arbitrary: prev)
  case Nil
  then show ?case using escape_from_None [OF no_match_at_quote] by simp
next
  case (Cons c b)
  then have "\<forall>w\<in>set literal_words. \<not> contains b w"
    by (auto simp: contains_def sublist_Cons_right)
  with Cons show ?case using escape_from_None [OF no_match_in_string] by simp
qed


lemma match_lits_append:
  "match_items (map Lit w @ its) prev s =
     (if prefix w s then map_option (\<lambda>m. w @ m)
        (match_items its (if w = [] then prev else Some (last w)) (drop (length w) s)) else None)"
proof (induction w arbitrary: prev s)
  case Nil
  show ?case by (cases "match_items its prev s") simp_all
next
  case (Cons c w)
  then show ?case by (cases s) (auto simp: option.map_comp comp_def)
qed

lemma word_prefix:
  assumes "list_all word_char v" "list_all word_char w" "\<not> is_word (first_char s)"
    "prefix v (w @ s)" "\<not> is_word (first_char (drop (length v) (w @ s)))"
  shows "v = w"
  using assms
proof (induction v arbitrary: w)
  case Nil
  then show ?case by (cases w) auto
next
  case (Cons c v)
  then show ?case by (cases w; cases s) auto
qed

lemma match_word:
  assumes "v \<noteq> []" "list_all word_char v" "w \<noteq> []" "list_all word_char w" "\<not> is_word prev" "\<not> is_word (first_char s)"
  shows "match_items (word_items v) prev (w @ s) = (if v = w then Some v else None)"
proof -
  have "is_word (first_char (w @ s))" using assms by (cases w) auto
  moreover have "word_char (last v)" using assms by (simp add: list_all_iff)
  ultimately show ?thesis
    using assms word_prefix [of v w s] by (auto simp: word_items_def match_lits_append)
qed

lemma escape_from_word_rest:
  "list_all word_char w \<Longrightarrow> is_word prev \<Longrightarrow>
     escape_from prev (w @ s) = w @ escape_from (if w = [] then prev else Some (last w)) s"
proof (induction w arbitrary: prev)
  case (Cons c w)
  then have "match_items (word_items v) prev (c # w @ s) = None" for v by (simp add: word_items_def)
  with Cons.prems have "first_match literal_patterns prev (c # w @ s) = None"
    by (simp add: first_match_word_None)
  with Cons show ?case using escape_from_None [of prev c "w @ s"] by simp
qed simp

lemma literal_words_facts:
  "list_all word_char ''NaN''" "list_all word_char ''Infinity''"
  "escape_match ''NaN'' = ''null''" "escape_match ''Infinity'' = ''null''" "escape_match ''-Infinity'' = ''null''"
  by code_simp+

lemma escape_from_word:
  assumes w: "w \<noteq> []" "list_all word_char w" and edges: "\<not> is_word prev" "\<not> is_word (first_char s)"
  shows "escape_from prev (w @ s) =
     (if w = ''NaN'' \<or> w = ''Infinity'' then ''null'' else w) @ escape_from (Some (last w)) s"
proof (cases "w = ''NaN'' \<or> w = ''Infinity''")
  case True
  then have "first_match literal_patterns prev (w @ s) = Some w"
    using match_word [OF _ _ w edges, of w] w
    by (cases w) (auto simp: first_match_word)
  with True w show ?thesis using escape_from_Some [of prev w s] literal_words_facts by auto
next
  case False
  obtain c v where cv: "w = c # v" using w by (cases w) auto
  have "match_items (word_items u) prev (c # v @ s) = None"
    if "u \<noteq> []" "list_all word_char u" "u \<noteq> w" for u
    using match_word [OF that(1,2) w edges] that(3) cv by simp
  then have "first_match literal_patterns prev (c # v @ s) = None"
    using False w cv literal_words_facts by (intro first_match_word_None) auto
  then have "escape_from prev (w @ s) = c # escape_from (Some c) (v @ s)"
    using cv escape_from_None by simp
  also have "\<dots> = w @ escape_from (Some (last w)) s"
    using w cv escape_from_word_rest [of v "Some c" s] by auto
  finally show ?thesis using False by simp
qed


lemma escape_from_string:
  assumes safe: "string_safe (Str body)"
    and next_char: "\<forall>c. first_char s = Some c \<longrightarrow> \<not> word_char c \<and> c \<noteq> CHR ''-''"
  shows "escape_from prev (render (Str body) @ s) = render (Str body) @ escape_from (Some (CHR 0x22)) s"
proof (cases "\<forall>w\<in>set literal_words. \<not> contains body w")
  case True
  have "\<not> prefix w (CHR 0x22 # body)" if "w \<in> set literal_words" for w
    using that by (auto simp: literal_words_def)
  with True have "\<forall>w\<in>set literal_words. \<not> contains (CHR 0x22 # body) w"
    by (auto simp: contains_def sublist_Cons_right)
  from escape_from_body [OF this next_char] show ?thesis by simp
next
  case False
  with safe have "body \<in> {''NaN'', ''Infinity'', ''-Infinity''}" by (auto simp: literal_words_def)
  then have "first_match literal_patterns prev (render (Str body) @ s) = Some (render (Str body))"
    "escape_match (render (Str body)) = render (Str body)"
    by (auto simp: literal_patterns_def quoted_items_def word_items_def word_char_def escape_match_def contains_def)
  then show ?thesis using escape_from_Some [of prev "render (Str body)" s] by simp
qed

lemma escape_from_minus:
  assumes "\<not> is_word (first_char s)"
  shows "escape_from prev (CHR ''-'' # ''Infinity'' @ s) = ''null'' @ escape_from (Some (CHR ''y'')) s"
proof -
  have "first_match literal_patterns prev (''-Infinity'' @ s) = Some ''-Infinity''"
    using assms by (simp add: literal_patterns_def quoted_items_def word_items_def word_char_def)
  then show ?thesis using escape_from_Some [of prev "''-Infinity''" s] literal_words_facts by simp
qed


definition render_all :: "token list \<Rightarrow> string" where
  "render_all ts = concat (map render ts)"

lemma render_all_simps [simp]: "render_all [] = []" "render_all (t # ts) = render t @ render_all ts"
  by (simp_all add: render_all_def)

lemma tokens_ok_Cons: "tokens_ok (t # ts) \<Longrightarrow> token_ok t \<and> tokens_ok ts"
  by (cases ts) auto

lemma quote_not_word: "\<not> word_char (CHR 0x22)"
  by (simp add: word_char_def)

lemma not_letter: "\<not> word_char c \<Longrightarrow> c \<noteq> CHR ''N'' \<and> c \<noteq> CHR ''I''"
  by (auto simp: word_char_def)

lemma after_word: "tokens_ok (Bare w # ts) \<Longrightarrow> \<not> is_word (first_char (render_all ts))"
proof (cases ts)
  case (Cons u us)
  assume "tokens_ok (Bare w # ts)"
  then show ?thesis using Cons tokens_ok_Cons [of u us] quote_not_word by (cases u) auto
qed simp

lemma after_string:
  assumes "tokens_ok (Str body # ts)" "first_char (render_all ts) = Some c"
  shows "\<not> word_char c \<and> c \<noteq> CHR ''-''"
proof (cases ts)
  case (Cons u us)
  then show ?thesis using assms tokens_ok_Cons [of u us] by (cases u) auto
qed (use assms in simp)

lemma escape_from_punct:
  assumes c: "\<not> word_char c" "c \<noteq> CHR 0x22"
    and other: "c = CHR ''-'' \<Longrightarrow> match_items (word_items ''Infinity'') (Some c) s = None"
  shows "escape_from prev (c # s) = c # escape_from (Some c) s"
proof (rule escape_from_None)
  show "first_match literal_patterns prev (c # s) = None"
    using c other not_letter [OF c(1)]
    by (cases "c = CHR ''-''") (simp_all add: literal_patterns_def match_word_other match_quoted_other)
qed

text \<open>A minus sign is only taken with the word right after it.\<close>

lemma minus_alone:
  assumes ok: "tokens_ok ts" and "\<forall>us. ts \<noteq> Bare ''Infinity'' # us"
  shows "match_items (word_items ''Infinity'') (Some (CHR ''-'')) (render_all ts) = None"
proof (cases ts)
  case Nil
  then show ?thesis by (simp add: word_items_def)
next
  case (Cons t us)
  show ?thesis
  proof (cases t)
    case (Bare w)
    have "match_items (word_items ''Infinity'') (Some (CHR ''-'')) (w @ render_all us) =
        (if ''Infinity'' = w then Some ''Infinity'' else None)"
      using ok Cons Bare tokens_ok_Cons [of t us] after_word [of w us] literal_words_facts(2)
      by (intro match_word) (auto simp: word_char_def)
    then show ?thesis using assms Cons Bare by auto
  qed (use ok Cons tokens_ok_Cons [of t us] in \<open>auto simp: match_word_other dest: not_letter\<close>)
qed

lemma punct_alone:
  assumes "token_ok (Punct c)" "tokens_ok us" "\<nexists>vs. c = CHR ''-'' \<and> us = Bare ''Infinity'' # vs"
  shows "escape_tokens (Punct c # us) = Punct c # escape_tokens us"
    and "escape_from prev (c # render_all us) = c # escape_from (Some c) (render_all us)"
proof -
  show "escape_tokens (Punct c # us) = Punct c # escape_tokens us"
    using assms by (auto split: list.splits token.splits)
  show "escape_from prev (c # render_all us) = c # escape_from (Some c) (render_all us)"
    using assms minus_alone [of us] by (intro escape_from_punct) auto
qed

lemma escape_from_tokens:
  assumes "tokens_ok ts" "list_all string_safe ts" "\<forall>w us. ts = Bare w # us \<longrightarrow> \<not> is_word prev"
  shows "escape_from prev (render_all ts) = render_all (escape_tokens ts)"
  using assms
proof (induction "length ts" arbitrary: ts prev rule: less_induct)
  case less
  show ?case
  proof (cases ts)
    case (Cons t us)
    note ok = tokens_ok_Cons [OF less.prems(1) [unfolded Cons]]
    have IH: "escape_from p (render_all us) = render_all (escape_tokens us)"
      if "\<forall>w vs. us = Bare w # vs \<longrightarrow> \<not> is_word p" for p
      using less.prems(2) ok that Cons by (intro less.hyps) auto
    show ?thesis
    proof (cases t)
      case (Str body)
      have "escape_from (Some (CHR 0x22)) (render_all us) = render_all (escape_tokens us)"
        by (rule IH) (simp add: quote_not_word)
      with Cons Str less.prems show ?thesis
        using escape_from_string [of body "render_all us" prev] after_string [of body us] by simp
    next
      case (Bare w)
      have "\<forall>v vs. us \<noteq> Bare v # vs" using less.prems(1) Cons Bare by (cases us) auto
      then have "escape_from (Some (last w)) (render_all us) = render_all (escape_tokens us)"
        by (intro IH) simp
      with Cons Bare less.prems ok after_word [of w us] show ?thesis by (simp add: escape_from_word)
    next
      case (Punct c)
      show ?thesis
      proof (cases "\<exists>vs. c = CHR ''-'' \<and> us = Bare ''Infinity'' # vs")
        case True
        then obtain vs where vs: "us = Bare ''Infinity'' # vs" and c: "c = CHR ''-''" by blast
        have "\<forall>v xs. vs \<noteq> Bare v # xs" using ok vs by (cases vs) auto
        then have "escape_from (Some (CHR ''y'')) (render_all vs) = render_all (escape_tokens vs)"
          using less.prems(2) ok vs Cons tokens_ok_Cons [of _ vs] by (intro less.hyps) auto
        with Cons Punct vs c show ?thesis
          using escape_from_minus [of "render_all vs" prev] after_word [of "''Infinity''" vs] ok by simp
      next
        case False
        moreover have "escape_from (Some c) (render_all us) = render_all (escape_tokens us)"
          using ok Punct by (intro IH) simp
        ultimately show ?thesis using Cons Punct ok punct_alone [of c us] by simp
      qed
    qed
  qed simp
qed

text \<open>
  C26. On a JSON text, seen as the list of its tokens, the replacement before parsing turns exactly the
  bare literals NaN, Infinity and -Infinity into null and leaves everything else as it is, when each
  string is one of these literals or contains none of their words.
\<close>

theorem escape_literals_on_tokens:
  assumes "tokens_ok ts" "list_all string_safe ts"
  shows "escape_literals (render_all ts) = render_all (escape_tokens ts)"
  unfolding escape_literals_def using assms by (intro escape_from_tokens) simp_all

definition sample_tokens :: "token list" where
  "sample_tokens = [Punct (CHR ''{''), Str ''a'', Punct (CHR '':''), Punct (CHR ''-''), Bare ''Infinity'',
     Punct (CHR '',''), Str ''b'', Punct (CHR '':''), Str ''NaN'', Punct (CHR ''}'')]"

theorem escape_literals_on_tokens_witness:
  "tokens_ok sample_tokens \<and> list_all string_safe sample_tokens
   \<and> escape_literals (render_all sample_tokens) =
       render_all (take 3 sample_tokens @ Bare ''null'' # drop 5 sample_tokens)"
proof -
  have ok: "tokens_ok sample_tokens" "list_all string_safe sample_tokens" by code_simp+
  have "escape_tokens sample_tokens = take 3 sample_tokens @ Bare ''null'' # drop 5 sample_tokens"
    by code_simp
  with escape_literals_on_tokens [OF ok] ok show ?thesis by simp
qed

text \<open>A string that only mentions a literal is changed: its value is corrupted.\<close>

lemma escape_literals_changes_strings:
  "escape_literals (render_all [Punct (CHR ''{''), Str ''a'', Punct (CHR '':''), Str ''is NaN'', Punct (CHR ''}'')]) =
     render_all [Punct (CHR ''{''), Str ''a'', Punct (CHR '':''), Str ''is null'', Punct (CHR ''}'')]"
  by code_simp

section \<open>Dates\<close>

text \<open>
  C27. A date is written as the instant it stands for exactly when its nanoseconds since 1970 fit
  into 64 bits; a date outside 1677 to 2262 is written as another instant.
\<close>

theorem dateTimeEncodeValue_exact_iff:
  assumes "min_int64 \<le> d" "d \<le> max_int64"
  shows "\<exists>n. (\<forall>std. dateTimeEncodeValue std (RDateTime d) =
       Ret (WriteString (go_time_format std (utc_nanos n) ISO8601)))
     \<and> (n = d * 1000000 \<longleftrightarrow> \<bar>d\<bar> \<le> 9223372036854)"
proof -
  define n where "n = sint (word_of_int d * 1000000 :: 64 word)"
  have "(word_of_int d * 1000000 :: 64 word) = word_of_int (d * 1000000)" by simp
  then have "n = signed_take_bit 63 (d * 1000000)" by (simp only: n_def sint_sbintrunc') simp
  then have "n = d * 1000000 \<longleftrightarrow> - (2 ^ 63) \<le> d * 1000000 \<and> d * 1000000 < 2 ^ 63"
    by (metis signed_take_bit_int_eq_self_iff)
  then have "n = d * 1000000 \<longleftrightarrow> \<bar>d\<bar> \<le> 9223372036854" by auto
  moreover have "atoi (show_int d) = Some d" using assms by (rule atoi_show_int)
  ultimately show ?thesis by (intro exI [of _ n]) (simp add: n_def)
qed

theorem dateTimeEncodeValue_exact_iff_witness:
  "\<exists>n. (\<forall>std. dateTimeEncodeValue std (RDateTime 253402300800000) =
       Ret (WriteString (go_time_format std (utc_nanos n) ISO8601)))
     \<and> n \<noteq> 253402300800000 * 1000000"
  using dateTimeEncodeValue_exact_iff [of 253402300800000] by (simp add: min_int64_def max_int64_def)

end
