(* ===== verification/Cdc.thy ===== *)
theory Cdc
  imports Bson Message
begin

text \<open>
  Change events, \<^verbatim>\<open>lib/cdc\<close>: the relational payload (Postgres and MySQL), the MongoDB payload,
  the format parsers and the interface \<^verbatim>\<open>cdc.Event\<close> that the rest of the pipeline uses.

  The JSON decoders of the payload structs and the BSON library are parameters (\<open>decoders\<close>). The
  functions that stand for library code do not panic, so a parse failure of a field is an error
  value. The interface is the locale \<open>cdc_event\<close>, interpreted on both payloads: whatever the event
  and the key, the data carries the delete marker.
\<close>

section \<open>Relational events\<close>

record Source_info =
  so_Connector :: string
  so_TsMs :: int
  so_Database :: string
  so_Schema :: string
  so_Table :: string

record Payload =
  pl_Before :: row
  pl_After :: row
  pl_Source :: Source_info
  pl_Operation :: string

record SchemaEventPayload =
  sep_Schema :: Schema
  sep_Payload :: Payload

definition time_UnixMilli :: "int \<Rightarrow> gotime" where
  "time_UnixMilli ms = utc_nanos (ms * 1000000)"

definition rel_column :: "gostd \<Rightarrow> Field \<Rightarrow> Column" where
  "rel_column std field =
     (let col = NewColumn (columns_EscapeName (f_FieldName field)) Invalid
      in case Field_ParseValue std field (f_Default field) of
           Ret v \<Rightarrow> SetDefaultValue v col
         | _ \<Rightarrow> SetDefaultValue (f_Default field) col)"

definition rel_GetColumns :: "gostd \<Rightarrow> SchemaEventPayload \<Rightarrow> Columns option" where
  "rel_GetColumns std s =
     map_option (\<lambda>fo. foldl (\<lambda>cols field. AddColumn (rel_column std field) cols) [] (Fields fo))
       (GetSchemaFromLabel (sep_Schema s) After)"

definition rel_Operation :: "SchemaEventPayload \<Rightarrow> string" where
  "rel_Operation s = pl_Operation (sep_Payload s)"

definition rel_DeletePayload :: "SchemaEventPayload \<Rightarrow> bool" where
  "rel_DeletePayload s = (pl_Operation (sep_Payload s) = ''d'')"

definition rel_GetExecutionTime :: "SchemaEventPayload \<Rightarrow> gotime" where
  "rel_GetExecutionTime s = time_UnixMilli (so_TsMs (pl_Source (sep_Payload s)))"

definition rel_GetTableName :: "SchemaEventPayload \<Rightarrow> string" where
  "rel_GetTableName s = so_Table (pl_Source (sep_Payload s))"

definition NewUTCTime :: "gostd \<Rightarrow> gotime \<Rightarrow> string \<Rightarrow> string" where
  "NewUTCTime std now layout = go_time_format std (time_UTC now) layout"

text \<open>The entries every event gets: the delete marker and, as configured, the timestamps.\<close>

definition deleted_data :: "gostd \<Rightarrow> gotime \<Rightarrow> row \<Rightarrow> TopicConfig \<Rightarrow> row" where
  "deleted_data std execTime pkMap tc =
     (let retMap = gm_put_all pkMap [(DeleteColumnMarker, VBool True)]
      in if tc_IdempotentKey tc \<noteq> []
         then gm_put (tc_IdempotentKey tc) (VString (go_time_format std execTime ISO8601)) retMap
         else retMap)"

definition add_timestamps ::
  "gostd \<Rightarrow> gotime \<Rightarrow> gotime \<Rightarrow> TopicConfig \<Rightarrow> row \<Rightarrow> row" where
  "add_timestamps std now execTime tc retMap =
     (let retMap1 = (if tc_IncludeArtieUpdatedAt tc
                     then gm_put UpdateColumnMarker (VString (NewUTCTime std now ISO8601)) retMap
                     else retMap)
      in if tc_IncludeDatabaseUpdatedAt tc
         then gm_put DatabaseUpdatedColumnMarker (VString (go_time_format std execTime ISO8601)) retMap1
         else retMap1)"

definition parse_field :: "gostd \<Rightarrow> row \<Rightarrow> Field \<Rightarrow> row" where
  "parse_field std retMap field =
     (case gm_get retMap (f_FieldName field) of
        None \<Rightarrow> retMap
      | Some v \<Rightarrow>
          (case Field_ParseValue std field v of
             Ret v' \<Rightarrow> gm_put (f_FieldName field) v' retMap
           | _ \<Rightarrow> retMap))"

definition rel_GetData ::
  "gostd \<Rightarrow> gotime \<Rightarrow> SchemaEventPayload \<Rightarrow> row \<Rightarrow> TopicConfig \<Rightarrow> row" where
  "rel_GetData std now s pkMap tc =
     (let retMap = (if pl_After (sep_Payload s) = []
                    then deleted_data std (rel_GetExecutionTime s) pkMap tc
                    else gm_put DeleteColumnMarker (VBool False) (pl_After (sep_Payload s)));
          retMap1 = add_timestamps std now (rel_GetExecutionTime s) tc retMap
      in case GetSchemaFromLabel (sep_Schema s) After of
           None \<Rightarrow> retMap1
         | Some fo \<Rightarrow> foldl (parse_field std) retMap1 (Fields fo))"

definition rel_GetOptionalSchema ::
  "gostd \<Rightarrow> SchemaEventPayload \<Rightarrow> KindDetails gomap" where
  "rel_GetOptionalSchema std s =
     (case GetSchemaFromLabel (sep_Schema s) After of
        None \<Rightarrow> []
      | Some fo \<Rightarrow>
          foldl (\<lambda>schema field.
            let kd = ToKindDetails std field
            in if kd = Invalid then schema else gm_put (f_FieldName field) kd schema) [] (Fields fo))"

section \<open>MongoDB events\<close>

record Mongo_Source =
  mso_Connector :: string
  mso_TsMs :: int
  mso_Database :: string
  mso_Collection :: string

record Mongo_Payload =
  mpl_Before :: "string option"
  mpl_After :: "string option"
  mpl_Source :: Mongo_Source
  mpl_Operation :: string
  mpl_beforeMap :: row
  mpl_afterMap :: row

record Mongo_SchemaEventPayload =
  msep_Schema :: Schema
  msep_Payload :: Mongo_Payload

definition mongo_Operation :: "Mongo_SchemaEventPayload \<Rightarrow> string" where
  "mongo_Operation s = mpl_Operation (msep_Payload s)"

definition mongo_DeletePayload :: "Mongo_SchemaEventPayload \<Rightarrow> bool" where
  "mongo_DeletePayload s = (mpl_Operation (msep_Payload s) = ''d'')"

definition mongo_GetExecutionTime :: "Mongo_SchemaEventPayload \<Rightarrow> gotime" where
  "mongo_GetExecutionTime s = time_UnixMilli (mso_TsMs (mpl_Source (msep_Payload s)))"

definition mongo_GetTableName :: "Mongo_SchemaEventPayload \<Rightarrow> string" where
  "mongo_GetTableName s = mso_Collection (mpl_Source (msep_Payload s))"

definition mongo_GetOptionalSchema :: "Mongo_SchemaEventPayload \<Rightarrow> KindDetails gomap" where
  "mongo_GetOptionalSchema s = []"

definition mongo_GetColumns :: "Mongo_SchemaEventPayload \<Rightarrow> Columns option" where
  "mongo_GetColumns s =
     map_option (\<lambda>fo. foldl (\<lambda>cols field.
         AddColumn (NewColumn (columns_EscapeName (f_FieldName field)) Invalid) cols) [] (Fields fo))
       (GetSchemaFromLabel (msep_Schema s) After)"

definition mongo_GetData ::
  "gostd \<Rightarrow> gotime \<Rightarrow> Mongo_SchemaEventPayload \<Rightarrow> row \<Rightarrow> TopicConfig \<Rightarrow> row" where
  "mongo_GetData std now s pkMap tc =
     (let retMap = (if mpl_afterMap (msep_Payload s) = []
                    then deleted_data std (mongo_GetExecutionTime s) pkMap tc
                    else gm_put DeleteColumnMarker (VBool False)
                           (gm_put_all pkMap (mpl_afterMap (msep_Payload s))))
      in add_timestamps std now (mongo_GetExecutionTime s) tc retMap)"

section \<open>Formats\<close>

datatype Format = PostgresFormat | MongoFormat | MySQLFormat

fun Labels :: "Format \<Rightarrow> string list" where
  "Labels PostgresFormat = [DBZPostgresFormat, DBZPostgresAltFormat]"
| "Labels MongoFormat = [DBZMongoFormat]"
| "Labels MySQLFormat = [DBZMySQLFormat]"

fun find_format :: "Format list \<Rightarrow> string \<Rightarrow> Format option" where
  "find_format [] label = None"
| "find_format (f # fs) label = (if label \<in> set (Labels f) then Some f else find_format fs label)"

definition GetFormatParser :: "string \<Rightarrow> Format outcome" where
  "GetFormatParser label =
     (case find_format [PostgresFormat, MongoFormat, MySQLFormat] label of
        Some f \<Rightarrow> Ret f
      | None \<Rightarrow> Panic ''Failed to fetch CDC format parser'')"

text \<open>The decoders of the payload structs and the BSON functions.\<close>

record decoders =
  dec_relational :: "string \<Rightarrow> SchemaEventPayload outcome"
  dec_mongo :: "string \<Rightarrow> Mongo_SchemaEventPayload outcome"
  dec_bson :: bsonlib
  enc_extjson :: "row \<Rightarrow> string outcome"

datatype Event_payload = Relational SchemaEventPayload | Mongo Mongo_SchemaEventPayload

definition rel_GetEventFromBytes :: "decoders \<Rightarrow> string \<Rightarrow> Event_payload outcome" where
  "rel_GetEventFromBytes dec bytes =
     (if bytes = [] then Err (errorf ''empty message'')
      else bind_out (dec_relational dec bytes) (\<lambda>s. Ret (Relational s)))"

fun stringify_structs :: "gostd \<Rightarrow> Settings \<Rightarrow> row \<Rightarrow> row outcome" where
  "stringify_structs std settings [] = Ret []"
| "stringify_structs std settings ((key, v) # rest) =
     bind_out (if ParseValue std settings key [] v = Struct
               then bind_out (wrap_out ''failed to marshal: '' (go_json_marshal std v)) (\<lambda>s. Ret (VString s))
               else Ret v)
       (\<lambda>v'. bind_out (stringify_structs std settings rest) (\<lambda>r. Ret ((key, v') # r)))"

definition mongo_GetEventFromBytes ::
  "gostd \<Rightarrow> decoders \<Rightarrow> Settings \<Rightarrow> string \<Rightarrow> Event_payload outcome" where
  "mongo_GetEventFromBytes std dec settings bytes =
     (if bytes = [] then Err (errorf ''empty message'')
      else bind_out (wrap_out ''failed to unmarshal json: '' (dec_mongo dec bytes)) (\<lambda>s.
           bind_out (case mpl_Before (msep_Payload s) of
                       None \<Rightarrow> Ret s
                     | Some b \<Rightarrow> bind_out (JSONEToMap std (dec_bson dec) b) (\<lambda>before.
                         Ret (s\<lparr>msep_Payload := (msep_Payload s)\<lparr>mpl_beforeMap := before\<rparr>\<rparr>))) (\<lambda>s1.
           bind_out (case mpl_After (msep_Payload s1) of
                       None \<Rightarrow> Ret s1
                     | Some a \<Rightarrow>
                         bind_out (wrap_out ''failed to call mongo JSONEToMap: '' (JSONEToMap std (dec_bson dec) a)) (\<lambda>after.
                         bind_out (stringify_structs std settings after) (\<lambda>after'.
                         Ret (s1\<lparr>msep_Payload := (msep_Payload s1)\<lparr>mpl_afterMap := after'\<rparr>\<rparr>)))) (\<lambda>s2.
           Ret (Mongo s2)))))"

definition nested_key :: "gostd \<Rightarrow> val \<Rightarrow> val" where
  "nested_key std v =
     (case unmarshal_map std (sprint std v) of Ret obj \<Rightarrow> VMap obj | _ \<Rightarrow> v)"

definition rename_id :: "row \<Rightarrow> row" where
  "rename_id kvMap =
     (case gm_get kvMap ''id'' of
        None \<Rightarrow> kvMap
      | Some v \<Rightarrow> gm_del ''id'' (gm_put ''_id'' v kvMap))"

definition mongo_GetPrimaryKey :: "gostd \<Rightarrow> decoders \<Rightarrow> string \<Rightarrow> TopicConfig \<Rightarrow> row outcome" where
  "mongo_GetPrimaryKey std dec key tc =
     bind_out (ParsePartitionKey std key (tc_CDCKeyFormat tc)) (\<lambda>kvMap.
     bind_out (enc_extjson dec (map (\<lambda>(k, v). (k, nested_key std v)) kvMap)) (\<lambda>kvMapBytes.
     bind_out (JSONEToMap std (dec_bson dec) kvMapBytes) (\<lambda>kvMap'. Ret (rename_id kvMap'))))"

definition GetPrimaryKey ::
  "gostd \<Rightarrow> decoders \<Rightarrow> Format \<Rightarrow> string \<Rightarrow> TopicConfig \<Rightarrow> row outcome" where
  "GetPrimaryKey std dec fmt key tc =
     (case fmt of
        PostgresFormat \<Rightarrow> ParsePartitionKey std key (tc_CDCKeyFormat tc)
      | MySQLFormat \<Rightarrow> ParsePartitionKey std key (tc_CDCKeyFormat tc)
      | MongoFormat \<Rightarrow> mongo_GetPrimaryKey std dec key tc)"

definition GetEventFromBytes ::
  "gostd \<Rightarrow> decoders \<Rightarrow> Format \<Rightarrow> Settings \<Rightarrow> string \<Rightarrow> Event_payload outcome" where
  "GetEventFromBytes std dec fmt settings bytes =
     (case fmt of
        PostgresFormat \<Rightarrow> rel_GetEventFromBytes dec bytes
      | MySQLFormat \<Rightarrow> rel_GetEventFromBytes dec bytes
      | MongoFormat \<Rightarrow> mongo_GetEventFromBytes std dec settings bytes)"

section \<open>The event interface\<close>

fun Event_Operation :: "Event_payload \<Rightarrow> string" where
  "Event_Operation (Relational s) = rel_Operation s"
| "Event_Operation (Mongo s) = mongo_Operation s"

fun Event_DeletePayload :: "Event_payload \<Rightarrow> bool" where
  "Event_DeletePayload (Relational s) = rel_DeletePayload s"
| "Event_DeletePayload (Mongo s) = mongo_DeletePayload s"

fun Event_GetExecutionTime :: "Event_payload \<Rightarrow> gotime" where
  "Event_GetExecutionTime (Relational s) = rel_GetExecutionTime s"
| "Event_GetExecutionTime (Mongo s) = mongo_GetExecutionTime s"

fun Event_GetTableName :: "Event_payload \<Rightarrow> string" where
  "Event_GetTableName (Relational s) = rel_GetTableName s"
| "Event_GetTableName (Mongo s) = mongo_GetTableName s"

fun Event_GetColumns :: "gostd \<Rightarrow> Event_payload \<Rightarrow> Columns option" where
  "Event_GetColumns std (Relational s) = rel_GetColumns std s"
| "Event_GetColumns std (Mongo s) = mongo_GetColumns s"

fun Event_GetOptionalSchema :: "gostd \<Rightarrow> Event_payload \<Rightarrow> KindDetails gomap" where
  "Event_GetOptionalSchema std (Relational s) = rel_GetOptionalSchema std s"
| "Event_GetOptionalSchema std (Mongo s) = mongo_GetOptionalSchema s"

fun Event_GetData :: "gostd \<Rightarrow> gotime \<Rightarrow> Event_payload \<Rightarrow> row \<Rightarrow> TopicConfig \<Rightarrow> row" where
  "Event_GetData std now (Relational s) pkMap tc = rel_GetData std now s pkMap tc"
| "Event_GetData std now (Mongo s) pkMap tc = mongo_GetData std now s pkMap tc"

text \<open>
  What the pipeline relies on: the data of an event always carries the delete marker, its columns
  satisfy the column invariant, and an event that deletes carries the values of its key.
\<close>

locale cdc_event =
  fixes get_data :: "'e \<Rightarrow> row \<Rightarrow> TopicConfig \<Rightarrow> row"
    and get_columns :: "'e \<Rightarrow> Columns option"
    and has_after :: "'e \<Rightarrow> bool"
  assumes marker_present: "gm_get (get_data e pkMap tc) DeleteColumnMarker \<noteq> None"
    and columns_wf: "get_columns e = Some cols \<Longrightarrow> columns_inv cols"
    and delete_has_key: "\<lbrakk>\<not> has_after e; gm_wf pkMap; gm_get pkMap k \<noteq> None\<rbrakk> \<Longrightarrow>
          gm_get (get_data e pkMap tc) k \<noteq> None"
begin

lemma data_not_empty: "get_data e pkMap tc \<noteq> []"
  using marker_present [of e pkMap tc] by auto

end

lemma keys_gm_put: "gm_get (gm_put k v m) c \<noteq> None \<longleftrightarrow> c = k \<or> gm_get m c \<noteq> None"
  by auto

lemma keys_parse_fields:
  "gm_get (foldl (parse_field std) m fs) c \<noteq> None \<longleftrightarrow> gm_get m c \<noteq> None"
proof (induction fs arbitrary: m)
  case Nil
  then show ?case by simp
next
  case (Cons f fs)
  have "gm_get (parse_field std m f) c \<noteq> None \<longleftrightarrow> gm_get m c \<noteq> None"
    by (auto simp: parse_field_def split: option.splits outcome.splits)
  with Cons show ?case by simp
qed

lemma keys_add_timestamps:
  "gm_get (add_timestamps std now et tc m) c \<noteq> None \<longleftrightarrow>
     gm_get m c \<noteq> None \<or> (tc_IncludeArtieUpdatedAt tc \<and> c = UpdateColumnMarker)
     \<or> (tc_IncludeDatabaseUpdatedAt tc \<and> c = DatabaseUpdatedColumnMarker)"
  by (auto simp: add_timestamps_def Let_def)

lemma keys_gm_put_all: "gm_get (gm_put_all src dst) c \<noteq> None \<longleftrightarrow> gm_get src c \<noteq> None \<or> gm_get dst c \<noteq> None"
proof (induction src arbitrary: dst)
  case Nil
  then show ?case by (simp add: gm_put_all_def)
next
  case (Cons kv src)
  obtain k v where kv: "kv = (k, v)" by (cases kv)
  have step: "gm_put_all (kv # src) dst = gm_put_all src (gm_put k v dst)"
    by (simp add: gm_put_all_def kv)
  have head: "gm_get (kv # src) c \<noteq> None \<longleftrightarrow> c = k \<or> gm_get src c \<noteq> None"
    by (auto simp: gm_get_def kv)
  show ?case unfolding step Cons keys_gm_put head by blast
qed

lemma keys_deleted_data:
  "gm_get (deleted_data std et pkMap tc) c \<noteq> None \<longleftrightarrow>
     c = DeleteColumnMarker \<or> gm_get pkMap c \<noteq> None
     \<or> (tc_IdempotentKey tc \<noteq> [] \<and> c = tc_IdempotentKey tc)"
proof -
  have single: "gm_get [(DeleteColumnMarker, VBool True)] c \<noteq> None \<longleftrightarrow> c = DeleteColumnMarker"
    by (auto simp: gm_get_def)
  show ?thesis
    by (cases "tc_IdempotentKey tc = []")
      (simp_all add: deleted_data_def Let_def keys_gm_put_all single del: not_None_eq gm_simps,
       auto simp: keys_gm_put keys_gm_put_all single simp del: not_None_eq gm_simps)
qed

lemmas data_keys = keys_parse_fields keys_add_timestamps keys_gm_put keys_gm_put_all keys_deleted_data

lemma rel_GetData_keys:
  "gm_get (rel_GetData std now s pkMap tc) c \<noteq> None \<longleftrightarrow>
     (if pl_After (sep_Payload s) = []
      then gm_get pkMap c \<noteq> None \<or> (tc_IdempotentKey tc \<noteq> [] \<and> c = tc_IdempotentKey tc)
      else gm_get (pl_After (sep_Payload s)) c \<noteq> None)
     \<or> c = DeleteColumnMarker \<or> (tc_IncludeArtieUpdatedAt tc \<and> c = UpdateColumnMarker)
     \<or> (tc_IncludeDatabaseUpdatedAt tc \<and> c = DatabaseUpdatedColumnMarker)"
  by (cases "GetSchemaFromLabel (sep_Schema s) After"; cases "pl_After (sep_Payload s) = []")
    (auto simp: rel_GetData_def Let_def data_keys simp del: not_None_eq gm_simps)

lemma mongo_GetData_keys:
  "gm_get (mongo_GetData std now s pkMap tc) c \<noteq> None \<longleftrightarrow>
     (if mpl_afterMap (msep_Payload s) = []
      then tc_IdempotentKey tc \<noteq> [] \<and> c = tc_IdempotentKey tc
      else gm_get (mpl_afterMap (msep_Payload s)) c \<noteq> None)
     \<or> gm_get pkMap c \<noteq> None \<or> c = DeleteColumnMarker
     \<or> (tc_IncludeArtieUpdatedAt tc \<and> c = UpdateColumnMarker)
     \<or> (tc_IncludeDatabaseUpdatedAt tc \<and> c = DatabaseUpdatedColumnMarker)"
  by (cases "mpl_afterMap (msep_Payload s) = []")
    (auto simp: mongo_GetData_def Let_def data_keys simp del: not_None_eq gm_simps)

lemma columns_inv_foldl_add:
  "columns_inv acc \<Longrightarrow> columns_inv (foldl (\<lambda>cols x. AddColumn (f x) cols) acc xs)"
  by (induction xs arbitrary: acc) (simp_all add: columns_inv_AddColumn)

lemma rel_GetColumns_inv: "rel_GetColumns std s = Some cols \<Longrightarrow> columns_inv cols"
  by (auto simp: rel_GetColumns_def columns_inv_foldl_add)

lemma mongo_GetColumns_inv: "mongo_GetColumns s = Some cols \<Longrightarrow> columns_inv cols"
  by (auto simp: mongo_GetColumns_def columns_inv_foldl_add)

interpretation rel: cdc_event "\<lambda>s pk tc. rel_GetData std now s pk tc" "rel_GetColumns std"
    "\<lambda>s. pl_After (sep_Payload s) \<noteq> []" for std now
proof (unfold_locales, goal_cases)
  case (1 e pkMap tc)
  then show ?case by (simp only: rel_GetData_keys simp_thms)
next
  case (2 e cols)
  then show ?case by (rule rel_GetColumns_inv)
next
  case (3 e pkMap k tc)
  then show ?case by (simp add: rel_GetData_keys del: not_None_eq)
qed

interpretation mongo: cdc_event "\<lambda>s pk tc. mongo_GetData std now s pk tc" mongo_GetColumns
    "\<lambda>s. mpl_afterMap (msep_Payload s) \<noteq> []" for std now
proof (unfold_locales, goal_cases)
  case (1 e pkMap tc)
  then show ?case by (simp only: mongo_GetData_keys simp_thms)
next
  case (2 e cols)
  then show ?case by (rule mongo_GetColumns_inv)
next
  case (3 e pkMap k tc)
  then show ?case by (simp add: mongo_GetData_keys del: not_None_eq)
qed

lemma Event_GetData_marker: "gm_get (Event_GetData std now e pkMap tc) DeleteColumnMarker \<noteq> None"
  by (cases e) (simp_all add: rel.marker_present mongo.marker_present del: not_None_eq)

lemma Event_GetColumns_inv: "Event_GetColumns std e = Some cols \<Longrightarrow> columns_inv cols"
  by (cases e) (auto simp: rel_GetColumns_inv mongo_GetColumns_inv)

section \<open>Properties\<close>

text \<open>
  C32. The columns of a relational event's data: those of \<^verbatim>\<open>after\<close>, or for a delete the primary
  key and the idempotency key, and the delete marker and the configured timestamps; parsing the
  fields adds and removes nothing.
\<close>

theorem rel_GetData_columns:
  "gm_get (rel_GetData std now s pkMap tc) c \<noteq> None \<longleftrightarrow>
     (if pl_After (sep_Payload s) = []
      then gm_get pkMap c \<noteq> None \<or> (tc_IdempotentKey tc \<noteq> [] \<and> c = tc_IdempotentKey tc)
      else gm_get (pl_After (sep_Payload s)) c \<noteq> None)
     \<or> c = ''__artie_delete'' \<or> (tc_IncludeArtieUpdatedAt tc \<and> c = ''__artie_updated_at'')
     \<or> (tc_IncludeDatabaseUpdatedAt tc \<and> c = ''__artie_db_updated_at'')"
  using rel_GetData_keys [of std now s pkMap tc c]
  by (simp only: DeleteColumnMarker_def UpdateColumnMarker_def DatabaseUpdatedColumnMarker_def)

theorem rel_GetData_columns_witness:
  "gm_get (rel_GetData key_std zero_time
      \<lparr>sep_Schema = \<lparr>SchemaType = [], sc_FieldsObject = []\<rparr>,
       sep_Payload = \<lparr>pl_Before = [], pl_After = [],
         pl_Source = \<lparr>so_Connector = [], so_TsMs = 0, so_Database = [], so_Schema = [], so_Table = []\<rparr>,
         pl_Operation = ''d''\<rparr>\<rparr> [(''id'', VInt KInt 1)] sample_topic) ''id'' \<noteq> None"
  unfolding rel_GetData_columns by (simp add: gm_get_def)

text \<open>
  The MongoDB primary key: renaming \<^verbatim>\<open>id\<close> to \<^verbatim>\<open>_id\<close> keeps every other entry, moves the
  value, and leaves a key without \<^verbatim>\<open>id\<close> as it is.
\<close>

theorem rename_id_spec:
  "gm_get (rename_id m) k =
     (case gm_get m ''id'' of
        None \<Rightarrow> gm_get m k
      | Some v \<Rightarrow> if k = ''id'' then None else if k = ''_id'' then Some v else gm_get m k)"
  by (simp add: rename_id_def split: option.splits)

text \<open>
  Every label that a format lists selects that format, so each of the four documented labels
  loads a parser and any other label stops the process.
\<close>

theorem GetFormatParser_labels:
  "GetFormatParser label =
     (if label \<in> {''debezium.postgres'', ''debezium.postgres.wal2json''} then Ret PostgresFormat
      else if label = ''debezium.mongodb'' then Ret MongoFormat
      else if label = ''debezium.mysql'' then Ret MySQLFormat
      else Panic ''Failed to fetch CDC format parser'')"
  by (simp add: GetFormatParser_def DBZPostgresFormat_def DBZPostgresAltFormat_def DBZMongoFormat_def
      DBZMySQLFormat_def)

end
