(* ===== verification/Event.thy ===== *)
theory Event
  imports TableData Cdc
begin

text \<open>
  The in-memory database (\<^verbatim>\<open>models/memory.go\<close>) and the event that is saved into it
  (\<^verbatim>\<open>models/event/event.go\<close>). The database maps a table name to its buffer, if it has one, and
  the time of its last flush. Each operation runs under the lock of its table and is one step.
  A Go map is visited in any order: the order of the association list.
\<close>

section \<open>The in-memory database\<close>

record memory_table =
  mt_data :: "TableData option"
  mt_lastFlushTime :: gotime

type_synonym DatabaseData = "memory_table gomap"

definition NewMemoryDB :: DatabaseData where
  "NewMemoryDB = []"

definition Wipe :: "gotime \<Rightarrow> memory_table \<Rightarrow> memory_table" where
  "Wipe now t = t\<lparr>mt_data := None, mt_lastFlushTime := now\<rparr>"

definition minute :: int where
  "minute = 60 * nanos_per_second"

text \<open>\<^verbatim>\<open>time.Since\<close> is the difference, cut to the largest duration.\<close>

definition time_Since :: "gotime \<Rightarrow> gotime \<Rightarrow> int" where
  "time_Since now t = min max_int64 (t_nanos now - t_nanos t)"

definition ShouldSkipFlush :: "gotime \<Rightarrow> int \<Rightarrow> memory_table \<Rightarrow> bool" where
  "ShouldSkipFlush now cooldown t =
     (let cooldown' = (if cooldown > minute then cooldown - cooldown div 4 else cooldown)
      in time_Since now (mt_lastFlushTime t) < cooldown')"

definition memory_Empty :: "memory_table \<Rightarrow> bool" where
  "memory_Empty t = (mt_data t = None)"

definition SetTableData :: "TableData \<Rightarrow> memory_table \<Rightarrow> memory_table" where
  "SetTableData td t = t\<lparr>mt_data := Some td\<rparr>"

definition GetOrCreateTableData :: "string \<Rightarrow> DatabaseData \<Rightarrow> DatabaseData \<times> memory_table" where
  "GetOrCreateTableData tableName d =
     (case gm_get d tableName of
        Some table \<Rightarrow> (d, table)
      | None \<Rightarrow>
          (let table = \<lparr>mt_data = None, mt_lastFlushTime = zero_time\<rparr>
           in (gm_put tableName table d, table)))"

definition ClearTableConfig :: "gotime \<Rightarrow> string \<Rightarrow> DatabaseData \<Rightarrow> DatabaseData outcome" where
  "ClearTableConfig now tableName d =
     (case gm_get d tableName of
        None \<Rightarrow> Panic nil_dereference
      | Some t \<Rightarrow> Ret (gm_put tableName (Wipe now t) d))"

section \<open>Events\<close>

record Event =
  ev_Table :: string
  ev_PrimaryKeyMap :: row
  ev_Data :: row
  ev_OptionalSchema :: "KindDetails gomap"
  ev_Columns :: "Columns option"
  ev_ExecutionTime :: gotime
  ev_Deleted :: bool
  ev_mode :: mode

definition pk_upsert :: UpsertColumnArg where
  "pk_upsert = \<lparr>ToastCol = None, PrimaryKey = Some True, Backfilled = None\<rparr>"

definition ToMemoryEvent ::
  "gostd \<Rightarrow> gotime \<Rightarrow> Event_payload \<Rightarrow> row \<Rightarrow> TopicConfig \<Rightarrow> mode \<Rightarrow> Event" where
  "ToMemoryEvent std now event pkMap tc cfgMode =
     (let cols = map_option (\<lambda>cs. foldl (\<lambda>cs (primaryKey, v). UpsertColumn primaryKey pk_upsert cs) cs pkMap)
                   (Event_GetColumns std event);
          evtData = Event_GetData std now event pkMap tc;
          tblName = Override [Event_GetTableName event, tc_TableName tc];
          tblName' = (if cfgMode = History \<and> \<not> has_suffix tblName HistoryModeSuffix
                      then tblName @ HistoryModeSuffix else tblName);
          evtData' = (if cfgMode = History
                      then gm_del DeleteColumnMarker
                             (gm_put OperationColumnMarker (VString (Event_Operation event)) evtData)
                      else evtData)
      in \<lparr>ev_Table = tblName', ev_PrimaryKeyMap = pkMap, ev_Data = evtData',
          ev_OptionalSchema = Event_GetOptionalSchema std event, ev_Columns = cols,
          ev_ExecutionTime = Event_GetExecutionTime event, ev_Deleted = Event_DeletePayload event,
          ev_mode = cfgMode\<rparr>)"

definition IsValid :: "Event \<Rightarrow> bool" where
  "IsValid e =
     (if array_Empty [ev_Table e] then False
      else if ev_PrimaryKeyMap e = [] then False
      else if ev_Data e = [] then False
      else if ev_mode e = History then True
      else gm_get (ev_Data e) DeleteColumnMarker \<noteq> None)"

definition PrimaryKeys :: "Event \<Rightarrow> string list" where
  "PrimaryKeys e = sort (map fst (ev_PrimaryKeyMap e))"

definition PrimaryKeyValue :: "gostd \<Rightarrow> Event \<Rightarrow> string" where
  "PrimaryKeyValue std e =
     foldl (\<lambda>key pk. key @ pk @ ''='' @
         sprint std (case gm_get (ev_PrimaryKeyMap e) pk of None \<Rightarrow> VNil | Some v \<Rightarrow> v)) []
       (PrimaryKeys e)"

section \<open>Saving an event\<close>

definition toast_upsert :: UpsertColumnArg where
  "toast_upsert = \<lparr>ToastCol = Some True, PrimaryKey = None, Backfilled = None\<rparr>"

text \<open>A TOAST value inside a map has the placeholder as a key and is replaced by the placeholder.\<close>

definition detoast :: "val \<Rightarrow> val" where
  "detoast v =
     (case v of
        VMap m \<Rightarrow> if gm_get m ToastUnavailableValuePlaceholder \<noteq> None then toast_placeholder else v
      | _ \<Rightarrow> v)"

definition save_column ::
  "gostd \<Rightarrow> Settings \<Rightarrow> KindDetails gomap \<Rightarrow> Columns \<times> row \<Rightarrow> string \<times> val \<Rightarrow> Columns \<times> row" where
  "save_column std settings schema acc kv =
     (case (acc, kv) of ((cols, sanitizedData), (col, v0)) \<Rightarrow>
        (let newColName = snd (EscapeSpaces (to_lower col));
             v = detoast v0;
             cols' =
               (if v = toast_placeholder then UpsertColumn newColName toast_upsert cols
                else (case GetColumn cols newColName of
                    None \<Rightarrow> AddColumn (NewColumn newColName (ParseValue std settings col schema v)) cols
                  | Some retrievedColumn \<Rightarrow>
                      if col_KindDetails retrievedColumn = Invalid
                      then (let kindDetails = ParseValue std settings col schema v
                            in if Kind kindDetails \<noteq> Kind Invalid
                               then UpdateColumn (retrievedColumn\<lparr>col_KindDetails := kindDetails\<rparr>) cols
                               else cols)
                      else cols))
         in (cols', gm_put newColName v sanitizedData)))"

definition save_columns ::
  "gostd \<Rightarrow> Settings \<Rightarrow> KindDetails gomap \<Rightarrow> row \<Rightarrow> Columns \<Rightarrow> Columns \<times> row" where
  "save_columns std settings schema data cols =
     foldl (save_column std settings schema) (cols, []) data"

definition record_message :: "Message \<Rightarrow> Message list gomap \<Rightarrow> Message list gomap" where
  "record_message msg m =
     (let p = Message_Partition msg
      in if Message_Kind_of msg = KafkaMessage then gm_put p [msg] m
         else gm_put p ((case gm_get m p of None \<Rightarrow> [] | Some ms \<Rightarrow> ms) @ [msg]) m)"

definition save_table ::
  "Config \<Rightarrow> TopicConfig \<Rightarrow> Event \<Rightarrow> memory_table \<Rightarrow> TableData" where
  "save_table cfg tc e table =
     (case mt_data table of
        None \<Rightarrow> NewTableData (Some (case ev_Columns e of None \<Rightarrow> [] | Some cols \<Rightarrow> cols))
                  (cfg_Mode cfg) (PrimaryKeys e) tc (ev_Table e)
      | Some td \<Rightarrow>
          (case ev_Columns e of
             None \<Rightarrow> td
           | Some cols \<Rightarrow> foldl (\<lambda>td col. AddInMemoryCol col td) td cols))"

definition Save ::
  "gostd \<Rightarrow> Config \<Rightarrow> TopicConfig option \<Rightarrow> Message \<Rightarrow> Event \<Rightarrow> DatabaseData
     \<Rightarrow> DatabaseData \<times> (bool \<times> string) outcome" where
  "Save std cfg topicConfig msg e inMemDB =
     (case topicConfig of
        None \<Rightarrow> (inMemDB, Err (errorf ''topicConfig is missing''))
      | Some tc \<Rightarrow>
          if \<not> IsValid e then (inMemDB, Err (errorf ''event not valid''))
          else
            (case GetOrCreateTableData (ev_Table e) inMemDB of
               (db1, table) \<Rightarrow>
                 (let td = save_table cfg tc e table
                  in case ReadOnlyInMemoryCols td of
                       None \<Rightarrow> (gm_put (ev_Table e) (SetTableData td table) db1, Panic nil_dereference)
                     | Some inMemoryColumns \<Rightarrow>
                         (case save_columns std (cfg_TypingSettings cfg) (ev_OptionalSchema e)
                                 (ev_Data e) inMemoryColumns of
                            (cols, sanitizedData) \<Rightarrow>
                              (let td1 = SetInMemoryColumns (Some cols) td;
                                   td2 = InsertRow std (PrimaryKeyValue std e) sanitizedData (ev_Deleted e) td1;
                                   td3 = td2\<lparr>td_PartitionsToLastMessage :=
                                           record_message msg (td_PartitionsToLastMessage td2),
                                         td_LatestCDCTs := ev_ExecutionTime e\<rparr>
                               in (gm_put (ev_Table e) (SetTableData td3 table) db1,
                                   Ret (ShouldFlush cfg td3)))))))"

section \<open>Facts on the event\<close>

lemma concat_foldl: "foldl (\<lambda>a x. a @ f x) acc xs = acc @ concat (map f xs)"
  by (induction xs arbitrary: acc) auto

lemma PrimaryKeyValue_eq:
  "PrimaryKeyValue std e = concat (map (\<lambda>pk. pk @ ''='' @
     sprint std (case gm_get (ev_PrimaryKeyMap e) pk of None \<Rightarrow> VNil | Some v \<Rightarrow> v)) (PrimaryKeys e))"
  unfolding PrimaryKeyValue_def by (simp add: concat_foldl)

lemma gm_ext_mset:
  assumes "gm_wf m" and "gm_wf m'" and "\<And>k. gm_get m k = gm_get m' k"
  shows "sort (map fst m) = sort (map fst m')"
proof -
  have "set (map fst m) = set (map fst m')"
  proof (rule set_eqI)
    fix k
    show "k \<in> set (map fst m) \<longleftrightarrow> k \<in> set (map fst m')"
      using gm_get_None_iff [of m k] gm_get_None_iff [of m' k] assms(3) [of k] by auto
  qed
  moreover have "distinct (map fst m)" "distinct (map fst m')"
    using assms(1,2) by (simp_all add: gm_wf_def)
  ultimately show ?thesis by (metis sorted_distinct_set_unique distinct_sort set_sort sorted_sort)
qed

section \<open>Facts on saving\<close>

definition table_ok :: "gostd \<Rightarrow> TableData \<Rightarrow> bool" where
  "table_ok std td \<longleftrightarrow> buffer_inv std td
     \<and> (\<exists>cols. td_inMemoryColumns td = Some cols \<and> columns_inv cols)"

definition memory_inv :: "gostd \<Rightarrow> DatabaseData \<Rightarrow> bool" where
  "memory_inv std db \<longleftrightarrow>
     (\<forall>name table td. gm_get db name = Some table \<longrightarrow> mt_data table = Some td \<longrightarrow> table_ok std td)"

lemma columns_inv_save_column:
  "columns_inv cols \<Longrightarrow> columns_inv (fst (save_column std st sch (cols, d) kv))"
  by (cases kv)
    (auto simp: save_column_def Let_def columns_inv_UpsertColumn columns_inv_AddColumn
      columns_inv_UpdateColumn split: option.splits)

lemma columns_inv_save_columns:
  "columns_inv cols \<Longrightarrow> columns_inv (fst (foldl (save_column std st sch) (cols, d) data))"
proof (induction data arbitrary: cols d)
  case Nil
  then show ?case by simp
next
  case (Cons kv data)
  obtain cols' d' where "save_column std st sch (cols, d) kv = (cols', d')"
    by (cases "save_column std st sch (cols, d) kv")
  with Cons columns_inv_save_column [of cols std st sch d kv] show ?case by simp
qed

lemma GetColumn_save_column:
  "columns_EscapeName (fst kv) \<noteq> [] \<Longrightarrow>
     GetColumn (fst (save_column std st sch (cols, d) kv)) n \<noteq> None \<longleftrightarrow>
       n = columns_EscapeName (fst kv) \<or> GetColumn cols n \<noteq> None"
  by (cases kv)
    (auto simp: save_column_def Let_def columns_EscapeName_def GetColumn_UpsertColumn cs.get_add
      GetColumn_UpdateColumn split: option.splits if_splits dest: GetColumn_name)

lemma GetColumn_save_columns:
  "\<forall>kv\<in>set data. columns_EscapeName (fst kv) \<noteq> [] \<Longrightarrow>
     GetColumn (fst (foldl (save_column std st sch) (cols, d) data)) n \<noteq> None \<longleftrightarrow>
       n \<in> columns_EscapeName ` fst ` set data \<or> GetColumn cols n \<noteq> None"
proof (induction data arbitrary: cols d)
  case Nil
  then show ?case by simp
next
  case (Cons kv data)
  obtain cols' d' where s: "save_column std st sch (cols, d) kv = (cols', d')"
    by (cases "save_column std st sch (cols, d) kv")
  have "GetColumn cols' n \<noteq> None \<longleftrightarrow> n = columns_EscapeName (fst kv) \<or> GetColumn cols n \<noteq> None"
    using GetColumn_save_column [of kv std st sch cols d n] Cons.prems s by simp
  moreover have "GetColumn (fst (foldl (save_column std st sch) (cols', d') data)) n \<noteq> None \<longleftrightarrow>
      n \<in> columns_EscapeName ` fst ` set data \<or> GetColumn cols' n \<noteq> None"
    using Cons by simp
  ultimately show ?case by (simp add: s del: not_None_eq) blast
qed

lemma snd_save_column:
  "snd (save_column std st sch (cols, d) kv) = gm_put (columns_EscapeName (fst kv)) (detoast (snd kv)) d"
  by (cases kv) (simp add: save_column_def Let_def columns_EscapeName_def)

lemma snd_save_columns:
  "snd (foldl (save_column std st sch) (cols, d) data) =
     foldl (\<lambda>m (k, v). gm_put (columns_EscapeName k) (detoast v) m) d data"
proof (induction data arbitrary: cols d)
  case Nil
  then show ?case by simp
next
  case (Cons kv data)
  obtain cols' d' where s: "save_column std st sch (cols, d) kv = (cols', d')"
    by (cases "save_column std st sch (cols, d) kv")
  with snd_save_column [of std st sch cols d kv] Cons show ?case by (cases kv) simp
qed

definition sanitized :: "row \<Rightarrow> row" where
  "sanitized data = foldl (\<lambda>m (k, v). gm_put (columns_EscapeName k) (detoast v) m) [] data"

lemma AddInMemoryCol_frame [simp]:
  "td_mode (foldl (\<lambda>td col. AddInMemoryCol col td) td cols) = td_mode td"
  "td_rowsData (foldl (\<lambda>td col. AddInMemoryCol col td) td cols) = td_rowsData td"
  "td_rows (foldl (\<lambda>td col. AddInMemoryCol col td) td cols) = td_rows td"
  "td_approxSize (foldl (\<lambda>td col. AddInMemoryCol col td) td cols) = td_approxSize td"
  "td_TopicConfig (foldl (\<lambda>td col. AddInMemoryCol col td) td cols) = td_TopicConfig td"
  "td_PartitionsToLastMessage (foldl (\<lambda>td col. AddInMemoryCol col td) td cols) =
     td_PartitionsToLastMessage td"
  "td_inMemoryColumns (foldl (\<lambda>td col. AddInMemoryCol col td) td cols) =
     map_option (\<lambda>cs. foldl (\<lambda>cs col. AddColumn col cs) cs cols) (td_inMemoryColumns td)"
  by (induction cols arbitrary: td)
    (auto simp: AddInMemoryCol_def option.map_comp comp_def option.map_id0 option.map_ident)

text \<open>The buffer of the table before the row is inserted: empty for a new table.\<close>

definition buffered :: "string \<Rightarrow> DatabaseData \<Rightarrow> TableData option" where
  "buffered name db = Option.bind (gm_get db name) mt_data"

lemma save_table_ok:
  assumes "\<And>td. mt_data table = Some td \<Longrightarrow> table_ok std td"
    and "\<And>cols. ev_Columns e = Some cols \<Longrightarrow> columns_inv cols"
  shows "table_ok std (save_table cfg tc e table)"
proof (cases "mt_data table")
  case None
  then show ?thesis
    using assms(2) buffer_inv_New [of std]
    by (auto simp: save_table_def table_ok_def split: option.splits) (auto simp: NewTableData_def)
next
  case (Some td)
  with assms(1) have "table_ok std td" by simp
  with Some show ?thesis
    by (auto simp: save_table_def table_ok_def buffer_inv_def Rows_def columns_inv_foldl_add
        split: option.splits)
qed

text \<open>What a successful save does, as one equation per branch.\<close>

definition saved_table ::
  "gostd \<Rightarrow> Config \<Rightarrow> TopicConfig \<Rightarrow> Message \<Rightarrow> Event \<Rightarrow> Columns \<Rightarrow> TableData \<Rightarrow> TableData" where
  "saved_table std cfg tc msg e cols td =
     (InsertRow std (PrimaryKeyValue std e) (sanitized (ev_Data e)) (ev_Deleted e)
        (SetInMemoryColumns (Some cols) td))
       \<lparr>td_PartitionsToLastMessage := record_message msg (td_PartitionsToLastMessage td),
        td_LatestCDCTs := ev_ExecutionTime e\<rparr>"

lemma Save_success:
  assumes "IsValid e" and "GetOrCreateTableData (ev_Table e) db = (db1, table)"
    and "td_inMemoryColumns (save_table cfg tc e table) = Some cols0"
    and "save_columns std (cfg_TypingSettings cfg) (ev_OptionalSchema e) (ev_Data e)
           (foldl (\<lambda>cols col. AddColumn col cols) [] cols0) = (cols, d)"
  shows "Save std cfg (Some tc) msg e db =
    (let td = saved_table std cfg tc msg e cols (save_table cfg tc e table)
     in (gm_put (ev_Table e) (SetTableData td table) db1, Ret (ShouldFlush cfg td)))"
proof -
  have "d = sanitized (ev_Data e)"
    using snd_save_columns [of std "cfg_TypingSettings cfg" "ev_OptionalSchema e"] assms(4)
    by (metis sanitized_def save_columns_def snd_conv)
  with assms show ?thesis
    by (simp add: Save_def Let_def ReadOnlyInMemoryCols_def saved_table_def SetInMemoryColumns_def)
qed

lemma table_ok_saved:
  assumes "table_ok std td" and "columns_inv cols"
  shows "table_ok std (saved_table std cfg tc msg e cols td)"
proof -
  have "buffer_inv std (SetInMemoryColumns (Some cols) td)"
    using assms(1) by (simp add: table_ok_def buffer_inv_def SetInMemoryColumns_def Rows_def)
  from buffer_inv_InsertRow [OF this] assms(2) show ?thesis
    by (simp add: table_ok_def saved_table_def buffer_inv_def Rows_def)
      (simp add: SetInMemoryColumns_def)
qed

lemma Save_cases:
  assumes "memory_inv std db" and "\<And>cols. ev_Columns e = Some cols \<Longrightarrow> columns_inv cols"
    and "IsValid e"
  obtains db1 table cols where "GetOrCreateTableData (ev_Table e) db = (db1, table)"
    and "columns_inv cols" and "table_ok std (save_table cfg tc e table)"
    and "\<forall>kv\<in>set (ev_Data e). fst kv \<noteq> [] \<Longrightarrow>
          columns_EscapeName ` fst ` set (ev_Data e) \<subseteq> col_name ` set cols"
    and "Save std cfg (Some tc) msg e db =
      (let td = saved_table std cfg tc msg e cols (save_table cfg tc e table)
       in (gm_put (ev_Table e) (SetTableData td table) db1, Ret (ShouldFlush cfg td)))"
proof -
  obtain db1 table where g: "GetOrCreateTableData (ev_Table e) db = (db1, table)"
    by (cases "GetOrCreateTableData (ev_Table e) db")
  then have "mt_data table = Some td \<Longrightarrow> table_ok std td" for td
    using assms(1)
    by (auto simp: GetOrCreateTableData_def memory_inv_def Let_def split: option.splits)
  from save_table_ok [OF this assms(2)]
  have ok: "table_ok std (save_table cfg tc e table)" by blast
  then obtain cols0 where c0: "td_inMemoryColumns (save_table cfg tc e table) = Some cols0"
    and inv0: "columns_inv cols0" by (auto simp: table_ok_def)
  let ?cs = "foldl (\<lambda>cols col. AddColumn col cols) [] cols0"
  obtain cols d where s: "save_columns std (cfg_TypingSettings cfg) (ev_OptionalSchema e) (ev_Data e) ?cs = (cols, d)"
    by (cases "save_columns std (cfg_TypingSettings cfg) (ev_OptionalSchema e) (ev_Data e) ?cs")
  have "columns_inv cols"
    using columns_inv_save_columns [of ?cs std "cfg_TypingSettings cfg" "ev_OptionalSchema e" "[]" "ev_Data e"]
      cs.inv_foldl_add [of "[]" cols0] s
    by (simp add: save_columns_def)
  moreover have "columns_EscapeName ` fst ` set (ev_Data e) \<subseteq> col_name ` set cols"
    if "\<forall>kv\<in>set (ev_Data e). fst kv \<noteq> []"
  proof
    fix n assume "n \<in> columns_EscapeName ` fst ` set (ev_Data e)"
    then have "GetColumn cols n \<noteq> None"
      using that GetColumn_save_columns [of "ev_Data e" std "cfg_TypingSettings cfg" "ev_OptionalSchema e" ?cs "[]" n] s
      by (simp add: save_columns_def del: not_None_eq)
    then show "n \<in> col_name ` set cols" by (simp only: GetColumn_None_iff not_not)
  qed
  ultimately show ?thesis using that [OF g _ ok] Save_success [OF assms(3) g c0 s] by blast
qed

lemma GetOrCreate_other:
  "GetOrCreateTableData n db = (db1, table) \<Longrightarrow> k \<noteq> n \<Longrightarrow> gm_get db1 k = gm_get db k"
  by (auto simp: GetOrCreateTableData_def Let_def split: option.splits)

lemma GetOrCreate_data:
  "GetOrCreateTableData n db = (db1, table) \<Longrightarrow> mt_data table = buffered n db"
  by (auto simp: GetOrCreateTableData_def buffered_def Let_def split: option.splits)

lemma memory_inv_Save:
  assumes "memory_inv std db" and "\<And>cols. ev_Columns e = Some cols \<Longrightarrow> columns_inv cols"
  shows "memory_inv std (fst (Save std cfg tco msg e db))"
proof (cases "tco = None \<or> \<not> IsValid e")
  case True
  then show ?thesis using assms(1) by (auto simp: Save_def split: option.splits)
next
  case False
  then obtain tc where tc: "tco = Some tc" and v: "IsValid e" by auto
  from Save_cases [OF assms v] obtain db1 table cols
    where g: "GetOrCreateTableData (ev_Table e) db = (db1, table)" and c: "columns_inv cols"
    and ok: "table_ok std (save_table cfg tc e table)"
    and s: "Save std cfg (Some tc) msg e db =
      (let td = saved_table std cfg tc msg e cols (save_table cfg tc e table)
       in (gm_put (ev_Table e) (SetTableData td table) db1, Ret (ShouldFlush cfg td)))"
    by metis
  show ?thesis
    unfolding memory_inv_def tc s Let_def fst_conv
    using table_ok_saved [OF ok c] assms(1) GetOrCreate_other [OF g]
    by (auto simp: memory_inv_def SetTableData_def split: if_splits)
qed

lemma abs_rows_cong: "td_rowsData t = td_rowsData t' \<Longrightarrow> abs_rows t = abs_rows t'"
  by (simp add: abs_rows_def fun_eq_iff)

definition rows_before :: "TableData option \<Rightarrow> string \<Rightarrow> (string \<Rightarrow> val option) option" where
  "rows_before b = (case b of None \<Rightarrow> (\<lambda>_. None) | Some td \<Rightarrow> abs_rows td)"

definition mode_of :: "Config \<Rightarrow> TableData option \<Rightarrow> mode" where
  "mode_of cfg b = (case b of None \<Rightarrow> cfg_Mode cfg | Some td \<Rightarrow> td_mode td)"

lemma save_table_rows:
  "td_mode (save_table cfg tc e table) = mode_of cfg (mt_data table)"
  "abs_rows (save_table cfg tc e table) = rows_before (mt_data table)"
  "td_rows (save_table cfg tc e table) = (case mt_data table of None \<Rightarrow> [] | Some td \<Rightarrow> td_rows td)"
  "td_PartitionsToLastMessage (save_table cfg tc e table) =
     (case mt_data table of None \<Rightarrow> [] | Some td \<Rightarrow> td_PartitionsToLastMessage td)"
  "td_TopicConfig (save_table cfg tc e table) =
     (case mt_data table of None \<Rightarrow> tc | Some td \<Rightarrow> td_TopicConfig td)"
  by (auto simp: save_table_def mode_of_def rows_before_def abs_rows_def fun_eq_iff
      NewTableData_def split: option.splits)

lemma saved_table_rows:
  "td_mode (saved_table std cfg tc msg e cols td) = td_mode td"
  "td_TopicConfig (saved_table std cfg tc msg e cols td) = td_TopicConfig td"
  "td_inMemoryColumns (saved_table std cfg tc msg e cols td) = Some cols"
  "td_PartitionsToLastMessage (saved_table std cfg tc msg e cols td) =
     record_message msg (td_PartitionsToLastMessage td)"
  "td_mode td \<noteq> History \<Longrightarrow> abs_rows (saved_table std cfg tc msg e cols td) =
     write_spec (PrimaryKeyValue std e) (gm_get (sanitized (ev_Data e))) (abs_rows td)"
  "td_mode td = History \<Longrightarrow> td_rows (saved_table std cfg tc msg e cols td) =
     td_rows td @ [sanitized (ev_Data e)]"
proof -
  assume m: "td_mode td \<noteq> History"
  have "abs_rows (saved_table std cfg tc msg e cols td) =
      abs_rows (InsertRow std (PrimaryKeyValue std e) (sanitized (ev_Data e)) (ev_Deleted e)
        (SetInMemoryColumns (Some cols) td))"
    by (rule abs_rows_cong) (simp add: saved_table_def)
  also have "\<dots> = write_spec (PrimaryKeyValue std e) (gm_get (sanitized (ev_Data e)))
      (abs_rows (SetInMemoryColumns (Some cols) td))"
    by (rule abs_rows_InsertRow) (simp add: m SetInMemoryColumns_def)
  also have "abs_rows (SetInMemoryColumns (Some cols) td) = abs_rows td"
    by (rule abs_rows_cong) (simp add: SetInMemoryColumns_def)
  finally show "abs_rows (saved_table std cfg tc msg e cols td) =
     write_spec (PrimaryKeyValue std e) (gm_get (sanitized (ev_Data e))) (abs_rows td)" .
qed (simp_all add: saved_table_def SetInMemoryColumns_def InsertRow_rows)

lemma ToMemoryEvent_columns_inv:
  "ev_Columns (ToMemoryEvent std now p pkMap tc m) = Some cols \<Longrightarrow> columns_inv cols"
proof -
  have "columns_inv cs \<Longrightarrow>
      columns_inv (foldl (\<lambda>cs (primaryKey, v). UpsertColumn primaryKey pk_upsert cs) cs pkMap)" for cs
    by (induction pkMap arbitrary: cs) (auto simp: columns_inv_UpsertColumn)
  then show "ev_Columns (ToMemoryEvent std now p pkMap tc m) = Some cols \<Longrightarrow> columns_inv cols"
    by (auto simp: ToMemoryEvent_def Let_def dest!: Event_GetColumns_inv)
qed

section \<open>Properties\<close>

text \<open>
  C13. Saving an event: only its table changes; in replication mode the rows of the table become the
  abstract write of the sanitised row under the event's key, in history mode the sanitised row is
  appended; the message is recorded for its partition; and every column of the row with a name is
  known afterwards.
\<close>

theorem Save_effect:
  assumes "memory_inv std db" and "\<And>cols. ev_Columns e = Some cols \<Longrightarrow> columns_inv cols"
    and "IsValid e" and "\<forall>kv\<in>set (ev_Data e). fst kv \<noteq> []"
    and "Save std cfg (Some tc) msg e db = (db', r)"
  shows "\<exists>td cols. buffered (ev_Table e) db' = Some td \<and> r = Ret (ShouldFlush cfg td)
    \<and> (\<forall>n. n \<noteq> ev_Table e \<longrightarrow> gm_get db' n = gm_get db n)
    \<and> td_PartitionsToLastMessage td = record_message msg
        (case buffered (ev_Table e) db of None \<Rightarrow> [] | Some t \<Rightarrow> td_PartitionsToLastMessage t)
    \<and> (if mode_of cfg (buffered (ev_Table e) db) = History
       then td_rows td = (case buffered (ev_Table e) db of None \<Rightarrow> [] | Some t \<Rightarrow> td_rows t)
              @ [sanitized (ev_Data e)]
       else abs_rows td = write_spec (PrimaryKeyValue std e) (gm_get (sanitized (ev_Data e)))
              (rows_before (buffered (ev_Table e) db)))
    \<and> td_inMemoryColumns td = Some cols
    \<and> columns_EscapeName ` fst ` set (ev_Data e) \<subseteq> col_name ` set cols"
proof -
  from Save_cases [OF assms(1,2,3)] obtain db1 table cols
    where g: "GetOrCreateTableData (ev_Table e) db = (db1, table)"
    and names: "columns_EscapeName ` fst ` set (ev_Data e) \<subseteq> col_name ` set cols"
    and s: "Save std cfg (Some tc) msg e db =
      (let td = saved_table std cfg tc msg e cols (save_table cfg tc e table)
       in (gm_put (ev_Table e) (SetTableData td table) db1, Ret (ShouldFlush cfg td)))"
    using assms(4) by metis
  define td where "td = saved_table std cfg tc msg e cols (save_table cfg tc e table)"
  from s assms(5) have db': "db' = gm_put (ev_Table e) (SetTableData td table) db1"
    and r: "r = Ret (ShouldFlush cfg td)" by (auto simp: td_def Let_def)
  show ?thesis
  proof (intro exI conjI)
    show "buffered (ev_Table e) db' = Some td" by (simp add: db' buffered_def SetTableData_def)
    show "r = Ret (ShouldFlush cfg td)" by (rule r)
    show "\<forall>n. n \<noteq> ev_Table e \<longrightarrow> gm_get db' n = gm_get db n"
      using GetOrCreate_other [OF g] by (simp add: db')
    show "td_inMemoryColumns td = Some cols" by (simp add: td_def saved_table_rows)
    show "columns_EscapeName ` fst ` set (ev_Data e) \<subseteq> col_name ` set cols" by (rule names)
  qed (auto simp: td_def saved_table_rows save_table_rows GetOrCreate_data [OF g])
qed

definition sample_event :: Event where
  "sample_event =
     \<lparr>ev_Table = ''orders'', ev_PrimaryKeyMap = [(''id'', VInt KInt 1)],
      ev_Data = [(''id'', VInt KInt 1), (''__artie_delete'', VBool False)], ev_OptionalSchema = [],
      ev_Columns = None, ev_ExecutionTime = zero_time, ev_Deleted = False, ev_mode = Replication\<rparr>"

definition sample_message :: "int \<Rightarrow> Message" where
  "sample_message offset =
     NewMessage (Some \<lparr>km_Topic = ''orders'', km_Partition = 0, km_Offset = offset, km_Key = [],
       km_Value = [], km_Time = zero_time\<rparr>) None []"

theorem Save_effect_witness:
  "\<exists>td. buffered ''orders'' (fst (Save sample_std (config_defaults sample_config) (Some sample_topic)
      (sample_message 7) sample_event NewMemoryDB)) = Some td"
proof -
  obtain db' r where x: "Save sample_std (config_defaults sample_config) (Some sample_topic)
      (sample_message 7) sample_event NewMemoryDB = (db', r)"
    by (cases "Save sample_std (config_defaults sample_config) (Some sample_topic)
      (sample_message 7) sample_event NewMemoryDB")
  have 1: "memory_inv sample_std NewMemoryDB" by (simp add: memory_inv_def NewMemoryDB_def)
  have 2: "\<And>cols. ev_Columns sample_event = Some cols \<Longrightarrow> columns_inv cols"
    by (simp add: sample_event_def)
  have 3: "IsValid sample_event" "\<forall>kv\<in>set (ev_Data sample_event). fst kv \<noteq> []"
    by (simp_all add: sample_event_def IsValid_def gm_get_def DeleteColumnMarker_def)
  from Save_effect [OF 1 2 3 x] x show ?thesis by (auto simp: sample_event_def)
qed

text \<open>
  A save fails exactly when the topic config is missing or the event is not valid, and then the
  in-memory database is untouched; it never panics on a well-formed database.
\<close>

theorem Save_fails_iff:
  assumes "memory_inv std db" and "\<And>cols. ev_Columns e = Some cols \<Longrightarrow> columns_inv cols"
    and "Save std cfg tco msg e db = (db', r)"
  shows "(is_ret r \<longleftrightarrow> tco \<noteq> None \<and> IsValid e) \<and> (\<not> is_ret r \<longrightarrow> db' = db)"
proof (cases "tco = None \<or> \<not> IsValid e")
  case True
  then show ?thesis using assms(3) by (auto simp: Save_def split: option.splits)
next
  case False
  then obtain tc where tc: "tco = Some tc" and v: "IsValid e" by auto
  from Save_cases [OF assms(1,2) v] obtain db'' x
    where "Save std cfg (Some tc) msg e db = (db'', Ret x)"
    by (metis (mono_tags, lifting))
  with assms(3) tc v show ?thesis by auto
qed

theorem Save_fails_iff_witness:
  "fst (Save sample_std sample_config None (sample_message 7) sample_event NewMemoryDB) = NewMemoryDB"
proof -
  obtain db' r where x: "Save sample_std sample_config None (sample_message 7) sample_event NewMemoryDB = (db', r)"
    by (cases "Save sample_std sample_config None (sample_message 7) sample_event NewMemoryDB")
  have 1: "memory_inv sample_std NewMemoryDB" by (simp add: memory_inv_def NewMemoryDB_def)
  have 2: "\<And>cols. ev_Columns sample_event = Some cols \<Longrightarrow> columns_inv cols"
    by (simp add: sample_event_def)
  from Save_fails_iff [OF 1 2 x] x show ?thesis by auto
qed

text \<open>
  The identifier of a row is deterministic: it depends on the key map and not on the order in
  which the map is visited.
\<close>

theorem PrimaryKeyValue_deterministic:
  assumes "gm_wf (ev_PrimaryKeyMap e)" and "gm_wf (ev_PrimaryKeyMap e')"
    and "\<And>k. gm_get (ev_PrimaryKeyMap e) k = gm_get (ev_PrimaryKeyMap e') k"
  shows "PrimaryKeyValue std e = PrimaryKeyValue std e'"
  using gm_ext_mset [OF assms] assms(3) by (simp add: PrimaryKeyValue_eq PrimaryKeys_def)

theorem PrimaryKeyValue_deterministic_witness:
  "PrimaryKeyValue sample_std (sample_event\<lparr>ev_PrimaryKeyMap := [(''a'', VNil), (''b'', VBool True)]\<rparr>) =
   PrimaryKeyValue sample_std (sample_event\<lparr>ev_PrimaryKeyMap := [(''b'', VBool True), (''a'', VNil)]\<rparr>)"
  by (rule PrimaryKeyValue_deterministic) (auto simp: gm_wf_def gm_get_def)

text \<open>
  Two different keys can have the same identifier, because neither the values nor the pairs are
  delimited: with the key columns \<^verbatim>\<open>a\<close> and \<^verbatim>\<open>b\<close>, the values \<^verbatim>\<open>1b=2\<close> and \<^verbatim>\<open>3\<close> give
  the same identifier as \<^verbatim>\<open>1\<close> and \<^verbatim>\<open>2b=3\<close>, so one row overwrites the other.
\<close>

theorem PrimaryKeyValue_collision:
  "PrimaryKeyValue std (e\<lparr>ev_PrimaryKeyMap := [(''a'', VString ''1b=2''), (''b'', VString ''3'')]\<rparr>) =
   PrimaryKeyValue std (e\<lparr>ev_PrimaryKeyMap := [(''a'', VString ''1''), (''b'', VString ''2b=3'')]\<rparr>)"
  by (simp add: PrimaryKeyValue_eq PrimaryKeys_def gm_get_def)

text \<open>
  Every event with a key and a table name is accepted: the event built from a payload is valid
  in every mode, since its data carries the delete marker, or the operation in history mode.
\<close>

theorem ToMemoryEvent_valid:
  assumes "pkMap \<noteq> []" and "Event_GetTableName p \<noteq> [] \<or> tc_TableName tc \<noteq> []"
  shows "IsValid (ToMemoryEvent std now p pkMap tc m)"
proof -
  let ?e = "ToMemoryEvent std now p pkMap tc m"
  have "Override [Event_GetTableName p, tc_TableName tc] \<noteq> []"
    using assms(2) by (auto simp: Override_def)
  then have "ev_Table ?e \<noteq> []"
    by (auto simp: ToMemoryEvent_def Let_def HistoryModeSuffix_def)
  moreover have "ev_PrimaryKeyMap ?e \<noteq> []" using assms(1) by (simp add: ToMemoryEvent_def Let_def)
  moreover have "ev_Data ?e \<noteq> [] \<and> (m \<noteq> History \<longrightarrow> gm_get (ev_Data ?e) DeleteColumnMarker \<noteq> None)"
  proof (cases "m = History")
    case True
    then have "gm_get (ev_Data ?e) OperationColumnMarker = Some (VString (Event_Operation p))"
      using markers_distinct by (auto simp: ToMemoryEvent_def Let_def)
    with True show ?thesis by auto
  next
    case False
    then have d: "ev_Data ?e = Event_GetData std now p pkMap tc"
      by (simp add: ToMemoryEvent_def Let_def)
    have "gm_get (ev_Data ?e) DeleteColumnMarker \<noteq> None"
      unfolding d by (rule Event_GetData_marker)
    then show ?thesis by auto
  qed
  ultimately show ?thesis
    by (auto simp: IsValid_def) (simp add: ToMemoryEvent_def Let_def)
qed

definition sample_payload :: Event_payload where
  "sample_payload =
     Relational \<lparr>sep_Schema = \<lparr>SchemaType = [], sc_FieldsObject = []\<rparr>,
       sep_Payload = \<lparr>pl_Before = [], pl_After = [(''id'', VInt KInt 1)],
         pl_Source = \<lparr>so_Connector = [], so_TsMs = 0, so_Database = [], so_Schema = [], so_Table = ''orders''\<rparr>,
         pl_Operation = ''c''\<rparr>\<rparr>"

theorem ToMemoryEvent_valid_witness:
  "IsValid (ToMemoryEvent sample_std zero_time sample_payload [(''id'', VInt KInt 1)] sample_topic History)"
  by (rule ToMemoryEvent_valid) (simp_all add: sample_payload_def rel_GetTableName_def)

end
