(* ===== verification/Consumer.thy ===== *)
theory Consumer
  imports Event
begin

text \<open>
  The consumer: processing one message, flushing tables and committing offsets
  (\<^verbatim>\<open>processes/consumer\<close>), and the timed flush (\<^verbatim>\<open>processes/pool\<close>).

  The destination's \<^verbatim>\<open>Merge\<close> and \<^verbatim>\<open>Append\<close> and the broker's \<^verbatim>\<open>CommitMessages\<close> act on a
  state of their own and are parameters (\<open>environment\<close>). What the consumer does to the outside is
  recorded in a trace of effects. \<^verbatim>\<open>Flush\<close> starts one goroutine per table; each holds its table's
  lock, the tables are disjoint, and the model runs them one after the other in the order of the
  map, which is arbitrary. A panic ends the process (\<open>cn_crashed\<close>). Metrics, logging and the sleep
  after a failed merge are left out.
\<close>

section \<open>Topics and formats\<close>

type_synonym TcFmtMap = "(TopicConfig \<times> Format) gomap"

definition NewTcFmtMap :: TcFmtMap where "NewTcFmtMap = []"

definition TcFmtMap_Add :: "string \<Rightarrow> TopicConfig \<times> Format \<Rightarrow> TcFmtMap \<Rightarrow> TcFmtMap" where
  "TcFmtMap_Add topic fmt t = gm_put topic fmt t"

definition GetTopicFmt :: "TcFmtMap \<Rightarrow> string \<Rightarrow> (TopicConfig \<times> Format) option" where
  "GetTopicFmt t topic = gm_get t topic"

text \<open>The consumers that have been registered, by topic.\<close>

type_synonym TopicToConsumer = "unit gomap"

definition NewTopicToConsumer :: TopicToConsumer where "NewTopicToConsumer = []"

definition TopicToConsumer_Add :: "string \<Rightarrow> TopicToConsumer \<Rightarrow> TopicToConsumer" where
  "TopicToConsumer_Add topic t = gm_put topic () t"

definition TopicToConsumer_Get :: "TopicToConsumer \<Rightarrow> string \<Rightarrow> unit option" where
  "TopicToConsumer_Get t topic = gm_get t topic"

text \<open>The loop of \<^verbatim>\<open>StartConsumer\<close> that registers the formats of the configured topics.\<close>

fun load_formats :: "TopicConfig list \<Rightarrow> TcFmtMap \<Rightarrow> TcFmtMap outcome" where
  "load_formats [] t = Ret t"
| "load_formats (tc # tcs) t =
     bind_out (GetFormatParser (tc_CDCFormat tc)) (\<lambda>f.
       load_formats tcs (TcFmtMap_Add (tc_Topic tc) (tc, f) t))"

section \<open>State, environment and effects\<close>

datatype effect =
  Saved string Message string row
| Merged string TableData
| Committed kafka_Message
| Acked pubsubWrapper

record 'w environment =
  en_Merge :: "TableData \<Rightarrow> 'w \<Rightarrow> 'w \<times> TableData \<times> unit outcome"
  en_Append :: "TableData \<Rightarrow> 'w \<Rightarrow> 'w \<times> TableData \<times> unit outcome"
  en_Commit :: "string \<Rightarrow> kafka_Message \<Rightarrow> 'w \<Rightarrow> 'w \<times> goerr option"
  en_topicToConsumer :: TopicToConsumer

record 'w consumer =
  cn_db :: DatabaseData
  cn_world :: 'w
  cn_trace :: "effect list"
  cn_crashed :: bool

section \<open>Committing offsets\<close>

fun commit_messages ::
  "'w environment \<Rightarrow> string \<Rightarrow> Message list \<Rightarrow> 'w \<times> effect list \<Rightarrow> ('w \<times> effect list) \<times> unit outcome" where
  "commit_messages env topic [] s = (s, Ret ())"
| "commit_messages env topic (msg # msgs) (w, tr) =
     (case KafkaMsg msg of
        Some km \<Rightarrow>
          (case TopicToConsumer_Get (en_topicToConsumer env) topic of
             None \<Rightarrow> ((w, tr), Panic nil_dereference)
           | Some _ \<Rightarrow>
               (case en_Commit env topic km w of
                  (w', Some err) \<Rightarrow> ((w', tr), Err err)
                | (w', None) \<Rightarrow>
                    commit_messages env topic msgs
                      (w', tr @ [Committed km] @ (case PubSub msg of None \<Rightarrow> [] | Some p \<Rightarrow> [Acked p]))))
      | None \<Rightarrow>
          commit_messages env topic msgs
            (w, tr @ (case PubSub msg of None \<Rightarrow> [] | Some p \<Rightarrow> [Acked p])))"

definition commitOffset ::
  "'w environment \<Rightarrow> string \<Rightarrow> Message list gomap \<Rightarrow> 'w \<times> effect list
     \<Rightarrow> ('w \<times> effect list) \<times> unit outcome" where
  "commitOffset env topic partitionsToOffset s =
     commit_messages env topic (concat (map snd partitionsToOffset)) s"

section \<open>Flushing\<close>

record Flush_Args =
  CoolDown :: "int option"
  SpecificTable :: string
  Reason :: string

text \<open>What the clock and the random generator return while a table is flushed.\<close>

record flush_inputs =
  fi_check :: "string \<Rightarrow> gotime"
  fi_wipe :: "string \<Rightarrow> gotime"
  fi_rand :: "string \<Rightarrow> nat list"

definition flush_table ::
  "'w environment \<Rightarrow> flush_inputs \<Rightarrow> Flush_Args \<Rightarrow> string \<Rightarrow> 'w consumer \<Rightarrow> 'w consumer" where
  "flush_table env fi args tableName st =
     (if cn_crashed st then st
      else (case gm_get (cn_db st) tableName of
          None \<Rightarrow> st
        | Some table \<Rightarrow>
            if (case CoolDown args of None \<Rightarrow> False | Some cd \<Rightarrow> ShouldSkipFlush (fi_check fi tableName) cd table)
            then st
            else (case mt_data table of
                None \<Rightarrow> st
              | Some td0 \<Rightarrow>
                  (let td = ResetTempTableSuffix (fi_rand fi tableName) td0;
                       action = (if td_mode td = History then en_Append env else en_Merge env)
                   in case action td (cn_world st) of
                        (w, td', Err err) \<Rightarrow>
                          st\<lparr>cn_world := w, cn_db := gm_put tableName (SetTableData td' table) (cn_db st)\<rparr>
                      | (w, td', Panic m) \<Rightarrow>
                          st\<lparr>cn_world := w, cn_db := gm_put tableName (SetTableData td' table) (cn_db st),
                             cn_crashed := True\<rparr>
                      | (w, td', Ret _) \<Rightarrow>
                          (let st1 = st\<lparr>cn_db := gm_put tableName (SetTableData td' table) (cn_db st)\<rparr>
                           in case commitOffset env (tc_Topic (td_TopicConfig td'))
                                     (td_PartitionsToLastMessage td') (w, cn_trace st @ [Merged tableName td]) of
                                ((w', tr), Ret _) \<Rightarrow>
                                  (case ClearTableConfig (fi_wipe fi tableName) tableName (cn_db st1) of
                                     Ret db' \<Rightarrow> st1\<lparr>cn_world := w', cn_trace := tr, cn_db := db'\<rparr>
                                   | _ \<Rightarrow> st1\<lparr>cn_world := w', cn_trace := tr, cn_crashed := True\<rparr>)
                              | ((w', tr), Err _) \<Rightarrow> st1\<lparr>cn_world := w', cn_trace := tr\<rparr>
                              | ((w', tr), Panic _) \<Rightarrow>
                                  st1\<lparr>cn_world := w', cn_trace := tr, cn_crashed := True\<rparr>)))))"

definition Flush ::
  "'w environment \<Rightarrow> flush_inputs \<Rightarrow> Flush_Args \<Rightarrow> 'w consumer \<Rightarrow> 'w consumer \<times> unit outcome" where
  "Flush env fi args st =
     (let allTables = map fst (cn_db st)
      in if SpecificTable args \<noteq> [] \<and> SpecificTable args \<notin> set allTables
         then (st, Err (errorf (''table '' @ SpecificTable args @
                '' does not exist in the in-memory database'')))
         else (fold (flush_table env fi args)
                 (filter (\<lambda>t. \<not> (SpecificTable args \<noteq> [] \<and> t \<noteq> SpecificTable args)) allTables) st,
               Ret ()))"

text \<open>The body of \<^verbatim>\<open>StartPool\<close>: a flush of every table with the flush interval as cooldown.\<close>

definition pool_tick :: "'w environment \<Rightarrow> flush_inputs \<Rightarrow> int \<Rightarrow> 'w consumer \<Rightarrow> 'w consumer" where
  "pool_tick env fi td st =
     fst (Flush env fi \<lparr>CoolDown = Some td, SpecificTable = [], Reason = ''time''\<rparr> st)"

section \<open>Processing a message\<close>

text \<open>Saving, with its effect recorded.\<close>

definition save_event ::
  "gostd \<Rightarrow> Config \<Rightarrow> TopicConfig \<Rightarrow> Message \<Rightarrow> Event \<Rightarrow> 'w consumer
     \<Rightarrow> 'w consumer \<times> (bool \<times> string) outcome" where
  "save_event std cfg tc msg evt st =
     (case Save std cfg (Some tc) msg evt (cn_db st) of
        (db', Ret x) \<Rightarrow>
          (st\<lparr>cn_db := db',
              cn_trace := cn_trace st @
                [Saved (ev_Table evt) msg (PrimaryKeyValue std evt) (sanitized (ev_Data evt))]\<rparr>, Ret x)
      | (db', r) \<Rightarrow> (st\<lparr>cn_db := db'\<rparr>, r))"

definition process ::
  "gostd \<Rightarrow> decoders \<Rightarrow> gotime \<Rightarrow> flush_inputs \<Rightarrow> 'w environment \<Rightarrow> Config \<Rightarrow> TcFmtMap option \<Rightarrow> Message
     \<Rightarrow> 'w consumer \<Rightarrow> 'w consumer \<times> string outcome" where
  "process std dec now fi env cfg fmtMap msg st =
     (case fmtMap of
        None \<Rightarrow> (st, Err (errorf ''failed to process, topicConfig is nil''))
      | Some fm \<Rightarrow>
          (case GetTopicFmt fm (Message_Topic msg) of
             None \<Rightarrow> (st, Err (errorf (''failed to get topic name: '' @ Message_Topic msg)))
           | Some (tc, fmt) \<Rightarrow>
               (case GetPrimaryKey std dec fmt (Message_Key msg) tc of
                  Err e \<Rightarrow> (st, Err (wrapf (''cannot unmarshall key '' @ Message_Key msg @ '': '') e []))
                | Panic m \<Rightarrow> (st\<lparr>cn_crashed := True\<rparr>, Panic m)
                | Ret pkMap \<Rightarrow>
                    (case GetEventFromBytes std dec fmt (cfg_TypingSettings cfg) (Message_Value msg) of
                       Err e \<Rightarrow> (st, Err (wrapf ''cannot unmarshall event: '' e []))
                     | Panic m \<Rightarrow> (st\<lparr>cn_crashed := True\<rparr>, Panic m)
                     | Ret payload \<Rightarrow>
                         (let evt = ToMemoryEvent std now payload pkMap tc (cfg_Mode cfg)
                          in case TopicConfig_ShouldSkip tc (Event_Operation payload) of
                               Panic m \<Rightarrow> (st\<lparr>cn_crashed := True\<rparr>, Panic m)
                             | Err e \<Rightarrow> (st, Err e)
                             | Ret True \<Rightarrow> (st, Ret (ev_Table evt))
                             | Ret False \<Rightarrow>
                                 (case save_event std cfg tc msg evt st of
                                    (st1, Err e) \<Rightarrow> (st1, Err (wrapf ''event failed to save: '' e []))
                                  | (st1, Panic m) \<Rightarrow> (st1\<lparr>cn_crashed := True\<rparr>, Panic m)
                                  | (st1, Ret (shouldFlush, flushReason)) \<Rightarrow>
                                      if shouldFlush
                                      then (case Flush env fi \<lparr>CoolDown = None, SpecificTable = ev_Table evt,
                                                     Reason = flushReason\<rparr> st1 of
                                              (st2, Ret _) \<Rightarrow> (st2, Ret (ev_Table evt))
                                            | (st2, Err e) \<Rightarrow> (st2, Err e)
                                            | (st2, Panic m) \<Rightarrow> (st2, Panic m))
                                      else (st1, Ret (ev_Table evt))))))))"

text \<open>
  One turn of the Kafka loop: a fetched message with an empty value is a tombstone and is skipped,
  any other is processed, and an error only skips the message.
\<close>

definition consume ::
  "gostd \<Rightarrow> decoders \<Rightarrow> gotime \<Rightarrow> flush_inputs \<Rightarrow> 'w environment \<Rightarrow> Config \<Rightarrow> TcFmtMap \<Rightarrow> kafka_Message
     \<Rightarrow> 'w consumer \<Rightarrow> 'w consumer" where
  "consume std dec now fi env cfg fmtMap km st =
     (if km_Value km = [] then st
      else fst (process std dec now fi env cfg (Some fmtMap) (NewMessage (Some km) None (km_Topic km)) st))"

definition receive ::
  "gostd \<Rightarrow> decoders \<Rightarrow> gotime \<Rightarrow> flush_inputs \<Rightarrow> 'w environment \<Rightarrow> Config \<Rightarrow> TcFmtMap \<Rightarrow> pubsubWrapper
     \<Rightarrow> string \<Rightarrow> 'w consumer \<Rightarrow> 'w consumer" where
  "receive std dec now fi env cfg fmtMap pm topic st =
     fst (process std dec now fi env cfg (Some fmtMap) (NewMessage None (Some pm) topic) st)"

text \<open>The steps of the running system and the states they reach from an empty database.\<close>

inductive system_step ::
  "gostd \<Rightarrow> decoders \<Rightarrow> 'w environment \<Rightarrow> Config \<Rightarrow> TcFmtMap \<Rightarrow> 'w consumer \<Rightarrow> 'w consumer \<Rightarrow> bool"
  for std dec env cfg fmtMap where
  step_consume: "\<not> cn_crashed st \<Longrightarrow>
    system_step std dec env cfg fmtMap st (consume std dec now fi env cfg fmtMap km st)"
| step_receive: "\<not> cn_crashed st \<Longrightarrow>
    system_step std dec env cfg fmtMap st (receive std dec now fi env cfg fmtMap pm topic st)"
| step_tick: "\<not> cn_crashed st \<Longrightarrow>
    system_step std dec env cfg fmtMap st (pool_tick env fi td st)"

inductive reachable ::
  "gostd \<Rightarrow> decoders \<Rightarrow> 'w environment \<Rightarrow> Config \<Rightarrow> TcFmtMap \<Rightarrow> 'w consumer \<Rightarrow> bool"
  for std dec env cfg fmtMap where
  reach_init: "reachable std dec env cfg fmtMap
    \<lparr>cn_db = NewMemoryDB, cn_world = w, cn_trace = [], cn_crashed = False\<rparr>"
| reach_step: "reachable std dec env cfg fmtMap st \<Longrightarrow> system_step std dec env cfg fmtMap st st' \<Longrightarrow>
    reachable std dec env cfg fmtMap st'"

inductive_cases system_stepE: "system_step std dec env cfg fmtMap st st'"

section \<open>Traces\<close>

text \<open>A buffer holds a saved row: in history mode the row itself, else an entry for its key.\<close>

definition holds :: "TableData \<Rightarrow> string \<Rightarrow> row \<Rightarrow> bool" where
  "holds td key r = (if td_mode td = History then r \<in> set (td_rows td)
                     else gm_get (td_rowsData td) key \<noteq> None)"

text \<open>Every topic feeds one table.\<close>

definition one_table :: "(string \<Rightarrow> string) \<Rightarrow> effect list \<Rightarrow> bool" where
  "one_table tbl tr \<longleftrightarrow> (\<forall>T m key r. Saved T m key r \<in> set tr \<longrightarrow> tbl (Message_Topic m) = T)"

text \<open>Every row saved for a table was handed to the destination afterwards.\<close>

definition all_merged :: "string \<Rightarrow> effect list \<Rightarrow> bool" where
  "all_merged T tr \<longleftrightarrow> (\<forall>a m key r b. tr = a @ Saved T m key r # b \<longrightarrow>
     (\<exists>td. Merged T td \<in> set b \<and> holds td key r))"

definition merged_before :: "effect list \<Rightarrow> kafka_Message \<Rightarrow> bool" where
  "merged_before pre c \<longleftrightarrow> (\<forall>a T m key r b. pre = a @ Saved T m key r # b \<longrightarrow>
     Message_Topic m = km_Topic c \<longrightarrow> (\<exists>td. Merged T td \<in> set b \<and> holds td key r))"

definition commits_safe :: "effect list \<Rightarrow> bool" where
  "commits_safe tr \<longleftrightarrow> (\<forall>pre c post. tr = pre @ Committed c # post \<longrightarrow> merged_before pre c)"

definition ack_safe_at :: "effect list \<Rightarrow> pubsubWrapper \<Rightarrow> bool" where
  "ack_safe_at pre p \<longleftrightarrow> (\<exists>a T m key r b td. pre = a @ Saved T m key r # b \<and> PubSub m = Some p
     \<and> Merged T td \<in> set b \<and> holds td key r)"

definition acks_safe :: "effect list \<Rightarrow> bool" where
  "acks_safe tr \<longleftrightarrow> (\<forall>pre p post. tr = pre @ Acked p # post \<longrightarrow> ack_safe_at pre p)"

fun is_saved :: "effect \<Rightarrow> bool" where
  "is_saved (Saved T m key r) = True"
| "is_saved e = False"

lemma split_snoc:
  "(xs @ [y] = a @ z # b) \<longleftrightarrow> (b = [] \<and> z = y \<and> a = xs) \<or> (\<exists>b'. b = b' @ [y] \<and> xs = a @ z # b')"
  by (cases b rule: rev_cases) auto

lemma commits_safe_snoc:
  "commits_safe (tr @ [e]) \<longleftrightarrow> commits_safe tr \<and> (\<forall>c. e = Committed c \<longrightarrow> merged_before tr c)"
  unfolding commits_safe_def split_snoc by blast

lemma acks_safe_snoc:
  "acks_safe (tr @ [e]) \<longleftrightarrow> acks_safe tr \<and> (\<forall>p. e = Acked p \<longrightarrow> ack_safe_at tr p)"
  unfolding acks_safe_def split_snoc by blast

lemma all_merged_snoc: "\<not> is_saved e \<Longrightarrow> all_merged T tr \<Longrightarrow> all_merged T (tr @ [e])"
  unfolding all_merged_def split_snoc by fastforce

lemma one_table_append:
  "one_table tbl (tr @ es) \<longleftrightarrow> one_table tbl tr \<and> one_table tbl es"
  unfolding one_table_def set_append by blast

lemma one_tableD: "one_table tbl tr \<Longrightarrow> Saved T m key r \<in> set tr \<Longrightarrow> tbl (Message_Topic m) = T"
  unfolding one_table_def by blast

lemma Message_Topic_kafka: "KafkaMsg m = Some km \<Longrightarrow> Message_Topic m = km_Topic km"
  by (simp add: Message_Topic_def)

lemma merged_before_all:
  assumes "all_merged T tr" and "one_table tbl tr" and "tbl (km_Topic c) = T"
  shows "merged_before tr c"
  unfolding merged_before_def
proof (intro allI impI)
  fix a T' m key r b
  assume tr: "tr = a @ Saved T' m key r # b" and t: "Message_Topic m = km_Topic c"
  then have "T' = T" using assms(2,3) by (auto simp: one_table_def)
  with assms(1) tr show "\<exists>td. Merged T' td \<in> set b \<and> holds td key r"
    unfolding all_merged_def by blast
qed

section \<open>What committing adds to the trace\<close>

definition from_messages :: "Message list \<Rightarrow> effect \<Rightarrow> bool" where
  "from_messages ms e \<longleftrightarrow> (\<exists>m\<in>set ms. (\<exists>km. KafkaMsg m = Some km \<and> e = Committed km)
     \<or> (\<exists>p. PubSub m = Some p \<and> e = Acked p))"

lemma commit_messages_trace:
  "commit_messages env topic ms (w, tr) = ((w', tr'), res) \<Longrightarrow>
     \<exists>es. tr' = tr @ es \<and> (\<forall>e\<in>set es. from_messages ms e)"
proof (induction ms arbitrary: w tr)
  case Nil
  then show ?case by auto
next
  case (Cons m ms)
  have mono: "from_messages ms e \<Longrightarrow> from_messages (m # ms) e" for e
    by (auto simp: from_messages_def)
  let ?ack = "case PubSub m of None \<Rightarrow> [] | Some p \<Rightarrow> [Acked p]"
  have ack: "\<forall>e\<in>set ?ack. from_messages (m # ms) e"
    by (auto simp: from_messages_def split: option.splits)
  show ?case
  proof (cases "KafkaMsg m")
    case None
    with Cons.prems have "commit_messages env topic ms (w, tr @ ?ack) = ((w', tr'), res)" by simp
    from Cons.IH [OF this] obtain es where "tr' = (tr @ ?ack) @ es" "\<forall>e\<in>set es. from_messages ms e"
      by blast
    with mono ack show ?thesis by (intro exI [of _ "?ack @ es"]) auto
  next
    case (Some km)
    have km: "from_messages (m # ms) (Committed km)" using Some by (auto simp: from_messages_def)
    show ?thesis
    proof (cases "TopicToConsumer_Get (en_topicToConsumer env) topic")
      case None
      with Some Cons.prems show ?thesis by auto
    next
      case c: (Some u)
      obtain w1 err where x: "en_Commit env topic km w = (w1, err)" by (cases "en_Commit env topic km w")
      show ?thesis
      proof (cases err)
        case None
        with Some c x Cons.prems
        have "commit_messages env topic ms (w1, tr @ [Committed km] @ ?ack) = ((w', tr'), res)" by simp
        from Cons.IH [OF this] obtain es
          where "tr' = (tr @ [Committed km] @ ?ack) @ es" "\<forall>e\<in>set es. from_messages ms e" by blast
        with mono ack km show ?thesis by (intro exI [of _ "[Committed km] @ ?ack @ es"]) auto
      next
        case (Some e)
        with \<open>KafkaMsg m = Some km\<close> c x Cons.prems show ?thesis by auto
      qed
    qed
  qed
qed

text \<open>
  Commits and acknowledgements right after a merge of the table that recorded the messages are
  safe: they keep both trace properties.
\<close>

definition messages_of :: "string \<Rightarrow> effect list \<Rightarrow> Message list \<Rightarrow> bool" where
  "messages_of T tr ms \<longleftrightarrow> (\<forall>m\<in>set ms. \<exists>key r. Saved T m key r \<in> set tr)"

lemma commits_after_merge:
  assumes "all_merged T tr" and "commits_safe tr" and "one_table tbl tr"
    and "messages_of T tr ms" and "\<forall>e\<in>set es. from_messages ms e"
  shows "commits_safe (tr @ es) \<and> all_merged T (tr @ es) \<and> one_table tbl (tr @ es)"
  using assms(5)
proof (induction es rule: rev_induct)
  case Nil
  then show ?case using assms by simp
next
  case (snoc e es)
  then have IH: "commits_safe (tr @ es)" "all_merged T (tr @ es)" "one_table tbl (tr @ es)" by auto
  have ns: "\<not> is_saved e" and fm: "from_messages ms e"
    using snoc.prems by (auto simp: from_messages_def)
  have "merged_before (tr @ es) c" if "e = Committed c" for c
  proof (rule merged_before_all [OF IH(2,3)])
    from fm that obtain m where "m \<in> set ms" "KafkaMsg m = Some c" by (auto simp: from_messages_def)
    moreover from this assms(4) obtain key r where "Saved T m key r \<in> set tr"
      by (auto simp: messages_of_def)
    ultimately show "tbl (km_Topic c) = T"
      using one_tableD [OF assms(3)] Message_Topic_kafka by metis
  qed
  then show ?case
    using IH ns all_merged_snoc [OF ns IH(2)]
    by (cases e)
      (auto simp: append_assoc [symmetric] commits_safe_snoc one_table_append one_table_def
        simp del: append_assoc)
qed

lemma acks_after_merge:
  assumes "all_merged T tr" and "acks_safe tr" and "messages_of T tr ms"
    and "\<forall>e\<in>set es. from_messages ms e"
  shows "acks_safe (tr @ es) \<and> all_merged T (tr @ es)"
  using assms(4)
proof (induction es rule: rev_induct)
  case Nil
  then show ?case using assms by simp
next
  case (snoc e es)
  then have IH: "acks_safe (tr @ es)" "all_merged T (tr @ es)" by auto
  have ns: "\<not> is_saved e" and fm: "from_messages ms e"
    using snoc.prems by (auto simp: from_messages_def)
  have "ack_safe_at (tr @ es) p" if "e = Acked p" for p
  proof -
    from fm that obtain m where m: "m \<in> set ms" "PubSub m = Some p" by (auto simp: from_messages_def)
    with assms(3) obtain key r where "Saved T m key r \<in> set (tr @ es)"
      unfolding messages_of_def set_append by blast
    then obtain a b where ab: "tr @ es = a @ Saved T m key r # b"
      using split_list [of "Saved T m key r" "tr @ es"] by blast
    with IH(2) obtain td where "Merged T td \<in> set b" "holds td key r"
      unfolding all_merged_def by blast
    with ab m(2) show ?thesis unfolding ack_safe_at_def by blast
  qed
  then show ?case
    using IH ns all_merged_snoc [OF ns IH(2)]
    by (auto simp: append_assoc [symmetric] acks_safe_snoc simp del: append_assoc)
qed

section \<open>The invariant of the running system\<close>

text \<open>
  What the consumer needs of a destination: merging or appending a batch may refine the types of
  the batch's columns, and changes neither its rows, nor its keys and flags, nor what will be
  committed.
\<close>

definition same_buffer :: "TableData \<Rightarrow> TableData \<Rightarrow> bool" where
  "same_buffer td td' \<longleftrightarrow>
     td_mode td' = td_mode td \<and> td_rowsData td' = td_rowsData td \<and> td_rows td' = td_rows td
     \<and> td_approxSize td' = td_approxSize td \<and> td_TopicConfig td' = td_TopicConfig td
     \<and> td_PartitionsToLastMessage td' = td_PartitionsToLastMessage td
     \<and> td_primaryKeys td' = td_primaryKeys td \<and> td_name td' = td_name td
     \<and> td_LatestCDCTs td' = td_LatestCDCTs td
     \<and> td_containOtherOperations td' = td_containOtherOperations td
     \<and> td_containsHardDeletes td' = td_containsHardDeletes td
     \<and> ((\<exists>cols. td_inMemoryColumns td = Some cols \<and> columns_inv cols) \<longrightarrow>
        (\<exists>cols. td_inMemoryColumns td' = Some cols \<and> columns_inv cols))"

lemma same_buffer_holds: "same_buffer td td' \<Longrightarrow> holds td' key r \<longleftrightarrow> holds td key r"
  by (simp add: same_buffer_def holds_def)

lemma same_buffer_ok: "same_buffer td td' \<Longrightarrow> table_ok std td \<Longrightarrow> table_ok std td'"
  by (simp add: same_buffer_def table_ok_def buffer_inv_def Rows_def)

lemma same_buffer_Reset: "same_buffer td (ResetTempTableSuffix rnd td)"
  by (auto simp: same_buffer_def ResetTempTableSuffix_def)

lemma same_buffer_trans: "same_buffer a b \<Longrightarrow> same_buffer b c \<Longrightarrow> same_buffer a c"
  by (auto simp: same_buffer_def)

definition covered :: "'w consumer \<Rightarrow> bool" where
  "covered st \<longleftrightarrow> (\<forall>a T m key r b. cn_trace st = a @ Saved T m key r # b \<longrightarrow>
     (\<exists>td. Merged T td \<in> set b \<and> holds td key r)
     \<or> (\<exists>td. buffered T (cn_db st) = Some td \<and> holds td key r))"

definition recorded :: "'w consumer \<Rightarrow> bool" where
  "recorded st \<longleftrightarrow> (\<forall>T td. buffered T (cn_db st) = Some td \<longrightarrow>
     messages_of T (cn_trace st) (concat (map snd (td_PartitionsToLastMessage td))))"

definition system_inv :: "gostd \<Rightarrow> 'w consumer \<Rightarrow> bool" where
  "system_inv std st \<longleftrightarrow> memory_inv std (cn_db st) \<and> covered st \<and> recorded st
     \<and> acks_safe (cn_trace st) \<and> (\<forall>tbl. one_table tbl (cn_trace st) \<longrightarrow> commits_safe (cn_trace st))"

lemma messages_of_mono: "messages_of T tr ms \<Longrightarrow> messages_of T (tr @ es) ms"
  by (fastforce simp: messages_of_def)

lemma covered_all_merged:
  assumes "covered st" and "buffered T (cn_db st) = Some td0" and "same_buffer td0 td"
  shows "all_merged T (cn_trace st @ [Merged T td])"
  unfolding all_merged_def split_snoc
proof (intro allI impI, elim disjE)
  fix a m key r b
  assume "\<exists>b'. b = b' @ [Merged T td] \<and> cn_trace st = a @ Saved T m key r # b'"
  then obtain b' where b: "b = b' @ [Merged T td]" and tr: "cn_trace st = a @ Saved T m key r # b'" by blast
  from assms(1) tr have "(\<exists>td. Merged T td \<in> set b' \<and> holds td key r) \<or> holds td0 key r"
    using assms(2) unfolding covered_def by force
  then show "\<exists>td. Merged T td \<in> set b \<and> holds td key r"
    using b same_buffer_holds [OF assms(3)] by auto
qed simp

lemma split_extend:
  "\<forall>e\<in>set es. \<not> is_saved e \<Longrightarrow> tr @ es = a @ Saved T m key r # b \<Longrightarrow>
     \<exists>b'. b = b' @ es \<and> tr = a @ Saved T m key r # b'"
proof (induction es arbitrary: b rule: rev_induct)
  case Nil
  then show ?case by simp
next
  case (snoc e es)
  have "(tr @ es) @ [e] = a @ Saved T m key r # b" using snoc.prems by simp
  then obtain b1 where b1: "b = b1 @ [e]" "tr @ es = a @ Saved T m key r # b1"
    unfolding split_snoc using snoc.prems(1) by auto
  from snoc.IH [OF _ b1(2)] b1(1) snoc.prems(1) show ?case by auto
qed

lemma covered_extend:
  assumes "covered st" and "\<forall>e\<in>set es. \<not> is_saved e"
    and "cn_trace st' = cn_trace st @ es"
    and "\<And>T' td key r. T' \<noteq> T \<Longrightarrow> buffered T' (cn_db st) = Some td \<Longrightarrow> buffered T' (cn_db st') = Some td"
    and "all_merged T (cn_trace st') \<or>
      (\<exists>td td'. buffered T (cn_db st) = Some td \<and> buffered T (cn_db st') = Some td' \<and> same_buffer td td')"
  shows "covered st'"
  unfolding covered_def
proof (intro allI impI)
  fix a T' m key r b
  assume eq: "cn_trace st' = a @ Saved T' m key r # b"
  have "\<exists>b'. b = b' @ es \<and> cn_trace st = a @ Saved T' m key r # b'"
    using assms(2,3) eq by (intro split_extend) auto
  then obtain b' where b: "b = b' @ es" and tr: "cn_trace st = a @ Saved T' m key r # b'" by blast
  from assms(1) tr have "(\<exists>td. Merged T' td \<in> set b' \<and> holds td key r)
      \<or> (\<exists>td. buffered T' (cn_db st) = Some td \<and> holds td key r)"
    unfolding covered_def by blast
  then show "(\<exists>td. Merged T' td \<in> set b \<and> holds td key r)
      \<or> (\<exists>td. buffered T' (cn_db st') = Some td \<and> holds td key r)"
  proof
    assume "\<exists>td. buffered T' (cn_db st) = Some td \<and> holds td key r"
    then obtain td where td: "buffered T' (cn_db st) = Some td" "holds td key r" by blast
    show ?thesis
    proof (cases "T' = T")
      case True
      with assms(5) td eq show ?thesis
        unfolding all_merged_def by (metis option.inject same_buffer_holds)
    next
      case False
      with assms(4) td show ?thesis by blast
    qed
  qed (use b in auto)
qed

lemma buffered_put:
  "buffered T' (gm_put T t db) = (if T' = T then mt_data t else buffered T' db)"
  by (simp add: buffered_def)

locale destination_contract =
  fixes env :: "'w environment"
  assumes merge_keeps: "en_Merge env td w = (w', td', r) \<Longrightarrow> same_buffer td td'"
    and append_keeps: "en_Append env td w = (w', td', r) \<Longrightarrow> same_buffer td td'"
begin

text \<open>
  The ways flushing one table can end: nothing happens; the destination refuses the batch and only
  the batch's columns may change; the batch is merged and the offsets are committed as far as the
  broker accepts them; or all of it succeeds and the buffer is emptied.
\<close>

lemma flush_table_cases:
  obtains (same) "flush_table env fi args T st = st"
  | (refused) table td0 td' where "gm_get (cn_db st) T = Some table" "mt_data table = Some td0"
      "same_buffer td0 td'"
      "cn_db (flush_table env fi args T st) = gm_put T (SetTableData td' table) (cn_db st)"
      "cn_trace (flush_table env fi args T st) = cn_trace st"
  | (uncommitted) table td0 td td' es where "gm_get (cn_db st) T = Some table"
      "mt_data table = Some td0" "same_buffer td0 td" "same_buffer td0 td'"
      "\<forall>e\<in>set es. from_messages (concat (map snd (td_PartitionsToLastMessage td0))) e"
      "cn_db (flush_table env fi args T st) = gm_put T (SetTableData td' table) (cn_db st)"
      "cn_trace (flush_table env fi args T st) = (cn_trace st @ [Merged T td]) @ es"
  | (flushed) table td0 td t' es where "gm_get (cn_db st) T = Some table"
      "mt_data table = Some td0" "same_buffer td0 td"
      "\<forall>e\<in>set es. from_messages (concat (map snd (td_PartitionsToLastMessage td0))) e"
      "mt_data t' = None"
      "\<And>n. gm_get (cn_db (flush_table env fi args T st)) n = (if n = T then Some t' else gm_get (cn_db st) n)"
      "cn_trace (flush_table env fi args T st) = (cn_trace st @ [Merged T td]) @ es"
proof (cases "gm_get (cn_db st) T")
  case None
  then show ?thesis by (intro same) (simp add: flush_table_def)
next
  case t: (Some table)
  show ?thesis
  proof (cases "cn_crashed st \<or> mt_data table = None \<or>
      (case CoolDown args of None \<Rightarrow> False | Some cd \<Rightarrow> ShouldSkipFlush (fi_check fi T) cd table)")
    case True
    with t show ?thesis by (intro same) (auto simp: flush_table_def split: option.splits)
  next
    case False
    then obtain td0 where td0: "mt_data table = Some td0" by auto
    define td where "td = ResetTempTableSuffix (fi_rand fi T) td0"
    define act where "act = (if td_mode td = History then en_Append env else en_Merge env)"
    obtain w td' r where x: "act td (cn_world st) = (w, td', r)" by (cases "act td (cn_world st)") auto
    have sb: "same_buffer td0 td" by (simp add: td_def same_buffer_Reset)
    have sb': "same_buffer td td'"
      using x merge_keeps append_keeps by (auto simp: act_def split: if_splits)
    note sb0 = same_buffer_trans [OF sb sb']
    have parts: "td_PartitionsToLastMessage td' = td_PartitionsToLastMessage td0"
      using sb0 by (simp add: same_buffer_def)
    show ?thesis
    proof (cases r)
      case (Err err)
      with t td0 False x show ?thesis
        by (intro refused [OF t td0 sb0])
          (simp_all add: flush_table_def Let_def td_def [symmetric] act_def [symmetric])
    next
      case (Panic m)
      with t td0 False x show ?thesis
        by (intro refused [OF t td0 sb0])
          (simp_all add: flush_table_def Let_def td_def [symmetric] act_def [symmetric])
    next
      case ret: (Ret u)
      obtain w' tr res where co: "commitOffset env (tc_Topic (td_TopicConfig td'))
          (td_PartitionsToLastMessage td') (w, cn_trace st @ [Merged T td]) = ((w', tr), res)"
        by (metis surj_pair)
      from commit_messages_trace [OF co [unfolded commitOffset_def]] obtain es
        where tr: "tr = (cn_trace st @ [Merged T td]) @ es"
        and es: "\<forall>e\<in>set es. from_messages (concat (map snd (td_PartitionsToLastMessage td0))) e"
        unfolding parts by blast
      show ?thesis
      proof (cases res)
        case (Ret u)
        with t td0 False x ret co tr show ?thesis
          by (intro flushed [OF t td0 sb es, of "Wipe (fi_wipe fi T) (SetTableData td' table)"])
            (simp_all add: flush_table_def Let_def td_def [symmetric] act_def [symmetric]
              ClearTableConfig_def, simp add: Wipe_def)
      next
        case (Err e)
        with t td0 False x ret co tr show ?thesis
          by (intro uncommitted [OF t td0 sb sb0 es])
            (simp_all add: flush_table_def Let_def td_def [symmetric] act_def [symmetric])
      next
        case (Panic m)
        with t td0 False x ret co tr show ?thesis
          by (intro uncommitted [OF t td0 sb sb0 es])
            (simp_all add: flush_table_def Let_def td_def [symmetric] act_def [symmetric])
      qed
    qed
  qed
qed

end

text \<open>The invariant after a batch was handed over and part of its messages committed.\<close>

lemma system_inv_merged:
  fixes st st' :: "'w consumer"
  assumes inv: "system_inv std st" and td0: "buffered T (cn_db st) = Some td0"
    and sb: "same_buffer td0 td"
    and es: "\<forall>e\<in>set es. from_messages (concat (map snd (td_PartitionsToLastMessage td0))) e"
    and tr: "cn_trace st' = (cn_trace st @ [Merged T td]) @ es"
    and mem: "memory_inv std (cn_db st')"
    and others: "\<And>T'. T' \<noteq> T \<Longrightarrow> buffered T' (cn_db st') = buffered T' (cn_db st)"
    and own: "\<And>td'. buffered T (cn_db st') = Some td' \<Longrightarrow> same_buffer td0 td'"
  shows "system_inv std st'"
proof -
  let ?ms = "concat (map snd (td_PartitionsToLastMessage td0))"
  let ?tr = "cn_trace st @ [Merged T td]"
  have cov: "covered st" and rec: "recorded st" and acks: "acks_safe (cn_trace st)"
    and com: "\<And>tbl. one_table tbl (cn_trace st) \<Longrightarrow> commits_safe (cn_trace st)"
    using inv by (auto simp: system_inv_def)
  have am: "all_merged T ?tr" by (rule covered_all_merged [OF cov td0 sb])
  have ms: "messages_of T ?tr ?ms"
    using rec td0 unfolding recorded_def by (blast intro: messages_of_mono)
  have acks': "acks_safe ?tr" using acks by (simp add: acks_safe_snoc)
  note a = acks_after_merge [OF am acks' ms es]
  have "covered st'"
  proof (rule covered_extend [OF cov])
    show "\<forall>e\<in>set (Merged T td # es). \<not> is_saved e" using es by (auto simp: from_messages_def)
    show "cn_trace st' = cn_trace st @ Merged T td # es" using tr by simp
    show "all_merged T (cn_trace st') \<or> (\<exists>td td'. buffered T (cn_db st) = Some td
        \<and> buffered T (cn_db st') = Some td' \<and> same_buffer td td')"
      using a tr by simp
  qed (use others in simp)
  moreover have "recorded st'"
    unfolding recorded_def
  proof (intro allI impI)
    fix T' td'
    assume td': "buffered T' (cn_db st') = Some td'"
    have "messages_of T' (cn_trace st) (concat (map snd (td_PartitionsToLastMessage td')))"
    proof (cases "T' = T")
      case True
      with own td' td0 rec show ?thesis unfolding recorded_def same_buffer_def by metis
    next
      case False
      with others td' rec show ?thesis unfolding recorded_def by metis
    qed
    then show "messages_of T' (cn_trace st') (concat (map snd (td_PartitionsToLastMessage td')))"
      unfolding tr by (intro messages_of_mono)
  qed
  moreover have "commits_safe (cn_trace st')" if "one_table tbl (cn_trace st')" for tbl
  proof -
    have ot: "one_table tbl ?tr" using that unfolding tr one_table_append by blast
    then have "one_table tbl (cn_trace st)" unfolding one_table_append by blast
    then have "commits_safe ?tr" using com by (simp add: commits_safe_snoc)
    with commits_after_merge [OF am _ ot ms es] show ?thesis unfolding tr by blast
  qed
  ultimately show ?thesis using mem a tr by (simp add: system_inv_def)
qed

lemma memory_inv_put:
  assumes "memory_inv std db"
    and "\<And>td. mt_data t = Some td \<Longrightarrow> table_ok std td"
  shows "memory_inv std (gm_put T t db)"
  using assms unfolding memory_inv_def by (auto split: if_splits)

lemma memory_inv_buffered: "memory_inv std db \<Longrightarrow> buffered T db = Some td \<Longrightarrow> table_ok std td"
  unfolding memory_inv_def buffered_def by (auto simp: bind_eq_Some_conv)

context destination_contract
begin

lemma system_inv_flush_table:
  assumes inv: "system_inv std st"
  shows "system_inv std (flush_table env fi args T st)"
proof (cases rule: flush_table_cases [of fi args T st])
  case same
  with inv show ?thesis by simp
next
  case (refused table td0 td')
  have td0: "buffered T (cn_db st) = Some td0" using refused by (simp add: buffered_def)
  have mem: "memory_inv std (cn_db st)" using inv by (simp add: system_inv_def)
  have "table_ok std td'" using memory_inv_buffered [OF mem td0] same_buffer_ok refused(3) by blast
  then have mem': "memory_inv std (cn_db (flush_table env fi args T st))"
    unfolding refused(4) by (intro memory_inv_put [OF mem]) (simp add: SetTableData_def)
  have "covered (flush_table env fi args T st)"
    by (rule covered_extend [of st "[]" _ T])
      (use inv refused td0 in \<open>auto simp: system_inv_def buffered_put SetTableData_def\<close>)
  moreover have "recorded (flush_table env fi args T st)"
    using inv refused td0
    by (auto simp: system_inv_def recorded_def buffered_put SetTableData_def same_buffer_def)
  ultimately show ?thesis using inv mem' refused(5) by (simp add: system_inv_def)
next
  case (uncommitted table td0 td td' es)
  have td0: "buffered T (cn_db st) = Some td0" using uncommitted by (simp add: buffered_def)
  have mem: "memory_inv std (cn_db st)" using inv by (simp add: system_inv_def)
  have "table_ok std td'" using memory_inv_buffered [OF mem td0] same_buffer_ok uncommitted(4) by blast
  then have mem': "memory_inv std (cn_db (flush_table env fi args T st))"
    unfolding uncommitted(6) by (intro memory_inv_put [OF mem]) (simp add: SetTableData_def)
  show ?thesis
    by (rule system_inv_merged [OF inv td0 uncommitted(3,5,7) mem'])
      (use uncommitted in \<open>auto simp: buffered_put SetTableData_def\<close>)
next
  case (flushed table td0 td t' es)
  have td0: "buffered T (cn_db st) = Some td0" using flushed by (simp add: buffered_def)
  have "memory_inv std (cn_db (flush_table env fi args T st))"
    using inv flushed(5,6) by (auto simp: system_inv_def memory_inv_def)
  then show ?thesis
    by (rule system_inv_merged [OF inv td0 flushed(3,4,7)])
      (use flushed(5,6) in \<open>auto simp: buffered_def\<close>)
qed

end

sublocale destination_contract \<subseteq> flush: step_invariant "flush_table env fi args" "system_inv std"
  for fi args std
  by unfold_locales (rule system_inv_flush_table)

section \<open>Saving and processing keep the invariant\<close>

lemma holds_saved:
  assumes "td = saved_table std cfg tc msg e cols td0"
  shows "holds td (PrimaryKeyValue std e) (sanitized (ev_Data e))"
    and "holds td0 key r \<Longrightarrow> holds td key r"
proof -
  have keys: "td_mode td0 \<noteq> History \<Longrightarrow> gm_get (td_rowsData td) k \<noteq> None \<longleftrightarrow>
      k = PrimaryKeyValue std e \<or> gm_get (td_rowsData td0) k \<noteq> None" for k
    unfolding assms by (auto simp: saved_table_def InsertRow_rowsData SetInMemoryColumns_def)
  show "holds td (PrimaryKeyValue std e) (sanitized (ev_Data e))"
    using keys by (auto simp: holds_def assms saved_table_rows simp del: not_None_eq)
  show "holds td0 key r \<Longrightarrow> holds td key r"
    using keys by (auto simp: holds_def assms saved_table_rows simp del: not_None_eq split: if_splits)
qed

lemma record_message_set:
  "m \<in> set (concat (map snd (record_message msg parts))) \<Longrightarrow>
     m = msg \<or> m \<in> set (concat (map snd parts))"
proof -
  have put: "(p, ms) \<in> set (gm_put k v parts) \<Longrightarrow> (p, ms) = (k, v) \<or> (p, ms) \<in> set parts"
    for p ms k and v :: "Message list"
    unfolding gm_put_def by (induction parts) (auto split: if_splits)
  assume "m \<in> set (concat (map snd (record_message msg parts)))"
  then obtain p ms where pm: "(p, ms) \<in> set (record_message msg parts)" "m \<in> set ms" by force
  show ?thesis
  proof (cases "Message_Kind_of msg = KafkaMessage")
    case True
    with pm put show ?thesis by (fastforce simp: record_message_def Let_def)
  next
    case False
    with pm(1) put have "(p, ms) \<in> set parts \<or> ms = (case gm_get parts (Message_Partition msg) of
        None \<Rightarrow> [] | Some ms \<Rightarrow> ms) @ [msg]"
      by (fastforce simp: record_message_def Let_def)
    with pm(2) show ?thesis by (fastforce split: option.splits dest: gm_get_Some_mem)
  qed
qed

lemma messages_of_record:
  assumes "messages_of T tr (concat (map snd parts))"
  shows "messages_of T (tr @ [Saved T msg key r]) (concat (map snd (record_message msg parts)))"
  unfolding messages_of_def
proof
  fix m
  assume "m \<in> set (concat (map snd (record_message msg parts)))"
  then have "m = msg \<or> m \<in> set (concat (map snd parts))" by (rule record_message_set)
  with assms show "\<exists>key' r'. Saved T m key' r' \<in> set (tr @ [Saved T msg key r])"
    unfolding messages_of_def set_append by (metis UnCI list.set_intros(1))
qed

lemma holds_save_table:
  "mt_data table = Some td0 \<Longrightarrow> holds (save_table cfg tc e table) key r \<longleftrightarrow> holds td0 key r"
  by (auto simp: save_table_def holds_def split: option.splits)

lemma system_inv_save_event:
  fixes st :: "'w consumer"
  assumes inv: "system_inv std st" and cols: "\<And>cols. ev_Columns e = Some cols \<Longrightarrow> columns_inv cols"
  shows "system_inv std (fst (save_event std cfg tc msg e st))"
proof (cases "IsValid e")
  case False
  with inv show ?thesis by (simp add: save_event_def Save_def)
next
  case True
  have mem: "memory_inv std (cn_db st)" using inv by (simp add: system_inv_def)
  from Save_cases [OF mem cols True] obtain db1 table cs
    where g: "GetOrCreateTableData (ev_Table e) (cn_db st) = (db1, table)"
    and s: "Save std cfg (Some tc) msg e (cn_db st) =
      (let td = saved_table std cfg tc msg e cs (save_table cfg tc e table)
       in (gm_put (ev_Table e) (SetTableData td table) db1, Ret (ShouldFlush cfg td)))"
    by metis
  define td where "td = saved_table std cfg tc msg e cs (save_table cfg tc e table)"
  define st' where "st' = fst (save_event std cfg tc msg e st)"
  let ?sv = "Saved (ev_Table e) msg (PrimaryKeyValue std e) (sanitized (ev_Data e))"
  have db': "cn_db st' = gm_put (ev_Table e) (SetTableData td table) db1"
    and tr: "cn_trace st' = cn_trace st @ [?sv]"
    by (simp_all add: st'_def save_event_def s td_def Let_def)
  have own: "buffered (ev_Table e) (cn_db st') = Some td"
    by (simp add: db' buffered_def SetTableData_def)
  have others: "T \<noteq> ev_Table e \<Longrightarrow> buffered T (cn_db st') = buffered T (cn_db st)" for T
    using GetOrCreate_other [OF g] by (simp add: db' buffered_def)
  note data = GetOrCreate_data [OF g]
  have "memory_inv std (cn_db st')"
    using memory_inv_Save [OF mem cols, of e cfg "Some tc" msg] s db' by (simp add: td_def Let_def)
  moreover have "covered st'"
    unfolding covered_def tr split_snoc
  proof (intro allI impI, elim disjE conjE exE)
    fix a T m key r b
    assume "Saved T m key r = ?sv"
    with own holds_saved(1) [OF td_def] show "(\<exists>td. Merged T td \<in> set b \<and> holds td key r)
        \<or> (\<exists>td. buffered T (cn_db st') = Some td \<and> holds td key r)" by auto
  next
    fix a T m key r b b'
    assume b: "b = b' @ [?sv]" and old: "cn_trace st = a @ Saved T m key r # b'"
    from inv old consider (merged) td1 where "Merged T td1 \<in> set b'" "holds td1 key r"
      | (held) td0 where "buffered T (cn_db st) = Some td0" "holds td0 key r"
      unfolding system_inv_def covered_def by blast
    then show "(\<exists>td. Merged T td \<in> set b \<and> holds td key r)
        \<or> (\<exists>td. buffered T (cn_db st') = Some td \<and> holds td key r)"
    proof cases
      case merged
      with b show ?thesis by auto
    next
      case held
      then show ?thesis
        using own others holds_saved(2) [OF td_def] holds_save_table data
        by (cases "T = ev_Table e") auto
    qed
  qed
  moreover have "recorded st'"
    unfolding recorded_def
  proof (intro allI impI)
    fix T td1
    assume td1: "buffered T (cn_db st') = Some td1"
    show "messages_of T (cn_trace st') (concat (map snd (td_PartitionsToLastMessage td1)))"
    proof (cases "T = ev_Table e")
      case False
      with td1 others inv show ?thesis
        unfolding tr by (intro messages_of_mono) (auto simp: system_inv_def recorded_def)
    next
      case True
      with td1 own have "td1 = td" by simp
      then have "td_PartitionsToLastMessage td1 = record_message msg
          (case buffered T (cn_db st) of None \<Rightarrow> [] | Some t \<Rightarrow> td_PartitionsToLastMessage t)"
        by (simp add: td_def saved_table_rows save_table_rows data True)
      moreover have "messages_of T (cn_trace st) (concat (map snd
          (case buffered T (cn_db st) of None \<Rightarrow> [] | Some t \<Rightarrow> td_PartitionsToLastMessage t)))"
        using inv unfolding system_inv_def recorded_def
        by (cases "buffered T (cn_db st)") (simp_all add: messages_of_def)
      ultimately show ?thesis
        unfolding tr using True messages_of_record by simp
    qed
  qed
  moreover have "one_table tbl (cn_trace st') \<Longrightarrow> commits_safe (cn_trace st')" for tbl
    using inv by (auto simp: tr one_table_append commits_safe_snoc system_inv_def)
  moreover have "acks_safe (cn_trace st')"
    using inv by (auto simp: tr acks_safe_snoc system_inv_def)
  ultimately show ?thesis by (simp add: system_inv_def st'_def)
qed

lemma system_inv_crash [simp]: "system_inv std (st\<lparr>cn_crashed := b\<rparr>) = system_inv std st"
  by (simp add: system_inv_def covered_def recorded_def)

context destination_contract
begin

lemma system_inv_Flush: "system_inv std st \<Longrightarrow> system_inv std (fst (Flush env fi args st))"
  by (simp add: Flush_def Let_def flush.inv_run)

lemma system_inv_process:
  assumes "system_inv std st"
  shows "system_inv std (fst (process std dec now fi env cfg fmtMap msg st))"
proof -
  have save: "system_inv std st1"
    if "save_event std cfg tc msg (ToMemoryEvent std now p pkMap tc m) st = (st1, r)" for tc p pkMap m st1 r
    using system_inv_save_event [OF assms, of "ToMemoryEvent std now p pkMap tc m" cfg tc msg]
      ToMemoryEvent_columns_inv that by (metis fst_conv)
  have flush: "system_inv std st2" if "system_inv std st1" "Flush env fi args st1 = (st2, r)" for st1 st2 args r
    using system_inv_Flush [OF that(1)] that(2) by (metis fst_conv)
  show ?thesis
    using assms save flush [OF save]
    by (auto simp: process_def Let_def split: option.splits outcome.splits prod.splits bool.splits)
qed

lemma system_inv_step:
  "system_step std dec env cfg fmtMap st st' \<Longrightarrow> system_inv std st \<Longrightarrow> system_inv std st'"
  by (induction rule: system_step.induct)
    (auto simp: consume_def receive_def pool_tick_def system_inv_process system_inv_Flush)

lemma system_inv_reachable: "reachable std dec env cfg fmtMap st \<Longrightarrow> system_inv std st"
proof (induction rule: reachable.induct)
  case (reach_init w)
  show ?case
    by (simp add: system_inv_def memory_inv_def NewMemoryDB_def covered_def recorded_def buffered_def
        acks_safe_def commits_safe_def)
next
  case (reach_step st st')
  then show ?case using system_inv_step by blast
qed

end

section \<open>What a flush that succeeds does\<close>

definition message_effects :: "Message \<Rightarrow> effect list" where
  "message_effects m =
     (case KafkaMsg m of None \<Rightarrow> [] | Some km \<Rightarrow> [Committed km]) @
     (case PubSub m of None \<Rightarrow> [] | Some p \<Rightarrow> [Acked p])"

lemma commit_messages_all:
  assumes "\<And>km w. snd (en_Commit env topic km w) = None"
    and "TopicToConsumer_Get (en_topicToConsumer env) topic = Some u"
  shows "\<exists>w'. commit_messages env topic ms (w, tr) = ((w', tr @ concat (map message_effects ms)), Ret ())"
proof (induction ms arbitrary: w tr)
  case Nil
  then show ?case by simp
next
  case (Cons m ms)
  have "\<exists>w1. commit_messages env topic (m # ms) (w, tr) =
      commit_messages env topic ms (w1, tr @ message_effects m)"
  proof (cases "KafkaMsg m")
    case None
    then show ?thesis by (simp add: message_effects_def) blast
  next
    case (Some km)
    obtain w1 where "en_Commit env topic km w = (w1, None)"
      using assms(1) [of km w] by (metis prod.collapse)
    with Some assms(2) show ?thesis by (simp add: message_effects_def) blast
  qed
  with Cons.IH show ?case by (metis append_assoc concat.simps(2) list.simps(9))
qed

lemma save_event_outcome:
  assumes "memory_inv std (cn_db st)" and "\<And>cols. ev_Columns e = Some cols \<Longrightarrow> columns_inv cols"
  shows "save_event std cfg tc msg e st = (st, Err (errorf ''event not valid'')) \<and> \<not> IsValid e
    \<or> (\<exists>st1 x. save_event std cfg tc msg e st = (st1, Ret x)
        \<and> gm_get (cn_db st1) (ev_Table e) \<noteq> None \<and> ev_Table e \<noteq> [])"
proof (cases "IsValid e")
  case False
  then show ?thesis by (simp add: save_event_def Save_def)
next
  case True
  then have ne: "ev_Table e \<noteq> []" by (auto simp: IsValid_def split: if_splits)
  from Save_cases [OF assms True] obtain db1 table cs
    where "Save std cfg (Some tc) msg e (cn_db st) =
      (let td = saved_table std cfg tc msg e cs (save_table cfg tc e table)
       in (gm_put (ev_Table e) (SetTableData td table) db1, Ret (ShouldFlush cfg td)))"
    by metis
  with ne show ?thesis by (auto simp: save_event_def Let_def)
qed

text \<open>
  A flush of \<open>T\<close> that nothing refuses: the table is not cooling down, the destination accepts its
  batch whatever state it is in, and the broker accepts every commit on the batch's topic.
\<close>

definition accepted ::
  "'w environment \<Rightarrow> flush_inputs \<Rightarrow> Flush_Args \<Rightarrow> DatabaseData \<Rightarrow> string \<Rightarrow> bool" where
  "accepted env fi args db T \<longleftrightarrow>
     (\<forall>table td0. gm_get db T = Some table \<longrightarrow> mt_data table = Some td0 \<longrightarrow>
        \<not> (case CoolDown args of None \<Rightarrow> False | Some cd \<Rightarrow> ShouldSkipFlush (fi_check fi T) cd table)
        \<and> (\<forall>w. \<exists>w' td'.
             (let td = ResetTempTableSuffix (fi_rand fi T) td0
              in (if td_mode td = History then en_Append env else en_Merge env) td w) = (w', td', Ret ())
             \<and> TopicToConsumer_Get (en_topicToConsumer env) (tc_Topic (td_TopicConfig td')) \<noteq> None
             \<and> (\<forall>km w. snd (en_Commit env (tc_Topic (td_TopicConfig td')) km w) = None)))"

lemma flush_table_done:
  assumes "\<not> cn_crashed st" and "gm_get (cn_db st) T = Some table" and "mt_data table = Some td0"
    and "\<not> (case CoolDown args of None \<Rightarrow> False | Some cd \<Rightarrow> ShouldSkipFlush (fi_check fi T) cd table)"
    and "td = ResetTempTableSuffix (fi_rand fi T) td0"
    and "(if td_mode td = History then en_Append env else en_Merge env) td (cn_world st) = (w, td', Ret ())"
    and "TopicToConsumer_Get (en_topicToConsumer env) (tc_Topic (td_TopicConfig td')) = Some u"
    and "\<And>km w. snd (en_Commit env (tc_Topic (td_TopicConfig td')) km w) = None"
    and "st' = flush_table env fi args T st"
  shows "buffered T (cn_db st') = None \<and> \<not> cn_crashed st'
    \<and> cn_trace st' = cn_trace st @ [Merged T td] @
        concat (map message_effects (concat (map snd (td_PartitionsToLastMessage td'))))
    \<and> (\<forall>n. n \<noteq> T \<longrightarrow> gm_get (cn_db st') n = gm_get (cn_db st) n)"
proof -
  let ?ms = "concat (map snd (td_PartitionsToLastMessage td'))"
  obtain w' where c: "commit_messages env (tc_Topic (td_TopicConfig td')) ?ms (w, cn_trace st @ [Merged T td]) =
      ((w', (cn_trace st @ [Merged T td]) @ concat (map message_effects ?ms)), Ret ())"
    using commit_messages_all [OF assms(8,7)] by blast
  have "st' = st\<lparr>cn_world := w', cn_trace := (cn_trace st @ [Merged T td]) @ concat (map message_effects ?ms),
      cn_db := gm_put T (Wipe (fi_wipe fi T) (SetTableData td' table)) (gm_put T (SetTableData td' table) (cn_db st))\<rparr>"
    using assms(1-4) assms(6) c
    by (simp add: assms(9) flush_table_def Let_def assms(5) [symmetric] commitOffset_def ClearTableConfig_def)
  then show ?thesis using assms(1) by (simp add: buffered_def Wipe_def)
qed

lemma flush_table_accepted:
  assumes "\<not> cn_crashed st" and "accepted env fi args (cn_db st) T"
  shows "buffered T (cn_db (flush_table env fi args T st)) = None \<and> \<not> cn_crashed (flush_table env fi args T st)
    \<and> (\<forall>n. n \<noteq> T \<longrightarrow> gm_get (cn_db (flush_table env fi args T st)) n = gm_get (cn_db st) n)"
proof (cases "buffered T (cn_db st)")
  case None
  then have "flush_table env fi args T st = st"
    by (auto simp: flush_table_def buffered_def split: option.splits)
  with assms(1) None show ?thesis by simp
next
  case (Some td0)
  then obtain table where t: "gm_get (cn_db st) T = Some table" "mt_data table = Some td0"
    by (auto simp: buffered_def bind_eq_Some_conv)
  let ?td = "ResetTempTableSuffix (fi_rand fi T) td0"
  from assms(2) t obtain w' td' u
    where "\<not> (case CoolDown args of None \<Rightarrow> False | Some cd \<Rightarrow> ShouldSkipFlush (fi_check fi T) cd table)"
      and "(if td_mode ?td = History then en_Append env else en_Merge env) ?td (cn_world st) = (w', td', Ret ())"
      and "TopicToConsumer_Get (en_topicToConsumer env) (tc_Topic (td_TopicConfig td')) = Some u"
      and "\<And>km w. snd (en_Commit env (tc_Topic (td_TopicConfig td')) km w) = None"
    unfolding accepted_def Let_def by blast
  from flush_table_done [OF assms(1) t this(1) refl this(2-4) refl] show ?thesis by blast
qed

lemma accepted_cong: "gm_get db' T = gm_get db T \<Longrightarrow> accepted env fi args db' T = accepted env fi args db T"
  by (simp add: accepted_def)

lemma flush_tables_accepted:
  assumes "distinct Ts" and "\<not> cn_crashed st" and "\<And>T. T \<in> set Ts \<Longrightarrow> accepted env fi args (cn_db st) T"
  shows "\<not> cn_crashed (fold (flush_table env fi args) Ts st)
    \<and> (\<forall>T. buffered T (cn_db (fold (flush_table env fi args) Ts st)) =
        (if T \<in> set Ts then None else buffered T (cn_db st)))"
  using assms
proof (induction Ts arbitrary: st)
  case Nil
  then show ?case by simp
next
  case (Cons T Ts)
  let ?st = "flush_table env fi args T st"
  have one: "buffered T (cn_db ?st) = None" "\<not> cn_crashed ?st"
    and rest: "\<And>n. n \<noteq> T \<Longrightarrow> gm_get (cn_db ?st) n = gm_get (cn_db st) n"
    using flush_table_accepted [OF Cons.prems(2), of env fi args T] Cons.prems(3) by simp_all
  have "accepted env fi args (cn_db ?st) T'" if "T' \<in> set Ts" for T'
  proof -
    have "T' \<noteq> T" using that Cons.prems(1) by auto
    from accepted_cong [OF rest [OF this], of env fi args] Cons.prems(3) [of T'] that show ?thesis by simp
  qed
  from Cons.IH [OF _ one(2) this] Cons.prems(1) one(1) rest show ?case
    by (auto simp: buffered_def)
qed

section \<open>Properties\<close>

text \<open>
  C7. When the destination accepts a batch and the broker accepts every commit, flushing the table
  empties its buffer, hands over exactly one batch, then commits or acknowledges every message that
  was recorded for the table, in order and nothing else, and leaves every other table alone.
\<close>

theorem flush_table_success:
  fixes env :: "'w environment"
  assumes "\<not> cn_crashed st" and "gm_get (cn_db st) T = Some table" and "mt_data table = Some td0"
    and "\<not> (case CoolDown args of None \<Rightarrow> False | Some cd \<Rightarrow> ShouldSkipFlush (fi_check fi T) cd table)"
    and "td = ResetTempTableSuffix (fi_rand fi T) td0"
    and "(if td_mode td = History then en_Append env else en_Merge env) td (cn_world st) = (w, td', Ret ())"
    and "TopicToConsumer_Get (en_topicToConsumer env) (tc_Topic (td_TopicConfig td')) = Some u"
    and "\<And>km w. snd (en_Commit env (tc_Topic (td_TopicConfig td')) km w) = None"
    and "st' = flush_table env fi args T st"
  shows "buffered T (cn_db st') = None \<and> \<not> cn_crashed st'
    \<and> cn_trace st' = cn_trace st @ [Merged T td] @
        concat (map message_effects (concat (map snd (td_PartitionsToLastMessage td'))))
    \<and> (\<forall>n. n \<noteq> T \<longrightarrow> gm_get (cn_db st') n = gm_get (cn_db st) n)"
  using assms by (rule flush_table_done)

definition sample_env :: "unit environment" where
  "sample_env =
     \<lparr>en_Merge = (\<lambda>td w. (w, td, Ret ())), en_Append = (\<lambda>td w. (w, td, Ret ())),
      en_Commit = (\<lambda>t km w. (w, None)), en_topicToConsumer = [(''orders'', ())]\<rparr>"

definition sample_flush_inputs :: flush_inputs where
  "sample_flush_inputs = \<lparr>fi_check = (\<lambda>_. zero_time), fi_wipe = (\<lambda>_. zero_time), fi_rand = (\<lambda>_. [])\<rparr>"

definition sample_full :: "unit consumer" where
  "sample_full =
     \<lparr>cn_db = [(''orders'', \<lparr>mt_data = Some (sample_table\<lparr>td_PartitionsToLastMessage := [(''0'', [sample_message 7])]\<rparr>),
        mt_lastFlushTime = zero_time\<rparr>)], cn_world = (), cn_trace = [], cn_crashed = False\<rparr>"

theorem flush_table_success_witness:
  "buffered ''orders'' (cn_db (flush_table sample_env sample_flush_inputs
     \<lparr>CoolDown = None, SpecificTable = [], Reason = []\<rparr> ''orders'' sample_full)) = None"
proof -
  let ?saved = "sample_table\<lparr>td_PartitionsToLastMessage := [(''0'', [sample_message 7])]\<rparr>"
  let ?td = "ResetTempTableSuffix (fi_rand sample_flush_inputs ''orders'') ?saved"
  let ?args = "\<lparr>CoolDown = None, SpecificTable = [], Reason = []\<rparr>"
  have merged: "(if td_mode ?td = History then en_Append sample_env else en_Merge sample_env) ?td (cn_world sample_full)
      = ((), ?td, Ret ())" by (simp add: sample_env_def)
  have found: "TopicToConsumer_Get (en_topicToConsumer sample_env) (tc_Topic (td_TopicConfig ?td)) = Some ()"
    by (simp add: TopicToConsumer_Get_def sample_env_def gm_get_def ResetTempTableSuffix_def sample_table_def
        NewTableData_def sample_topic_def)
  have committed: "snd (en_Commit sample_env (tc_Topic (td_TopicConfig ?td)) km w) = None" for km w
    by (simp add: sample_env_def)
  have running: "\<not> cn_crashed sample_full" by (simp add: sample_full_def)
  have table: "gm_get (cn_db sample_full) ''orders'' = Some \<lparr>mt_data = Some ?saved, mt_lastFlushTime = zero_time\<rparr>"
    by (simp add: sample_full_def gm_get_def)
  have data: "mt_data \<lparr>mt_data = Some ?saved, mt_lastFlushTime = zero_time\<rparr> = Some ?saved" by simp
  have cool: "\<not> (case CoolDown ?args of None \<Rightarrow> False
      | Some cd \<Rightarrow> ShouldSkipFlush (fi_check sample_flush_inputs ''orders'') cd
          \<lparr>mt_data = Some ?saved, mt_lastFlushTime = zero_time\<rparr>)" by simp
  from flush_table_success [OF running table data cool refl merged found committed refl] show ?thesis by blast
qed

text \<open>
  C6. Nothing stays buffered when nothing is refused: a tick of the timer whose every flush is
  accepted leaves every table of the database empty and the process running.
\<close>

theorem pool_tick_drains:
  assumes "\<not> cn_crashed st" and "gm_wf (cn_db st)"
    and "\<And>T. accepted env fi \<lparr>CoolDown = Some interval, SpecificTable = [], Reason = ''time''\<rparr> (cn_db st) T"
  shows "buffered T (cn_db (pool_tick env fi interval st)) = None \<and> \<not> cn_crashed (pool_tick env fi interval st)"
proof -
  let ?args = "\<lparr>CoolDown = Some interval, SpecificTable = [], Reason = ''time''\<rparr>"
  have tick: "pool_tick env fi interval st = fold (flush_table env fi ?args) (map fst (cn_db st)) st"
    by (simp add: pool_tick_def Flush_def)
  have "distinct (map fst (cn_db st))" using assms(2) by (simp add: gm_wf_def)
  from flush_tables_accepted [OF this assms(1) assms(3)]
  have "\<not> cn_crashed (pool_tick env fi interval st)"
    "buffered T (cn_db (pool_tick env fi interval st)) =
      (if T \<in> fst ` set (cn_db st) then None else buffered T (cn_db st))"
    unfolding tick by simp_all
  moreover have "T \<notin> fst ` set (cn_db st) \<Longrightarrow> buffered T (cn_db st) = None"
    by (simp add: buffered_def gm_get_None_iff [THEN iffD2])
  ultimately show ?thesis by simp
qed

theorem pool_tick_drains_witness:
  "buffered ''orders'' (cn_db sample_full) \<noteq> None
     \<and> buffered ''orders'' (cn_db (pool_tick sample_env sample_flush_inputs 0 sample_full)) = None"
proof -
  have running: "\<not> cn_crashed sample_full" by (simp add: sample_full_def)
  have wf: "gm_wf (cn_db sample_full)" by (simp add: sample_full_def gm_wf_def)
  have "accepted sample_env sample_flush_inputs
      \<lparr>CoolDown = Some 0, SpecificTable = [], Reason = ''time''\<rparr> (cn_db sample_full) T" for T
    by (auto simp: accepted_def sample_full_def gm_get_def sample_env_def TopicToConsumer_Get_def
        ResetTempTableSuffix_def sample_table_def NewTableData_def sample_topic_def ShouldSkipFlush_def
        sample_flush_inputs_def Let_def time_Since_def max_int64_def)
  from pool_tick_drains [OF running wf this] show ?thesis
    by (simp add: sample_full_def buffered_def gm_get_def)
qed

text \<open>
  C38. A message that cannot be processed leaves no trace: when processing ends in an error, the
  in-memory database, the effects and the rest of the state are what they were before.
\<close>

theorem failed_message_inert:
  assumes "memory_inv std (cn_db st)"
    and "process std dec now fi env cfg fmtMap msg st = (st', Err e)"
  shows "st' = st"
proof -
  have flush_ok: "\<exists>st2. Flush env fi \<lparr>CoolDown = None, SpecificTable = T, Reason = r\<rparr> st1 = (st2, Ret ())"
    if "gm_get (cn_db st1) T \<noteq> None" for T r st1
    using that by (auto simp: Flush_def Let_def gm_get_None_iff)
  show ?thesis
  proof (cases "\<exists>fm tc fmt pkMap p. fmtMap = Some fm \<and> GetTopicFmt fm (Message_Topic msg) = Some (tc, fmt)
      \<and> GetPrimaryKey std dec fmt (Message_Key msg) tc = Ret pkMap
      \<and> GetEventFromBytes std dec fmt (cfg_TypingSettings cfg) (Message_Value msg) = Ret p
      \<and> TopicConfig_ShouldSkip tc (Event_Operation p) = Ret False")
    case False
    then show ?thesis using assms(2)
      by (auto simp: process_def Let_def split: option.splits outcome.splits prod.splits bool.splits)
  next
    case True
    then obtain fm tc fmt pkMap p where c: "fmtMap = Some fm" "GetTopicFmt fm (Message_Topic msg) = Some (tc, fmt)"
      "GetPrimaryKey std dec fmt (Message_Key msg) tc = Ret pkMap"
      "GetEventFromBytes std dec fmt (cfg_TypingSettings cfg) (Message_Value msg) = Ret p"
      "TopicConfig_ShouldSkip tc (Event_Operation p) = Ret False" by blast
    let ?e = "ToMemoryEvent std now p pkMap tc (cfg_Mode cfg)"
    from save_event_outcome [OF assms(1), of ?e cfg tc msg] ToMemoryEvent_columns_inv
    consider (bad) "save_event std cfg tc msg ?e st = (st, Err (errorf ''event not valid''))"
      | (ok) st1 b rsn where "save_event std cfg tc msg ?e st = (st1, Ret (b, rsn))"
          "gm_get (cn_db st1) (ev_Table ?e) \<noteq> None"
      by (metis surj_pair)
    then show ?thesis
    proof cases
      case bad
      with c assms(2) show ?thesis by (simp add: process_def Let_def)
    next
      case ok
      with c assms(2) flush_ok [OF ok(2), of rsn] show ?thesis
        by (auto simp: process_def Let_def split: if_splits)
    qed
  qed
qed

definition no_bson :: bsonlib where
  "no_bson =
     \<lparr>bl_UnmarshalExtJSON = (\<lambda>s. Err (errorf [])), bl_MarshalExtJSONWithRegistry = (\<lambda>r d. Err (errorf [])),
      bl_Decimal128_String = (\<lambda>h l. []), bl_ObjectID_Hex = (\<lambda>b. []), bl_uuid_FromBytes = (\<lambda>b. Err (errorf []))\<rparr>"

definition no_decoders :: decoders where
  "no_decoders =
     \<lparr>dec_relational = (\<lambda>b. Err (errorf [])), dec_mongo = (\<lambda>b. Err (errorf [])),
      dec_bson = no_bson, enc_extjson = (\<lambda>r. Err (errorf []))\<rparr>"

theorem failed_message_inert_witness:
  "fst (process sample_std no_decoders zero_time sample_flush_inputs sample_env sample_config None (sample_message 7)
     (sample_full\<lparr>cn_db := NewMemoryDB\<rparr>)) = sample_full\<lparr>cn_db := NewMemoryDB\<rparr>"
proof -
  let ?st = "sample_full\<lparr>cn_db := NewMemoryDB\<rparr>"
  obtain st' e where p: "process sample_std no_decoders zero_time sample_flush_inputs sample_env sample_config None
      (sample_message 7) ?st = (st', Err e)" by (simp add: process_def)
  have "memory_inv sample_std (cn_db ?st)" by (simp add: memory_inv_def NewMemoryDB_def)
  from failed_message_inert [OF this p] p show ?thesis by simp
qed

end
