(* ===== verification/Replay.thy ===== *)
theory Replay
  imports Consumer
begin

text \<open>
  What a batch contains. A batch that is handed to a destination is the replay, in order, of the rows
  saved for its table since some point before which everything was merged: in history mode the rows
  themselves, in replication mode the abstract writes of \<open>TableData\<close>. The lemmas extend the
  invariant of \<open>Consumer\<close> by this fact, inside the interface \<open>destination_contract\<close>.
\<close>

section \<open>The rows saved for a table\<close>

fun saves :: "string \<Rightarrow> effect list \<Rightarrow> (string \<times> row) list" where
  "saves T [] = []"
| "saves T (Saved T' m key r # tr) = (if T' = T then (key, r) # saves T tr else saves T tr)"
| "saves T (e # tr) = saves T tr"

definition replay :: "(string \<times> row) list \<Rightarrow> string \<Rightarrow> (string \<Rightarrow> val option) option" where
  "replay ss = fold (\<lambda>(key, r). write_spec key (gm_get r)) ss (\<lambda>_. None)"

definition replays :: "TableData \<Rightarrow> (string \<times> row) list \<Rightarrow> bool" where
  "replays td ss \<longleftrightarrow> (if td_mode td = History then td_rows td = map snd ss else abs_rows td = replay ss)"

definition batch_of :: "effect list \<Rightarrow> string \<Rightarrow> TableData \<Rightarrow> bool" where
  "batch_of tr T td \<longleftrightarrow> (\<exists>a b. tr = a @ b \<and> all_merged T a \<and> replays td (saves T b))"

definition replayed :: "'w consumer \<Rightarrow> bool" where
  "replayed st \<longleftrightarrow>
     (\<forall>T td. buffered T (cn_db st) = Some td \<longrightarrow> batch_of (cn_trace st) T td)
     \<and> (\<forall>pre T td post. cn_trace st = pre @ Merged T td # post \<longrightarrow> batch_of pre T td)"

definition replay_inv :: "gostd \<Rightarrow> 'w consumer \<Rightarrow> bool" where
  "replay_inv std st \<longleftrightarrow> system_inv std st \<and> replayed st"

lemma saves_append [simp]: "saves T (xs @ ys) = saves T xs @ saves T ys"
  by (induction T xs rule: saves.induct) auto

lemma saves_none: "\<forall>e\<in>set es. \<not> is_saved e \<Longrightarrow> saves T es = []"
  by (induction T es rule: saves.induct) auto

lemma replay_snoc: "replay (ss @ [(key, r)]) = write_spec key (gm_get r) (replay ss)"
  by (simp add: replay_def)

lemma batch_of_extend: "saves T es = [] \<Longrightarrow> batch_of tr T td \<Longrightarrow> batch_of (tr @ es) T td"
  unfolding batch_of_def by (metis append.assoc append_Nil2 saves_append)

lemma batch_of_same: "same_buffer td td' \<Longrightarrow> batch_of tr T td \<Longrightarrow> batch_of tr T td'"
  unfolding batch_of_def replays_def same_buffer_def by (metis abs_rows_cong)

lemma batch_of_saved:
  assumes "batch_of tr T td"
    and "td_mode td' = td_mode td"
    and "td_mode td = History \<Longrightarrow> td_rows td' = td_rows td @ [r]"
    and "td_mode td \<noteq> History \<Longrightarrow> abs_rows td' = write_spec key (gm_get r) (abs_rows td)"
  shows "batch_of (tr @ [Saved T m key r]) T td'"
proof -
  from assms(1) obtain a b where "tr = a @ b" "all_merged T a" "replays td (saves T b)"
    unfolding batch_of_def by blast
  moreover from this(3) assms(2-4) have "replays td' (saves T (b @ [Saved T m key r]))"
    by (auto simp: replays_def replay_snoc)
  ultimately show ?thesis unfolding batch_of_def by (metis append.assoc)
qed

lemma merged_split:
  assumes "pre @ Merged T' td' # post = tr @ Merged T td # es" and "\<forall>e\<in>set es. from_messages ms e"
  shows "(pre = tr \<and> T' = T \<and> td' = td) \<or> (\<exists>post'. tr = pre @ Merged T' td' # post')"
proof -
  from assms(1) consider us where "pre = tr @ us" "us @ Merged T' td' # post = Merged T td # es"
    | us where "pre @ us = tr" "Merged T' td' # post = us @ Merged T td # es"
    unfolding append_eq_append_conv2 by blast
  then show ?thesis
  proof cases
    case 1
    with assms(2) show ?thesis by (cases us) (auto simp: from_messages_def)
  next
    case 2
    then show ?thesis by (cases us) auto
  qed
qed

section \<open>Every step keeps it\<close>

lemma replayed_merged:
  fixes st st' :: "'w consumer"
  assumes rep: "replayed st" and td0: "buffered T (cn_db st) = Some td0" and sb: "same_buffer td0 td"
    and es: "\<forall>e\<in>set es. from_messages ms e"
    and tr: "cn_trace st' = (cn_trace st @ [Merged T td]) @ es"
    and others: "\<And>T'. T' \<noteq> T \<Longrightarrow> buffered T' (cn_db st') = buffered T' (cn_db st)"
    and own: "\<And>td'. buffered T (cn_db st') = Some td' \<Longrightarrow> same_buffer td0 td'"
  shows "replayed st'"
proof -
  have none: "saves T' (Merged T td # es) = []" for T'
    by (rule saves_none) (use es in \<open>auto simp: from_messages_def\<close>)
  have old: "batch_of (cn_trace st) T td0" using rep td0 by (simp add: replayed_def)
  have "batch_of (cn_trace st') T' td'" if "buffered T' (cn_db st') = Some td'" for T' td'
  proof -
    have "batch_of (cn_trace st) T' td'"
    proof (cases "T' = T")
      case True
      with own that have "same_buffer td0 td'" by simp
      from batch_of_same [OF this old] True show ?thesis by simp
    next
      case False
      with others that rep show ?thesis by (simp add: replayed_def)
    qed
    from batch_of_extend [OF none this] tr show ?thesis by simp
  qed
  moreover have "batch_of pre T' td'" if "cn_trace st' = pre @ Merged T' td' # post" for pre T' td' post
  proof -
    from that tr have "pre @ Merged T' td' # post = cn_trace st @ Merged T td # es" by simp
    from merged_split [OF this es] batch_of_same [OF sb old] rep show ?thesis
      by (auto simp: replayed_def)
  qed
  ultimately show ?thesis by (simp add: replayed_def)
qed

context destination_contract
begin

lemma replay_inv_flush_table:
  assumes "replay_inv std st"
  shows "replay_inv std (flush_table env fi args T st)"
proof -
  have rep: "replayed st" and inv: "system_inv std st" using assms by (simp_all add: replay_inv_def)
  have "replayed (flush_table env fi args T st)"
  proof (cases rule: flush_table_cases [of fi args T st])
    case same
    with rep show ?thesis by simp
  next
    case (refused table td0 td')
    have "batch_of (cn_trace st) T td0" using rep refused by (simp add: replayed_def buffered_def)
    from batch_of_same [OF refused(3) this] show ?thesis
      using rep by (auto simp: replayed_def refused(4,5) buffered_put SetTableData_def)
  next
    case (uncommitted table td0 td td' es)
    have "buffered T (cn_db st) = Some td0" using uncommitted by (simp add: buffered_def)
    from replayed_merged [OF rep this uncommitted(3,5,7)] show ?thesis
      using uncommitted by (auto simp: buffered_put SetTableData_def)
  next
    case (flushed table td0 td t' es)
    have "buffered T (cn_db st) = Some td0" using flushed by (simp add: buffered_def)
    from replayed_merged [OF rep this flushed(3,4,7)] show ?thesis
      using flushed(5,6) by (auto simp: buffered_def)
  qed
  with system_inv_flush_table [OF inv] show ?thesis by (simp add: replay_inv_def)
qed

end

sublocale destination_contract \<subseteq> batches: step_invariant "flush_table env fi args" "replay_inv std"
  for fi args std
  by unfold_locales (rule replay_inv_flush_table)

lemma covered_empty:
  "covered st \<Longrightarrow> buffered T (cn_db st) = None \<Longrightarrow> all_merged T (cn_trace st)"
  unfolding covered_def all_merged_def by fastforce

lemma replay_inv_save_event:
  fixes st :: "'w consumer"
  assumes "replay_inv std st" and cols: "\<And>cols. ev_Columns e = Some cols \<Longrightarrow> columns_inv cols"
  shows "replay_inv std (fst (save_event std cfg tc msg e st))"
proof -
  have inv: "system_inv std st" and rep: "replayed st" using assms by (simp_all add: replay_inv_def)
  have "replayed (fst (save_event std cfg tc msg e st))"
  proof (cases "IsValid e")
    case False
    with rep show ?thesis by (simp add: save_event_def Save_def)
  next
    case True
    have mem: "memory_inv std (cn_db st)" using inv by (simp add: system_inv_def)
    from Save_cases [OF mem cols True] obtain db1 table cs
      where g: "GetOrCreateTableData (ev_Table e) (cn_db st) = (db1, table)"
      and s: "Save std cfg (Some tc) msg e (cn_db st) =
        (let td = saved_table std cfg tc msg e cs (save_table cfg tc e table)
         in (gm_put (ev_Table e) (SetTableData td table) db1, Ret (ShouldFlush cfg td)))"
      by metis
    let ?T = "ev_Table e"
    let ?td1 = "save_table cfg tc e table"
    let ?td = "saved_table std cfg tc msg e cs ?td1"
    let ?sv = "Saved ?T msg (PrimaryKeyValue std e) (sanitized (ev_Data e))"
    define st' where "st' = fst (save_event std cfg tc msg e st)"
    have db': "cn_db st' = gm_put ?T (SetTableData ?td table) db1" and tr: "cn_trace st' = cn_trace st @ [?sv]"
      by (simp_all add: st'_def save_event_def s Let_def)
    have others: "T \<noteq> ?T \<Longrightarrow> buffered T (cn_db st') = buffered T (cn_db st)" for T
      using GetOrCreate_other [OF g] by (simp add: db' buffered_def)
    have before: "batch_of (cn_trace st) ?T ?td1"
    proof (cases "buffered ?T (cn_db st)")
      case None
      have "all_merged ?T (cn_trace st)" using inv None covered_empty by (auto simp: system_inv_def)
      moreover have "replays ?td1 (saves ?T [])"
        by (simp add: replays_def replay_def save_table_rows GetOrCreate_data [OF g] None rows_before_def)
      ultimately show ?thesis unfolding batch_of_def by (metis append_Nil2)
    next
      case (Some td0)
      then have "batch_of (cn_trace st) ?T td0" using rep by (simp add: replayed_def)
      moreover have "td_mode ?td1 = td_mode td0" "td_rows ?td1 = td_rows td0" "abs_rows ?td1 = abs_rows td0"
        by (simp_all add: save_table_rows GetOrCreate_data [OF g] Some rows_before_def mode_of_def)
      ultimately show ?thesis unfolding batch_of_def replays_def by (simp only:)
    qed
    have own: "batch_of (cn_trace st') ?T ?td"
      unfolding tr by (rule batch_of_saved [OF before]) (simp_all add: saved_table_rows)
    have "batch_of (cn_trace st') T td" if "buffered T (cn_db st') = Some td" for T td
    proof (cases "T = ?T")
      case True
      with that own show ?thesis by (simp add: db' buffered_def SetTableData_def)
    next
      case False
      then have "saves T [?sv] = []" by simp
      from batch_of_extend [OF this] False that others rep show ?thesis by (simp add: tr replayed_def)
    qed
    moreover have "batch_of pre T td" if m: "cn_trace st' = pre @ Merged T td # post" for pre T td post
    proof -
      from m obtain post' where "cn_trace st = pre @ Merged T td # post'"
        unfolding tr by (cases post rule: rev_cases) auto
      with rep show ?thesis by (auto simp: replayed_def)
    qed
    ultimately show ?thesis by (simp add: replayed_def st'_def)
  qed
  with system_inv_save_event [OF inv cols] show ?thesis by (simp add: replay_inv_def)
qed

lemma replay_inv_crash [simp]: "replay_inv std (st\<lparr>cn_crashed := b\<rparr>) = replay_inv std st"
  by (simp add: replay_inv_def replayed_def)

context destination_contract
begin

lemma replay_inv_Flush: "replay_inv std st \<Longrightarrow> replay_inv std (fst (Flush env fi args st))"
  by (simp add: Flush_def Let_def batches.inv_run)

lemma replay_inv_process:
  assumes "replay_inv std st"
  shows "replay_inv std (fst (process std dec now fi env cfg fmtMap msg st))"
proof -
  have save: "replay_inv std st1"
    if "save_event std cfg tc msg (ToMemoryEvent std now p pkMap tc m) st = (st1, r)" for tc p pkMap m st1 r
    using replay_inv_save_event [OF assms, of "ToMemoryEvent std now p pkMap tc m" cfg tc msg]
      ToMemoryEvent_columns_inv that by (metis fst_conv)
  have flush: "replay_inv std st2" if "replay_inv std st1" "Flush env fi args st1 = (st2, r)" for st1 st2 args r
    using replay_inv_Flush [OF that(1)] that(2) by (metis fst_conv)
  show ?thesis
    using assms save flush [OF save]
    by (auto simp: process_def Let_def split: option.splits outcome.splits prod.splits bool.splits)
qed

lemma replay_inv_reachable: "reachable std dec env cfg fmtMap st \<Longrightarrow> replay_inv std st"
proof (induction rule: reachable.induct)
  case (reach_init w)
  have "system_inv std \<lparr>cn_db = NewMemoryDB, cn_world = w, cn_trace = [], cn_crashed = False\<rparr>"
    by (rule system_inv_reachable [OF reachable.reach_init])
  then show ?case by (simp add: replay_inv_def replayed_def NewMemoryDB_def buffered_def)
next
  case (reach_step st st')
  from reach_step(2,3) show ?case
    by (induction rule: system_step.induct)
      (auto simp: consume_def receive_def pool_tick_def replay_inv_process replay_inv_Flush)
qed

end

end
