(* ===== verification/Shared.thy ===== *)
theory Shared
  imports DDL DML Replay
begin

text \<open>
  What the warehouses share (\<^verbatim>\<open>clients/shared\<close>, \<^verbatim>\<open>lib/destination/dwh.go\<close>): reading a table's
  schema, merging and appending a batch, backfilling a column and sweeping old temporary tables.

  A warehouse is a record of the operations of the interface \<^verbatim>\<open>DataWarehouse\<close>; it is a parameter
  and the clients instantiate it. \<open>store_state\<close> holds the session and the cache of table configs.
  Go shares a table config by pointer with the cache, so the functions here put the config back
  under its name whenever they return. \<^verbatim>\<open>rows.Close\<close>, logging and sleeping are left out. Clock
  readings are inputs.
\<close>

section \<open>The warehouse interface\<close>

record AdditionalSettings =
  as_AdditionalCopyClause :: string

record 'w store_state =
  ss_session :: "'w session"
  ss_configMap :: DwhToTablesConfigMap

text \<open>
  A query returns its rows, or an error and no rows. A row that cannot be scanned is an error
  where it is scanned.
\<close>

type_synonym query_row = "(string \<times> val) list outcome"

record 'w store =
  so_dwh :: "'w dwh"
  so_Query :: "string \<Rightarrow> string list \<Rightarrow> 'w \<Rightarrow> 'w \<times> query_row list outcome"
  so_Begin :: "'w \<Rightarrow> 'w \<times> goerr option"
  so_TxExec :: "string \<Rightarrow> 'w \<Rightarrow> 'w \<times> goerr option"
  so_TxCommit :: "'w \<Rightarrow> 'w \<times> goerr option"
  so_IsRetryableError :: "goerr \<Rightarrow> bool"
  so_ToFullyQualifiedName :: "TableData \<Rightarrow> bool \<Rightarrow> string"
  so_GetTableConfig :: "TableData \<Rightarrow> 'w store_state \<Rightarrow> 'w store_state \<times> DwhTableConfig outcome"
  so_PrepareTemporaryTable :: "TableData \<Rightarrow> DwhTableConfig \<Rightarrow> string \<Rightarrow> AdditionalSettings \<Rightarrow> bool
    \<Rightarrow> 'w session \<Rightarrow> 'w session \<times> DwhTableConfig \<times> unit outcome"

definition so_Label :: "'w store \<Rightarrow> destination_kind" where
  "so_Label dw = dw_Label (so_dwh dw)"

definition query_sql ::
  "'w store \<Rightarrow> string \<Rightarrow> string list \<Rightarrow> 'w session \<Rightarrow> 'w session \<times> query_row list outcome" where
  "query_sql dw q args s =
     (case so_Query dw q args (db_state s) of (w, r) \<Rightarrow> (s\<lparr>db_state := w\<rparr>, r))"

definition tx_exec :: "'w store \<Rightarrow> string \<Rightarrow> 'w session \<Rightarrow> 'w session \<times> goerr option" where
  "tx_exec dw q s =
     (case so_TxExec dw q (db_state s) of
        (w, r) \<Rightarrow> (\<lparr>db_state = w, db_log = db_log s @ [q]\<rparr>, r))"

definition on_state :: "('w \<Rightarrow> 'w \<times> goerr option) \<Rightarrow> 'w session \<Rightarrow> 'w session \<times> goerr option" where
  "on_state f s = (case f (db_state s) of (w, r) \<Rightarrow> (s\<lparr>db_state := w\<rparr>, r))"

section \<open>Reading the schema of a table\<close>

definition SnowflakeTableDoesNotExistErr :: "goerr option \<Rightarrow> bool" where
  "SnowflakeTableDoesNotExistErr err =
     (case err of None \<Rightarrow> False
      | Some e \<Rightarrow> contains (err_msg e) ''does not exist or not authorized'')"

record GetTableCfgArgs =
  gt_FqName :: string
  gt_Query :: string
  gt_Args :: "string list"
  gt_ColumnNameLabel :: string
  gt_ColumnTypeLabel :: string
  gt_ColumnDescLabel :: string
  gt_EmptyCommentValue :: "string option"
  gt_DropDeletedColumns :: bool

definition ShouldParseComment :: "GetTableCfgArgs \<Rightarrow> string \<Rightarrow> bool" where
  "ShouldParseComment g comment =
     (if gt_EmptyCommentValue g \<noteq> None \<and> gt_EmptyCommentValue g = Some comment then False else True)"

definition StrPrecisionCol :: string where
  "StrPrecisionCol = ''character_maximum_length''"

text \<open>\<^verbatim>\<open>json.Unmarshal\<close> into a \<^verbatim>\<open>ColComment\<close>: its only field is the boolean \<^verbatim>\<open>backfilled\<close>.\<close>

definition unmarshal_ColComment :: "gostd \<Rightarrow> string \<Rightarrow> bool outcome" where
  "unmarshal_ColComment std comment =
     bind_out (go_json_unmarshal std comment) (\<lambda>v.
       (case v of
          VNil \<Rightarrow> Ret False
        | VMap m \<Rightarrow>
            (case gm_get m ''backfilled'' of
               None \<Rightarrow> Ret False
             | Some VNil \<Rightarrow> Ret False
             | Some (VBool b) \<Rightarrow> Ret b
             | Some _ \<Rightarrow> Err (errorf ''json: cannot unmarshal into Go struct field ColComment.backfilled of type bool''))
        | _ \<Rightarrow> Err (errorf ''json: cannot unmarshal into Go value of type constants.ColComment'')))"

definition describe_row :: "gostd \<Rightarrow> (string \<times> val) list \<Rightarrow> string gomap" where
  "describe_row std vals =
     foldl (\<lambda>m (name, v). gm_put (to_lower name) (to_lower (sprint std v)) m) [] vals"

definition row_field :: "string gomap \<Rightarrow> string \<Rightarrow> string" where
  "row_field r k = (case gm_get r k of None \<Rightarrow> [] | Some v \<Rightarrow> v)"

definition describe_column ::
  "gostd \<Rightarrow> destination_kind \<Rightarrow> GetTableCfgArgs \<Rightarrow> (string \<times> val) list \<Rightarrow> Column outcome" where
  "describe_column std label g vals =
     (let r = describe_row std vals
      in bind_out (wrap_out ''failed to get kind details: ''
                     (DwhTypeToKind label (row_field r (gt_ColumnTypeLabel g)) (row_field r StrPrecisionCol)))
           (\<lambda>kindDetails.
              (let col = NewColumn (row_field r (gt_ColumnNameLabel g)) kindDetails
               in case gm_get r (gt_ColumnDescLabel g) of
                    None \<Rightarrow> Ret col
                  | Some comment \<Rightarrow>
                      if ShouldParseComment g comment
                      then bind_out (wrap_out ''failed to unmarshal comment: '' (unmarshal_ColComment std comment))
                             (\<lambda>b. Ret (SetBackfilled b col))
                      else Ret col)))"

fun describe_columns ::
  "gostd \<Rightarrow> destination_kind \<Rightarrow> GetTableCfgArgs \<Rightarrow> query_row list \<Rightarrow> Columns \<Rightarrow> Columns outcome" where
  "describe_columns std label g [] cols = Ret cols"
| "describe_columns std label g (r # rs) cols =
     bind_out r (\<lambda>vals.
     bind_out (describe_column std label g vals) (\<lambda>col.
       describe_columns std label g rs (AddColumn col cols)))"

definition GetTableConfig ::
  "gostd \<Rightarrow> 'w store \<Rightarrow> GetTableCfgArgs \<Rightarrow> 'w store_state \<Rightarrow> 'w store_state \<times> DwhTableConfig outcome" where
  "GetTableConfig std dw g ss =
     (case TableConfig (ss_configMap ss) (gt_FqName g) of
        Some tc \<Rightarrow> (ss, Ret tc)
      | None \<Rightarrow>
          (case query_sql dw (gt_Query g) (gt_Args g) (ss_session ss) of
             (s, r) \<Rightarrow>
               (let ss1 = ss\<lparr>ss_session := s\<rparr>;
                    label = so_Label dw;
                    rows = (case r of
                        Ret rows \<Rightarrow> Ret rows
                      | Panic m \<Rightarrow> Panic m
                      | Err e \<Rightarrow>
                          if label = Snowflake
                          then (if SnowflakeTableDoesNotExistErr (Some e) then Ret []
                                else Err (wrapf (''failed to query '' @ show_destination label @ '', err: '') e
                                       ('', query: '' @ gt_Query g)))
                          else Err (wrapf (''failed to query '' @ show_destination label @ '', err: '') e []))
                in case bind_out rows (\<lambda>rs. describe_columns std label g rs []) of
                     Err e \<Rightarrow> (ss1, Err e)
                   | Panic m \<Rightarrow> (ss1, Panic m)
                   | Ret cols \<Rightarrow>
                       (let tc = NewDwhTableConfig cols [] (cols = []) (gt_DropDeletedColumns g)
                        in (ss1\<lparr>ss_configMap := AddTableToConfig (gt_FqName g) tc (ss_configMap ss1)\<rparr>,
                            Ret tc)))))"

section \<open>Backfilling a column\<close>

definition backfilled_comment :: string where
  \<open>backfilled_comment = ''{"backfilled": true}''\<close>

definition backfill_update_sql :: "string \<Rightarrow> string \<Rightarrow> string \<Rightarrow> destination_kind \<Rightarrow> string" where
  "backfill_update_sql fqTableName escapedCol defaultVal label =
     (let additionalEscapedCol =
            (if escapedCol = ''default'' \<and> label = Snowflake then [CHR 0x22] @ ''DEFAULT'' @ [CHR 0x22]
             else escapedCol)
      in ''UPDATE '' @ fqTableName @ '' SET '' @ escapedCol @ '' = '' @ defaultVal @ '' WHERE '' @
         additionalEscapedCol @ '' IS NULL;'')"

definition backfill_comment_sql :: "string \<Rightarrow> string \<Rightarrow> destination_kind \<Rightarrow> string" where
  "backfill_comment_sql fqTableName escapedCol label =
     (if label = BigQuery
      then ''ALTER TABLE '' @ fqTableName @ '' ALTER COLUMN '' @ escapedCol @
           '' SET OPTIONS (description='' @ [CHR 0x60] @ backfilled_comment @ [CHR 0x60] @ '');''
      else ''COMMENT ON COLUMN '' @ fqTableName @ ''.'' @ escapedCol @ '' IS '' @ [CHR 0x27] @
           backfilled_comment @ [CHR 0x27] @ '';'')"

definition BackfillColumn ::
  "gostd \<Rightarrow> Config \<Rightarrow> 'w store \<Rightarrow> Column \<Rightarrow> string \<Rightarrow> 'w session \<Rightarrow> 'w session \<times> unit outcome" where
  "BackfillColumn std cfg dw column fqTableName s =
     (if \<not> ShouldBackfill column then (s, Ret ())
      else if so_Label dw = MSSQL then (s, Ret ())
      else
        (case column_DefaultValue std (Some \<lparr>dva_Escape = True, dva_DestKind = so_Label dw\<rparr>)
                (AdditionalDateFormats (cfg_TypingSettings cfg)) column of
           Err e \<Rightarrow> (s, Err (wrapf ''failed to escape default value: '' e []))
         | Panic m \<Rightarrow> (s, Panic m)
         | Ret defaultVal \<Rightarrow>
             (let escapedCol = Column_Name (cfg_UppercaseEscapedNames cfg)
                    (Some \<lparr>Escape = True, na_DestKind = so_Label dw\<rparr>) column;
                  q = backfill_update_sql fqTableName escapedCol (sprint std defaultVal) (so_Label dw)
              in case exec_sql (so_dwh dw) q s of
                   (s1, Some err) \<Rightarrow>
                     (s1, Err (wrapf ''failed to backfill, err: '' err ('', query: '' @ q)))
                 | (s1, None) \<Rightarrow>
                     (case exec_sql (so_dwh dw) (backfill_comment_sql fqTableName escapedCol (so_Label dw)) s1 of
                        (s2, Some err) \<Rightarrow> (s2, Err err)
                      | (s2, None) \<Rightarrow> (s2, Ret ())))))"

definition backfillMaxRetries :: nat where
  "backfillMaxRetries = 1000"

text \<open>
  The retries for one column, by the number of attempts left. When the attempts run out the last
  error stays.
\<close>

fun backfill_attempts ::
  "gostd \<Rightarrow> Config \<Rightarrow> 'w store \<Rightarrow> MergeOpts \<Rightarrow> string \<Rightarrow> Column \<Rightarrow> nat \<Rightarrow> unit outcome \<Rightarrow> DwhTableConfig
     \<Rightarrow> 'w session \<Rightarrow> 'w session \<times> DwhTableConfig \<times> unit outcome" where
  "backfill_attempts std cfg dw opts fq col 0 backfillErr tc s = (s, tc, backfillErr)"
| "backfill_attempts std cfg dw opts fq col (Suc n) backfillErr tc s =
     (case BackfillColumn std cfg dw col fq s of
        (s1, Ret _) \<Rightarrow>
          (s1, tc\<lparr>dc_columns := UpsertColumn (col_name col)
                    \<lparr>ToastCol = None, PrimaryKey = None, Backfilled = Some True\<rparr> (dc_columns tc)\<rparr>, Ret ())
      | (s1, Panic m) \<Rightarrow> (s1, tc, Panic m)
      | (s1, Err e) \<Rightarrow>
          if RetryColBackfill opts \<and> so_IsRetryableError dw e
          then backfill_attempts std cfg dw opts fq col n (Err e) tc s1
          else (s1, tc, Err e))"

fun backfill_columns ::
  "gostd \<Rightarrow> Config \<Rightarrow> 'w store \<Rightarrow> MergeOpts \<Rightarrow> string \<Rightarrow> Columns \<Rightarrow> DwhTableConfig
     \<Rightarrow> 'w session \<Rightarrow> 'w session \<times> DwhTableConfig \<times> unit outcome" where
  "backfill_columns std cfg dw opts fq [] tc s = (s, tc, Ret ())"
| "backfill_columns std cfg dw opts fq (col # cols) tc s =
     (if ShouldSkip col then backfill_columns std cfg dw opts fq cols tc s
      else (case backfill_attempts std cfg dw opts fq col backfillMaxRetries (Ret ()) tc s of
          (s1, tc1, Ret _) \<Rightarrow> backfill_columns std cfg dw opts fq cols tc1 s1
        | (s1, tc1, Panic m) \<Rightarrow> (s1, tc1, Panic m)
        | (s1, tc1, Err e) \<Rightarrow>
            (s1, tc1, Err (wrapf (''failed to backfill col: '' @ col_name col @ '', default value: '' @
               sprint std (col_defaultValue col) @ '', err: '') e []))))"

section \<open>Merging a batch\<close>

text \<open>The clock readings of one merge or append, in the order they are taken.\<close>

record merge_inputs =
  mi_add :: "string \<Rightarrow> gotime"
  mi_delete :: "string \<Rightarrow> gotime"
  mi_suffix :: gotime

text \<open>The two alterations of the target: adding the missing columns, dropping the removed ones.\<close>

definition add_columns_args ::
  "'w store \<Rightarrow> Config \<Rightarrow> TableData \<Rightarrow> DwhTableConfig \<Rightarrow> AlterTableArgs" where
  "add_columns_args dw cfg td tc =
     \<lparr>at_Tc = tc, at_ContainOtherOperations = False, at_FqTableName = so_ToFullyQualifiedName dw td True,
      at_CreateTable = dc_createTable tc, at_TemporaryTable = False,
      at_UppercaseEscNames = Some (cfg_UppercaseEscapedNames cfg), at_ColumnOp = Add,
      at_Mode = td_mode td, at_CdcTime = td_LatestCDCTs td\<rparr>"

definition delete_columns_args ::
  "'w store \<Rightarrow> Config \<Rightarrow> TableData \<Rightarrow> DwhTableConfig \<Rightarrow> AlterTableArgs" where
  "delete_columns_args dw cfg td tc =
     \<lparr>at_Tc = tc, at_ContainOtherOperations = td_containOtherOperations td,
      at_FqTableName = so_ToFullyQualifiedName dw td True, at_CreateTable = False,
      at_TemporaryTable = False, at_UppercaseEscNames = Some (cfg_UppercaseEscapedNames cfg),
      at_ColumnOp = Delete, at_Mode = td_mode td, at_CdcTime = td_LatestCDCTs td\<rparr>"

definition schema_diff :: "TableData \<Rightarrow> Columns \<Rightarrow> DwhTableConfig \<Rightarrow> Columns \<times> Columns" where
  "schema_diff td cols tc =
     Diff cols (dc_columns tc) (tc_SoftDelete (td_TopicConfig td))
       (tc_IncludeArtieUpdatedAt (td_TopicConfig td)) (tc_IncludeDatabaseUpdatedAt (td_TopicConfig td))
       (td_mode td)"

definition alter_target ::
  "gostd \<Rightarrow> merge_inputs \<Rightarrow> 'w store \<Rightarrow> Config \<Rightarrow> TableData \<Rightarrow> Columns \<Rightarrow> DwhTableConfig
     \<Rightarrow> 'w session \<Rightarrow> 'w session \<times> DwhTableConfig \<times> unit outcome" where
  "alter_target std mi dw cfg td cols tc s =
     (case schema_diff td cols tc of
        (srcKeysMissing, targetKeysMissing) \<Rightarrow>
          (case AlterTable std (mi_add mi) (so_dwh dw) (add_columns_args dw cfg td tc) targetKeysMissing s of
             (s1, tc1, Err e) \<Rightarrow> (s1, tc1, Err (wrapf ''failed to alter table: '' e []))
           | (s1, tc1, Panic m) \<Rightarrow> (s1, tc1, Panic m)
           | (s1, tc1, Ret _) \<Rightarrow>
               (case AlterTable std (mi_delete mi) (so_dwh dw) (delete_columns_args dw cfg td tc1)
                       srcKeysMissing s1 of
                  (s2, tc2, Err e) \<Rightarrow> (s2, tc2, Err (wrapf ''failed to apply alter table: '' e []))
                | (s2, tc2, Panic m) \<Rightarrow> (s2, tc2, Panic m)
                | (s2, tc2, Ret _) \<Rightarrow> (s2, AuditColumnsToDelete srcKeysMissing tc2, Ret ()))))"

definition merge_argument ::
  "'w store \<Rightarrow> Config \<Rightarrow> MergeOpts \<Rightarrow> TableData \<Rightarrow> Columns \<Rightarrow> string \<Rightarrow> MergeArgument" where
  "merge_argument dw cfg opts td cols temporaryTableName =
     \<lparr>ma_FqTableName = so_ToFullyQualifiedName dw td True,
      ma_SubQuery = (if SubQueryDedupe opts then ''( SELECT DISTINCT * FROM '' @ temporaryTableName @ '' )''
                     else temporaryTableName),
      ma_IdempotentKey = tc_IdempotentKey (td_TopicConfig td),
      ma_PrimaryKeys = TableData_PrimaryKeys (cfg_UppercaseEscapedNames cfg)
        (Some \<lparr>Escape = True, na_DestKind = so_Label dw\<rparr>) td,
      ma_AdditionalEqualityStrings = AdditionalEqualityStrings opts,
      ma_Columns = cols, ma_DestKind = so_Label dw, ma_SoftDelete = tc_SoftDelete (td_TopicConfig td),
      ma_ContainsHardDeletes = Some (td_containsHardDeletes td),
      ma_UppercaseEscNames = Some (cfg_UppercaseEscapedNames cfg)\<rparr>"

text \<open>The statements of Redshift in one transaction. A failed statement leaves it open.\<close>

fun run_parts :: "'w store \<Rightarrow> string list \<Rightarrow> 'w session \<Rightarrow> 'w session \<times> unit outcome" where
  "run_parts dw [] s = (s, Ret ())"
| "run_parts dw (q # qs) s =
     (case tx_exec dw q s of
        (s1, Some err) \<Rightarrow> (s1, Err (wrapf (''failed to merge, query: '' @ q @ '', err: '') err []))
      | (s1, None) \<Rightarrow> run_parts dw qs s1)"

definition merge_in_parts ::
  "'w store \<Rightarrow> MergeArgument \<Rightarrow> 'w session \<Rightarrow> 'w session \<times> unit outcome" where
  "merge_in_parts dw m s =
     (case GetParts m of
        Err e \<Rightarrow> (s, Err (wrapf ''failed to generate merge statement: '' e []))
      | Panic x \<Rightarrow> (s, Panic x)
      | Ret mergeParts \<Rightarrow>
          (case on_state (so_Begin dw) s of
             (s1, Some err) \<Rightarrow> (s1, Err (wrapf ''failed to start tx: '' err []))
           | (s1, None) \<Rightarrow>
               (case run_parts dw mergeParts s1 of
                  (s2, Ret _) \<Rightarrow>
                    (case on_state (so_TxCommit dw) s2 of
                       (s3, Some err) \<Rightarrow>
                         (s3, Err (wrapf (''failed to merge, parts: '' @ show_strings mergeParts @ '', err: '') err []))
                     | (s3, None) \<Rightarrow> (s3, Ret ()))
                | r \<Rightarrow> r)))"

definition run_statement ::
  "'w store \<Rightarrow> string \<Rightarrow> string outcome \<Rightarrow> 'w session \<Rightarrow> 'w session \<times> unit outcome" where
  "run_statement dw pre stmt s =
     (case stmt of
        Err e \<Rightarrow> (s, Err (wrapf ''failed to generate merge statement: '' e []))
      | Panic x \<Rightarrow> (s, Panic x)
      | Ret q \<Rightarrow>
          (case exec_sql (so_dwh dw) q s of
             (s1, Some err) \<Rightarrow> (s1, Err (wrapf pre err []))
           | (s1, None) \<Rightarrow> (s1, Ret ())))"

definition run_merge ::
  "'w store \<Rightarrow> MergeOpts \<Rightarrow> MergeArgument \<Rightarrow> 'w session \<Rightarrow> 'w session \<times> unit outcome" where
  "run_merge dw opts m s =
     (if UseMergeParts opts then merge_in_parts dw m s
      else if so_Label dw = MSSQL
      then run_statement dw ''failed to execute merge: '' (GetMSSQLStatement m) s
      else run_statement dw [] (GetStatement m) s)"

text \<open>
  From the temporary table on: the deferred drop runs however the backfills and the merge end, and
  its own failure is only logged.
\<close>

definition merge_temporary ::
  "gostd \<Rightarrow> 'w store \<Rightarrow> Config \<Rightarrow> MergeOpts \<Rightarrow> TableData \<Rightarrow> Columns \<Rightarrow> string \<Rightarrow> DwhTableConfig
     \<Rightarrow> 'w session \<Rightarrow> 'w session \<times> DwhTableConfig \<times> unit outcome" where
  "merge_temporary std dw cfg opts td cols temporaryTableName tc s =
     (case backfill_columns std cfg dw opts (so_ToFullyQualifiedName dw td True) cols tc s of
        (s1, tc1, r) \<Rightarrow>
          (case (case r of
                   Ret _ \<Rightarrow> run_merge dw opts (merge_argument dw cfg opts td cols temporaryTableName) s1
                 | _ \<Rightarrow> (s1, r)) of
             (s2, r2) \<Rightarrow> (fst (DropTemporaryTable (so_dwh dw) temporaryTableName False s2), tc1, r2)))"

definition temporary_table_name :: "merge_inputs \<Rightarrow> 'w store \<Rightarrow> TableData \<Rightarrow> string" where
  "temporary_table_name mi dw td =
     so_ToFullyQualifiedName dw td False @ ''_'' @ TempTableSuffix (mi_suffix mi) td"

definition put_config :: "string \<Rightarrow> DwhTableConfig \<Rightarrow> 'w session \<Rightarrow> 'w store_state \<Rightarrow> 'w store_state" where
  "put_config fq tc s ss = \<lparr>ss_session = s, ss_configMap = AddTableToConfig fq tc (ss_configMap ss)\<rparr>"

definition Merge ::
  "gostd \<Rightarrow> merge_inputs \<Rightarrow> 'w store \<Rightarrow> Config \<Rightarrow> MergeOpts \<Rightarrow> TableData \<Rightarrow> 'w store_state
     \<Rightarrow> 'w store_state \<times> TableData \<times> unit outcome" where
  "Merge std mi dw cfg opts td ss =
     (if ShouldSkipUpdate td then (ss, td, Ret ())
      else (case ReadOnlyInMemoryCols td of None \<Rightarrow> (ss, td, Panic nil_dereference)
        | Some cols \<Rightarrow>
          (case so_GetTableConfig dw td ss of
             (ss1, Err e) \<Rightarrow> (ss1, td, Err (wrapf ''failed to get table config: '' e []))
           | (ss1, Panic m) \<Rightarrow> (ss1, td, Panic m)
           | (ss1, Ret tc) \<Rightarrow>
               (let fqName = so_ToFullyQualifiedName dw td True
                in case alter_target std mi dw cfg td cols tc (ss_session ss1) of
                     (s2, tc2, Err e) \<Rightarrow> (put_config fqName tc2 s2 ss1, td, Err e)
                   | (s2, tc2, Panic m) \<Rightarrow> (put_config fqName tc2 s2 ss1, td, Panic m)
                   | (s2, tc2, Ret _) \<Rightarrow>
                       (let td2 = MergeColumnsFromDestination (dc_columns tc2) td;
                            temporaryTableName = temporary_table_name mi dw td2
                        in case so_PrepareTemporaryTable dw td2 tc2 temporaryTableName
                                  \<lparr>as_AdditionalCopyClause = []\<rparr> True s2 of
                             (s3, tc3, Err e) \<Rightarrow>
                               (put_config fqName tc3 s3 ss1, td2,
                                Err (wrapf ''failed to prepare temporary table: '' e []))
                           | (s3, tc3, Panic m) \<Rightarrow> (put_config fqName tc3 s3 ss1, td2, Panic m)
                           | (s3, tc3, Ret _) \<Rightarrow>
                               (case ReadOnlyInMemoryCols td2 of
                                  None \<Rightarrow> (put_config fqName tc3 s3 ss1, td2, Panic nil_dereference)
                                | Some cols2 \<Rightarrow>
                                    (case merge_temporary std dw cfg opts td2 cols2 temporaryTableName tc3 s3 of
                                       (s4, tc4, r) \<Rightarrow> (put_config fqName tc4 s4 ss1, td2, r))))))))"

section \<open>Appending a batch\<close>

definition Append ::
  "gostd \<Rightarrow> merge_inputs \<Rightarrow> 'w store \<Rightarrow> Config \<Rightarrow> AppendOpts \<Rightarrow> TableData \<Rightarrow> 'w store_state
     \<Rightarrow> 'w store_state \<times> TableData \<times> unit outcome" where
  "Append std mi dw cfg opts td ss =
     (case AppendOpts_Validate opts of
        Err e \<Rightarrow> (ss, td, Err (wrapf ''failed to validate append options: '' e []))
      | Panic m \<Rightarrow> (ss, td, Panic m)
      | Ret _ \<Rightarrow>
          if ShouldSkipUpdate td then (ss, td, Ret ())
          else (case ReadOnlyInMemoryCols td of None \<Rightarrow> (ss, td, Panic nil_dereference)
            | Some cols \<Rightarrow>
              (case so_GetTableConfig dw td ss of
                 (ss1, Err e) \<Rightarrow> (ss1, td, Err e)
               | (ss1, Panic m) \<Rightarrow> (ss1, td, Panic m)
               | (ss1, Ret tc) \<Rightarrow>
                   (let fqName = so_ToFullyQualifiedName dw td True
                    in case AlterTable std (mi_add mi) (so_dwh dw) (add_columns_args dw cfg td tc)
                              (snd (schema_diff td cols tc)) (ss_session ss1) of
                         (s2, tc2, Err e) \<Rightarrow> (put_config fqName tc2 s2 ss1, td, Err e)
                       | (s2, tc2, Panic m) \<Rightarrow> (put_config fqName tc2 s2 ss1, td, Panic m)
                       | (s2, tc2, Ret _) \<Rightarrow>
                           (let td2 = MergeColumnsFromDestination (dc_columns tc2) td
                            in case so_PrepareTemporaryTable dw td2 tc2 (TempTableName opts)
                                      \<lparr>as_AdditionalCopyClause = AdditionalCopyClause opts\<rparr> False s2 of
                                 (s3, tc3, r) \<Rightarrow> (put_config fqName tc3 s3 ss1, td2, r))))))"

section \<open>Sweeping\<close>

text \<open>\<^verbatim>\<open>rows.Scan\<close> of two columns into two strings.\<close>

fun scan_string :: "gostd \<Rightarrow> val \<Rightarrow> string outcome" where
  "scan_string std VNil = Err (errorf ''converting NULL to string is unsupported'')"
| "scan_string std (VBytes bs) = Ret (map char_of bs)"
| "scan_string std v = Ret (sprint std v)"

fun scan_pair :: "gostd \<Rightarrow> query_row \<Rightarrow> (string \<times> string) outcome" where
  "scan_pair std (Ret [(_, a), (_, b)]) =
     bind_out (scan_string std a) (\<lambda>x. bind_out (scan_string std b) (\<lambda>y. Ret (x, y)))"
| "scan_pair std (Ret _) = Err (errorf ''sql: expected 2 destination arguments in Scan'')"
| "scan_pair std (Err e) = Err e"
| "scan_pair std (Panic m) = Panic m"

fun sweep_rows ::
  "gostd \<Rightarrow> (string \<Rightarrow> gotime) \<Rightarrow> 'w dwh \<Rightarrow> string \<Rightarrow> query_row list \<Rightarrow> 'w session
     \<Rightarrow> 'w session \<times> unit outcome" where
  "sweep_rows std clk dw database [] s = (s, Ret ())"
| "sweep_rows std clk dw database (r # rs) s =
     (case scan_pair std r of
        Err e \<Rightarrow> (s, Err e)
      | Panic m \<Rightarrow> (s, Panic m)
      | Ret (tableSchema, tableName) \<Rightarrow>
          if ShouldDeleteFromName (clk tableName) tableName
          then (case DropTemporaryTable dw (database @ ''.'' @ tableSchema @ ''.'' @ tableName) True s of
              (s1, Ret _) \<Rightarrow> sweep_rows std clk dw database rs s1
            | (s1, e) \<Rightarrow> (s1, e))
          else sweep_rows std clk dw database rs s)"

fun sweep_pairs ::
  "gostd \<Rightarrow> (string \<Rightarrow> gotime) \<Rightarrow> 'w store \<Rightarrow> (DatabaseSchemaPair \<Rightarrow> string \<times> string list)
     \<Rightarrow> DatabaseSchemaPair list \<Rightarrow> 'w session \<Rightarrow> 'w session \<times> unit outcome" where
  "sweep_pairs std clk dw getQueryFunc [] s = (s, Ret ())"
| "sweep_pairs std clk dw getQueryFunc (p # ps) s =
     (case query_sql dw (fst (getQueryFunc p)) (snd (getQueryFunc p)) s of
        (s1, Err e) \<Rightarrow> (s1, Err e)
      | (s1, Panic m) \<Rightarrow> (s1, Panic m)
      | (s1, Ret rows) \<Rightarrow>
          (case sweep_rows std clk (so_dwh dw) (dsp_Database p) rows s1 of
             (s2, Ret _) \<Rightarrow> sweep_pairs std clk dw getQueryFunc ps s2
           | (s2, e) \<Rightarrow> (s2, e)))"

definition Sweep ::
  "gostd \<Rightarrow> (string \<Rightarrow> gotime) \<Rightarrow> 'w store \<Rightarrow> TopicConfig list
     \<Rightarrow> (DatabaseSchemaPair \<Rightarrow> string \<times> string list) \<Rightarrow> 'w session \<Rightarrow> 'w session \<times> unit outcome" where
  "Sweep std clk dw topicConfigs getQueryFunc s =
     sweep_pairs std clk dw getQueryFunc (GetUniqueDatabaseAndSchema topicConfigs) s"


section \<open>Facts\<close>

lemma same_buffer_refl [simp]: "same_buffer td td"
  by (simp add: same_buffer_def)

lemma columns_inv_names: "map col_name cs = map col_name cs' \<Longrightarrow> columns_inv cs = columns_inv cs'"
  unfolding columns_inv_def by (metis list.set_map)

lemma same_buffer_MergeColumns: "same_buffer td (MergeColumnsFromDestination dest td)"
  using columns_inv_names [OF names_foldl_merge_step]
  by (simp add: same_buffer_def MergeColumnsFromDestination_def split: option.splits)

lemma same_buffer_Merge: "Merge std mi dw cfg opts td ss = (ss', td', r) \<Longrightarrow> same_buffer td td'"
  by (auto simp: Merge_def Let_def same_buffer_MergeColumns
      split: if_splits option.splits outcome.splits prod.splits)

lemma same_buffer_Append: "Append std mi dw cfg opts td ss = (ss', td', r) \<Longrightarrow> same_buffer td td'"
  by (auto simp: Append_def Let_def same_buffer_MergeColumns
      split: if_splits option.splits outcome.splits prod.splits)

lemma exec_sql_log: "exec_sql dw q s = (s', r) \<Longrightarrow> db_log s' = db_log s @ [q]"
  by (auto simp: exec_sql_def split: prod.splits)

lemma tx_exec_log: "tx_exec dw q s = (s', r) \<Longrightarrow> db_log s' = db_log s @ [q]"
  by (auto simp: tx_exec_def split: prod.splits)

lemma on_state_log: "on_state f s = (s', r) \<Longrightarrow> db_log s' = db_log s"
  by (auto simp: on_state_def split: prod.splits)

lemma query_sql_log: "query_sql dw q args s = (s', r) \<Longrightarrow> db_log s' = db_log s"
  by (auto simp: query_sql_def split: prod.splits)

lemmas session_logs = exec_sql_log tx_exec_log on_state_log query_sql_log

text \<open>The drop of a temporary table: one statement if the name carries the prefix, none otherwise.\<close>

definition drop_log :: "string \<Rightarrow> string list" where
  "drop_log name = (if contains (to_lower name) ArtiePrefix then [''DROP TABLE IF EXISTS '' @ name] else [])"

lemma DropTemporaryTable_log:
  "DropTemporaryTable dw name b s = (s', r) \<Longrightarrow> db_log s' = db_log s @ drop_log name"
  by (auto simp: DropTemporaryTable_def drop_log_def dest!: exec_sql_log
      split: if_splits prod.splits option.splits)

lemma run_parts_log:
  "run_parts dw qs s = (s', Ret u) \<Longrightarrow> db_log s' = db_log s @ qs"
  by (induction qs arbitrary: s)
    (auto dest!: tx_exec_log split: prod.splits option.splits)

lemma run_parts_prefix: "run_parts dw qs s = (s', r) \<Longrightarrow> prefix (db_log s) (db_log s')"
proof (induction qs arbitrary: s)
  case (Cons q qs)
  obtain s1 e where x: "tx_exec dw q s = (s1, e)" by (cases "tx_exec dw q s")
  note log = tx_exec_log [OF this]
  show ?case
  proof (cases e)
    case None
    with Cons x have "prefix (db_log s1) (db_log s')" by simp
    with log show ?thesis by (metis prefix_order.trans prefixI)
  next
    case (Some err)
    with Cons.prems x log show ?thesis by auto
  qed
qed simp

text \<open>The statements that a merge sends when it succeeds.\<close>

definition merge_statements :: "'w store \<Rightarrow> MergeOpts \<Rightarrow> MergeArgument \<Rightarrow> string list outcome" where
  "merge_statements dw opts m =
     (if UseMergeParts opts then GetParts m
      else bind_out (if so_Label dw = MSSQL then GetMSSQLStatement m else GetStatement m) (\<lambda>q. Ret [q]))"

lemma run_merge_log:
  "run_merge dw opts m s = (s', Ret u) \<Longrightarrow>
     \<exists>stmts. merge_statements dw opts m = Ret stmts \<and> db_log s' = db_log s @ stmts"
  by (auto simp: run_merge_def merge_statements_def merge_in_parts_def run_statement_def
      dest!: session_logs run_parts_log split: if_splits outcome.splits prod.splits option.splits)

lemma run_merge_prefix: "run_merge dw opts m s = (s', r) \<Longrightarrow> prefix (db_log s) (db_log s')"
  by (auto simp: run_merge_def merge_in_parts_def run_statement_def
      dest!: session_logs run_parts_prefix split: if_splits outcome.splits prod.splits option.splits)

lemma BackfillColumn_log:
  "BackfillColumn std cfg dw col fq s = (s', r) \<Longrightarrow>
     \<exists>qs. db_log s' = db_log s @ qs \<and> length qs \<le> 2"
  by (auto simp: BackfillColumn_def Let_def dest!: exec_sql_log
      split: if_splits outcome.splits prod.splits option.splits)

lemma backfill_attempts_log:
  "backfill_attempts std cfg dw opts fq col n e tc s = (s', tc', r) \<Longrightarrow>
     \<exists>qs. db_log s' = db_log s @ qs
       \<and> length qs \<le> 2 * (if RetryColBackfill opts then n else min n 1)"
proof (induction n arbitrary: e s)
  case 0
  then show ?case by simp
next
  case (Suc n)
  obtain s1 r1 where x: "BackfillColumn std cfg dw col fq s = (s1, r1)"
    by (cases "BackfillColumn std cfg dw col fq s")
  from BackfillColumn_log [OF this] obtain qs1
    where q1: "db_log s1 = db_log s @ qs1" "length qs1 \<le> 2" by blast
  show ?case
  proof (cases "\<exists>e1. r1 = Err e1 \<and> RetryColBackfill opts \<and> so_IsRetryableError dw e1")
    case True
    then obtain e1 where e1: "r1 = Err e1" "RetryColBackfill opts" "so_IsRetryableError dw e1" by blast
    with Suc.prems x have "backfill_attempts std cfg dw opts fq col n (Err e1) tc s1 = (s', tc', r)" by simp
    from Suc.IH [OF this] e1(2) obtain qs where "db_log s' = db_log s1 @ qs" "length qs \<le> 2 * n" by auto
    with q1 e1(2) show ?thesis by (intro exI [of _ "qs1 @ qs"]) simp
  next
    case False
    with Suc.prems x have "s' = s1" by (auto split: outcome.splits if_splits)
    with q1 show ?thesis by (intro exI [of _ qs1]) (auto simp: min_def)
  qed
qed

lemma backfill_columns_prefix:
  "backfill_columns std cfg dw opts fq cols tc s = (s', tc', r) \<Longrightarrow> prefix (db_log s) (db_log s')"
proof (induction cols arbitrary: tc s)
  case (Cons c cols)
  obtain s1 tc1 r1 where x: "backfill_attempts std cfg dw opts fq c backfillMaxRetries (Ret ()) tc s = (s1, tc1, r1)"
    by (metis surj_pair)
  from backfill_attempts_log [OF x] have p: "prefix (db_log s) (db_log s1)" by auto
  show ?case
  proof (cases "ShouldSkip c")
    case True
    with Cons show ?thesis by simp
  next
    case False
    with Cons p x show ?thesis
      by (cases r1) (auto intro: prefix_order.trans)
  qed
qed simp


lemma merge_temporary_log:
  assumes "merge_temporary std dw cfg opts td cols temp tc s = (s', tc', r)"
  shows "\<exists>pre. prefix (db_log s) pre \<and> db_log s' = pre @ drop_log temp
    \<and> (r = Ret () \<longrightarrow> (\<exists>stmts before.
         merge_statements dw opts (merge_argument dw cfg opts td cols temp) = Ret stmts
         \<and> pre = before @ stmts))"
proof -
  obtain s1 tc1 r1 where b: "backfill_columns std cfg dw opts (so_ToFullyQualifiedName dw td True) cols tc s = (s1, tc1, r1)"
    by (metis surj_pair)
  note p1 = backfill_columns_prefix [OF b]
  let ?arg = "merge_argument dw cfg opts td cols temp"
  obtain s2 r2 where m: "(case r1 of Ret _ \<Rightarrow> run_merge dw opts ?arg s1 | _ \<Rightarrow> (s1, r1)) = (s2, r2)"
    by (metis surj_pair)
  then have p2: "prefix (db_log s1) (db_log s2)"
    by (cases r1) (auto dest: run_merge_prefix)
  have ok: "r2 = Ret () \<Longrightarrow> \<exists>stmts. merge_statements dw opts ?arg = Ret stmts \<and> db_log s2 = db_log s1 @ stmts"
    using m by (cases r1) (auto dest: run_merge_log)
  have "db_log (fst (DropTemporaryTable (so_dwh dw) temp False s2)) = db_log s2 @ drop_log temp"
    by (cases "DropTemporaryTable (so_dwh dw) temp False s2") (simp add: DropTemporaryTable_log)
  with assms b m have "db_log s' = db_log s2 @ drop_log temp" and "r = r2"
    by (auto simp: merge_temporary_def)
  with ok p1 p2 show ?thesis
    by (intro exI [of _ "db_log s2"]) (auto intro: prefix_order.trans)
qed

lemma sweep_rows_log:
  "sweep_rows std clk dw database rs s = (s', r) \<Longrightarrow>
     \<exists>qs. db_log s' = db_log s @ qs \<and> (\<forall>q\<in>set qs. \<exists>sch name.
       q = ''DROP TABLE IF EXISTS '' @ database @ ''.'' @ sch @ ''.'' @ name
       \<and> ShouldDeleteFromName (clk name) name
       \<and> contains (to_lower (database @ ''.'' @ sch @ ''.'' @ name)) ArtiePrefix)"
proof (induction rs arbitrary: s)
  case Nil
  then show ?case by simp
next
  case (Cons row rs)
  show ?case
  proof (cases "scan_pair std row")
    case (Ret p)
    obtain sch name where p: "p = (sch, name)" by (cases p)
    let ?fq = "database @ ''.'' @ sch @ ''.'' @ name"
    show ?thesis
    proof (cases "ShouldDeleteFromName (clk name) name")
      case False
      with Cons Ret p show ?thesis by simp
    next
      case True
      obtain s1 r1 where d: "DropTemporaryTable dw ?fq True s = (s1, r1)"
        by (cases "DropTemporaryTable dw ?fq True s")
      have q1: "\<forall>q\<in>set (drop_log ?fq). \<exists>sch name.
          q = ''DROP TABLE IF EXISTS '' @ database @ ''.'' @ sch @ ''.'' @ name
          \<and> ShouldDeleteFromName (clk name) name
          \<and> contains (to_lower (database @ ''.'' @ sch @ ''.'' @ name)) ArtiePrefix"
        using True by (auto simp: drop_log_def)
      note log = DropTemporaryTable_log [OF d]
      show ?thesis
      proof (cases r1)
        case r1: (Ret u)
        with Cons.prems Ret p True d have "sweep_rows std clk dw database rs s1 = (s', r)" by simp
        from Cons.IH [OF this] obtain qs where "db_log s' = db_log s1 @ qs" "\<forall>q\<in>set qs. \<exists>sch name.
            q = ''DROP TABLE IF EXISTS '' @ database @ ''.'' @ sch @ ''.'' @ name
            \<and> ShouldDeleteFromName (clk name) name
            \<and> contains (to_lower (database @ ''.'' @ sch @ ''.'' @ name)) ArtiePrefix" by blast
        with q1 log show ?thesis by (intro exI [of _ "drop_log ?fq @ qs"]) auto
      qed (use Cons.prems Ret p True d q1 log in auto)
    qed
  qed (use Cons.prems in auto)
qed

lemma backfill_attempts_marks:
  "backfill_attempts std cfg dw opts fq col n (Err e) tc s = (s', tc', Ret u) \<Longrightarrow> col_name col \<noteq> [] \<Longrightarrow>
     \<exists>c. GetColumn (dc_columns tc') (col_name col) = Some c \<and> col_backfilled c"
proof (induction n arbitrary: e s)
  case 0
  then show ?case by simp
next
  case (Suc n)
  obtain s1 r1 where x: "BackfillColumn std cfg dw col fq s = (s1, r1)"
    by (cases "BackfillColumn std cfg dw col fq s")
  show ?case
  proof (cases r1)
    case (Ret v)
    with Suc.prems x have "tc' = tc\<lparr>dc_columns := UpsertColumn (col_name col)
        \<lparr>ToastCol = None, PrimaryKey = None, Backfilled = Some True\<rparr> (dc_columns tc)\<rparr>" by simp
    with Suc.prems(2) show ?thesis
      by (auto simp: GetColumn_UpsertColumn apply_upsert_def split: option.splits)
  next
    case (Err e1)
    with Suc x show ?thesis by (auto split: if_splits)
  next
    case (Panic m)
    with Suc.prems x show ?thesis by simp
  qed
qed

text \<open>Without a column to backfill, no statement is sent and every named column is marked.\<close>

lemma backfill_columns_none:
  "\<forall>c\<in>set cols. \<not> ShouldBackfill c \<Longrightarrow>
     \<exists>tc'. backfill_columns std cfg dw opts fq cols tc s = (s, tc', Ret ())"
  by (induction cols arbitrary: tc)
    (auto simp: backfillMaxRetries_def numeral_eq_Suc BackfillColumn_def)

lemma describe_columns_inv:
  "describe_columns std label g rs cols = Ret cols' \<Longrightarrow> columns_inv cols \<Longrightarrow> columns_inv cols'"
  by (induction rs arbitrary: cols) (auto simp: columns_inv_AddColumn)

section \<open>Properties\<close>

text \<open>
  C14. A merge of a batch with rows reports success only after the statements that merge the
  temporary table were sent, after everything else, and only the drop of the temporary table
  follows them.
\<close>

theorem Merge_success_means_merged:
  assumes "Merge std mi dw cfg opts td ss = (ss', td', Ret ())" and "\<not> ShouldSkipUpdate td"
  shows "\<exists>cols stmts pre. ReadOnlyInMemoryCols td' = Some cols
    \<and> merge_statements dw opts (merge_argument dw cfg opts td' cols (temporary_table_name mi dw td'))
        = Ret stmts
    \<and> db_log (ss_session ss') = pre @ stmts @ drop_log (temporary_table_name mi dw td')"
proof -
  from assms obtain cols tc s3 tc3 s4 tc4 where c: "ReadOnlyInMemoryCols td' = Some cols"
    and m: "merge_temporary std dw cfg opts td' cols (temporary_table_name mi dw td') tc3 s3 = (s4, tc4, Ret ())"
    and l: "ss_session ss' = s4"
    by (auto simp: Merge_def Let_def put_config_def
        split: if_splits option.splits outcome.splits prod.splits)
  from merge_temporary_log [OF m] c l show ?thesis by fastforce
qed

text \<open>
  C15. Once the temporary table was prepared, it is dropped as the last statement however the
  backfills and the merge end, provided its name carries the prefix of temporary tables; nothing
  sent before is lost from the log.
\<close>

theorem temporary_table_always_dropped:
  "\<exists>pre. prefix (db_log s) pre
     \<and> db_log (fst (merge_temporary std dw cfg opts td cols temp tc s)) = pre @ drop_log temp"
proof -
  obtain s' tc' r where m: "merge_temporary std dw cfg opts td cols temp tc s = (s', tc', r)"
    by (metis surj_pair)
  from merge_temporary_log [OF m] m show ?thesis by auto
qed

text \<open>A statement that drops an expired temporary table.\<close>

definition expired_drop :: "(string \<Rightarrow> gotime) \<Rightarrow> string \<Rightarrow> bool" where
  "expired_drop clk q \<longleftrightarrow> (\<exists>database sch name.
     q = ''DROP TABLE IF EXISTS '' @ database @ ''.'' @ sch @ ''.'' @ name
     \<and> ShouldDeleteFromName (clk name) name
     \<and> contains (to_lower (database @ ''.'' @ sch @ ''.'' @ name)) ArtiePrefix)"

lemma Sweep_log:
  assumes "Sweep std clk dw tcs f s = (s', r)"
  shows "\<exists>qs. db_log s' = db_log s @ qs \<and> (\<forall>q\<in>set qs. expired_drop clk q)"
proof -
  have "sweep_pairs std clk dw f ps s = (s', r) \<Longrightarrow>
      \<exists>qs. db_log s' = db_log s @ qs \<and> (\<forall>q\<in>set qs. expired_drop clk q)" for ps s
  proof (induction ps arbitrary: s)
    case Nil
    then show ?case by simp
  next
    case (Cons p ps)
    obtain s1 r1 where q: "query_sql dw (fst (f p)) (snd (f p)) s = (s1, r1)"
      by (cases "query_sql dw (fst (f p)) (snd (f p)) s")
    note log1 = query_sql_log [OF q]
    show ?case
    proof (cases r1)
      case (Ret rows)
      obtain s2 r2 where w: "sweep_rows std clk (so_dwh dw) (dsp_Database p) rows s1 = (s2, r2)"
        by (metis surj_pair)
      from sweep_rows_log [OF w] obtain qs1 where q1: "db_log s2 = db_log s1 @ qs1" "\<forall>q\<in>set qs1. expired_drop clk q"
        unfolding expired_drop_def by blast
      show ?thesis
      proof (cases r2)
        case r2: (Ret u)
        with Cons.prems q Ret w have "sweep_pairs std clk dw f ps s2 = (s', r)" by simp
        from Cons.IH [OF this] obtain qs where "db_log s' = db_log s2 @ qs" "\<forall>q\<in>set qs. expired_drop clk q" by blast
        with q1 log1 show ?thesis by (intro exI [of _ "qs1 @ qs"]) auto
      qed (use Cons.prems q Ret w q1 log1 in auto)
    qed (use Cons.prems q log1 in auto)
  qed
  with assms show ?thesis unfolding Sweep_def by blast
qed

text \<open>
  C21. Sweeping sends nothing but drops of tables whose name carries the temporary prefix and whose
  expiry, the number after the last underscore, has passed.
\<close>

theorem Sweep_drops_only_expired:
  assumes "Sweep std clk dw tcs f s = (s', r)"
  shows "\<exists>qs. db_log s' = db_log s @ qs \<and> (\<forall>q\<in>set qs. \<exists>database sch name.
       q = ''DROP TABLE IF EXISTS '' @ database @ ''.'' @ sch @ ''.'' @ name
       \<and> ShouldDeleteFromName (clk name) name
       \<and> contains (to_lower (database @ ''.'' @ sch @ ''.'' @ name)) ArtiePrefix)"
  using Sweep_log [OF assms] unfolding expired_drop_def .

text \<open>
  The schema of a table is read once: the config that was returned is cached under the table's
  name, a second call returns it without a query, no other table's config changes, and a config
  that was read from the warehouse has well-formed columns, no deletion timestamps, and asks for
  the table's creation exactly when the warehouse reported no column.
\<close>

theorem GetTableConfig_cached:
  assumes "GetTableConfig std dw g ss = (ss', Ret tc)"
  shows "TableConfig (ss_configMap ss') (gt_FqName g) = Some tc
    \<and> GetTableConfig std dw g ss' = (ss', Ret tc)
    \<and> (\<forall>n. n \<noteq> gt_FqName g \<longrightarrow> gm_get (ss_configMap ss') n = gm_get (ss_configMap ss) n)
    \<and> (TableConfig (ss_configMap ss) (gt_FqName g) = None \<longrightarrow>
         columns_inv (dc_columns tc) \<and> dc_columnsToDelete tc = []
         \<and> (dc_createTable tc \<longleftrightarrow> dc_columns tc = [])
         \<and> dc_dropDeletedColumns tc = gt_DropDeletedColumns g)"
proof (cases "TableConfig (ss_configMap ss) (gt_FqName g)")
  case (Some tc0)
  with assms show ?thesis by (simp add: GetTableConfig_def)
next
  case None
  obtain s r where q: "query_sql dw (gt_Query g) (gt_Args g) (ss_session ss) = (s, r)"
    by (cases "query_sql dw (gt_Query g) (gt_Args g) (ss_session ss)")
  from assms None q obtain rs cols where d: "describe_columns std (so_Label dw) g rs [] = Ret cols"
    and tc: "tc = NewDwhTableConfig cols [] (cols = []) (gt_DropDeletedColumns g)"
    and ss': "ss' = ss\<lparr>ss_session := s,
      ss_configMap := AddTableToConfig (gt_FqName g) tc (ss_configMap ss)\<rparr>"
    by (auto simp: GetTableConfig_def Let_def split: outcome.splits)
  have found: "TableConfig (ss_configMap ss') (gt_FqName g) = Some tc"
    by (simp add: ss' TableConfig_def AddTableToConfig_def)
  moreover from found have "GetTableConfig std dw g ss' = (ss', Ret tc)"
    by (simp add: GetTableConfig_def)
  moreover have "columns_inv cols" using describe_columns_inv [OF d] by (simp add: columns_inv_def)
  ultimately show ?thesis by (simp add: ss' tc NewDwhTableConfig_def AddTableToConfig_def)
qed

text \<open>
  C39. Backfilling one column sends at most two statements per attempt, only retries when the
  destination allows it, stops after the fixed number of attempts, and on success the column is
  marked as backfilled in the table config.
\<close>

theorem backfill_bounded:
  assumes "backfill_attempts std cfg dw opts fq col backfillMaxRetries (Ret ()) tc s = (s', tc', r)"
    and "col_name col \<noteq> []"
  shows "\<exists>qs. db_log s' = db_log s @ qs
       \<and> length qs \<le> (if RetryColBackfill opts then 2000 else 2)
       \<and> (r = Ret () \<longrightarrow> (\<exists>c. GetColumn (dc_columns tc') (col_name col) = Some c \<and> col_backfilled c))"
proof -
  obtain n where n: "backfillMaxRetries = Suc n" by (metis backfillMaxRetries_def num.simps numeral_eq_Suc)
  have "backfill_attempts std cfg dw opts fq col (Suc n) (Err e) tc s =
      backfill_attempts std cfg dw opts fq col (Suc n) (Ret ()) tc s" for e
    by simp
  with assms backfill_attempts_marks [where n = "Suc n"]
  have "r = Ret () \<Longrightarrow> \<exists>c. GetColumn (dc_columns tc') (col_name col) = Some c \<and> col_backfilled c"
    unfolding n by metis
  with backfill_attempts_log [OF assms(1)] show ?thesis
    by (auto simp: backfillMaxRetries_def)
qed

text \<open>A warehouse that accepts everything and reports one text column.\<close>

definition sample_dwh :: "destination_kind \<Rightarrow> unit dwh" where
  "sample_dwh label = \<lparr>dw_Label = label, dw_Exec = (\<lambda>q w. (w, None))\<rparr>"

definition sample_rows :: "query_row list" where
  "sample_rows = [Ret [(''name'', VString ''ID''), (''type'', VString ''variant'')]]"

definition sample_tc :: DwhTableConfig where
  "sample_tc = NewDwhTableConfig [NewColumn ''id'' KString, NewColumn DeleteColumnMarker Boolean] [] False False"

definition sample_store :: "unit store" where
  "sample_store =
     \<lparr>so_dwh = sample_dwh Snowflake, so_Query = (\<lambda>q args w. (w, Ret sample_rows)),
      so_Begin = (\<lambda>w. (w, None)), so_TxExec = (\<lambda>q w. (w, None)), so_TxCommit = (\<lambda>w. (w, None)),
      so_IsRetryableError = (\<lambda>e. False), so_ToFullyQualifiedName = (\<lambda>td e. ''db.public.orders''),
      so_GetTableConfig = (\<lambda>td ss. (ss, Ret sample_tc)),
      so_PrepareTemporaryTable = (\<lambda>td tc temp st create s. (s, tc, Ret ()))\<rparr>"

definition sample_batch :: TableData where
  "sample_batch =
     (NewTableData (Some [NewColumn ''id'' KString, NewColumn DeleteColumnMarker Boolean]) Replication [''id'']
       (sample_topic\<lparr>tc_SoftDelete := True\<rparr>) ''orders'')
     \<lparr>td_rowsData := [(''id=1'', [(''id'', VString ''1''), (DeleteColumnMarker, VBool False)])],
      td_temporaryTableSuffix := ''__artie_x''\<rparr>"

definition sample_state :: "unit store_state" where
  "sample_state = \<lparr>ss_session = \<lparr>db_state = (), db_log = []\<rparr>, ss_configMap = []\<rparr>"

definition sample_opts :: MergeOpts where
  "sample_opts = \<lparr>UseMergeParts = False, SubQueryDedupe = False, AdditionalEqualityStrings = [],
     RetryColBackfill = False\<rparr>"

definition sample_inputs :: merge_inputs where
  "sample_inputs = \<lparr>mi_add = (\<lambda>_. zero_time), mi_delete = (\<lambda>_. zero_time), mi_suffix = zero_time\<rparr>"

definition sample_args :: GetTableCfgArgs where
  "sample_args = \<lparr>gt_FqName = ''db.public.orders'', gt_Query = ''DESC TABLE db.public.orders;'', gt_Args = [],
     gt_ColumnNameLabel = ''name'', gt_ColumnTypeLabel = ''type'', gt_ColumnDescLabel = ''comment'',
     gt_EmptyCommentValue = Some ''<nil>'', gt_DropDeletedColumns = False\<rparr>"

theorem GetTableConfig_cached_witness:
  "\<exists>ss' tc. GetTableConfig sample_std sample_store sample_args sample_state = (ss', Ret tc)
     \<and> GetTableConfig sample_std sample_store sample_args ss' = (ss', Ret tc)"
proof -
  obtain ss' r where x: "GetTableConfig sample_std sample_store sample_args sample_state = (ss', r)"
    by (cases "GetTableConfig sample_std sample_store sample_args sample_state")
  moreover have "is_ret (snd (GetTableConfig sample_std sample_store sample_args sample_state))"
    by code_simp
  ultimately obtain tc where "GetTableConfig sample_std sample_store sample_args sample_state = (ss', Ret tc)"
    by (cases r) simp_all
  with GetTableConfig_cached [OF this] show ?thesis by blast
qed

text \<open>A schema with two temporary tables, one of which has expired.\<close>

definition swept_store :: "unit store" where
  "swept_store = sample_store\<lparr>so_Query := (\<lambda>q args w. (w, Ret
     [Ret [(''s'', VString ''public''), (''t'', VString ''orders___artie_x_1'')],
      Ret [(''s'', VString ''public''), (''t'', VString ''orders___artie_x_9'')]]))\<rparr>"

definition swept :: "unit session" where
  "swept = fst (Sweep sample_std (\<lambda>_. at_nanos 5000000000) swept_store [sample_topic] (\<lambda>p. ([], []))
     (ss_session sample_state))"

theorem Sweep_drops_only_expired_witness:
  "db_log swept = [''DROP TABLE IF EXISTS db.public.orders___artie_x_1'']
     \<and> (\<exists>database sch name.
          hd (db_log swept) = ''DROP TABLE IF EXISTS '' @ database @ ''.'' @ sch @ ''.'' @ name
          \<and> ShouldDeleteFromName (at_nanos 5000000000) name)"
proof -
  obtain r where x: "Sweep sample_std (\<lambda>_. at_nanos 5000000000) swept_store [sample_topic] (\<lambda>p. ([], []))
      (ss_session sample_state) = (swept, r)"
    unfolding swept_def by (metis prod.collapse)
  have log: "db_log swept = [''DROP TABLE IF EXISTS db.public.orders___artie_x_1'']" by code_simp
  then have "hd (db_log swept) \<in> set (db_log swept)" by simp
  with Sweep_drops_only_expired [OF x] have "\<exists>database sch name.
      hd (db_log swept) = ''DROP TABLE IF EXISTS '' @ database @ ''.'' @ sch @ ''.'' @ name
      \<and> ShouldDeleteFromName (at_nanos 5000000000) name"
    by (fastforce simp: sample_state_def)
  with log show ?thesis by blast
qed

theorem backfill_bounded_witness:
  "\<exists>qs. db_log (fst (backfill_attempts sample_std sample_config sample_store sample_opts ''t''
      (SetDefaultValue (VString ''a'') (NewColumn ''c'' KString)) backfillMaxRetries (Ret ()) sample_tc
      (ss_session sample_state))) = qs \<and> length qs \<le> 2"
proof -
  let ?c = "SetDefaultValue (VString ''a'') (NewColumn ''c'' KString)"
  obtain s' tc' r where x: "backfill_attempts sample_std sample_config sample_store sample_opts ''t'' ?c
      backfillMaxRetries (Ret ()) sample_tc (ss_session sample_state) = (s', tc', r)" by (metis surj_pair)
  have "col_name ?c \<noteq> []" by (simp add: SetDefaultValue_def)
  from backfill_bounded [OF x this] x show ?thesis by (auto simp: sample_opts_def sample_state_def)
qed

definition sample_cols :: Columns where
  "sample_cols = [NewColumn ''id'' KString, NewColumn DeleteColumnMarker Boolean]"

lemma sample_batch_facts:
  "ReadOnlyInMemoryCols sample_batch = Some sample_cols" "\<not> ShouldSkipUpdate sample_batch"
  "schema_diff sample_batch sample_cols sample_tc = ([], [])"
  "MergeColumnsFromDestination sample_cols sample_batch = sample_batch"
  "\<forall>c\<in>set sample_cols. \<not> ShouldBackfill c" "td_mode sample_batch = Replication"
  "\<not> dc_createTable sample_tc" "\<not> dc_dropDeletedColumns sample_tc"
  by code_simp+

lemma sample_statement:
  "is_ret (GetStatement (merge_argument sample_store sample_config sample_opts sample_batch sample_cols temp))
     \<longleftrightarrow> temp \<noteq> []"
  by (cases temp)
    (simp_all add: GetStatement_def MergeArgument_Valid_def merge_argument_def Let_def sample_batch_def
      TableData_PrimaryKeys_def so_Label_def sample_store_def sample_dwh_def NewTableData_def
      IsValidDestination_iff NewWrapper_def sample_opts_def sample_topic_def sample_cols_def)

theorem Merge_success_means_merged_witness:
  "\<exists>ss' td'. Merge sample_std sample_inputs sample_store sample_config sample_opts sample_batch sample_state =
       (ss', td', Ret ())
     \<and> (\<exists>pre stmts. db_log (ss_session ss') = pre @ stmts @ drop_log (temporary_table_name sample_inputs sample_store td'))"
proof -
  let ?temp = "temporary_table_name sample_inputs sample_store sample_batch"
  let ?run = "run_merge sample_store sample_opts
    (merge_argument sample_store sample_config sample_opts sample_batch sample_cols ?temp)"
  have run: "snd (?run s) = Ret ()" for s
    using sample_statement [of ?temp]
    by (auto simp: run_merge_def run_statement_def so_Label_def exec_sql_def is_ret_iff
        temporary_table_name_def sample_store_def sample_dwh_def sample_opts_def)
  have t: "snd (snd (merge_temporary sample_std sample_store sample_config sample_opts sample_batch
      sample_cols ?temp tc s)) = Ret ()" for tc s
  proof -
    obtain tc' where "backfill_columns sample_std sample_config sample_store sample_opts
        (so_ToFullyQualifiedName sample_store sample_batch True) sample_cols tc s = (s, tc', Ret ())"
      using backfill_columns_none [OF sample_batch_facts(5)] by blast
    with run [of s] show ?thesis by (simp add: merge_temporary_def case_prod_beta)
  qed
  obtain ss' td' r where x: "Merge sample_std sample_inputs sample_store sample_config sample_opts sample_batch
      sample_state = (ss', td', r)" by (metis surj_pair)
  moreover have "snd (snd (Merge sample_std sample_inputs sample_store sample_config sample_opts
      sample_batch sample_state)) = Ret ()"
  proof -
    have f: "so_GetTableConfig sample_store = (\<lambda>td ss. (ss, Ret sample_tc))"
      "so_PrepareTemporaryTable sample_store = (\<lambda>td tc temp st create s. (s, tc, Ret ()))"
      by (simp_all add: sample_store_def)
    have a: "alter_target sample_std sample_inputs sample_store sample_config sample_batch sample_cols
        sample_tc s = (s, sample_tc, Ret ())" for s
      by (simp add: alter_target_def sample_batch_facts AlterTable_def AlterTableArgs_Validate_def
          add_columns_args_def delete_columns_args_def AuditColumnsToDelete_def)
    have c: "dc_columns sample_tc = sample_cols"
      by (simp add: sample_tc_def sample_cols_def NewDwhTableConfig_def)
    show ?thesis using t by (simp add: Merge_def Let_def sample_batch_facts f a c case_prod_beta)
  qed
  ultimately have m: "Merge sample_std sample_inputs sample_store sample_config sample_opts sample_batch
      sample_state = (ss', td', Ret ())" by simp
  from Merge_success_means_merged [OF m sample_batch_facts(2)] m show ?thesis by blast
qed

end
