(* ===== verification/Staging.thy ===== *)
theory Staging
  imports Columns
begin

text \<open>
  How a value becomes the text or the value that is loaded into a staging table:
  \<^verbatim>\<open>lib/typing/values/string.go\<close> and the casts of the clients (Snowflake, Redshift, BigQuery, MSSQL,
  and Parquet for S3), with the helpers that build the load commands and BigQuery's batches.

  Parquet annotations are the records of \<^verbatim>\<open>lib/typing/parquet.go\<close>. A \<^verbatim>\<open>time.Time\<close> handed to
  the MSSQL driver is \<open>SqlTime\<close>, every other value \<open>SqlVal\<close>.
\<close>

section \<open>Values as text\<close>

definition BooleanToBit :: "bool \<Rightarrow> int" where
  "BooleanToBit b = (if b then 1 else 0)"

text \<open>\<^verbatim>\<open>fmt.Sprintf("%.0f", x)\<close>: rounding to the nearest integer, halves to the even one.\<close>

definition round_half_even :: "rat \<Rightarrow> int" where
  "round_half_even x =
     (let n = \<lfloor>x\<rfloor>; d = x - of_int n
      in if d < 1 / 2 then n else if d > 1 / 2 then n + 1 else if even n then n else n + 1)"

definition format_fixed0 :: "rat \<Rightarrow> string" where
  "format_fixed0 x = (if x < 0 then ''-'' else []) @ show_int (round_half_even (abs x))"

definition toast_object :: val where
  "toast_object = VMap [(''key'', VString ToastUnavailableValuePlaceholder)]"

text \<open>
  The part the casts share for a struct: an unavailable value becomes an object, and what is not a
  string is marshalled. \<open>None\<close> is falling out of the switch.
\<close>

definition struct_text :: "gostd \<Rightarrow> val \<Rightarrow> KindDetails \<Rightarrow> string outcome option" where
  "struct_text std colVal kd =
     (if kd = Struct
      then (let colVal' = (if contains (sprint std colVal) ToastUnavailableValuePlaceholder
                           then toast_object else colVal)
            in case colVal' of VString s \<Rightarrow> None | _ \<Rightarrow> Some (go_json_marshal std colVal'))
      else None)"

definition no_time_details :: goerr where
  "no_time_details = errorf ''column kind details for extended time details is null''"

definition parse_time :: "gostd \<Rightarrow> val \<Rightarrow> string list \<Rightarrow> ExtendedTime outcome" where
  "parse_time std colVal fmts =
     wrap_out (''failed to cast colVal as time.Time, colVal: '' @ sprint std colVal @ '', err: '')
       (ParseFromInterface std colVal fmts)"

definition ToString :: "gostd \<Rightarrow> val \<Rightarrow> Column \<Rightarrow> string list \<Rightarrow> string outcome" where
  "ToString std colVal colKind fmts =
     (let kd = col_KindDetails colKind
      in if colVal = VNil then Err (errorf ''colVal is nil'')
         else if Kind kd = Kind ETime then
           bind_out (parse_time std colVal fmts) (\<lambda>extTime.
             (case ExtendedTimeDetails kd of
                None \<Rightarrow> Err no_time_details
              | Some nk \<Rightarrow>
                  if nk_Type nk = TimeKindType
                  then Ret (ExtendedTime_String std extTime PostgresTimeFormatNoTZ)
                  else Ret (ExtendedTime_String std extTime (nk_Format nk))))
         else if Kind kd = Kind KString then
           (if (case colVal of VMap m \<Rightarrow> True | _ \<Rightarrow> False) \<or> reflect_is_slice colVal
            then go_json_marshal std colVal
            else Ret (Wrap (sprint std colVal) True))
         else if Kind kd = Kind Struct then
           (case struct_text std colVal kd of
              Some r \<Rightarrow> r
            | None \<Rightarrow> Ret (sprint std colVal))
         else if Kind kd = Kind Array then go_json_marshal std colVal
         else if Kind kd = Kind Integer then
           (case colVal of
              VFloat k x \<Rightarrow> Ret (format_fixed0 x)
            | VBool b \<Rightarrow> Ret (show_int (BooleanToBit b))
            | _ \<Rightarrow> Ret (sprint std colVal))
         else if Kind kd = Kind EDecimal then
           (case colVal of
              VFloat k x \<Rightarrow> Ret (sprint std colVal)
            | VString s \<Rightarrow> Ret s
            | VDecimal d \<Rightarrow> Ret (Decimal_String std d)
            | _ \<Rightarrow> Err (errorf ''colVal is not *decimal.Decimal type, type is: ''))
         else Ret (sprint std colVal))"

section \<open>Snowflake\<close>

text \<open>The NULL marker of the file format is two backslashes and an N.\<close>

definition snowflake_null :: string where
  "snowflake_null = [CHR 0x5C, CHR 0x5C] @ ''N''"

definition castColValStaging :: "gostd \<Rightarrow> val \<Rightarrow> Column \<Rightarrow> string list \<Rightarrow> string outcome" where
  "castColValStaging std colVal colKind fmts =
     (if colVal = VNil then Ret snowflake_null else ToString std colVal colKind fmts)"

definition addPrefixToTableName :: "string \<Rightarrow> string \<Rightarrow> string" where
  "addPrefixToTableName fqTableName pfx =
     (let tableParts = split_on (CHR ''.'') fqTableName
      in if length tableParts = 1 then pfx @ fqTableName
         else join ''.'' (butlast tableParts) @ ''.'' @ pfx @ last tableParts)"

definition placeholder :: "KindDetails \<Rightarrow> nat \<Rightarrow> string" where
  "placeholder kd index =
     (let escapedCol = ''$'' @ show_nat (index + 1)
      in if kd = Struct then ''PARSE_JSON('' @ escapedCol @ '')''
         else if kd = Array then ''CAST(PARSE_JSON('' @ escapedCol @ '') AS ARRAY) AS '' @ escapedCol
         else escapedCol)"

fun escape_columns_loop :: "Columns \<Rightarrow> nat \<Rightarrow> string list" where
  "escape_columns_loop [] index = []"
| "escape_columns_loop (col # cols) index =
     (if col_KindDetails col = Invalid then escape_columns_loop cols index
      else placeholder (col_KindDetails col) index # escape_columns_loop cols (index + 1))"

definition escapeColumns :: "Columns \<Rightarrow> string \<Rightarrow> string" where
  "escapeColumns cols delimiter = join delimiter (escape_columns_loop cols 0)"

section \<open>Redshift\<close>

definition maxRedshiftLength :: nat where
  "maxRedshiftLength = 65535"

definition replaceExceededValues :: "string \<Rightarrow> Column \<Rightarrow> string" where
  \<open>replaceExceededValues colVal colKind =
     (let k = Kind (col_KindDetails colKind);
          structOrString = (k = Kind Struct \<or> k = Kind KString)
      in if structOrString \<and> length colVal > maxRedshiftLength
         then (if k = Kind Struct then ''{"key":"'' @ ExceededValueMarker @ ''"}'' else ExceededValueMarker)
         else colVal)\<close>

text \<open>The NULL marker of the \<^verbatim>\<open>COPY\<close> statement is one backslash and an N.\<close>

definition redshift_null :: string where
  "redshift_null = [CHR 0x5C] @ ''N''"

definition CastColValStaging :: "bool \<Rightarrow> gostd \<Rightarrow> val \<Rightarrow> Column \<Rightarrow> string list \<Rightarrow> string outcome" where
  "CastColValStaging skipLgCols std colVal colKind fmts =
     (if colVal = VNil then
        (if col_KindDetails colKind = Struct then Ret [] else Ret redshift_null)
      else bind_out (ToString std colVal colKind fmts) (\<lambda>s.
        Ret (if skipLgCols then replaceExceededValues s colKind else s)))"

section \<open>BigQuery\<close>

definition StreamingTimeFormat :: string where
  "StreamingTimeFormat = ''15:04:05''"

definition castColVal :: "gostd \<Rightarrow> val \<Rightarrow> Column \<Rightarrow> string list \<Rightarrow> val outcome" where
  \<open>castColVal std colVal colKind fmts =
     (let kd = col_KindDetails colKind; text = (\<lambda>v. Ret (VString (sprint std v)))
      in if colVal = VNil then Ret VNil
         else if Kind kd = Kind EDecimal then
           (case colVal of
              VDecimal d \<Rightarrow> Ret (Decimal_Value std d)
            | _ \<Rightarrow> Err (errorf ''colVal is not type *decimal.Decimal''))
         else if Kind kd = Kind ETime then
           bind_out (parse_time std colVal fmts) (\<lambda>extTime.
             (case ExtendedTimeDetails kd of
                None \<Rightarrow> Err no_time_details
              | Some nk \<Rightarrow>
                  (case nk_Type nk of
                     DateTimeKindType \<Rightarrow>
                       if go_time_year std (et_Time extTime) = 0 then Ret VNil
                       else Ret (VString (ExtendedTime_StringUTC std extTime BigQueryDateTimeFormat))
                   | DateKindType \<Rightarrow>
                       if go_time_year std (et_Time extTime) = 0 then Ret VNil
                       else Ret (VString (ExtendedTime_String std extTime PostgresDateFormat))
                   | TimeKindType \<Rightarrow> Ret (VString (ExtendedTime_String std extTime StreamingTimeFormat))
                   | OtherTimeKind s \<Rightarrow> text colVal)))
         else if Kind kd = Kind Struct then
           (if kd = Struct \<and> contains (sprint std colVal) ToastUnavailableValuePlaceholder
            then Ret (VString (''{"key":"'' @ ToastUnavailableValuePlaceholder @ ''"}''))
            else text colVal)
         else if Kind kd = Kind Array then
           bind_out (InterfaceToArrayString std colVal True) (\<lambda>arrayString.
             Ret (if arrayString = [] then VNil else VStrings arrayString))
         else text colVal)\<close>

definition tableRelName :: "string \<Rightarrow> string outcome" where
  "tableRelName fqName =
     (let fqNameParts = split_on (CHR ''.'') fqName
      in if length fqNameParts < 3 then Err (errorf (''invalid fully qualified name: '' @ fqName))
         else Ret (join ''.'' (drop 2 fqNameParts)))"

text \<open>
  Batches of rows. The chunk size is a signed integer that the configuration sets; slicing with
  a negative bound does not happen, since then the start exceeds the end.
\<close>

record 'r Batch =
  ba_rows :: "'r list"
  ba_chunkSize :: int
  ba_iteratorIdx :: int

definition NewBatch :: "'r list \<Rightarrow> int \<Rightarrow> 'r Batch" where
  "NewBatch rows chunkSize = \<lparr>ba_rows = rows, ba_chunkSize = chunkSize, ba_iteratorIdx = 0\<rparr>"

definition HasNext :: "'r Batch \<Rightarrow> bool" where
  "HasNext b = (int (length (ba_rows b)) > ba_iteratorIdx b)"

definition NextChunk :: "'r Batch \<Rightarrow> 'r Batch \<times> 'r list" where
  "NextChunk b =
     (let start = ba_iteratorIdx b;
          next = start + ba_chunkSize b;
          end0 = (if next > int (length (ba_rows b)) then int (length (ba_rows b)) else next);
          b' = b\<lparr>ba_iteratorIdx := next\<rparr>
      in if start > end0 then (b', [])
         else (b', take (nat (end0 - start)) (drop (nat start) (ba_rows b))))"

text \<open>The chunks that the loop of \<^verbatim>\<open>putTable\<close> puts, with fuel: \<open>None\<close> when the fuel runs out.\<close>

fun put_chunks :: "nat \<Rightarrow> 'r Batch \<Rightarrow> 'r list list option" where
  "put_chunks 0 b = (if HasNext b then None else Some [])"
| "put_chunks (Suc n) b =
     (if HasNext b
      then (case NextChunk b of (b', c) \<Rightarrow> map_option (\<lambda>cs. c # cs) (put_chunks n b'))
      else Some [])"

section \<open>MSSQL\<close>

datatype sql_value = SqlVal val | SqlTime gotime

definition parse_bool :: "string \<Rightarrow> bool outcome" where
  "parse_bool s =
     (if s \<in> set [''1'', ''t'', ''T'', ''true'', ''TRUE'', ''True''] then Ret True
      else if s \<in> set [''0'', ''f'', ''F'', ''false'', ''FALSE'', ''False''] then Ret False
      else Err (errorf (''strconv.ParseBool: parsing '' @ s @ '': invalid syntax'')))"

definition mssql_parseValue :: "gostd \<Rightarrow> val \<Rightarrow> Column \<Rightarrow> string list \<Rightarrow> sql_value outcome" where
  "mssql_parseValue std colVal0 colKind fmts =
     (let kd = col_KindDetails colKind;
          colVal = (case colVal0 of VBool b \<Rightarrow> VInt KInt (BooleanToBit b) | _ \<Rightarrow> colVal0);
          colValString = sprint std colVal;
          text = (\<lambda>s. Ret (SqlVal (VString s)))
      in if colVal0 = VNil then Ret (SqlVal VNil)
         else if Kind kd = Kind ETime then
           bind_out (parse_time std colVal fmts) (\<lambda>extTime. Ret (SqlTime (et_Time extTime)))
         else if Kind kd = Kind KString then
           bind_out (if (case colVal of VMap m \<Rightarrow> True | _ \<Rightarrow> False) \<or> reflect_is_slice colVal
                     then go_json_marshal std colVal else Ret colValString)
             (\<lambda>s. (case OptionalStringPrecision kd of
                 None \<Rightarrow> text s
               | Some p \<Rightarrow> if int (length s) > p then text ExceededValueMarker else text s))
         else if Kind kd = Kind Struct then
           (case struct_text std colVal kd of
              Some r \<Rightarrow> bind_out r text
            | None \<Rightarrow> text colValString)
         else if Kind kd = Kind Array then bind_out (go_json_marshal std colVal) text
         else if Kind kd = Kind Integer then
           (case colVal of
              VString s \<Rightarrow>
                (case atoi colValString of
                   None \<Rightarrow> Err (errorf (''strconv.Atoi: parsing '' @ colValString))
                 | Some i \<Rightarrow> Ret (SqlVal (VInt KInt i)))
            | _ \<Rightarrow> Ret (SqlVal colVal))
         else if Kind kd = Kind Float then
           (case colVal of
              VString s \<Rightarrow> bind_out (go_parse_float std colValString) (\<lambda>x. Ret (SqlVal (VFloat F64 x)))
            | _ \<Rightarrow> Ret (SqlVal colVal))
         else if Kind kd = Kind Boolean then
           bind_out (parse_bool colValString) (\<lambda>b. Ret (SqlVal (VBool b)))
         else if Kind kd = Kind EDecimal then
           (case colVal of
              VDecimal d \<Rightarrow> text (Decimal_String std d)
            | VFloat k x \<Rightarrow> Ret (SqlVal colVal)
            | VString s \<Rightarrow> Ret (SqlVal colVal)
            | _ \<Rightarrow> Err (errorf ''colVal is not *decimal.Decimal type, type is: ''))
         else text colValString)"

definition getSchema :: "string \<Rightarrow> string" where
  "getSchema schema = (if to_lower schema = ''public'' then ''dbo'' else schema)"

section \<open>Parquet\<close>

record FieldTag =
  ft_Name :: string
  ft_InName :: "string option"
  ft_Type :: "string option"
  ft_ConvertedType :: "string option"
  ft_ValueConvertedType :: "string option"
  ft_RepetitionType :: "string option"
  ft_Scale :: "int option"
  ft_Precision :: "int option"
  ft_Length :: "int option"

definition no_tag :: "string \<Rightarrow> FieldTag" where
  "no_tag name =
     \<lparr>ft_Name = name, ft_InName = None, ft_Type = None, ft_ConvertedType = None,
      ft_ValueConvertedType = None, ft_RepetitionType = None, ft_Scale = None, ft_Precision = None,
      ft_Length = None\<rparr>"

definition tag_part :: "string \<Rightarrow> string option \<Rightarrow> string list" where
  "tag_part key v = (case v of None \<Rightarrow> [] | Some s \<Rightarrow> [key @ ''='' @ s])"

definition FieldTag_String :: "FieldTag \<Rightarrow> string" where
  "FieldTag_String f =
     join '', ''
       ([''name='' @ ft_Name f] @ tag_part ''inname'' (ft_InName f) @ tag_part ''type'' (ft_Type f)
        @ tag_part ''convertedtype'' (ft_ConvertedType f)
        @ tag_part ''valueconvertedtype'' (ft_ValueConvertedType f)
        @ [''repetitiontype='' @ (case ft_RepetitionType f of None \<Rightarrow> ''OPTIONAL'' | Some r \<Rightarrow> r)]
        @ tag_part ''scale'' (map_option show_int (ft_Scale f))
        @ tag_part ''precision'' (map_option show_int (ft_Precision f))
        @ tag_part ''length'' (map_option show_int (ft_Length f)))"

datatype parquet_field = ParquetField (pf_Tag: string) (pf_Fields: "parquet_field list")

definition plain_field :: "string \<Rightarrow> string \<Rightarrow> parquet_field" where
  "plain_field colName ty =
     ParquetField (FieldTag_String ((no_tag colName)\<lparr>ft_InName := Some colName, ft_Type := Some ty\<rparr>)) []"

definition text_field :: "string \<Rightarrow> parquet_field" where
  "text_field colName =
     ParquetField (FieldTag_String ((no_tag colName)\<lparr>ft_InName := Some colName,
       ft_Type := Some ''BYTE_ARRAY'', ft_ConvertedType := Some ''UTF8''\<rparr>)) []"

text \<open>\<open>Ret None\<close> is the nil field that a kind without an annotation gives.\<close>

definition ParquetAnnotation :: "string \<Rightarrow> KindDetails \<Rightarrow> parquet_field option outcome" where
  "ParquetAnnotation colName k =
     (let stringKind = (case ExtendedTimeDetails k of None \<Rightarrow> False
            | Some nk \<Rightarrow> nk_Type nk = DateKindType \<or> nk_Type nk = TimeKindType)
      in if Kind k = Kind KString \<or> Kind k = Kind Struct \<or> stringKind then Ret (Some (text_field colName))
         else if Kind k = Kind Float then Ret (Some (plain_field colName ''FLOAT''))
         else if Kind k = Kind Integer \<or> Kind k = Kind ETime then Ret (Some (plain_field colName ''INT64''))
         else if Kind k = Kind EDecimal then
           (case ExtendedDecimalDetails k of
              None \<Rightarrow> Panic nil_dereference
            | Some d \<Rightarrow>
                (case dec_precision d of
                   None \<Rightarrow> Ret (Some (text_field colName))
                 | Some precision \<Rightarrow>
                     if precision = -1 then Ret (Some (text_field colName))
                     else Ret (Some (ParquetField (FieldTag_String ((no_tag colName)
                       \<lparr>ft_InName := Some colName, ft_Type := Some ''BYTE_ARRAY'',
                        ft_ConvertedType := Some ''DECIMAL'', ft_Precision := Some precision,
                        ft_Scale := Some (dec_scale d)\<rparr>)) []))))
         else if Kind k = Kind Boolean then Ret (Some (plain_field colName ''BOOLEAN''))
         else if Kind k = Kind Array then
           Ret (Some (ParquetField (FieldTag_String ((no_tag colName)
               \<lparr>ft_InName := Some colName, ft_Type := Some ''LIST'', ft_RepetitionType := Some ''REQUIRED''\<rparr>))
             [ParquetField (FieldTag_String ((no_tag ''element'')
               \<lparr>ft_Type := Some ''BYTE_ARRAY'', ft_ConvertedType := Some ''UTF8'',
                ft_RepetitionType := Some ''REQUIRED''\<rparr>)) []]))
         else Ret None)"

fun schema_fields :: "Columns \<Rightarrow> parquet_field list outcome" where
  "schema_fields [] = Ret []"
| "schema_fields (col # cols) =
     bind_out (ParquetAnnotation (col_name col) (col_KindDetails col)) (\<lambda>field.
       (case field of
          None \<Rightarrow> Panic nil_dereference
        | Some f \<Rightarrow> bind_out (schema_fields cols) (\<lambda>fs. Ret (f # fs))))"

text \<open>The schema before it is marshalled.\<close>

definition GenerateJSONSchema :: "Columns \<Rightarrow> parquet_field outcome" where
  "GenerateJSONSchema cols =
     bind_out (schema_fields cols) (\<lambda>fields.
       Ret (ParquetField (FieldTag_String ((no_tag ''parquet-go-root'')
         \<lparr>ft_RepetitionType := Some ''REQUIRED''\<rparr>)) fields))"

definition time_to_UnixMilli :: "gotime \<Rightarrow> int" where
  "time_to_UnixMilli t = t_nanos t div 1000000"

definition parquet_ParseValue :: "gostd \<Rightarrow> val \<Rightarrow> Column \<Rightarrow> string list \<Rightarrow> val outcome" where
  "parquet_ParseValue std colVal colKind fmts =
     (let kd = col_KindDetails colKind
      in if colVal = VNil then Ret VNil
         else if Kind kd = Kind ETime then
           bind_out (parse_time std colVal fmts) (\<lambda>extTime.
             (case ExtendedTimeDetails kd of
                None \<Rightarrow> Err no_time_details
              | Some nk \<Rightarrow>
                  if nk_Type nk = DateKindType \<or> nk_Type nk = TimeKindType
                  then Ret (VString (go_time_format std (et_Time extTime) (nk_Format nk)))
                  else Ret (VInt KInt64 (time_to_UnixMilli (et_Time extTime)))))
         else if Kind kd = Kind KString then Ret colVal
         else if Kind kd = Kind Struct then
           (case struct_text std colVal kd of
              Some r \<Rightarrow> bind_out r (\<lambda>s. Ret (VString s))
            | None \<Rightarrow> Ret colVal)
         else if Kind kd = Kind Array then
           bind_out (InterfaceToArrayString std colVal True) (\<lambda>arrayString.
             Ret (if arrayString = [] then VNil else VStrings arrayString))
         else if Kind kd = Kind EDecimal then
           (case colVal of
              VDecimal d \<Rightarrow> Ret (VString (Decimal_String std d))
            | _ \<Rightarrow> Err (errorf ''colVal is not *decimal.Decimal type''))
         else Ret colVal)"

section \<open>Facts\<close>

lemma put_chunks_from:
  assumes "0 < k" and "0 \<le> i" and "length rows \<le> n + nat i"
  shows "\<exists>chunks. put_chunks n \<lparr>ba_rows = rows, ba_chunkSize = k, ba_iteratorIdx = i\<rparr> = Some chunks
      \<and> concat chunks = drop (nat i) rows \<and> (\<forall>c\<in>set chunks. c \<noteq> [] \<and> int (length c) \<le> k)"
  using assms(2,3)
proof (induction n arbitrary: i)
  case 0
  then show ?case by (auto simp: HasNext_def)
next
  case (Suc n)
  let ?b = "\<lparr>ba_rows = rows, ba_chunkSize = k, ba_iteratorIdx = i\<rparr>"
  show ?case
  proof (cases "HasNext ?b")
    case False
    with Suc.prems show ?thesis by (auto simp: HasNext_def)
  next
    case True
    then have less: "i < int (length rows)" by (simp add: HasNext_def)
    define c where "c = take (nat k) (drop (nat i) rows)"
    have nc: "NextChunk ?b = (\<lparr>ba_rows = rows, ba_chunkSize = k, ba_iteratorIdx = i + k\<rparr>, c)"
      using less assms(1) Suc.prems(1)
      by (auto simp: NextChunk_def Let_def c_def nat_diff_distrib nat_add_distrib)
    have room: "0 \<le> i + k" "length rows \<le> n + nat (i + k)" using Suc.prems assms(1) by linarith+
    obtain chunks where ch: "put_chunks n \<lparr>ba_rows = rows, ba_chunkSize = k, ba_iteratorIdx = i + k\<rparr> = Some chunks"
      "concat chunks = drop (nat (i + k)) rows" "\<forall>c\<in>set chunks. c \<noteq> [] \<and> int (length c) \<le> k"
      using Suc.IH [OF room] by blast
    have "c @ drop (nat (i + k)) rows = drop (nat i) rows"
      using assms(1) Suc.prems(1)
        append_take_drop_id [of "nat k" "drop (nat i) rows"]
      by (simp add: c_def nat_add_distrib add.commute)
    moreover have "c \<noteq> []" "int (length c) \<le> k" using less assms(1) Suc.prems(1) by (auto simp: c_def)
    ultimately show ?thesis using True ch nc by auto
  qed
qed

lemma put_chunks_stuck:
  "k \<le> 0 \<Longrightarrow> i \<le> 0 \<Longrightarrow> rows \<noteq> [] \<Longrightarrow>
     put_chunks n \<lparr>ba_rows = rows, ba_chunkSize = k, ba_iteratorIdx = i\<rparr> = None"
proof (induction n arbitrary: i)
  case 0
  then have "i < int (length rows)" by (metis le_less_trans length_greater_0_conv of_nat_0_less_iff)
  then show ?case by (simp add: HasNext_def)
next
  case (Suc n)
  then have "i < int (length rows)" by (metis le_less_trans length_greater_0_conv of_nat_0_less_iff)
  then have "HasNext \<lparr>ba_rows = rows, ba_chunkSize = k, ba_iteratorIdx = i\<rparr>"
    by (simp add: HasNext_def)
  with Suc show ?case by (auto simp: NextChunk_def Let_def split: prod.splits if_splits)
qed

lemma escape_columns_loop_nth:
  "map (\<lambda>c. col_KindDetails c) (filter (\<lambda>c. col_KindDetails c \<noteq> Invalid) cols) = kds \<Longrightarrow>
     escape_columns_loop cols n = map (\<lambda>(kd, i). placeholder kd i) (zip kds [n..<n + length kds])"
proof (induction cols arbitrary: n kds)
  case Nil
  then show ?case by simp
next
  case (Cons c cols)
  show ?case
  proof (cases "col_KindDetails c = Invalid")
    case True
    with Cons show ?thesis by simp
  next
    case False
    with Cons.prems obtain kds' where k: "kds = col_KindDetails c # kds'"
      "map (\<lambda>c. col_KindDetails c) (filter (\<lambda>c. col_KindDetails c \<noteq> Invalid) cols) = kds'" by auto
    have "[n..<n + length kds] = n # [Suc n..<Suc n + length kds']"
      by (subst upt_conv_Cons) (simp_all add: k(1))
    with False k Cons.IH [OF k(2), of "Suc n"] show ?thesis by simp
  qed
qed

lemma length_replaceExceeded:
  "Kind (col_KindDetails c) = Kind Struct \<or> Kind (col_KindDetails c) = Kind KString \<Longrightarrow>
     length (replaceExceededValues s c) \<le> maxRedshiftLength"
  by (auto simp: replaceExceededValues_def Let_def maxRedshiftLength_def ExceededValueMarker_def)

lemma replace_doubled_not_single:
  "x \<noteq> y \<Longrightarrow> replace_byte x [x, x] s \<noteq> [x, y]"
  by (cases s) (auto simp: replace_byte_def)

section \<open>Properties\<close>

text \<open>
  With a positive batch size, the loop that streams rows to BigQuery ends after at most as many
  rounds as there are rows, sends every row exactly once and in order, and no chunk is empty or
  larger than the batch size.
\<close>

theorem put_chunks_complete:
  assumes "0 < k"
  shows "\<exists>chunks. put_chunks (length rows) (NewBatch rows k) = Some chunks
    \<and> concat chunks = rows \<and> (\<forall>c\<in>set chunks. c \<noteq> [] \<and> int (length c) \<le> k)"
  using put_chunks_from [OF assms, of 0 rows "length rows"] by (simp add: NewBatch_def)

theorem put_chunks_complete_witness:
  "\<exists>chunks. put_chunks (length [1::nat, 2, 3]) (NewBatch [1::nat, 2, 3] 2) = Some chunks \<and> concat chunks = [1, 2, 3]"
  using put_chunks_complete [OF zero_less_numeral, of "[1::nat, 2, 3]"] by blast

text \<open>
  With a batch size that is not positive the loop never ends on a non-empty batch, whatever the
  number of rounds. A zero in the configuration is replaced by the default, a negative number is not.
\<close>

theorem put_chunks_diverges:
  assumes "k \<le> 0" and "rows \<noteq> []"
  shows "put_chunks n (NewBatch rows k) = None"
  using put_chunks_stuck [OF assms(1) _ assms(2), of 0 n] by (simp add: NewBatch_def)

theorem put_chunks_diverges_witness: "put_chunks 5 (NewBatch [1::nat] (-1)) = None"
  using put_chunks_diverges [of "-1" "[1::nat]" 5] by simp

text \<open>
  Snowflake's copy is aligned: the selected placeholders are as many as the columns of the
  copy, and the one for the n-th typed column reads field n + 1 of the file, parsed as JSON when the
  column is a struct or an array.
\<close>

theorem escapeColumns_aligned:
  "length (escape_columns_loop cols 0) = length (GetColumnsToUpdate u args cols)
     \<and> (\<forall>i < length (escape_columns_loop cols 0).
          escape_columns_loop cols 0 ! i =
            placeholder (col_KindDetails (filter (\<lambda>c. col_KindDetails c \<noteq> Invalid) cols ! i)) i
          \<and> GetColumnsToUpdate u args cols ! i =
            Column_Name u args (filter (\<lambda>c. col_KindDetails c \<noteq> Invalid) cols ! i))"
  using escape_columns_loop_nth [OF refl, of cols 0] by (simp add: GetColumnsToUpdate_def)

theorem escapeColumns_aligned_witness:
  "escape_columns_loop [NewColumn ''a'' Invalid, NewColumn ''b'' KString] 0 ! 0 = placeholder KString 0"
  using escapeColumns_aligned [of "[NewColumn ''a'' Invalid, NewColumn ''b'' KString]" False None]
  by (simp add: kind_defs)

text \<open>
  With the option to skip large columns, no text or JSON value that is staged for Redshift is
  longer than the largest \<^verbatim>\<open>VARCHAR\<close>.
\<close>

theorem redshift_value_fits:
  assumes "CastColValStaging True std v col fmts = Ret s"
    and "Kind (col_KindDetails col) = Kind Struct \<or> Kind (col_KindDetails col) = Kind KString"
  shows "length s \<le> maxRedshiftLength"
  using assms(1) length_replaceExceeded [OF assms(2)]
  by (auto simp: CastColValStaging_def redshift_null_def maxRedshiftLength_def split: if_splits)

text \<open>
  A text value can be taken for NULL in Snowflake: the two bytes backslash and N are staged as
  the very text that stands for NULL. In Redshift no text value is: its marker has one backslash and
  the backslashes of a value are doubled.
\<close>

theorem null_markers:
  "castColValStaging std (VString ([CHR 0x5C] @ ''N'')) (NewColumn c KString) fmts =
     castColValStaging std VNil (NewColumn c KString) fmts
   \<and> CastColValStaging b std (VString s) (NewColumn c KString) fmts \<noteq>
       CastColValStaging b std VNil (NewColumn c KString) fmts"
  using replace_doubled_not_single [of "CHR 0x5C" "CHR ''N''" s]
  by (auto simp: castColValStaging_def CastColValStaging_def ToString_def Let_def snowflake_null_def
      redshift_null_def Wrap_def replace_byte_def replaceExceededValues_def ExceededValueMarker_def
      kind_defs)

text \<open>
  The replacement of a value that is too long for its MSSQL column can itself be too long: the
  marker has 22 bytes, so in a column of fewer it exceeds the precision as well.
\<close>

theorem mssql_marker_can_exceed:
  assumes "p < 22" and "int (length s) > p"
  shows "mssql_parseValue std (VString s)
      (NewColumn c (KString\<lparr>OptionalStringPrecision := Some p\<rparr>)) fmts = Ret (SqlVal (VString ExceededValueMarker))
    \<and> int (length ExceededValueMarker) > p"
  using assms by (simp add: mssql_parseValue_def Let_def ExceededValueMarker_def kind_defs)

theorem mssql_marker_can_exceed_witness:
  "int (length ExceededValueMarker) > 10"
  using mssql_marker_can_exceed [of 10 "replicate 11 (CHR ''a'')"] by simp

theorem redshift_value_fits_witness:
  "length (Wrap ''abc'' True) \<le> maxRedshiftLength"
proof -
  have "CastColValStaging True std (VString ''abc'') (NewColumn ''c'' KString) [] = Ret (Wrap ''abc'' True)" for std
    by (simp add: CastColValStaging_def ToString_def Let_def Wrap_def replace_byte_def
        replaceExceededValues_def maxRedshiftLength_def kind_defs)
  from redshift_value_fits [OF this] show ?thesis by simp
qed

end
