(* ===== verification/Retry.thy ===== *)
theory Retry
  imports Prelude "HOL-Library.Word"
begin

text \<open>
  Exponential backoff with jitter (\<^verbatim>\<open>lib/jitter/sleep.go\<close>, on 64-bit machine integers), the retry
  loops of \<^verbatim>\<open>lib/retry/retry.go\<close>, and the retrying \<^verbatim>\<open>Exec\<close> of \<^verbatim>\<open>lib/db\<close>. The loops share one
  contract, the locale \<open>retrying\<close>, which is interpreted on each of them. Sleeping and logging are
  left out; what a loop calls acts on a state.
\<close>

unbundle bit_operations_syntax

section \<open>Jitter\<close>

type_synonym go_int64 = "64 word"

definition MaxInt64 :: go_int64 where
  "MaxInt64 = 0x7FFFFFFFFFFFFFFF"

definition DefaultMaxMs :: go_int64 where
  "DefaultMaxMs = 3500"

text \<open>Go's integer division truncates toward zero.\<close>

definition go_quot :: "go_int64 \<Rightarrow> go_int64 \<Rightarrow> go_int64" where
  "go_quot a b = word_of_int (sgn (sint a) * sgn (sint b) * (\<bar>sint a\<bar> div \<bar>sint b\<bar>))"

definition safePowerOfTwo :: "go_int64 \<Rightarrow> go_int64" where
  "safePowerOfTwo n =
     (if n <s 0 then 0
      else if 62 <s n then MaxInt64
      else push_bit (unat n) 1)"

definition signed_min :: "go_int64 \<Rightarrow> go_int64 \<Rightarrow> go_int64" where
  "signed_min a b = (if a <=s b then a else b)"

definition computeJitterUpperBoundMs :: "go_int64 \<Rightarrow> go_int64 \<Rightarrow> go_int64 \<Rightarrow> go_int64 outcome" where
  "computeJitterUpperBoundMs baseMs maxMs attempts =
     (if maxMs <=s 0 then Ret 0
      else if baseMs = 0 then Panic ''runtime error: integer divide by zero''
      else (let powerOfTwo = safePowerOfTwo attempts
            in if go_quot MaxInt64 baseMs <s powerOfTwo then Ret maxMs
               else Ret (signed_min maxMs (baseMs * powerOfTwo))))"

text \<open>\<open>rnd n\<close> is what \<^verbatim>\<open>rand.Int63n(n)\<close> returns; a millisecond is a million nanoseconds.\<close>

definition Jitter :: "(go_int64 \<Rightarrow> go_int64) \<Rightarrow> go_int64 \<Rightarrow> go_int64 \<Rightarrow> go_int64 \<Rightarrow> go_int64 outcome" where
  "Jitter rnd baseMs maxMs attempts =
     bind_out (computeJitterUpperBoundMs baseMs maxMs attempts) (\<lambda>upperBoundMs.
       if upperBoundMs <=s 0 then Ret 0 else Ret (rnd upperBoundMs * 1000000))"

section \<open>Retry loops\<close>

record jitterRetryConfig =
  jitterBaseMs :: int
  jitterMaxMs :: int
  maxAttempts :: int
  isRetryableErr :: "goerr \<Rightarrow> bool"

definition AlwaysRetry :: "goerr \<Rightarrow> bool" where
  "AlwaysRetry e = True"

definition NewJitterRetryConfig ::
  "int \<Rightarrow> int \<Rightarrow> int \<Rightarrow> (goerr \<Rightarrow> bool) \<Rightarrow> jitterRetryConfig outcome" where
  "NewJitterRetryConfig baseMs maxMs attempts retryable =
     (if baseMs \<le> 0 then Err (errorf ''jitter baseMs must be >= 0'')
      else if maxMs \<le> 0 then Err (errorf ''jitter maxMs must be >= 0'')
      else if attempts < 1 then Err (errorf ''maxAttempts must be >= 1'')
      else Ret \<lparr>jitterBaseMs = baseMs, jitterMaxMs = maxMs, maxAttempts = attempts,
                isRetryableErr = retryable\<rparr>)"

text \<open>The loops, by the number of attempts left and the number of the next one.\<close>

fun retries_loop ::
  "(goerr \<Rightarrow> bool) \<Rightarrow> (nat \<Rightarrow> goerr option \<Rightarrow> 's \<Rightarrow> 's \<times> goerr option) \<Rightarrow> nat \<Rightarrow> nat \<Rightarrow> goerr option \<Rightarrow> 's
     \<Rightarrow> 's \<times> goerr option" where
  "retries_loop retryable f 0 attempt err s = (s, err)"
| "retries_loop retryable f (Suc n) attempt err s =
     (case f attempt err s of
        (s', None) \<Rightarrow> (s', None)
      | (s', Some e) \<Rightarrow>
          if \<not> retryable e then (s', Some e)
          else retries_loop retryable f n (attempt + 1) (Some e) s')"

definition WithRetries ::
  "jitterRetryConfig \<Rightarrow> (nat \<Rightarrow> goerr option \<Rightarrow> 's \<Rightarrow> 's \<times> goerr option) \<Rightarrow> 's \<Rightarrow> 's \<times> goerr option" where
  "WithRetries cfg f s = retries_loop (isRetryableErr cfg) f (nat (maxAttempts cfg)) 0 None s"

fun result_loop ::
  "(goerr \<Rightarrow> bool) \<Rightarrow> (nat \<Rightarrow> goerr option \<Rightarrow> 's \<Rightarrow> 's \<times> 'a \<times> goerr option) \<Rightarrow> nat \<Rightarrow> nat
     \<Rightarrow> 'a \<times> goerr option \<Rightarrow> 's \<Rightarrow> 's \<times> 'a \<times> goerr option" where
  "result_loop retryable f 0 attempt res s = (s, res)"
| "result_loop retryable f (Suc n) attempt res s =
     (case f attempt (snd res) s of
        (s', x, None) \<Rightarrow> (s', x, None)
      | (s', x, Some e) \<Rightarrow>
          if \<not> retryable e then (s', x, Some e)
          else result_loop retryable f n (attempt + 1) (x, Some e) s')"

definition WithRetriesAndResult ::
  "'a \<Rightarrow> jitterRetryConfig \<Rightarrow> (nat \<Rightarrow> goerr option \<Rightarrow> 's \<Rightarrow> 's \<times> 'a \<times> goerr option) \<Rightarrow> 's
     \<Rightarrow> 's \<times> 'a \<times> goerr option" where
  "WithRetriesAndResult zero cfg f s =
     result_loop (isRetryableErr cfg) f (nat (maxAttempts cfg)) 0 (zero, None) s"

section \<open>The database wrapper\<close>

definition retryableError :: "goerr \<Rightarrow> bool" where
  "retryableError e = (if ECONNRESET \<in> set (err_is e) \<or> ECONNREFUSED \<in> set (err_is e) then True else False)"

definition exec_maxAttempts :: nat where
  "exec_maxAttempts = 5"

fun exec_loop ::
  "(string \<Rightarrow> 'w \<Rightarrow> 'w \<times> goerr option) \<Rightarrow> string \<Rightarrow> nat \<Rightarrow> goerr option \<Rightarrow> 'w \<Rightarrow> 'w \<times> goerr option" where
  "exec_loop db_exec query 0 err w = (w, err)"
| "exec_loop db_exec query (Suc n) err w =
     (case db_exec query w of
        (w', None) \<Rightarrow> (w', None)
      | (w', Some e) \<Rightarrow>
          if \<not> retryableError e then (w', Some e) else exec_loop db_exec query n (Some e) w')"

definition store_Exec ::
  "(string \<Rightarrow> 'w \<Rightarrow> 'w \<times> goerr option) \<Rightarrow> string \<Rightarrow> 'w \<Rightarrow> 'w \<times> goerr option" where
  "store_Exec db_exec query w = exec_loop db_exec query exec_maxAttempts None w"

section \<open>The contract of a retry loop\<close>

text \<open>The state after some attempts, however they ended.\<close>

fun nth_state :: "(nat \<Rightarrow> 's \<Rightarrow> 's \<times> 'r) \<Rightarrow> nat \<Rightarrow> nat \<Rightarrow> 's \<Rightarrow> 's" where
  "nth_state attempt 0 k s = s"
| "nth_state attempt (Suc j) k s = nth_state attempt j (Suc k) (fst (attempt k s))"

text \<open>
  \<open>loop n k\<close> makes at most \<open>n\<close> attempts, the first of them number \<open>k\<close>, and goes on as long as
  the result asks for it.
\<close>

locale retrying =
  fixes attempt :: "nat \<Rightarrow> 's \<Rightarrow> 's \<times> 'r"
    and again :: "'r \<Rightarrow> bool"
    and loop :: "nat \<Rightarrow> nat \<Rightarrow> 's \<Rightarrow> 's \<times> 'r"
  assumes last_attempt: "loop (Suc 0) k s = attempt k s"
    and more_attempts: "loop (Suc (Suc n)) k s =
      (case attempt k s of (s', r) \<Rightarrow> if again r then loop (Suc n) (Suc k) s' else (s', r))"
begin

lemma attempts:
  "\<exists>j\<le>n. loop (Suc n) k s = attempt (k + j) (nth_state attempt j k s)
     \<and> (\<forall>i<j. again (snd (attempt (k + i) (nth_state attempt i k s))))
     \<and> (j = n \<or> \<not> again (snd (loop (Suc n) k s)))"
proof (induction n arbitrary: k s)
  case 0
  then show ?case by (simp add: last_attempt)
next
  case (Suc n)
  obtain s1 r1 where a: "attempt k s = (s1, r1)" by (cases "attempt k s")
  show ?case
  proof (cases "again r1")
    case False
    with a show ?thesis by (intro exI [of _ 0]) (simp add: more_attempts)
  next
    case True
    with a have l: "loop (Suc (Suc n)) k s = loop (Suc n) (Suc k) s1" by (simp add: more_attempts)
    from Suc.IH [of "Suc k" s1] obtain j where j: "j \<le> n"
      "loop (Suc n) (Suc k) s1 = attempt (Suc k + j) (nth_state attempt j (Suc k) s1)"
      "\<forall>i<j. again (snd (attempt (Suc k + i) (nth_state attempt i (Suc k) s1)))"
      "j = n \<or> \<not> again (snd (loop (Suc n) (Suc k) s1))" by blast
    have "again (snd (attempt (k + i) (nth_state attempt i k s)))" if "i < Suc j" for i
      using that j(3) a True by (cases i) auto
    with j l a show ?thesis by (intro exI [of _ "Suc j"]) auto
  qed
qed

end

section \<open>The loops keep the contract\<close>

definition wants_retry :: "(goerr \<Rightarrow> bool) \<Rightarrow> goerr option \<Rightarrow> bool" where
  "wants_retry retryable r = (case r of None \<Rightarrow> False | Some e \<Rightarrow> retryable e)"

text \<open>The state of \<^verbatim>\<open>WithRetries\<close> includes the error that the next attempt is given.\<close>

definition retry_attempt ::
  "(nat \<Rightarrow> goerr option \<Rightarrow> 's \<Rightarrow> 's \<times> goerr option) \<Rightarrow> nat \<Rightarrow> 's \<times> goerr option
     \<Rightarrow> ('s \<times> goerr option) \<times> goerr option" where
  "retry_attempt f k x = (case f k (snd x) (fst x) of (s', e) \<Rightarrow> ((s', e), e))"

definition retry_run ::
  "(goerr \<Rightarrow> bool) \<Rightarrow> (nat \<Rightarrow> goerr option \<Rightarrow> 's \<Rightarrow> 's \<times> goerr option) \<Rightarrow> nat \<Rightarrow> nat
     \<Rightarrow> 's \<times> goerr option \<Rightarrow> ('s \<times> goerr option) \<times> goerr option" where
  "retry_run retryable f n k x =
     (case retries_loop retryable f n k (snd x) (fst x) of (s', e) \<Rightarrow> ((s', e), e))"

interpretation wr: retrying "retry_attempt f" "wants_retry retryable" "retry_run retryable f"
  for f retryable
  by unfold_locales
    (auto simp: retry_attempt_def retry_run_def wants_retry_def split: prod.splits option.splits)

interpretation ex: retrying "\<lambda>k. db_exec q" "wants_retry retryableError" "\<lambda>n k. exec_loop db_exec q n None"
  for db_exec q
  by unfold_locales
    (auto simp: wants_retry_def split: prod.splits option.splits)

section \<open>Facts on signed words\<close>

lemma sint_of_int64: "- (2 ^ 63) \<le> i \<Longrightarrow> i < 2 ^ 63 \<Longrightarrow> sint (word_of_int i :: go_int64) = i"
  by (simp add: sint_sbintrunc' signed_take_bit_int_eq_self)

lemma sint_MaxInt64: "sint MaxInt64 = 2 ^ 63 - 1"
  by (simp add: MaxInt64_def)

lemma sint_int64_less: "sint (w :: go_int64) < 2 ^ 63"
  using sint_lt [of w] by simp

lemma uint_sint64: "0 \<le> sint (w :: go_int64) \<Longrightarrow> uint w = sint w"
  using sint_int64_less [of w] by (simp add: uint_sint take_bit_int_eq_self)

lemma unat_sint: "0 \<le> sint (w :: go_int64) \<Longrightarrow> unat w = nat (sint w)"
  using uint_sint64 [of w] by (metis unat_eq_nat_uint)

lemma sint_safePowerOfTwo:
  assumes "0 \<le> sint n"
  shows "sint (safePowerOfTwo n) = (if sint n \<le> 62 then 2 ^ nat (sint n) else 2 ^ 63 - 1)"
proof (cases "sint n \<le> 62")
  case True
  have "(2::int) ^ nat (sint n) \<le> 2 ^ 62" using True by (intro power_increasing) auto
  moreover have "push_bit (unat n) (1 :: go_int64) = word_of_int (2 ^ nat (sint n))"
    using unat_sint [OF assms] by (simp add: push_bit_eq_mult of_int_power)
  moreover have "sint (word_of_int (2 ^ nat (sint n)) :: go_int64) = 2 ^ nat (sint n)"
    using calculation(1) by (intro sint_of_int64) (auto intro: order_trans [of _ 0])
  ultimately have "sint (push_bit (unat n) (1 :: go_int64)) = 2 ^ nat (sint n)" by metis
  with True assms show ?thesis by (simp add: safePowerOfTwo_def word_sless_alt)
next
  case False
  with assms show ?thesis by (simp add: safePowerOfTwo_def word_sless_alt sint_MaxInt64)
qed

lemma sint_go_quot_MaxInt64:
  assumes "0 < sint b"
  shows "sint (go_quot MaxInt64 b) = (2 ^ 63 - 1) div sint b"
proof -
  have "(2 ^ 63 - 1) div sint b \<le> 2 ^ 63 - 1" "0 \<le> (2 ^ 63 - 1) div sint b"
    using assms by (auto simp: pos_imp_zdiv_nonneg_iff intro: order_trans [OF zdiv_mono2 [of _ 1]])
  with assms show ?thesis by (simp add: go_quot_def sint_MaxInt64 sint_of_int64)
qed

lemma sint_mult_int64:
  assumes "0 \<le> sint a * sint b" and "sint a * sint b < 2 ^ 63"
  shows "sint ((a :: go_int64) * b) = sint a * sint b"
proof -
  have "a * b = word_of_int (sint a * sint b)" by simp
  with assms show ?thesis by (simp add: sint_of_int64 del: of_int_mult)
qed

lemma sint_signed_min: "sint (signed_min a b) = min (sint a) (sint b)"
  by (simp add: signed_min_def word_sle_eq min_def)

lemma int_div_less_iff:
  fixes a b p :: int
  assumes "0 < b"
  shows "a div b < p \<longleftrightarrow> a < b * p"
proof
  assume "a div b < p"
  then have "b * (a div b + 1) \<le> b * p" using assms by (intro mult_left_mono) auto
  moreover have "a < b * (a div b + 1)"
    unfolding distrib_left using mult_div_mod_eq [of b a] pos_mod_bound [OF assms, of a] by linarith
  ultimately show "a < b * p" by linarith
next
  assume *: "a < b * p"
  show "a div b < p"
  proof (rule ccontr)
    assume "\<not> a div b < p"
    then have "b * p \<le> b * (a div b)" using assms by (intro mult_left_mono) auto
    also have "\<dots> \<le> a" using assms mult_div_mod_eq [of b a] pos_mod_sign [OF assms, of a] by linarith
    finally show False using * by linarith
  qed
qed

lemma jitter_bound_facts:
  assumes "0 < sint b" and "0 < sint m" and "0 \<le> sint n"
  shows "\<exists>u. computeJitterUpperBoundMs b m n = Ret u \<and> sint u = min (sint m) (sint b * 2 ^ nat (sint n))"
proof -
  let ?p = "safePowerOfTwo n"
  have nz: "\<not> m <=s 0" "b \<noteq> 0" using assms by (auto simp: word_sle_eq)
  have p: "sint ?p = (if sint n \<le> 62 then 2 ^ nat (sint n) else 2 ^ 63 - 1)"
    by (rule sint_safePowerOfTwo [OF assms(3)])
  have pos: "0 < sint ?p" by (simp add: p)
  have le: "sint ?p \<le> 2 ^ nat (sint n)"
  proof (cases "sint n \<le> 62")
    case False
    then have "(2::int) ^ 63 \<le> 2 ^ nat (sint n)" by (intro power_increasing) auto
    with False show ?thesis by (simp add: p)
  qed (simp add: p)
  have m: "sint m \<le> 2 ^ 63 - 1" using sint_int64_less [of m] by simp
  have big: "2 ^ 63 - 1 < sint b * sint ?p \<longleftrightarrow> sint (go_quot MaxInt64 b) < sint ?p"
    using assms(1) by (simp add: sint_go_quot_MaxInt64 int_div_less_iff)
  show ?thesis
  proof (cases "2 ^ 63 - 1 < sint b * sint ?p")
    case True
    have "sint b * sint ?p \<le> sint b * 2 ^ nat (sint n)"
      using le assms(1) by (intro mult_left_mono) auto
    with True m have "min (sint m) (sint b * 2 ^ nat (sint n)) = sint m" by linarith
    with True big nz show ?thesis by (simp add: computeJitterUpperBoundMs_def Let_def word_sless_alt)
  next
    case False
    then have prod: "sint (b * ?p) = sint b * sint ?p"
      using assms(1) pos by (intro sint_mult_int64) auto
    have "min (sint m) (sint b * sint ?p) = min (sint m) (sint b * 2 ^ nat (sint n))"
    proof (cases "sint n \<le> 62")
      case True
      then show ?thesis by (simp add: p)
    next
      case f: False
      have "1 * (2 ^ 63 - 1) \<le> sint b * sint ?p"
        using assms(1) f by (intro mult_mono) (auto simp: p)
      moreover have "sint b * sint ?p \<le> sint b * 2 ^ nat (sint n)"
        using le assms(1) by (intro mult_left_mono) auto
      ultimately show ?thesis using m by (simp add: min_def)
    qed
    with False big nz prod show ?thesis
      by (simp add: computeJitterUpperBoundMs_def Let_def word_sless_alt sint_signed_min)
  qed
qed

lemma nth_state_snoc:
  "nth_state a (Suc j) k s = fst (a (k + j) (nth_state a j k s))"
  by (induction j arbitrary: k s) (simp_all del: nth_state.simps(2), simp_all)

section \<open>Properties\<close>

text \<open>
  C34. The backoff bound is the exact minimum of the cap and base times two to the attempt, computed
  without overflow, for every positive base and cap and every attempt number of a 64-bit integer.
\<close>

theorem jitter_bound_exact:
  assumes "0 < sint b" and "0 < sint m" and "0 \<le> sint n"
  shows "\<exists>u. computeJitterUpperBoundMs b m n = Ret u \<and> sint u = min (sint m) (sint b * 2 ^ nat (sint n))"
  by (rule jitter_bound_facts [OF assms])

theorem jitter_bound_exact_witness:
  "\<exists>u. computeJitterUpperBoundMs 500 3500 200 = Ret u \<and> sint u = min 3500 (500 * 2 ^ 200)"
  using jitter_bound_exact [of 500 3500 200] by simp

text \<open>
  A delay is never negative and stays below the cap in milliseconds, for every cap that fits a
  duration, whatever the random generator returns in its range.
\<close>

theorem Jitter_in_range:
  assumes "0 < sint b" and "0 < sint m" and "sint m \<le> 9223372036854" and "0 \<le> sint n"
    and "\<And>u. 0 < sint u \<Longrightarrow> 0 \<le> sint (rnd u) \<and> sint (rnd u) < sint u"
    and "Jitter rnd b m n = Ret d"
  shows "0 \<le> sint d \<and> sint d < sint m * 1000000"
proof -
  obtain u where u: "computeJitterUpperBoundMs b m n = Ret u"
    and min: "sint u = min (sint m) (sint b * 2 ^ nat (sint n))"
    using jitter_bound_facts [OF assms(1,2,4)] by blast
  have pos: "0 < sint u" using assms(1,2) by (simp add: min)
  have r: "0 \<le> sint (rnd u)" "sint (rnd u) < sint m" using assms(5) [OF pos] min by auto
  have "sint (rnd u * 1000000) = sint (rnd u) * sint (1000000 :: go_int64)"
    using r assms(3) by (intro sint_mult_int64) auto
  moreover have "d = rnd u * 1000000" using assms(6) u pos by (simp add: Jitter_def word_sle_eq)
  ultimately show ?thesis using r by simp
qed

theorem Jitter_in_range_witness:
  "\<exists>d. Jitter (\<lambda>u. 0) 500 DefaultMaxMs 3 = Ret d \<and> 0 \<le> sint d \<and> sint d < 3500 * 1000000"
proof -
  obtain d where d: "Jitter (\<lambda>u. 0) 500 DefaultMaxMs 3 = Ret d"
    by (simp add: Jitter_def computeJitterUpperBoundMs_def DefaultMaxMs_def Let_def)
  have "0 < sint (500 :: go_int64)" "0 < sint DefaultMaxMs" "sint DefaultMaxMs \<le> 9223372036854"
    "0 \<le> sint (3 :: go_int64)" by (simp_all add: DefaultMaxMs_def)
  from Jitter_in_range [OF this _ d] d show ?thesis by (simp add: DefaultMaxMs_def)
qed

text \<open>
  C33. A retried function is called at least once and at most as often as configured, each call with
  the error of the one before; the loop returns the last call's error, every earlier call failed
  with a retryable error, and it stops early only on a success or an error that is not retryable.
\<close>

theorem WithRetries_attempts:
  assumes "NewJitterRetryConfig baseMs maxMs attempts retryable = Ret cfg"
  shows "\<exists>j < nat attempts.
      (let x = nth_state (retry_attempt f) j 0 (s, None)
       in WithRetries cfg f s = f j (snd x) (fst x))
    \<and> (\<forall>i<j. wants_retry retryable (snd (nth_state (retry_attempt f) (Suc i) 0 (s, None))))
    \<and> (Suc j = nat attempts \<or> \<not> wants_retry retryable (snd (WithRetries cfg f s)))"
proof -
  from assms have cfg: "isRetryableErr cfg = retryable" "maxAttempts cfg = attempts" "1 \<le> attempts"
    by (auto simp: NewJitterRetryConfig_def split: if_splits)
  then obtain n where n: "nat attempts = Suc n" by (cases "nat attempts") auto
  have w: "WithRetries cfg f s = (fst (fst (retry_run retryable f (Suc n) 0 (s, None))),
      snd (retry_run retryable f (Suc n) 0 (s, None)))"
    by (simp add: WithRetries_def cfg n retry_run_def del: retries_loop.simps split: prod.splits)
  from wr.attempts [of n retryable f 0 "(s, None)"] obtain j where j: "j \<le> n"
    "retry_run retryable f (Suc n) 0 (s, None) = retry_attempt f j (nth_state (retry_attempt f) j 0 (s, None))"
    "\<forall>i<j. wants_retry retryable (snd (retry_attempt f i (nth_state (retry_attempt f) i 0 (s, None))))"
    "j = n \<or> \<not> wants_retry retryable (snd (retry_run retryable f (Suc n) 0 (s, None)))" by auto
  have "WithRetries cfg f s = f j (snd (nth_state (retry_attempt f) j 0 (s, None)))
      (fst (nth_state (retry_attempt f) j 0 (s, None)))"
    by (simp add: w j(2) retry_attempt_def split: prod.splits)
  moreover have "snd (WithRetries cfg f s) = snd (retry_run retryable f (Suc n) 0 (s, None))"
    by (simp add: w)
  moreover have "snd (nth_state (retry_attempt f) (Suc i) 0 (s, None)) =
      snd (retry_attempt f i (nth_state (retry_attempt f) i 0 (s, None)))" for i
    unfolding nth_state_snoc by (simp add: retry_attempt_def split: prod.splits)
  ultimately show ?thesis using j(1,3,4) n
    by (intro exI [of _ j]) (simp add: Let_def del: nth_state.simps)
qed

definition flaky :: "nat \<Rightarrow> goerr option \<Rightarrow> nat \<Rightarrow> nat \<times> goerr option" where
  "flaky k err calls = (calls + 1, if k = 2 then None else Some (errorf ''failed''))"

theorem WithRetries_attempts_witness:
  "\<exists>cfg. NewJitterRetryConfig 1 1 3 AlwaysRetry = Ret cfg \<and> WithRetries cfg flaky 0 = (3, None)
     \<and> (\<exists>j<nat 3. Suc j = nat 3 \<or> \<not> wants_retry AlwaysRetry (snd (WithRetries cfg flaky 0)))"
proof -
  obtain cfg where c: "NewJitterRetryConfig 1 1 3 AlwaysRetry = Ret cfg"
    by (simp add: NewJitterRetryConfig_def)
  then have "WithRetries cfg flaky 0 = (3, None)"
    by (auto simp: NewJitterRetryConfig_def WithRetries_def flaky_def AlwaysRetry_def numeral_eq_Suc)
  with c WithRetries_attempts [OF c, of flaky 0] show ?thesis by blast
qed

text \<open>
  A statement is executed at most five times, and again only after a connection error: the
  result is that of the last execution.
\<close>

theorem store_Exec_attempts:
  "\<exists>j < 5. store_Exec db_exec q w = db_exec q (nth_state (\<lambda>k. db_exec q) j 0 w)
     \<and> (\<forall>i<j. wants_retry retryableError (snd (db_exec q (nth_state (\<lambda>k. db_exec q) i 0 w))))
     \<and> (j = 4 \<or> \<not> wants_retry retryableError (snd (store_Exec db_exec q w)))"
proof -
  have five: "exec_maxAttempts = Suc 4" by (simp add: exec_maxAttempts_def)
  from ex.attempts [where n = 4 and k = 0 and s = w and db_exec = db_exec and q = q] obtain j where "j \<le> 4"
    "exec_loop db_exec q (Suc 4) None w = db_exec q (nth_state (\<lambda>k. db_exec q) j 0 w)"
    "\<forall>i<j. wants_retry retryableError (snd (db_exec q (nth_state (\<lambda>k. db_exec q) i 0 w)))"
    "j = 4 \<or> \<not> wants_retry retryableError (snd (exec_loop db_exec q (Suc 4) None w))" by blast
  then show ?thesis unfolding store_Exec_def five by (intro exI [of _ j]) auto
qed

end
