(* ===== verification/Warehouses.thy ===== *)
theory Warehouses
  imports Shared Staging Retry
begin

text \<open>
  The destinations: Snowflake, Redshift, BigQuery and MSSQL on top of the shared merge, and S3.
  For each, the names and queries it uses, how it loads the staging table, and its \<^verbatim>\<open>Merge\<close>
  and \<^verbatim>\<open>Append\<close>. The database driver, the file system, the uploads and the bulk loaders are
  the fields of \<open>driver\<close>, parameters that act on a state. \<^verbatim>\<open>Exec\<close> of a store is the retrying one.
  Connections are opened in \<open>Startup\<close>.
\<close>

section \<open>Drivers\<close>

record UploadArgs =
  up_Bucket :: string
  up_OptionalS3Prefix :: string
  up_FilePath :: string
  up_OverrideAWSAccessKeyID :: "string option"
  up_OverrideAWSAccessKeySecret :: "string option"

record 'w driver =
  dr_Exec :: "string \<Rightarrow> 'w \<Rightarrow> 'w \<times> goerr option"
  dr_Query :: "string \<Rightarrow> string list \<Rightarrow> 'w \<Rightarrow> 'w \<times> query_row list outcome"
  dr_Begin :: "'w \<Rightarrow> 'w \<times> goerr option"
  dr_TxExec :: "string \<Rightarrow> 'w \<Rightarrow> 'w \<times> goerr option"
  dr_TxCommit :: "'w \<Rightarrow> 'w \<times> goerr option"
  dr_TxRollback :: "'w \<Rightarrow> 'w"
  dr_Now :: "'w \<Rightarrow> gotime"
  dr_TempPath :: "string \<Rightarrow> string"
  dr_Create :: "string \<Rightarrow> 'w \<Rightarrow> 'w \<times> goerr option"
  dr_WriteRow :: "string \<Rightarrow> string list \<Rightarrow> 'w \<Rightarrow> 'w \<times> goerr option"
  dr_FlushFile :: "string \<Rightarrow> 'w \<Rightarrow> 'w \<times> goerr option"
  dr_RemoveAll :: "string \<Rightarrow> 'w \<Rightarrow> 'w"
  dr_LoadAWSConfig :: "(string \<times> string) option \<Rightarrow> 'w \<Rightarrow> 'w \<times> goerr option"
  dr_OpenFile :: "string \<Rightarrow> 'w \<Rightarrow> 'w \<times> goerr option"
  dr_Stat :: "string \<Rightarrow> 'w \<Rightarrow> 'w \<times> string outcome"
  dr_PutObject :: "string \<Rightarrow> string \<Rightarrow> string \<Rightarrow> 'w \<Rightarrow> 'w \<times> goerr option"
  dr_PrepareCopyIn :: "string \<Rightarrow> string list \<Rightarrow> 'w \<Rightarrow> 'w \<times> goerr option"
  dr_CopyRow :: "sql_value list \<Rightarrow> 'w \<Rightarrow> 'w \<times> goerr option"
  dr_CopyDone :: "'w \<Rightarrow> 'w \<times> goerr option"
  dr_NewClient :: "string \<Rightarrow> 'w \<Rightarrow> 'w \<times> goerr option"
  dr_Put :: "string \<Rightarrow> string \<Rightarrow> row list \<Rightarrow> 'w \<Rightarrow> 'w \<times> goerr option"
  dr_NewFileWriter :: "string \<Rightarrow> 'w \<Rightarrow> 'w \<times> goerr option"
  dr_NewJSONWriter :: "string \<Rightarrow> string \<Rightarrow> 'w \<Rightarrow> 'w \<times> goerr option"
  dr_WriteParquet :: "string \<Rightarrow> string \<Rightarrow> 'w \<Rightarrow> 'w \<times> goerr option"
  dr_WriteStop :: "string \<Rightarrow> 'w \<Rightarrow> 'w \<times> goerr option"
  dr_CloseFile :: "string \<Rightarrow> 'w \<Rightarrow> 'w \<times> goerr option"

definition driver_dwh :: "destination_kind \<Rightarrow> 'w driver \<Rightarrow> 'w dwh" where
  "driver_dwh label dr = \<lparr>dw_Label = label, dw_Exec = store_Exec (dr_Exec dr)\<rparr>"

text \<open>
  \<^verbatim>\<open>s3lib.UploadLocalFileToS3\<close>: static credentials are used when both are given, the object is named
  after the file, below the prefix if there is one.
\<close>

definition static_credentials :: "UploadArgs \<Rightarrow> (string \<times> string) option" where
  "static_credentials args =
     (case (up_OverrideAWSAccessKeyID args, up_OverrideAWSAccessKeySecret args) of
        (Some key, Some secret) \<Rightarrow> Some (key, secret) | _ \<Rightarrow> None)"

definition object_key :: "UploadArgs \<Rightarrow> string \<Rightarrow> string" where
  "object_key args name =
     (if up_OptionalS3Prefix args \<noteq> [] then up_OptionalS3Prefix args @ ''/'' @ name else name)"

definition UploadLocalFileToS3 :: "'w driver \<Rightarrow> UploadArgs \<Rightarrow> 'w \<Rightarrow> 'w \<times> string outcome" where
  "UploadLocalFileToS3 dr args w =
     (case dr_LoadAWSConfig dr (static_credentials args) w of
        (w1, Some e) \<Rightarrow> (w1, Err (wrapf ''failed loading s3 config: '' e []))
      | (w1, None) \<Rightarrow>
          (case dr_OpenFile dr (up_FilePath args) w1 of
             (w2, Some e) \<Rightarrow> (w2, Err e)
           | (w2, None) \<Rightarrow>
               (case dr_Stat dr (up_FilePath args) w2 of
                  (w3, Ret name) \<Rightarrow>
                    (let key = object_key args name
                     in case dr_PutObject dr (up_Bucket args) key (up_FilePath args) w3 of
                          (w4, Some e) \<Rightarrow> (w4, Err e)
                        | (w4, None) \<Rightarrow> (w4, Ret (''s3://'' @ up_Bucket args @ ''/'' @ key)))
                | (w3, r) \<Rightarrow> (w3, r))))"

section \<open>Creating the temporary table\<close>

definition temp_alter_args ::
  "Config \<Rightarrow> TableData \<Rightarrow> DwhTableConfig \<Rightarrow> string \<Rightarrow> AlterTableArgs" where
  "temp_alter_args cfg td tc tempTableName =
     \<lparr>at_Tc = tc, at_ContainOtherOperations = False, at_FqTableName = tempTableName,
      at_CreateTable = True, at_TemporaryTable = True,
      at_UppercaseEscNames = Some (cfg_UppercaseEscapedNames cfg), at_ColumnOp = Add,
      at_Mode = td_mode td, at_CdcTime = zero_time\<rparr>"

definition create_temp ::
  "gostd \<Rightarrow> destination_kind \<Rightarrow> 'w driver \<Rightarrow> Config \<Rightarrow> TableData \<Rightarrow> Columns \<Rightarrow> DwhTableConfig \<Rightarrow> string
     \<Rightarrow> 'w session \<Rightarrow> 'w session \<times> DwhTableConfig \<times> unit outcome" where
  "create_temp std label dr cfg td cols tc tempTableName s =
     (case AlterTable std (\<lambda>_. dr_Now dr (db_state s)) (driver_dwh label dr)
             (temp_alter_args cfg td tc tempTableName) cols s of
        (s', tc', r) \<Rightarrow> (s', tc', wrap_out ''failed to create temp table: '' r))"

section \<open>Staging files\<close>

text \<open>The zero column that a failed lookup gives, and the cells of one row.\<close>

definition zero_column :: Column where
  "zero_column = NewColumn [] \<lparr>Kind = [], ExtendedTimeDetails = None, ExtendedDecimalDetails = None,
     OptionalStringPrecision = None\<rparr>"

definition column_of :: "Columns \<Rightarrow> string \<Rightarrow> Column" where
  "column_of cols name = (case GetColumn cols name of None \<Rightarrow> zero_column | Some c \<Rightarrow> c)"

definition row_cell :: "row \<Rightarrow> string \<Rightarrow> val" where
  "row_cell r name = (case gm_get r name of None \<Rightarrow> VNil | Some v \<Rightarrow> v)"

definition cast_row ::
  "(val \<Rightarrow> Column \<Rightarrow> 'a outcome) \<Rightarrow> Columns \<Rightarrow> string list \<Rightarrow> row \<Rightarrow> 'a list outcome" where
  "cast_row cast cols names r = mapM_out (\<lambda>name. cast (row_cell r name) (column_of cols name)) names"

fun write_rows ::
  "'w driver \<Rightarrow> (row \<Rightarrow> string list outcome) \<Rightarrow> string \<Rightarrow> row list \<Rightarrow> 'w session
     \<Rightarrow> 'w session \<times> unit outcome" where
  "write_rows dr cast fp [] s = (s, Ret ())"
| "write_rows dr cast fp (r # rs) s =
     (case cast r of
        Err e \<Rightarrow> (s, Err e)
      | Panic m \<Rightarrow> (s, Panic m)
      | Ret cells \<Rightarrow>
          (case on_state (dr_WriteRow dr fp cells) s of
             (s1, Some err) \<Rightarrow> (s1, Err (wrapf ''failed to write to csv: '' err []))
           | (s1, None) \<Rightarrow> write_rows dr cast fp rs s1))"

definition write_file ::
  "'w driver \<Rightarrow> (row \<Rightarrow> string list outcome) \<Rightarrow> string \<Rightarrow> string \<Rightarrow> row list \<Rightarrow> 'w session
     \<Rightarrow> 'w session \<times> unit outcome" where
  "write_file dr cast flushMsg fp rows s =
     (case on_state (dr_Create dr fp) s of
        (s1, Some err) \<Rightarrow> (s1, Err err)
      | (s1, None) \<Rightarrow>
          (case write_rows dr cast fp rows s1 of
             (s2, Ret _) \<Rightarrow>
               (case on_state (dr_FlushFile dr fp) s2 of
                  (s3, Some err) \<Rightarrow> (s3, Err (wrapf flushMsg err []))
                | (s3, None) \<Rightarrow> (s3, Ret ()))
           | r \<Rightarrow> r))"

text \<open>The deferred removal of the staging file.\<close>

definition remove_file :: "'w driver \<Rightarrow> string \<Rightarrow> 'w session \<times> unit outcome \<Rightarrow> 'w session \<times> unit outcome" where
  "remove_file dr fp x = ((fst x)\<lparr>db_state := dr_RemoveAll dr fp (db_state (fst x))\<rparr>, snd x)"

definition exec_step ::
  "'w dwh \<Rightarrow> string \<Rightarrow> string \<Rightarrow> 'w session \<Rightarrow> ('w session \<Rightarrow> 'w session \<times> unit outcome)
     \<Rightarrow> 'w session \<times> unit outcome" where
  "exec_step dw pre q s k =
     (case exec_sql dw q s of
        (s1, Some err) \<Rightarrow> (s1, Err (wrapf pre err []))
      | (s1, None) \<Rightarrow> k s1)"

section \<open>Snowflake\<close>

definition no_opts :: FqNameOpts where
  "no_opts = \<lparr>BigQueryProjectID = [], MsSQLSchemaOverride = []\<rparr>"

definition snowflake_ToFullyQualifiedName :: "Config \<Rightarrow> TableData \<Rightarrow> bool \<Rightarrow> string" where
  "snowflake_ToFullyQualifiedName cfg td escape =
     ToFqName Snowflake escape (cfg_UppercaseEscapedNames cfg) no_opts td"

definition snowflake_cfg_args :: "Config \<Rightarrow> TableData \<Rightarrow> GetTableCfgArgs" where
  "snowflake_cfg_args cfg td =
     (let fqName = snowflake_ToFullyQualifiedName cfg td True
      in \<lparr>gt_FqName = fqName, gt_Query = ''DESC TABLE '' @ fqName @ '';'', gt_Args = [],
          gt_ColumnNameLabel = ''name'', gt_ColumnTypeLabel = ''type'', gt_ColumnDescLabel = ''comment'',
          gt_EmptyCommentValue = Some ''<nil>'',
          gt_DropDeletedColumns = tc_DropDeletedColumns (td_TopicConfig td)\<rparr>)"

definition copy_command :: "bool \<Rightarrow> Columns \<Rightarrow> string \<Rightarrow> AdditionalSettings \<Rightarrow> string" where
  "copy_command u cols tempTableName settings =
     ''COPY INTO '' @ tempTableName @ '' ('' @
     join '','' (GetColumnsToUpdate u (Some \<lparr>Escape = True, na_DestKind = Snowflake\<rparr>) cols) @
     '') FROM (SELECT '' @ escapeColumns cols '','' @ '' FROM @'' @
     addPrefixToTableName tempTableName ''%'' @ '')'' @
     (if as_AdditionalCopyClause settings \<noteq> [] then '' '' @ as_AdditionalCopyClause settings else [])"

definition snowflake_PrepareTemporaryTable ::
  "gostd \<Rightarrow> 'w driver \<Rightarrow> Config \<Rightarrow> TableData \<Rightarrow> DwhTableConfig \<Rightarrow> string \<Rightarrow> AdditionalSettings \<Rightarrow> bool
     \<Rightarrow> 'w session \<Rightarrow> 'w session \<times> DwhTableConfig \<times> unit outcome" where
  "snowflake_PrepareTemporaryTable std dr cfg td tc tempTableName settings createTempTable s =
     (case ReadOnlyInMemoryCols td of None \<Rightarrow> (s, tc, Panic nil_dereference)
      | Some cols \<Rightarrow>
        (case (if createTempTable then create_temp std Snowflake dr cfg td cols tc tempTableName s
               else (s, tc, Ret ())) of
           (s1, tc1, Ret _) \<Rightarrow>
             (let u = cfg_UppercaseEscapedNames cfg;
                  names = GetColumnsToUpdate u None cols;
                  fmts = AdditionalDateFormats (cfg_TypingSettings cfg);
                  fp = dr_TempPath dr (tempTableName @ ''.csv'');
                  dw = driver_dwh Snowflake dr
              in case write_file dr (cast_row (\<lambda>v c. castColValStaging std v c fmts) cols names) [] fp
                        (Rows td) s1 of
                   (s2, Ret _) \<Rightarrow>
                     (case remove_file dr fp
                        (exec_step dw ''failed to run PUT for temporary table: ''
                           (''PUT file://'' @ fp @ '' @'' @ addPrefixToTableName tempTableName ''%'' @
                            '' AUTO_COMPRESS=TRUE'') s2
                           (\<lambda>s3. exec_step dw ''failed to run copy into temporary table: ''
                              (copy_command u cols tempTableName settings) s3 (\<lambda>s4. (s4, Ret ())))) of
                        (s5, r) \<Rightarrow> (s5, tc1, r))
                 | (s2, r) \<Rightarrow> (s2, tc1, wrap_out ''failed to load temporary table: '' r))
         | r \<Rightarrow> r))"

definition IsAuthExpiredError :: "goerr option \<Rightarrow> bool" where
  "IsAuthExpiredError err =
     (case err of None \<Rightarrow> False | Some e \<Rightarrow> contains (err_msg e) ''Authentication token has expired'')"

fun error_of :: "unit outcome \<Rightarrow> goerr option" where
  "error_of (Err e) = Some e"
| "error_of r = None"

definition snowflake_maxRetries :: nat where
  "snowflake_maxRetries = 10"

text \<open>
  The loop that \<^verbatim>\<open>Merge\<close> and \<^verbatim>\<open>Append\<close> share: from the second round on, it reconnects if the
  authentication has expired and stops otherwise.
\<close>

fun auth_loop ::
  "(TableData \<Rightarrow> 'x \<Rightarrow> 'x \<times> TableData \<times> unit outcome) \<Rightarrow> ('x \<Rightarrow> 'x) \<Rightarrow> nat \<Rightarrow> nat \<Rightarrow> 'x \<times> TableData
     \<Rightarrow> unit outcome \<Rightarrow> ('x \<times> TableData) \<times> unit outcome" where
  "auth_loop run reconnect 0 i x r = (x, r)"
| "auth_loop run reconnect (Suc n) i x r =
     (if i > 0 \<and> \<not> IsAuthExpiredError (error_of r) then (x, r)
      else (case run (snd x) (if i > 0 then reconnect (fst x) else fst x) of
          (ss, td, r') \<Rightarrow> auth_loop run reconnect n (i + 1) (ss, td) r'))"

definition with_auth_retries ::
  "(TableData \<Rightarrow> 'x \<Rightarrow> 'x \<times> TableData \<times> unit outcome) \<Rightarrow> ('x \<Rightarrow> 'x) \<Rightarrow> TableData \<Rightarrow> 'x
     \<Rightarrow> 'x \<times> TableData \<times> unit outcome" where
  "with_auth_retries run reconnect td ss =
     (case auth_loop run reconnect snowflake_maxRetries 0 (ss, td) (Ret ()) of
        ((ss', td'), r) \<Rightarrow> (ss', td', r))"

definition snowflake_copy_clause :: string where
  "snowflake_copy_clause =
     ''FILE_FORMAT = (TYPE = '' @ [CHR 0x27] @ ''csv'' @ [CHR 0x27] @ '' FIELD_DELIMITER= '' @
     [CHR 0x27, CHR 0x5C] @ ''t'' @ [CHR 0x27] @ '' FIELD_OPTIONALLY_ENCLOSED_BY='' @
     [CHR 0x27, CHR 0x22, CHR 0x27] @ '' NULL_IF='' @ [CHR 0x27, CHR 0x5C, CHR 0x5C] @ ''N'' @
     [CHR 0x27] @ '' EMPTY_FIELD_AS_NULL=FALSE) PURGE = TRUE''"

definition plain_opts :: MergeOpts where
  "plain_opts = \<lparr>UseMergeParts = False, SubQueryDedupe = False, AdditionalEqualityStrings = [],
     RetryColBackfill = False\<rparr>"

definition snowflake_Merge ::
  "gostd \<Rightarrow> ('w store_state \<Rightarrow> merge_inputs) \<Rightarrow> ('w store_state \<Rightarrow> 'w store_state) \<Rightarrow> 'w store \<Rightarrow> Config
     \<Rightarrow> TableData \<Rightarrow> 'w store_state \<Rightarrow> 'w store_state \<times> TableData \<times> unit outcome" where
  "snowflake_Merge std mi reconnect dw cfg td ss =
     with_auth_retries (\<lambda>td ss. Merge std (mi ss) dw cfg plain_opts td ss) reconnect td ss"

definition snowflake_Append ::
  "gostd \<Rightarrow> ('w store_state \<Rightarrow> merge_inputs) \<Rightarrow> ('w store_state \<Rightarrow> 'w store_state) \<Rightarrow> 'w store \<Rightarrow> Config
     \<Rightarrow> TableData \<Rightarrow> 'w store_state \<Rightarrow> 'w store_state \<times> TableData \<times> unit outcome" where
  "snowflake_Append std mi reconnect dw cfg td ss =
     with_auth_retries (\<lambda>td ss. Append std (mi ss) dw cfg
       \<lparr>TempTableName = so_ToFullyQualifiedName dw td True, AdditionalCopyClause = snowflake_copy_clause\<rparr>
       td ss) reconnect td ss"

definition snowflake_Dedupe :: "'w store \<Rightarrow> string \<Rightarrow> 'w session \<Rightarrow> 'w session \<times> goerr option" where
  "snowflake_Dedupe dw fqTableName s =
     exec_sql (so_dwh dw) (''CREATE OR REPLACE TABLE '' @ fqTableName @ '' AS SELECT DISTINCT * FROM '' @
       fqTableName) s"

text \<open>Redshift and BigQuery refuse to remove duplicates, MSSQL does not need to.\<close>

definition redshift_Dedupe :: "string \<Rightarrow> goerr option" where
  "redshift_Dedupe fqTableName = Some (errorf ''dedupe is not yet implemented'')"

definition bigquery_Dedupe :: "string \<Rightarrow> goerr option" where
  "bigquery_Dedupe fqTableName = Some (errorf ''dedupe is not yet implemented'')"

definition mssql_Dedupe :: "string \<Rightarrow> goerr option" where
  "mssql_Dedupe fqTableName = None"

definition sweep_pattern :: string where
  "sweep_pattern = ''%'' @ ArtiePrefix @ ''%''"

definition snowflake_sweep_query :: "DatabaseSchemaPair \<Rightarrow> string \<times> string list" where
  "snowflake_sweep_query p =
     (nl @ ''SELECT'' @ nl @ ''    table_schema, table_name'' @ nl @ ''FROM'' @ nl @ ''    '' @
      dsp_Database p @ ''.information_schema.tables'' @ nl @ ''WHERE'' @ nl @
      ''    UPPER(table_schema) = UPPER(?) AND table_name ILIKE ?'', [dsp_Schema p, sweep_pattern])"

text \<open>The \<^verbatim>\<open>Sweep\<close> of a store: the topics of the configuration, then the shared sweep.\<close>

definition store_Sweep ::
  "gostd \<Rightarrow> (string \<Rightarrow> gotime) \<Rightarrow> 'w store \<Rightarrow> Config \<Rightarrow> (DatabaseSchemaPair \<Rightarrow> string \<times> string list)
     \<Rightarrow> 'w session \<Rightarrow> 'w session \<times> unit outcome" where
  "store_Sweep std clk dw cfg queryFunc s =
     (case TopicConfigs cfg of
        Err e \<Rightarrow> (s, Err e)
      | Panic m \<Rightarrow> (s, Panic m)
      | Ret tcs \<Rightarrow> Sweep std clk dw tcs queryFunc s)"

section \<open>Redshift\<close>

definition redshift_ToFullyQualifiedName :: "Config \<Rightarrow> TableData \<Rightarrow> bool \<Rightarrow> string" where
  "redshift_ToFullyQualifiedName cfg td escape =
     ToFqName Redshift escape (cfg_UppercaseEscapedNames cfg) no_opts td"

definition sq :: string where "sq = [CHR 0x27]"

definition redshift_describeTableQuery :: "string \<Rightarrow> string \<Rightarrow> string \<times> string list" where
  "redshift_describeTableQuery rawTableName schema =
     (join nl
       [[], ''SELECT '', ''    c.column_name,'', ''    CASE '',
        ''        WHEN c.data_type = '' @ sq @ ''numeric'' @ sq @ '' THEN '',
        ''            '' @ sq @ ''numeric('' @ sq @ '' || COALESCE(CAST(c.numeric_precision AS VARCHAR), '' @
          sq @ sq @ '') || '' @ sq @ '','' @ sq @ '' || COALESCE(CAST(c.numeric_scale AS VARCHAR), '' @
          sq @ sq @ '') || '' @ sq @ '')'' @ sq,
        ''        ELSE '', ''            c.data_type'', ''    END AS data_type,'',
        ''    c.'' @ StrPrecisionCol @ '','', ''    d.description'', ''FROM'',
        ''    INFORMATION_SCHEMA.COLUMNS c'', ''LEFT JOIN '',
        ''    PG_CLASS c1 ON c.table_name = c1.relname '', ''LEFT JOIN '',
        ''    PG_CATALOG.PG_NAMESPACE n ON c.table_schema = n.nspname AND c1.relnamespace = n.oid '',
        ''LEFT JOIN '',
        ''    PG_CATALOG.PG_DESCRIPTION d ON d.objsubid = c.ordinal_position AND d.objoid = c1.oid '',
        ''WHERE '',
        ''    LOWER(c.table_name) = LOWER($1) AND LOWER(c.table_schema) = LOWER($2);'', []],
      [rawTableName, schema])"

definition redshift_cfg_args :: "Config \<Rightarrow> TableData \<Rightarrow> GetTableCfgArgs" where
  "redshift_cfg_args cfg td =
     (let q = redshift_describeTableQuery (td_name td) (tc_Schema (td_TopicConfig td))
      in \<lparr>gt_FqName = redshift_ToFullyQualifiedName cfg td True, gt_Query = fst q, gt_Args = snd q,
          gt_ColumnNameLabel = ''column_name'', gt_ColumnTypeLabel = ''data_type'',
          gt_ColumnDescLabel = ''description'', gt_EmptyCommentValue = Some ''<nil>'',
          gt_DropDeletedColumns = tc_DropDeletedColumns (td_TopicConfig td)\<rparr>)"

definition redshift_copy_command :: "string \<Rightarrow> string \<Rightarrow> string \<Rightarrow> string" where
  "redshift_copy_command tempTableName s3Uri credentialsClause =
     ''COPY '' @ tempTableName @ '' FROM '' @ sq @ s3Uri @ sq @ '' DELIMITER '' @ sq @ [CHR 0x5C] @ ''t'' @ sq @
     '' NULL AS '' @ sq @ [CHR 0x5C, CHR 0x5C] @ ''N'' @ sq @ '' GZIP FORMAT CSV '' @ credentialsClause @
     '' dateformat '' @ sq @ ''auto'' @ sq @ '' timeformat '' @ sq @ ''auto'' @ sq @ '';''"

record redshift_settings =
  rd_credentialsClause :: string
  rd_bucket :: string
  rd_optionalS3Prefix :: string
  rd_skipLgCols :: bool

definition redshift_PrepareTemporaryTable ::
  "gostd \<Rightarrow> redshift_settings \<Rightarrow> 'w driver \<Rightarrow> Config \<Rightarrow> TableData \<Rightarrow> DwhTableConfig \<Rightarrow> string
     \<Rightarrow> AdditionalSettings \<Rightarrow> bool \<Rightarrow> 'w session \<Rightarrow> 'w session \<times> DwhTableConfig \<times> unit outcome" where
  "redshift_PrepareTemporaryTable std rs dr cfg td tc tempTableName settings createTempTable s =
     (case ReadOnlyInMemoryCols td of None \<Rightarrow> (s, tc, Panic nil_dereference)
      | Some cols \<Rightarrow>
        (case create_temp std Redshift dr cfg td cols tc tempTableName s of
           (s1, tc1, Ret _) \<Rightarrow>
             (let names = GetColumnsToUpdate (cfg_UppercaseEscapedNames cfg) None cols;
                  fmts = AdditionalDateFormats (cfg_TypingSettings cfg);
                  fp = ''/tmp/'' @ tempTableName @ ''.csv.gz''
              in case write_file dr (cast_row (\<lambda>v c. CastColValStaging (rd_skipLgCols rs) std v c fmts) cols names)
                        ''failed to flush csv writer: '' fp (Rows td) s1 of
                   (s2, Ret _) \<Rightarrow>
                     (case remove_file dr fp
                        (case UploadLocalFileToS3 dr \<lparr>up_Bucket = rd_bucket rs, up_OptionalS3Prefix = rd_optionalS3Prefix rs,
                                 up_FilePath = fp, up_OverrideAWSAccessKeyID = None,
                                 up_OverrideAWSAccessKeySecret = None\<rparr> (db_state s2) of
                           (w, Ret s3Uri) \<Rightarrow>
                             exec_step (driver_dwh Redshift dr) ''failed to run COPY for temporary table: ''
                               (redshift_copy_command tempTableName s3Uri (rd_credentialsClause rs))
                               (s2\<lparr>db_state := w\<rparr>) (\<lambda>s4. (s4, Ret ()))
                         | (w, Err e) \<Rightarrow>
                             (s2\<lparr>db_state := w\<rparr>, Err (wrapf (''failed to upload '' @ fp @ '' to s3: '') e []))
                         | (w, Panic m) \<Rightarrow> (s2\<lparr>db_state := w\<rparr>, Panic m)) of
                        (s5, r) \<Rightarrow> (s5, tc1, r))
                 | (s2, r) \<Rightarrow> (s2, tc1, wrap_out ''failed to load temporary table: '' r))
         | r \<Rightarrow> r))"

definition redshift_opts :: MergeOpts where
  "redshift_opts = plain_opts\<lparr>UseMergeParts := True, SubQueryDedupe := True\<rparr>"

definition redshift_Merge ::
  "gostd \<Rightarrow> ('w store_state \<Rightarrow> merge_inputs) \<Rightarrow> 'w store \<Rightarrow> Config \<Rightarrow> TableData \<Rightarrow> 'w store_state
     \<Rightarrow> 'w store_state \<times> TableData \<times> unit outcome" where
  "redshift_Merge std mi dw cfg td ss = Merge std (mi ss) dw cfg redshift_opts td ss"

definition redshift_Append ::
  "gostd \<Rightarrow> ('w store_state \<Rightarrow> merge_inputs) \<Rightarrow> 'w store \<Rightarrow> Config \<Rightarrow> TableData \<Rightarrow> 'w store_state
     \<Rightarrow> 'w store_state \<times> TableData \<times> unit outcome" where
  "redshift_Append std mi dw cfg td ss =
     (let temporaryTableName = temporary_table_name (mi ss) dw td
      in case Append std (mi ss) dw cfg \<lparr>TempTableName = temporaryTableName, AdditionalCopyClause = []\<rparr> td ss of
           (ss1, td1, Ret _) \<Rightarrow>
             (case exec_sql (so_dwh dw) (''ALTER TABLE '' @ so_ToFullyQualifiedName dw td1 True @
                     '' APPEND FROM '' @ temporaryTableName @ '';'') (ss_session ss1) of
                (s2, err) \<Rightarrow>
                  (ss1\<lparr>ss_session := s2\<rparr>, td1, case err of None \<Rightarrow> Ret () | Some e \<Rightarrow> Err e))
         | r \<Rightarrow> r)"

definition redshift_sweep_query :: "DatabaseSchemaPair \<Rightarrow> string \<times> string list" where
  "redshift_sweep_query p =
     (join nl
       [[], ''SELECT'', ''    n.nspname, c.relname'', ''FROM'', ''    PG_CATALOG.PG_CLASS c'', ''JOIN'',
        ''    PG_CATALOG.PG_NAMESPACE n ON n.oid = c.relnamespace'', ''WHERE'',
        ''    n.nspname = $1 AND c.relname ILIKE $2 AND c.relkind = '' @ sq @ ''r'' @ sq @ '';''],
      [dsp_Schema p, sweep_pattern])"

section \<open>BigQuery\<close>

definition bigquery_ToFullyQualifiedName :: "Config \<Rightarrow> TableData \<Rightarrow> bool \<Rightarrow> string outcome" where
  "bigquery_ToFullyQualifiedName cfg td escape =
     deref (cfg_BigQuery cfg) (\<lambda>b. ToFqName BigQuery escape (cfg_UppercaseEscapedNames cfg)
       \<lparr>BigQueryProjectID = bq_ProjectID b, MsSQLSchemaOverride = []\<rparr> td)"

definition bigquery_cfg_args :: "string \<Rightarrow> TableData \<Rightarrow> GetTableCfgArgs" where
  "bigquery_cfg_args fqName td =
     \<lparr>gt_FqName = fqName,
      gt_Query = ''SELECT column_name, data_type, description FROM '' @ [CHR 0x60] @
        tc_Database (td_TopicConfig td) @ ''.INFORMATION_SCHEMA.COLUMN_FIELD_PATHS'' @ [CHR 0x60] @
        '' WHERE table_name = ?;'',
      gt_Args = [td_name td], gt_ColumnNameLabel = ''column_name'', gt_ColumnTypeLabel = ''data_type'',
      gt_ColumnDescLabel = ''description'', gt_EmptyCommentValue = Some [],
      gt_DropDeletedColumns = tc_DropDeletedColumns (td_TopicConfig td)\<rparr>"

text \<open>The rows that are streamed: the cells that are not nil, by column name.\<close>

definition bigquery_row ::
  "gostd \<Rightarrow> string list \<Rightarrow> Columns \<Rightarrow> string list \<Rightarrow> row \<Rightarrow> row outcome" where
  "bigquery_row std fmts cols names r =
     bind_out (mapM_out (\<lambda>name. wrap_out (''failed to cast col '' @ name @ '': '')
         (castColVal std (row_cell r name) (column_of cols name) fmts)) names)
       (\<lambda>vs. Ret (foldl (\<lambda>m (k, v). if v = VNil then m else gm_put k v m) [] (zip names vs)))"

text \<open>
  \<^verbatim>\<open>putTable\<close>: the rows go out in chunks until one is refused. The loop has fuel and is \<open>None\<close> when the
  fuel runs out; as many rounds as there are rows are enough for a positive batch size.
\<close>

fun put_loop ::
  "'w driver \<Rightarrow> string \<Rightarrow> string \<Rightarrow> nat \<Rightarrow> row Batch \<Rightarrow> 'w session \<Rightarrow> ('w session \<times> unit outcome) option" where
  "put_loop dr dataset table 0 b s = (if HasNext b then None else Some (s, Ret ()))"
| "put_loop dr dataset table (Suc n) b s =
     (if HasNext b
      then (case NextChunk b of (b', chunk) \<Rightarrow>
              (case on_state (dr_Put dr dataset table chunk) s of
                 (s1, Some err) \<Rightarrow> Some (s1, Err (wrapf ''failed to insert rows: '' err []))
               | (s1, None) \<Rightarrow> put_loop dr dataset table n b' s1))
      else Some (s, Ret ()))"

definition putTable ::
  "'w driver \<Rightarrow> BigQuery_config \<Rightarrow> nat \<Rightarrow> string \<Rightarrow> string \<Rightarrow> row list \<Rightarrow> 'w session
     \<Rightarrow> ('w session \<times> unit outcome) option" where
  "putTable dr bq fuel dataset tableName rows s =
     (case tableRelName tableName of
        Err e \<Rightarrow> Some (s, Err (wrapf ''failed to get table name: '' e []))
      | Panic m \<Rightarrow> Some (s, Panic m)
      | Ret relTableName \<Rightarrow>
          (case on_state (dr_NewClient dr (bq_ProjectID bq)) s of
             (s1, Some err) \<Rightarrow> Some (s1, Panic ''Failed to get bigquery client'')
           | (s1, None) \<Rightarrow> put_loop dr dataset relTableName fuel (NewBatch rows (bq_BatchSize bq)) s1))"

definition bigquery_PrepareTemporaryTable ::
  "gostd \<Rightarrow> BigQuery_config \<Rightarrow> nat \<Rightarrow> 'w driver \<Rightarrow> Config \<Rightarrow> TableData \<Rightarrow> DwhTableConfig \<Rightarrow> string \<Rightarrow> bool
     \<Rightarrow> 'w session \<Rightarrow> ('w session \<times> DwhTableConfig \<times> unit outcome) option" where
  "bigquery_PrepareTemporaryTable std bq fuel dr cfg td tc tempTableName createTempTable s =
     (case ReadOnlyInMemoryCols td of None \<Rightarrow> Some (s, tc, Panic nil_dereference)
      | Some cols \<Rightarrow>
        (case (if createTempTable then create_temp std BigQuery dr cfg td cols tc tempTableName s
               else (s, tc, Ret ())) of
           (s1, tc1, Ret _) \<Rightarrow>
             (case mapM_out (bigquery_row std (AdditionalDateFormats (cfg_TypingSettings cfg)) cols
                     (GetColumnsToUpdate (cfg_UppercaseEscapedNames cfg) None cols)) (Rows td) of
                Err e \<Rightarrow> Some (s1, tc1, Err e)
              | Panic m \<Rightarrow> Some (s1, tc1, Panic m)
              | Ret rows \<Rightarrow>
                  map_option (\<lambda>(s2, r). (s2, tc1, r))
                    (putTable dr bq fuel (tc_Database (td_TopicConfig td)) tempTableName rows s1))
         | (s1, tc1, r) \<Rightarrow> Some (s1, tc1, r)))"

text \<open>
  A call that never returns keeps its table locked for good; the model lets it end the process with
  the outcome \<open>hangs\<close>, after which nothing is merged or committed either.
\<close>

definition hangs :: "'a \<times> 'b \<Rightarrow> 'a \<times> 'b \<times> unit outcome" where
  "hangs x = (fst x, snd x, Panic ''does not return'')"

definition bigquery_prepare ::
  "gostd \<Rightarrow> BigQuery_config \<Rightarrow> 'w driver \<Rightarrow> Config \<Rightarrow> TableData \<Rightarrow> DwhTableConfig \<Rightarrow> string
     \<Rightarrow> AdditionalSettings \<Rightarrow> bool \<Rightarrow> 'w session \<Rightarrow> 'w session \<times> DwhTableConfig \<times> unit outcome" where
  "bigquery_prepare std bq dr cfg td tc tempTableName settings createTempTable s =
     (case bigquery_PrepareTemporaryTable std bq (length (Rows td)) dr cfg td tc tempTableName createTempTable s of
        None \<Rightarrow> hangs (s, tc) | Some x \<Rightarrow> x)"

definition isTableQuotaError :: "goerr \<Rightarrow> bool" where
  "isTableQuotaError e =
     contains (err_msg e) ''Exceeded rate limits: too many table update operations for this table''"

definition bigquery_IsRetryableError :: "goerr \<Rightarrow> bool" where
  "bigquery_IsRetryableError e = (if isTableQuotaError e then True else retryableError e)"

definition bigquery_Merge ::
  "gostd \<Rightarrow> ('w store_state \<Rightarrow> merge_inputs) \<Rightarrow> 'w store \<Rightarrow> Config \<Rightarrow> TableData \<Rightarrow> 'w store_state
     \<Rightarrow> 'w store_state \<times> TableData \<times> unit outcome" where
  "bigquery_Merge std mi dw cfg td ss =
     (case (case tc_BigQueryPartitionSettings (td_TopicConfig td) of
              None \<Rightarrow> Ret []
            | Some b \<Rightarrow>
                bind_out (wrap_out ''failed to generate distinct dates: ''
                    (DistinctDates std (PartitionField b) (AdditionalDateFormats (cfg_TypingSettings cfg)) td))
                  (\<lambda>distinctDates. bind_out (GenerateMergeString (Some b) distinctDates) (\<lambda>m. Ret [m]))) of
        Err e \<Rightarrow> (ss, td, Err e)
      | Panic m \<Rightarrow> (ss, td, Panic m)
      | Ret additionalEqualityStrings \<Rightarrow>
          Merge std (mi ss) dw cfg
            (plain_opts\<lparr>AdditionalEqualityStrings := additionalEqualityStrings, RetryColBackfill := True\<rparr>) td ss)"

text \<open>BigQuery and MSSQL append into the target itself.\<close>

definition target_Append ::
  "gostd \<Rightarrow> ('w store_state \<Rightarrow> merge_inputs) \<Rightarrow> 'w store \<Rightarrow> Config \<Rightarrow> TableData \<Rightarrow> 'w store_state
     \<Rightarrow> 'w store_state \<times> TableData \<times> unit outcome" where
  "target_Append std mi dw cfg td ss =
     Append std (mi ss) dw cfg
       \<lparr>TempTableName = so_ToFullyQualifiedName dw td True, AdditionalCopyClause = []\<rparr> td ss"

section \<open>MSSQL\<close>

definition mssql_ToFullyQualifiedName :: "Config \<Rightarrow> TableData \<Rightarrow> bool \<Rightarrow> string" where
  "mssql_ToFullyQualifiedName cfg td escape =
     ToFqName MSSQL escape (cfg_UppercaseEscapedNames cfg)
       \<lparr>BigQueryProjectID = [], MsSQLSchemaOverride = getSchema (tc_Schema (td_TopicConfig td))\<rparr> td"

definition mssql_describeTableQuery :: "string \<Rightarrow> string \<Rightarrow> string \<times> string list" where
  "mssql_describeTableQuery schema rawTableName =
     (join nl
       [[], ''SELECT '', ''    COLUMN_NAME, '', ''    CASE'',
        ''        WHEN DATA_TYPE = '' @ sq @ ''numeric'' @ sq @ '' THEN'',
        [CHR 0x09, CHR 0x09] @ sq @ ''numeric('' @ sq @
          '' + COALESCE(CAST(NUMERIC_PRECISION AS VARCHAR), '' @ sq @ sq @ '') + '' @ sq @ '','' @ sq @
          '' + COALESCE(CAST(NUMERIC_SCALE AS VARCHAR), '' @ sq @ sq @ '') + '' @ sq @ '')'' @ sq,
        [CHR 0x09, CHR 0x09] @ ''ELSE'', [CHR 0x09, CHR 0x09] @ ''DATA_TYPE'',
        [CHR 0x09] @ ''END AS DATA_TYPE,'', ''    CHARACTER_MAXIMUM_LENGTH'', ''FROM '',
        ''    INFORMATION_SCHEMA.COLUMNS'', ''WHERE '',
        ''    LOWER(TABLE_NAME) = LOWER(?) AND LOWER(TABLE_SCHEMA) = LOWER(?);''],
      [rawTableName, schema])"

definition mssql_cfg_args :: "Config \<Rightarrow> TableData \<Rightarrow> GetTableCfgArgs" where
  "mssql_cfg_args cfg td =
     (let q = mssql_describeTableQuery (getSchema (tc_Schema (td_TopicConfig td))) (td_name td)
      in \<lparr>gt_FqName = mssql_ToFullyQualifiedName cfg td True, gt_Query = fst q, gt_Args = snd q,
          gt_ColumnNameLabel = ''column_name'', gt_ColumnTypeLabel = ''data_type'',
          gt_ColumnDescLabel = ''description'', gt_EmptyCommentValue = Some ''<nil>'',
          gt_DropDeletedColumns = tc_DropDeletedColumns (td_TopicConfig td)\<rparr>)"

definition mssql_sweepQuery :: "DatabaseSchemaPair \<Rightarrow> string \<times> string list" where
  "mssql_sweepQuery p =
     (join nl
       [[], ''SELECT'', ''    TABLE_SCHEMA, TABLE_NAME'', ''FROM'', ''    INFORMATION_SCHEMA.TABLES'', ''WHERE'',
        ''    LOWER(TABLE_NAME) LIKE ? AND LOWER(TABLE_SCHEMA) = LOWER(?)''],
      [sweep_pattern, getSchema (dsp_Schema p)])"

fun copy_rows ::
  "'w driver \<Rightarrow> (row \<Rightarrow> sql_value list outcome) \<Rightarrow> row list \<Rightarrow> 'w session \<Rightarrow> 'w session \<times> unit outcome" where
  "copy_rows dr cast [] s =
     (case on_state (dr_CopyDone dr) s of
        (s1, Some err) \<Rightarrow> (s1, Err (wrapf ''failed to finalize bulk insert: '' err []))
      | (s1, None) \<Rightarrow> (s1, Ret ()))"
| "copy_rows dr cast (r # rs) s =
     (case cast r of
        Err e \<Rightarrow> (s, Err e)
      | Panic m \<Rightarrow> (s, Panic m)
      | Ret cells \<Rightarrow>
          (case on_state (dr_CopyRow dr cells) s of
             (s1, Some err) \<Rightarrow> (s1, Err (wrapf ''failed to copy row: '' err []))
           | (s1, None) \<Rightarrow> copy_rows dr cast rs s1))"

definition rollback :: "'w driver \<Rightarrow> 'w session \<Rightarrow> 'w session" where
  "rollback dr s = s\<lparr>db_state := dr_TxRollback dr (db_state s)\<rparr>"

definition mssql_load ::
  "gostd \<Rightarrow> 'w driver \<Rightarrow> Config \<Rightarrow> TableData \<Rightarrow> Columns \<Rightarrow> string \<Rightarrow> 'w session \<Rightarrow> 'w session \<times> unit outcome" where
  "mssql_load std dr cfg td cols tempTableName s =
     (let names = GetColumnsToUpdate (cfg_UppercaseEscapedNames cfg) None cols;
          fmts = AdditionalDateFormats (cfg_TypingSettings cfg)
      in case on_state (dr_Begin dr) s of
           (s1, Some err) \<Rightarrow> (s1, Err (wrapf ''failed to begin transaction: '' err []))
         | (s1, None) \<Rightarrow>
             (case on_state (dr_PrepareCopyIn dr tempTableName names) s1 of
                (s2, Some err) \<Rightarrow> (rollback dr s2, Err (wrapf ''failed to prepare bulk insert: '' err []))
              | (s2, None) \<Rightarrow>
                  (case copy_rows dr (cast_row (\<lambda>v c. mssql_parseValue std v c fmts) cols names) (Rows td) s2 of
                     (s3, Ret _) \<Rightarrow>
                       (case on_state (dr_TxCommit dr) s3 of
                          (s4, Some err) \<Rightarrow> (rollback dr s4, Err (wrapf ''failed to commit transaction: '' err []))
                        | (s4, None) \<Rightarrow> (s4, Ret ()))
                   | (s3, r) \<Rightarrow> (rollback dr s3, r))))"

definition mssql_PrepareTemporaryTable ::
  "gostd \<Rightarrow> 'w driver \<Rightarrow> Config \<Rightarrow> TableData \<Rightarrow> DwhTableConfig \<Rightarrow> string \<Rightarrow> AdditionalSettings \<Rightarrow> bool
     \<Rightarrow> 'w session \<Rightarrow> 'w session \<times> DwhTableConfig \<times> unit outcome" where
  "mssql_PrepareTemporaryTable std dr cfg td tc tempTableName settings createTempTable s =
     (case ReadOnlyInMemoryCols td of None \<Rightarrow> (s, tc, Panic nil_dereference)
      | Some cols \<Rightarrow>
        (case (if createTempTable then create_temp std MSSQL dr cfg td cols tc tempTableName s
               else (s, tc, Ret ())) of
           (s1, tc1, Ret _) \<Rightarrow>
             (case mssql_load std dr cfg td cols tempTableName s1 of (s2, r) \<Rightarrow> (s2, tc1, r))
         | r \<Rightarrow> r))"

definition mssql_Merge ::
  "gostd \<Rightarrow> ('w store_state \<Rightarrow> merge_inputs) \<Rightarrow> 'w store \<Rightarrow> Config \<Rightarrow> TableData \<Rightarrow> 'w store_state
     \<Rightarrow> 'w store_state \<times> TableData \<times> unit outcome" where
  "mssql_Merge std mi dw cfg td ss = Merge std (mi ss) dw cfg plain_opts td ss"

section \<open>S3\<close>

fun schema_val :: "parquet_field \<Rightarrow> val" where
  "schema_val (ParquetField tag subs) =
     VMap ([(''Tag'', VString tag)] @
       (if subs = [] then [] else [(''Fields'', VList (map schema_val subs))]))"

definition ObjectPrefix :: "gostd \<Rightarrow> S3Settings \<Rightarrow> TableData \<Rightarrow> string" where
  "ObjectPrefix std s3 td =
     (let fqTableName = ToFqName S3 False False no_opts td;
          yyyyMMDDFormat = go_time_format std (td_LatestCDCTs td) PostgresDateFormat
      in if length (s3_OptionalPrefix s3) > 0
         then join ''/'' [s3_OptionalPrefix s3, fqTableName, yyyyMMDDFormat]
         else join ''/'' [fqTableName, yyyyMMDDFormat])"

definition parquet_row ::
  "gostd \<Rightarrow> string list \<Rightarrow> Columns \<Rightarrow> string list \<Rightarrow> row \<Rightarrow> row outcome" where
  "parquet_row std fmts cols names r =
     bind_out (mapM_out (\<lambda>name.
         (case GetColumn cols name of
            None \<Rightarrow> Err (errorf (''expected column: '' @ name @
               '' to exist in readOnlyInMemoryCols(...) but it does not''))
          | Some c \<Rightarrow>
              (case parquet_ParseValue std (row_cell r name) c fmts of
                 Err e \<Rightarrow> Err (wrapf ''failed to parse value, err: '' e
                   ('', value: '' @ sprint std (row_cell r name) @ '', column: '' @ name))
               | x \<Rightarrow> x))) names)
       (\<lambda>vs. Ret (foldl (\<lambda>m (k, v). gm_put k v m) [] (zip names vs)))"

fun write_parquet ::
  "gostd \<Rightarrow> 'w driver \<Rightarrow> (row \<Rightarrow> row outcome) \<Rightarrow> string \<Rightarrow> row list \<Rightarrow> 'w \<Rightarrow> 'w \<times> unit outcome" where
  "write_parquet std dr cast fp [] w = (w, Ret ())"
| "write_parquet std dr cast fp (r # rs) w =
     (case bind_out (cast r) (\<lambda>x. wrap_out ''failed to marshal row: '' (go_json_marshal std (VMap x))) of
        Err e \<Rightarrow> (w, Err e)
      | Panic m \<Rightarrow> (w, Panic m)
      | Ret rowBytes \<Rightarrow>
          (case dr_WriteParquet dr fp rowBytes w of
             (w1, Some err) \<Rightarrow> (w1, Err (wrapf ''failed to write row: '' err []))
           | (w1, None) \<Rightarrow> write_parquet std dr cast fp rs w1))"

text \<open>
  Opening the file and the writer, and stopping the writer and closing the file. The file is removed
  only once both were closed.
\<close>

definition open_parquet :: "'w driver \<Rightarrow> string \<Rightarrow> string \<Rightarrow> 'w \<Rightarrow> 'w \<times> unit outcome" where
  "open_parquet dr fp schema w =
     (case dr_NewFileWriter dr fp w of
        (w1, Some err) \<Rightarrow> (w1, Err (wrapf ''failed to create a local parquet file: '' err []))
      | (w1, None) \<Rightarrow>
          (case dr_NewJSONWriter dr fp schema w1 of
             (w2, Some err) \<Rightarrow> (w2, Err (wrapf ''failed to instantiate parquet writer: '' err []))
           | (w2, None) \<Rightarrow> (w2, Ret ())))"

definition close_parquet :: "'w driver \<Rightarrow> string \<Rightarrow> 'w \<Rightarrow> 'w \<times> unit outcome" where
  "close_parquet dr fp w =
     (case dr_WriteStop dr fp w of
        (w1, Some err) \<Rightarrow> (w1, Err (wrapf ''failed to write stop: '' err []))
      | (w1, None) \<Rightarrow>
          (case dr_CloseFile dr fp w1 of
             (w2, Some err) \<Rightarrow> (w2, Err (wrapf ''failed to close filewriter: '' err []))
           | (w2, None) \<Rightarrow> (w2, Ret ())))"

definition s3_upload ::
  "gostd \<Rightarrow> 'w driver \<Rightarrow> S3Settings \<Rightarrow> TableData \<Rightarrow> string \<Rightarrow> 'w \<Rightarrow> 'w \<times> unit outcome" where
  "s3_upload std dr s3 td fp w =
     (case UploadLocalFileToS3 dr \<lparr>up_Bucket = s3_Bucket s3, up_OptionalS3Prefix = ObjectPrefix std s3 td,
             up_FilePath = fp, up_OverrideAWSAccessKeyID = Some (s3_AwsAccessKeyID s3),
             up_OverrideAWSAccessKeySecret = Some (s3_AwsSecretAccessKey s3)\<rparr> w of
        (w1, r) \<Rightarrow>
          (dr_RemoveAll dr fp w1,
           (case r of Ret _ \<Rightarrow> Ret ()
            | Err e \<Rightarrow> Err (wrapf ''failed to upload file to s3: '' e [])
            | Panic m \<Rightarrow> Panic m)))"

text \<open>One step after the other, until one does not return normally.\<close>

definition then_do :: "'w \<times> unit outcome \<Rightarrow> ('w \<Rightarrow> 'w \<times> unit outcome) \<Rightarrow> 'w \<times> unit outcome" where
  "then_do x k = (case x of (w, Ret _) \<Rightarrow> k w | (w, r) \<Rightarrow> (w, r))"

definition s3_Merge ::
  "gostd \<Rightarrow> ('w \<Rightarrow> nat list) \<Rightarrow> 'w driver \<Rightarrow> Config \<Rightarrow> S3Settings \<Rightarrow> TableData \<Rightarrow> 'w
     \<Rightarrow> 'w \<times> TableData \<times> unit outcome" where
  "s3_Merge std rnd dr cfg s3 td w =
     (if ShouldSkipUpdate td then (w, td, Ret ())
      else (case ReadOnlyInMemoryCols td of None \<Rightarrow> (w, td, Panic nil_dereference)
        | Some allCols \<Rightarrow>
          (let cols = filter (\<lambda>c. col_KindDetails c \<noteq> Invalid) allCols;
               names = GetColumnsToUpdate False None allCols;
               fmts = AdditionalDateFormats (cfg_TypingSettings cfg);
               fp = ''/tmp/'' @ show_int (time_to_UnixMilli (td_LatestCDCTs td)) @ ''_'' @ Random (rnd w) @
                 ''.parquet.gz''
           in case wrap_out ''failed to generate parquet schema: ''
                     (bind_out (GenerateJSONSchema cols) (\<lambda>f. go_json_marshal std (schema_val f))) of
                Err e \<Rightarrow> (w, td, Err e)
              | Panic m \<Rightarrow> (w, td, Panic m)
              | Ret schema \<Rightarrow>
                  (case then_do (then_do (then_do (open_parquet dr fp schema w)
                          (write_parquet std dr (parquet_row std fmts allCols names) fp (Rows td)))
                          (close_parquet dr fp)) (s3_upload std dr s3 td fp) of
                     (w', r) \<Rightarrow> (w', td, r)))))"

section \<open>The stores and the destination of a pipeline\<close>

definition driver_store ::
  "destination_kind \<Rightarrow> 'w driver \<Rightarrow> (goerr \<Rightarrow> bool) \<Rightarrow> (TableData \<Rightarrow> bool \<Rightarrow> string)
     \<Rightarrow> (TableData \<Rightarrow> 'w store_state \<Rightarrow> 'w store_state \<times> DwhTableConfig outcome)
     \<Rightarrow> (TableData \<Rightarrow> DwhTableConfig \<Rightarrow> string \<Rightarrow> AdditionalSettings \<Rightarrow> bool \<Rightarrow> 'w session
          \<Rightarrow> 'w session \<times> DwhTableConfig \<times> unit outcome) \<Rightarrow> 'w store" where
  "driver_store label dr retryable fq table_config prepare =
     \<lparr>so_dwh = driver_dwh label dr, so_Query = dr_Query dr, so_Begin = dr_Begin dr, so_TxExec = dr_TxExec dr,
      so_TxCommit = dr_TxCommit dr, so_IsRetryableError = retryable, so_ToFullyQualifiedName = fq,
      so_GetTableConfig = table_config, so_PrepareTemporaryTable = prepare\<rparr>"

text \<open>\<^verbatim>\<open>GetTableConfig\<close> only uses the label and the query of its store.\<close>

definition query_store :: "destination_kind \<Rightarrow> 'w driver \<Rightarrow> 'w store" where
  "query_store label dr =
     driver_store label dr (\<lambda>_. False) (\<lambda>_ _. []) (\<lambda>_ ss. (ss, Err (errorf [])))
       (\<lambda>_ tc _ _ _ s. (s, tc, Ret ()))"

definition snowflake_store :: "gostd \<Rightarrow> Config \<Rightarrow> 'w driver \<Rightarrow> 'w store" where
  "snowflake_store std cfg dr =
     driver_store Snowflake dr retryableError (snowflake_ToFullyQualifiedName cfg)
       (\<lambda>td. GetTableConfig std (query_store Snowflake dr) (snowflake_cfg_args cfg td))
       (snowflake_PrepareTemporaryTable std dr cfg)"

definition redshift_store :: "gostd \<Rightarrow> Config \<Rightarrow> redshift_settings \<Rightarrow> 'w driver \<Rightarrow> 'w store" where
  "redshift_store std cfg rs dr =
     driver_store Redshift dr retryableError (redshift_ToFullyQualifiedName cfg)
       (\<lambda>td. GetTableConfig std (query_store Redshift dr) (redshift_cfg_args cfg td))
       (redshift_PrepareTemporaryTable std rs dr cfg)"

definition mssql_store :: "gostd \<Rightarrow> Config \<Rightarrow> 'w driver \<Rightarrow> 'w store" where
  "mssql_store std cfg dr =
     driver_store MSSQL dr retryableError (mssql_ToFullyQualifiedName cfg)
       (\<lambda>td. GetTableConfig std (query_store MSSQL dr) (mssql_cfg_args cfg td))
       (mssql_PrepareTemporaryTable std dr cfg)"

text \<open>\<^verbatim>\<open>LoadBigQuery\<close> fills in the defaults of the section, so the section is there afterwards.\<close>

definition bigquery_store :: "gostd \<Rightarrow> Config \<Rightarrow> BigQuery_config \<Rightarrow> 'w driver \<Rightarrow> 'w store" where
  "bigquery_store std cfg bq0 dr =
     (let bq = BigQuery_LoadDefaultValues bq0;
          fq = (\<lambda>td escape. ToFqName BigQuery escape (cfg_UppercaseEscapedNames cfg)
                 \<lparr>BigQueryProjectID = bq_ProjectID bq, MsSQLSchemaOverride = []\<rparr> td)
      in driver_store BigQuery dr bigquery_IsRetryableError fq
           (\<lambda>td. GetTableConfig std (query_store BigQuery dr) (bigquery_cfg_args (fq td True) td))
           (bigquery_prepare std bq dr cfg))"

record 'w destination_inputs =
  di_merge :: "'w store_state \<Rightarrow> merge_inputs"
  di_reconnect :: "'w store_state \<Rightarrow> 'w store_state"
  di_random :: "'w \<Rightarrow> nat list"

text \<open>
  \<^verbatim>\<open>utils.DataWarehouse\<close> and \<^verbatim>\<open>utils.Baseline\<close>: the destination by the configured output; the test
  output is a Snowflake store on a mock. An unknown output panics when the destination is loaded,
  before any batch; the model panics at the first batch.
\<close>

definition IsOutputBaseline :: "Config \<Rightarrow> bool" where
  "IsOutputBaseline cfg = (cfg_Output cfg = S3)"

definition on_driver ::
  "('w \<Rightarrow> 'w \<times> TableData \<times> unit outcome) \<Rightarrow> 'w store_state \<Rightarrow> 'w store_state \<times> TableData \<times> unit outcome" where
  "on_driver f ss =
     (case f (db_state (ss_session ss)) of
        (w, x) \<Rightarrow> (ss\<lparr>ss_session := (ss_session ss)\<lparr>db_state := w\<rparr>\<rparr>, x))"

definition destination_Merge ::
  "gostd \<Rightarrow> 'w destination_inputs \<Rightarrow> 'w store \<Rightarrow> 'w driver \<Rightarrow> Config \<Rightarrow> TableData \<Rightarrow> 'w store_state
     \<Rightarrow> 'w store_state \<times> TableData \<times> unit outcome" where
  "destination_Merge std di dw dr cfg td ss =
     (case cfg_Output cfg of
        S3 \<Rightarrow> (case cfg_S3 cfg of None \<Rightarrow> (ss, td, Panic nil_dereference)
              | Some s3 \<Rightarrow> on_driver (s3_Merge std (di_random di) dr cfg s3 td) ss)
      | Redshift \<Rightarrow> redshift_Merge std (di_merge di) dw cfg td ss
      | BigQuery \<Rightarrow> bigquery_Merge std (di_merge di) dw cfg td ss
      | MSSQL \<Rightarrow> mssql_Merge std (di_merge di) dw cfg td ss
      | OtherDestination d \<Rightarrow> (ss, td, Panic ''No valid output sources specified'')
      | _ \<Rightarrow> snowflake_Merge std (di_merge di) (di_reconnect di) dw cfg td ss)"

definition destination_Append ::
  "gostd \<Rightarrow> 'w destination_inputs \<Rightarrow> 'w store \<Rightarrow> 'w driver \<Rightarrow> Config \<Rightarrow> TableData \<Rightarrow> 'w store_state
     \<Rightarrow> 'w store_state \<times> TableData \<times> unit outcome" where
  "destination_Append std di dw dr cfg td ss =
     (case cfg_Output cfg of
        S3 \<Rightarrow> (case cfg_S3 cfg of None \<Rightarrow> (ss, td, Panic nil_dereference)
              | Some s3 \<Rightarrow> on_driver (s3_Merge std (di_random di) dr cfg s3 td) ss)
      | Redshift \<Rightarrow> redshift_Append std (di_merge di) dw cfg td ss
      | BigQuery \<Rightarrow> target_Append std (di_merge di) dw cfg td ss
      | MSSQL \<Rightarrow> target_Append std (di_merge di) dw cfg td ss
      | OtherDestination d \<Rightarrow> (ss, td, Panic ''No valid output sources specified'')
      | _ \<Rightarrow> snowflake_Append std (di_merge di) (di_reconnect di) dw cfg td ss)"

definition pipeline_env ::
  "gostd \<Rightarrow> 'w destination_inputs \<Rightarrow> 'w store \<Rightarrow> 'w driver \<Rightarrow> Config
     \<Rightarrow> (string \<Rightarrow> kafka_Message \<Rightarrow> 'w store_state \<Rightarrow> 'w store_state \<times> goerr option) \<Rightarrow> TopicToConsumer
     \<Rightarrow> 'w store_state environment" where
  "pipeline_env std di dw dr cfg commit consumers =
     \<lparr>en_Merge = destination_Merge std di dw dr cfg, en_Append = destination_Append std di dw dr cfg,
      en_Commit = commit, en_topicToConsumer = consumers\<rparr>"

section \<open>BigQuery's rows arrive in chunks\<close>

text \<open>The specification of \<^verbatim>\<open>putTable\<close>: a list of chunks is put until one is refused.\<close>

fun put_each :: "'w driver \<Rightarrow> string \<Rightarrow> string \<Rightarrow> row list list \<Rightarrow> 'w session \<Rightarrow> 'w session \<times> unit outcome" where
  "put_each dr dataset table [] s = (s, Ret ())"
| "put_each dr dataset table (c # cs) s =
     (case on_state (dr_Put dr dataset table c) s of
        (s1, Some err) \<Rightarrow> (s1, Err (wrapf ''failed to insert rows: '' err []))
      | (s1, None) \<Rightarrow> put_each dr dataset table cs s1)"

lemma put_loop_chunks:
  "put_chunks n b = Some chunks \<Longrightarrow> put_loop dr dataset table n b s = Some (put_each dr dataset table chunks s)"
  by (induction n arbitrary: b s chunks) (auto split: if_splits prod.splits option.splits)

lemma putTable_chunks:
  assumes "0 < bq_BatchSize bq" and "length rows \<le> fuel"
    and "tableRelName tableName = Ret relTableName"
    and "dr_NewClient dr (bq_ProjectID bq) (db_state s) = (w, None)"
  shows "\<exists>chunks. concat chunks = rows \<and> (\<forall>c\<in>set chunks. c \<noteq> [] \<and> int (length c) \<le> bq_BatchSize bq)
    \<and> putTable dr bq fuel dataset tableName rows s =
        Some (put_each dr dataset relTableName chunks (s\<lparr>db_state := w\<rparr>))"
proof -
  obtain chunks where "put_chunks fuel (NewBatch rows (bq_BatchSize bq)) = Some chunks"
    "concat chunks = rows" "\<forall>c\<in>set chunks. c \<noteq> [] \<and> int (length c) \<le> bq_BatchSize bq"
    using put_chunks_from [OF assms(1), of 0 rows fuel] assms(2) by (auto simp: NewBatch_def)
  with assms(3,4) put_loop_chunks show ?thesis
    by (fastforce simp: putTable_def on_state_def)
qed

lemma putTable_returns:
  assumes "0 < bq_BatchSize bq" and "length rows \<le> fuel"
  shows "putTable dr bq fuel dataset tableName rows s \<noteq> None"
proof (cases "tableRelName tableName")
  case (Ret rel)
  obtain w r where c: "dr_NewClient dr (bq_ProjectID bq) (db_state s) = (w, r)" by force
  show ?thesis
  proof (cases r)
    case None
    with putTable_chunks [OF assms Ret, of dr s w dataset] c show ?thesis by auto
  next
    case (Some err)
    with Ret c show ?thesis by (simp add: putTable_def on_state_def)
  qed
qed (simp_all add: putTable_def)

section \<open>Every destination keeps the batch\<close>

lemma same_buffer_auth_loop:
  assumes "\<And>td ss ss' td' r. run td ss = (ss', td', r) \<Longrightarrow> same_buffer td td'"
  shows "auth_loop run reconnect n i (ss, td) r = ((ss', td'), r') \<Longrightarrow> same_buffer td td'"
proof (induction n arbitrary: i ss td r)
  case 0
  then show ?case by simp
next
  case (Suc n)
  obtain ss1 td1 r1 where x: "run td (if i > 0 then reconnect ss else ss) = (ss1, td1, r1)"
    by (metis surj_pair)
  show ?case
  proof (cases "i > 0 \<and> \<not> IsAuthExpiredError (error_of r)")
    case True
    with Suc.prems show ?thesis by simp
  next
    case False
    with Suc.prems x have "auth_loop run reconnect n (i + 1) (ss1, td1) r1 = ((ss', td'), r')"
      by (simp cong: if_cong)
    from Suc.IH [OF this] assms [OF x] show ?thesis by (rule same_buffer_trans [rotated])
  qed
qed

lemma same_buffer_auth_retries:
  assumes "\<And>td ss ss' td' r. run td ss = (ss', td', r) \<Longrightarrow> same_buffer td td'"
    and "with_auth_retries run reconnect td ss = (ss', td', r)"
  shows "same_buffer td td'"
  using assms(2) same_buffer_auth_loop [OF assms(1)]
  by (auto simp: with_auth_retries_def split: prod.splits)

lemma same_buffer_s3: "s3_Merge std rnd dr cfg s3 td w = (w', td', r) \<Longrightarrow> td' = td"
  by (auto simp: s3_Merge_def Let_def split: if_splits option.splits outcome.splits prod.splits)

lemma same_buffer_destination_Merge:
  "destination_Merge std di dw dr cfg td ss = (ss', td', r) \<Longrightarrow> same_buffer td td'"
  by (auto simp: destination_Merge_def snowflake_Merge_def redshift_Merge_def bigquery_Merge_def
      mssql_Merge_def on_driver_def dest!: same_buffer_s3
      dest: same_buffer_Merge elim!: same_buffer_auth_retries [rotated]
      split: destination_kind.splits option.splits outcome.splits prod.splits)

lemma same_buffer_destination_Append:
  "destination_Append std di dw dr cfg td ss = (ss', td', r) \<Longrightarrow> same_buffer td td'"
  by (auto simp: destination_Append_def snowflake_Append_def redshift_Append_def target_Append_def
      on_driver_def Let_def dest!: same_buffer_s3
      dest: same_buffer_Append elim!: same_buffer_auth_retries [rotated]
      split: destination_kind.splits option.splits outcome.splits prod.splits)

interpretation pl: destination_contract "pipeline_env std di dw dr cfg commit consumers"
  for std di dw dr cfg commit consumers
  by unfold_locales
    (simp_all add: pipeline_env_def same_buffer_destination_Merge same_buffer_destination_Append)

section \<open>The authentication retries keep the contract of a retry loop\<close>

definition auth_again :: "unit outcome \<Rightarrow> bool" where
  "auth_again r = IsAuthExpiredError (error_of r)"

definition auth_attempt ::
  "(TableData \<Rightarrow> 'x \<Rightarrow> 'x \<times> TableData \<times> unit outcome) \<Rightarrow> ('x \<Rightarrow> 'x) \<Rightarrow> nat \<Rightarrow> 'x \<times> TableData
     \<Rightarrow> ('x \<times> TableData) \<times> unit outcome" where
  "auth_attempt run reconnect i x =
     (case run (snd x) (if i > 0 then reconnect (fst x) else fst x) of (ss, td, r) \<Rightarrow> ((ss, td), r))"

definition auth_expired :: "unit outcome" where
  "auth_expired = Err (errorf ''Authentication token has expired'')"

lemma auth_again_expired [simp]: "auth_again auth_expired"
  by (simp add: auth_again_def auth_expired_def IsAuthExpiredError_def errorf_def contains_def)

text \<open>From the second round on, what the loop does next depends only on whether it goes on.\<close>

lemma auth_loop_Suc:
  "auth_loop run reconnect (Suc n) i x r =
     (if i > 0 \<and> \<not> auth_again r then (x, r)
      else (case auth_attempt run reconnect i x of (x', r') \<Rightarrow> auth_loop run reconnect n (i + 1) x' r'))"
  by (simp add: auth_again_def auth_attempt_def split: prod.splits)

interpretation sf: retrying "auth_attempt run reconnect" auth_again
  "\<lambda>n i x. auth_loop run reconnect n i x auth_expired"
  for run :: "TableData \<Rightarrow> 'x \<Rightarrow> 'x \<times> TableData \<times> unit outcome" and reconnect
proof unfold_locales
  fix k s
  show "auth_loop run reconnect (Suc 0) k s auth_expired = auth_attempt run reconnect k s"
    unfolding auth_loop_Suc by (simp split: prod.splits)
next
  fix n k s
  obtain x r where a: "auth_attempt run reconnect k s = (x, r)" by (cases "auth_attempt run reconnect k s")
  have l: "auth_loop run reconnect (Suc (Suc n)) k s auth_expired = auth_loop run reconnect (Suc n) (Suc k) x r"
    by (subst auth_loop_Suc) (simp add: a del: auth_loop.simps)
  show "auth_loop run reconnect (Suc (Suc n)) k s auth_expired =
      (case auth_attempt run reconnect k s of (s', r) \<Rightarrow>
         if auth_again r then auth_loop run reconnect (Suc n) (Suc k) s' auth_expired else (s', r))"
    unfolding l a by (simp add: auth_loop_Suc del: auth_loop.simps)
qed

section \<open>Properties\<close>

definition sample_driver :: "unit driver" where
  "sample_driver =
     \<lparr>dr_Exec = (\<lambda>q w. (w, None)), dr_Query = (\<lambda>q a w. (w, Ret [])), dr_Begin = (\<lambda>w. (w, None)),
      dr_TxExec = (\<lambda>q w. (w, None)), dr_TxCommit = (\<lambda>w. (w, None)), dr_TxRollback = (\<lambda>w. w),
      dr_Now = (\<lambda>w. zero_time), dr_TempPath = (\<lambda>s. s), dr_Create = (\<lambda>s w. (w, None)),
      dr_WriteRow = (\<lambda>s r w. (w, None)), dr_FlushFile = (\<lambda>s w. (w, None)), dr_RemoveAll = (\<lambda>s w. w),
      dr_LoadAWSConfig = (\<lambda>c w. (w, None)), dr_OpenFile = (\<lambda>f w. (w, None)),
      dr_Stat = (\<lambda>f w. (w, Ret f)), dr_PutObject = (\<lambda>b k f w. (w, None)), dr_PrepareCopyIn = (\<lambda>s c w. (w, None)),
      dr_CopyRow = (\<lambda>r w. (w, None)), dr_CopyDone = (\<lambda>w. (w, None)),
      dr_NewClient = (\<lambda>p w. (w, None)), dr_Put = (\<lambda>d t rs w. (w, None)),
      dr_NewFileWriter = (\<lambda>f w. (w, None)), dr_NewJSONWriter = (\<lambda>f s w. (w, None)),
      dr_WriteParquet = (\<lambda>f r w. (w, None)), dr_WriteStop = (\<lambda>f w. (w, None)),
      dr_CloseFile = (\<lambda>f w. (w, None))\<rparr>"

text \<open>
  C22. Streaming a batch into BigQuery ends and sends what it should: for a positive batch size the
  loading of a temporary table returns, and \<^verbatim>\<open>putTable\<close> is the sequential put of chunks that are
  non-empty, no larger than the batch size, and together exactly the rows in their order.
\<close>

theorem putTable_equiv:
  assumes "0 < bq_BatchSize bq"
  shows "bigquery_PrepareTemporaryTable std bq (length (Rows td)) dr cfg td tc tempTableName create s \<noteq> None
    \<and> (tableRelName tableName = Ret relTableName \<longrightarrow>
        dr_NewClient dr (bq_ProjectID bq) (db_state s) = (w, None) \<longrightarrow>
        (\<exists>chunks. concat chunks = rows \<and> (\<forall>c\<in>set chunks. c \<noteq> [] \<and> int (length c) \<le> bq_BatchSize bq)
           \<and> putTable dr bq (length rows) dataset tableName rows s =
               Some (put_each dr dataset relTableName chunks (s\<lparr>db_state := w\<rparr>))))"
proof
  have "\<exists>x. putTable dr bq (length (Rows td)) dataset tableName rows s1 = Some x"
    if "mapM_out f (Rows td) = Ret rows" for f :: "row \<Rightarrow> row outcome" and rows dataset tableName s1
    using putTable_returns [OF assms, of rows "length (Rows td)" dr dataset tableName s1] mapM_out_Ret [OF that]
    by (simp add: not_None_eq del: split_paired_Ex)
  then show "bigquery_PrepareTemporaryTable std bq (length (Rows td)) dr cfg td tc tempTableName create s \<noteq> None"
    by (fastforce simp: bigquery_PrepareTemporaryTable_def split: option.splits outcome.splits prod.splits)
  show "tableRelName tableName = Ret relTableName \<longrightarrow>
        dr_NewClient dr (bq_ProjectID bq) (db_state s) = (w, None) \<longrightarrow>
        (\<exists>chunks. concat chunks = rows \<and> (\<forall>c\<in>set chunks. c \<noteq> [] \<and> int (length c) \<le> bq_BatchSize bq)
           \<and> putTable dr bq (length rows) dataset tableName rows s =
               Some (put_each dr dataset relTableName chunks (s\<lparr>db_state := w\<rparr>)))"
    by (intro impI putTable_chunks [OF assms order_refl])
qed

theorem putTable_equiv_witness:
  "\<exists>chunks. concat chunks = [[], []] \<and> (\<forall>c\<in>set chunks. c \<noteq> [] \<and> int (length c) \<le> 1)
     \<and> putTable sample_driver \<lparr>bq_PathToCredentials = [], bq_DefaultDataset = [], bq_ProjectID = ''p'',
           bq_Location = [], bq_BatchSize = 1\<rparr> 2 ''db'' ''p.db.t'' [[], []] (ss_session sample_state) =
         Some (put_each sample_driver ''db'' ''t'' chunks (ss_session sample_state))"
proof -
  let ?bq = "\<lparr>bq_PathToCredentials = [], bq_DefaultDataset = [], bq_ProjectID = ''p'', bq_Location = [],
    bq_BatchSize = 1\<rparr> :: BigQuery_config"
  have pos: "0 < bq_BatchSize ?bq" by simp
  have name: "tableRelName ''p.db.t'' = Ret ''t''" by code_simp
  have client: "dr_NewClient sample_driver (bq_ProjectID ?bq) (db_state (ss_session sample_state)) = ((), None)"
    by (simp add: sample_driver_def)
  from putTable_equiv [OF pos, THEN conjunct2, rule_format, OF name client, of "[[], []]" "''db''"]
  show ?thesis by (simp add: numeral_2_eq_2 sample_state_def)
qed

text \<open>
  A merge into Snowflake runs at least once and at most ten times, on the state and the batch
  that the run before left; it runs again only when the authentication had expired, and its result
  is that of the last run.
\<close>

theorem snowflake_Merge_attempts:
  "\<exists>j<10. (let run = (\<lambda>td ss. Merge std (mi ss) dw cfg plain_opts td ss);
               att = auth_attempt run reconnect
           in (case snowflake_Merge std mi reconnect dw cfg td ss of (ss', td', r) \<Rightarrow> ((ss', td'), r))
                = att j (nth_state att j 0 (ss, td))
              \<and> (\<forall>i<j. auth_again (snd (att i (nth_state att i 0 (ss, td)))))
              \<and> (j = 9 \<or> \<not> auth_again (snd (att j (nth_state att j 0 (ss, td))))))"
proof -
  define run where "run = (\<lambda>td ss. Merge std (mi ss) dw cfg plain_opts td ss)"
  define att where "att = auth_attempt run reconnect"
  have ten: "snowflake_maxRetries = Suc 9" by (simp add: snowflake_maxRetries_def)
  have start: "auth_loop run reconnect (Suc 9) 0 (ss, td) r = auth_loop run reconnect (Suc 9) 0 (ss, td) auth_expired" for r
    unfolding auth_loop_Suc by simp
  have eq: "(case snowflake_Merge std mi reconnect dw cfg td ss of (ss', td', r) \<Rightarrow> ((ss', td'), r)) =
      auth_loop run reconnect (Suc 9) 0 (ss, td) auth_expired"
    unfolding snowflake_Merge_def with_auth_retries_def run_def [symmetric] ten
    by (subst start) (simp split: prod.splits del: auth_loop.simps)
  from sf.attempts [of 9 run reconnect 0 "(ss, td)"] obtain j where j: "j \<le> 9"
    "auth_loop run reconnect (Suc 9) 0 (ss, td) auth_expired = att j (nth_state att j 0 (ss, td))"
    "\<forall>i<j. auth_again (snd (att i (nth_state att i 0 (ss, td))))"
    "j = 9 \<or> \<not> auth_again (snd (auth_loop run reconnect (Suc 9) 0 (ss, td) auth_expired))"
    unfolding att_def by auto
  then show ?thesis
    unfolding Let_def run_def [symmetric] att_def [symmetric] eq by (intro exI [of _ j]) auto
qed

text \<open>
  C23. The staging rows of Snowflake line up with its copy. The copy command names the typed columns
  of the batch in their order, escaped, and selects as many fields of the staged file; its i-th
  selected field is \<^verbatim>\<open>$(i+1)\<close>, parsed as JSON for a struct or an array. A staged row has one cell for
  each of them, and the cell in field \<^verbatim>\<open>$(i+1)\<close> is the value the row has for the i-th named column,
  cast with that column's own type.
\<close>

theorem snowflake_rows_aligned:
  assumes "columns_inv cols"
    and "cast_row (\<lambda>v c. castColValStaging std v c fmts) cols (GetColumnsToUpdate u None cols) r = Ret cells"
  shows "\<exists>names fields. copy_command u cols temp settings =
      ''COPY INTO '' @ temp @ '' ('' @ join '','' names @ '') FROM (SELECT '' @ join '','' fields @ '' FROM @'' @
      addPrefixToTableName temp ''%'' @ '')'' @
      (if as_AdditionalCopyClause settings = [] then [] else '' '' @ as_AdditionalCopyClause settings)
    \<and> length names = length cells \<and> length fields = length cells
    \<and> length cells = length (filter (\<lambda>c. col_KindDetails c \<noteq> Invalid) cols)
    \<and> (\<forall>i<length cells. (let c = filter (\<lambda>c. col_KindDetails c \<noteq> Invalid) cols ! i;
           field = ''$'' @ show_nat (i + 1)
         in names ! i = Column_Name u (Some \<lparr>Escape = True, na_DestKind = Snowflake\<rparr>) c
          \<and> fields ! i =
              (if col_KindDetails c = Struct then ''PARSE_JSON('' @ field @ '')''
               else if col_KindDetails c = Array then ''CAST(PARSE_JSON('' @ field @ '') AS ARRAY) AS '' @ field
               else field)
          \<and> castColValStaging std (row_cell r (col_name c)) c fmts = Ret (cells ! i)))"
proof -
  let ?typed = "filter (\<lambda>c. col_KindDetails c \<noteq> Invalid) cols"
  let ?names = "GetColumnsToUpdate u (Some \<lparr>Escape = True, na_DestKind = Snowflake\<rparr>) cols"
  let ?fields = "escape_columns_loop cols 0"
  have plain: "GetColumnsToUpdate u None cols = map col_name ?typed"
    by (simp add: GetColumnsToUpdate_def Column_Name_def)
  have "column_of cols (col_name c) = c" if "c \<in> set ?typed" for c
    using GetColumn_self [of cols c] assms(1) that by (simp add: column_of_def columns_inv_def)
  then have own: "column_of cols (col_name (?typed ! i)) = ?typed ! i" if "i < length ?typed" for i
    using that nth_mem by blast
  note cells = mapM_out_Ret [OF assms(2) [unfolded cast_row_def plain]]
  have "copy_command u cols temp settings =
      ''COPY INTO '' @ temp @ '' ('' @ join '','' ?names @ '') FROM (SELECT '' @ join '','' ?fields @ '' FROM @'' @
      addPrefixToTableName temp ''%'' @ '')'' @
      (if as_AdditionalCopyClause settings = [] then [] else '' '' @ as_AdditionalCopyClause settings)"
    by (simp add: copy_command_def escapeColumns_def)
  then show ?thesis
    using cells own escape_columns_loop_nth [OF refl, of cols 0]
    by (intro exI [of _ ?names] exI [of _ ?fields])
      (auto simp: GetColumnsToUpdate_def placeholder_def Let_def)
qed

text \<open>
  Creating a temporary table changes what is known of the target: the target's config then
  lists every named, typed column of the batch, the delete marker included, whether or not the
  target has it, and it no longer asks for the target to be created.
\<close>

theorem create_temp_changes_target_config:
  assumes "create_temp std label dr cfg td cols tc temp s = (s', tc', Ret u)" and "cols \<noteq> []"
  shows "col_name ` set (dc_columns tc') =
      col_name ` set (dc_columns tc) \<union> (col_name ` set (filter (\<lambda>c. \<not> ShouldSkip c) cols) - {[]})
    \<and> \<not> dc_createTable tc'"
proof -
  let ?a = "temp_alter_args cfg td tc temp"
  have add: "at_ColumnOp ?a = Add" "at_Tc ?a = tc" by (simp_all add: temp_alter_args_def)
  obtain s1 tc1 r where x: "AlterTable std (\<lambda>_. dr_Now dr (db_state s)) (driver_dwh label dr) ?a cols s = (s1, tc1, r)"
    by (metis surj_pair)
  with assms(1) have r: "r = Ret u" "tc1 = tc'" by (simp_all add: create_temp_def)
  from x show ?thesis
  proof (cases rule: AlterTable_cases)
    case (success v acc)
    have "ac_mutateCol acc = filter (\<lambda>c. \<not> ShouldSkip c) cols" "ac_tc acc = tc"
      using alter_columns_Add [OF add(1) success(3)] add(2) by simp_all
    with success r add show ?thesis by (simp add: columns_Mutate_Add names_foldl_AddColumn)
  qed (use r assms(2) in auto)
qed

theorem create_temp_changes_target_config_witness:
  "\<exists>s' tc' u. create_temp sample_std Redshift sample_driver sample_config sample_batch
       [NewColumn DeleteColumnMarker Boolean] (NewDwhTableConfig [] [] False False) ''t__artie_1''
       (ss_session sample_state) = (s', tc', Ret u)
     \<and> DeleteColumnMarker \<in> col_name ` set (dc_columns tc')"
proof -
  let ?x = "create_temp sample_std Redshift sample_driver sample_config sample_batch
       [NewColumn DeleteColumnMarker Boolean] (NewDwhTableConfig [] [] False False) ''t__artie_1''
       (ss_session sample_state)"
  obtain s' tc' r where x: "?x = (s', tc', r)" by (metis surj_pair)
  have "snd (snd ?x) = Ret ()"
    by (simp add: create_temp_def AlterTable_def AlterTableArgs_Validate_def temp_alter_args_def
        sample_batch_facts alter_column_def ShouldSkip_def KindToDWHType_def kindToRedshift_def kind_defs
        run_ddl_def create_table_sql_def driver_dwh_def exec_sql_def sample_driver_def store_Exec_def
        exec_maxAttempts_def numeral_eq_Suc Let_def)
  with x have "?x = (s', tc', Ret ())" by simp
  from create_temp_changes_target_config [OF this] this show ?thesis
    by (auto simp: ShouldSkip_def kind_defs DeleteColumnMarker_def)
qed

definition mixed_columns :: Columns where
  "mixed_columns = [NewColumn ''id'' KString, NewColumn ''gone'' Invalid, NewColumn ''doc'' Struct]"

theorem snowflake_rows_aligned_witness:
  "\<exists>names fields cells.
     copy_command False mixed_columns ''t'' \<lparr>as_AdditionalCopyClause = []\<rparr> =
       ''COPY INTO t ('' @ join '','' names @ '') FROM (SELECT '' @ join '','' fields @ '' FROM @%t)''
     \<and> length names = 2 \<and> fields ! 0 = ''$1'' \<and> fields ! 1 = ''PARSE_JSON($2)''
     \<and> length cells = 2 \<and> castColValStaging sample_std VNil (NewColumn ''doc'' Struct) [] = Ret (cells ! 1)"
proof -
  have inv: "columns_inv mixed_columns" by (simp add: columns_inv_def mixed_columns_def)
  have typed: "filter (\<lambda>c. col_KindDetails c \<noteq> Invalid) mixed_columns = [NewColumn ''id'' KString, NewColumn ''doc'' Struct]"
    by (simp add: mixed_columns_def kind_defs)
  have kinds: "KString \<noteq> Struct" "KString \<noteq> Array" by (simp_all add: kind_defs)
  have shown: "show_nat 1 = ''1''" "show_nat 2 = ''2''" "addPrefixToTableName ''t'' ''%'' = ''%t''"
    by code_simp+
  obtain cells where c: "cast_row (\<lambda>v c. castColValStaging sample_std v c []) mixed_columns
      (GetColumnsToUpdate False None mixed_columns) [] = Ret cells"
    by (simp add: cast_row_def GetColumnsToUpdate_def castColValStaging_def row_cell_def kind_defs mixed_columns_def)
  from snowflake_rows_aligned [OF inv c, of "''t''" "\<lparr>as_AdditionalCopyClause = []\<rparr>", unfolded typed]
  obtain names fields where copy: "copy_command False mixed_columns ''t'' \<lparr>as_AdditionalCopyClause = []\<rparr> =
      ''COPY INTO t ('' @ join '','' names @ '') FROM (SELECT '' @ join '','' fields @ '' FROM @%t)''"
    and two: "length names = 2" "length cells = 2"
    and nth: "\<forall>i<2. (let c = [NewColumn ''id'' KString, NewColumn ''doc'' Struct] ! i; field = ''$'' @ show_nat (i + 1)
         in fields ! i =
              (if col_KindDetails c = Struct then ''PARSE_JSON('' @ field @ '')''
               else if col_KindDetails c = Array then ''CAST(PARSE_JSON('' @ field @ '') AS ARRAY) AS '' @ field
               else field)
          \<and> castColValStaging sample_std (row_cell [] (col_name c)) c [] = Ret (cells ! i))"
    by (auto simp: shown Let_def)
  have "fields ! 0 = ''$1''" using nth [rule_format, of 0] by (simp add: kinds shown [simplified])
  moreover have "fields ! 1 = ''PARSE_JSON($2)''
      \<and> castColValStaging sample_std VNil (NewColumn ''doc'' Struct) [] = Ret (cells ! 1)"
    using nth [rule_format, of 1] by (simp add: shown row_cell_def gm_get_def numeral_2_eq_2 [symmetric])
  ultimately show ?thesis using copy two by blast
qed

end
