(* ===== verification/Metrics.thy ===== *)
theory Metrics
  imports Message Config
begin

text \<open>
  Metrics: the exporter (\<^verbatim>\<open>lib/telemetry/metrics\<close>) and the lags of a message
  (\<^verbatim>\<open>lib/artie/message.go\<close>). The statsd client is a library; what the code hands to it is recorded
  as a list of calls. The YAML library and the environment are the parameter \<open>telemetry\<close>.
\<close>

section \<open>The Datadog client\<close>

definition Tags :: string where "Tags = ''tags''"
definition Sampling :: string where "Sampling = ''sampling''"
definition DefaultSampleRate :: rat where "DefaultSampleRate = 1"
definition Namespace :: string where "Namespace = ''namespace''"
definition DefaultNamespace :: string where "DefaultNamespace = ''transfer.''"
definition DatadogAddr :: string where "DatadogAddr = ''addr''"
definition DefaultAddr :: string where "DefaultAddr = ''127.0.0.1:8125''"
definition Datadog :: string where "Datadog = ''datadog''"

record telemetry =
  te_Getenv :: "string \<Rightarrow> string"
  te_statsd_New :: "string \<Rightarrow> unit outcome"
  te_yaml_Marshal :: "val \<Rightarrow> string outcome"
  te_yaml_Unmarshal :: "string \<Rightarrow> string list outcome"

text \<open>A comparison with a value that is not a number is false.\<close>

fun rate_invalid :: "go_float \<Rightarrow> bool" where
  "rate_invalid (Finite r) = (r > 1 \<or> r \<le> 0)"
| "rate_invalid (Infinite negative) = True"
| "rate_invalid NotANumber = False"

definition getSampleRate :: "gostd \<Rightarrow> val \<Rightarrow> go_float" where
  "getSampleRate std v =
     (case parse_float64 std (sprint std v) of
        Ret floatVal \<Rightarrow> if rate_invalid floatVal then Finite DefaultSampleRate else floatVal
      | _ \<Rightarrow> Finite DefaultSampleRate)"

definition getTags :: "telemetry \<Rightarrow> val \<Rightarrow> string list" where
  "getTags te tags =
     (if tags = VNil then []
      else case te_yaml_Marshal te tags of
             Ret yamlBytes \<Rightarrow> (case te_yaml_Unmarshal te yamlBytes of Ret ts \<Rightarrow> ts | _ \<Rightarrow> [])
           | _ \<Rightarrow> [])"

definition toDatadogTags :: "string gomap \<Rightarrow> string list" where
  "toDatadogTags tags = map (\<lambda>(key, v). key @ '':'' @ v) tags"

record statsClient =
  sc_address :: string
  sc_Namespace :: string
  sc_Tags :: "string list"
  sc_rate :: go_float

definition datadog_address :: "gostd \<Rightarrow> telemetry \<Rightarrow> row \<Rightarrow> string" where
  "datadog_address std te settings =
     (let host = te_Getenv te ''TELEMETRY_HOST''; port = te_Getenv te ''TELEMETRY_PORT''
      in if \<not> stringutil_Empty [host, port] then host @ '':'' @ port
         else sprint std (GetKeyFromMap settings DatadogAddr (VString DefaultAddr)))"

definition NewDatadogClient :: "gostd \<Rightarrow> telemetry \<Rightarrow> row \<Rightarrow> statsClient outcome" where
  "NewDatadogClient std te settings =
     bind_out (te_statsd_New te (datadog_address std te settings)) (\<lambda>_.
     Ret \<lparr>sc_address = datadog_address std te settings,
          sc_Namespace = sprint std (GetKeyFromMap settings Namespace (VString DefaultNamespace)),
          sc_Tags = getTags te (GetKeyFromMap settings Tags (VStrings [])),
          sc_rate = getSampleRate std (GetKeyFromMap settings Sampling (VInt KInt 1))\<rparr>)"

section \<open>Clients\<close>

datatype base_Client = NullMetricsProvider | StatsClient statsClient

text \<open>The calls of the statsd client: kind, name, value, tags and sample rate.\<close>

datatype statsd_call =
  TimingCall string int "string list" go_float
| IncrCall string "string list" go_float
| CountCall string int "string list" go_float
| GaugeCall string int "string list" go_float

fun Timing :: "base_Client \<Rightarrow> string \<Rightarrow> int \<Rightarrow> string gomap \<Rightarrow> statsd_call list" where
  "Timing NullMetricsProvider name v tags = []"
| "Timing (StatsClient s) name v tags = [TimingCall name v (toDatadogTags tags) (sc_rate s)]"

fun Incr :: "base_Client \<Rightarrow> string \<Rightarrow> string gomap \<Rightarrow> statsd_call list" where
  "Incr NullMetricsProvider name tags = []"
| "Incr (StatsClient s) name tags = [IncrCall name (toDatadogTags tags) (sc_rate s)]"

fun Count :: "base_Client \<Rightarrow> string \<Rightarrow> int \<Rightarrow> string gomap \<Rightarrow> statsd_call list" where
  "Count NullMetricsProvider name v tags = []"
| "Count (StatsClient s) name v tags = [CountCall name v (toDatadogTags tags) (sc_rate s)]"

fun Gauge :: "base_Client \<Rightarrow> string \<Rightarrow> int \<Rightarrow> string gomap \<Rightarrow> statsd_call list" where
  "Gauge NullMetricsProvider name v tags = []"
| "Gauge (StatsClient s) name v tags = [GaugeCall name v (toDatadogTags tags) (sc_rate s)]"

fun GaugeWithSample ::
  "base_Client \<Rightarrow> string \<Rightarrow> int \<Rightarrow> string gomap \<Rightarrow> go_float \<Rightarrow> statsd_call list" where
  "GaugeWithSample NullMetricsProvider name v tags sample = []"
| "GaugeWithSample (StatsClient s) name v tags sample = [GaugeCall name v (toDatadogTags tags) sample]"

definition supportedExporterKinds :: "string list" where
  "supportedExporterKinds = [Datadog]"

fun exporter_loop :: "string \<Rightarrow> string list \<Rightarrow> bool \<Rightarrow> bool" where
  "exporter_loop kind [] valid = valid"
| "exporter_loop kind (k # ks) valid = (if kind = k then True else exporter_loop kind ks False)"

definition exporterKindValid :: "string \<Rightarrow> bool" where
  "exporterKindValid kind = exporter_loop kind supportedExporterKinds False"

definition LoadExporter :: "gostd \<Rightarrow> telemetry \<Rightarrow> Config \<Rightarrow> base_Client outcome" where
  "LoadExporter std te cfg =
     (if cfg_MetricsProvider cfg = Datadog
      then case NewDatadogClient std te (cfg_MetricsSettings cfg) of
             Ret c \<Rightarrow> Ret (StatsClient c)
           | Err e \<Rightarrow> Ret NullMetricsProvider
           | Panic m \<Rightarrow> Panic m
      else Ret NullMetricsProvider)"

section \<open>The lags of a message\<close>

definition lag_tags :: "mode \<Rightarrow> string \<Rightarrow> string \<Rightarrow> Message \<Rightarrow> string gomap" where
  "lag_tags m groupID table msg =
     [(''mode'', show_mode m), (''groupID'', groupID), (''topic'', Message_Topic msg), (''table'', table),
      (''partition'', Message_Partition msg)]"

text \<open>The high water mark is a field of the fetched message that nothing else reads.\<close>

definition EmitRowLag ::
  "base_Client \<Rightarrow> int \<Rightarrow> mode \<Rightarrow> string \<Rightarrow> string \<Rightarrow> Message \<Rightarrow> statsd_call list" where
  "EmitRowLag client highWaterMark m groupID table msg =
     (case KafkaMsg msg of
        None \<Rightarrow> []
      | Some k \<Rightarrow> GaugeWithSample client ''row.lag'' (highWaterMark - km_Offset k)
                    (lag_tags m groupID table msg) (Finite (1 / 2)))"

text \<open>\<^verbatim>\<open>time.Since\<close>: the difference in nanoseconds, cut to a 64-bit duration.\<close>

definition time_Since :: "gotime \<Rightarrow> gotime \<Rightarrow> int" where
  "time_Since now t = max min_int64 (min max_int64 (t_nanos now - t_nanos t))"

definition EmitIngestionLag ::
  "base_Client \<Rightarrow> gotime \<Rightarrow> mode \<Rightarrow> string \<Rightarrow> string \<Rightarrow> Message \<Rightarrow> statsd_call list" where
  "EmitIngestionLag client now m groupID table msg =
     Timing client ''ingestion.lag'' (time_Since now (Message_PublishTime msg)) (lag_tags m groupID table msg)"

section \<open>Facts\<close>

lemma exporterKindValid_iff: "exporterKindValid kind \<longleftrightarrow> kind = Datadog"
  by (simp add: exporterKindValid_def supportedExporterKinds_def)

text \<open>
  The sample rate is one that samples, except that the setting \<^verbatim>\<open>NaN\<close> passes the range check and is
  kept.
\<close>

lemma getSampleRate_range:
  "(\<exists>r. getSampleRate std v = Finite r \<and> 0 < r \<and> r \<le> 1)
     \<or> getSampleRate std v = NotANumber \<and> to_lower (sprint std v) = ''nan''"
proof (cases "parse_float64 std (sprint std v)")
  case (Ret f)
  then have "f = NotANumber \<Longrightarrow> to_lower (sprint std v) = ''nan''"
    by (auto simp: parse_float64_def Let_def split: if_splits)
  with Ret show ?thesis by (cases f) (auto simp: getSampleRate_def DefaultSampleRate_def)
qed (simp_all add: getSampleRate_def DefaultSampleRate_def)

lemma metrics_never_stop_the_process:
  "(\<And>a m. te_statsd_New te a \<noteq> Panic m) \<Longrightarrow> is_ret (LoadExporter std te cfg)"
  by (cases "te_statsd_New te (datadog_address std te (cfg_MetricsSettings cfg))")
     (auto simp: LoadExporter_def NewDatadogClient_def)

end
