(* ===== verification/Startup.thy ===== *)
theory Startup
  imports Warehouses Metrics
begin

text \<open>
  Starting the process: opening the connection of a destination (\<^verbatim>\<open>clients/*\<close>, \<^verbatim>\<open>lib/db\<close>), choosing
  it by the configured output and sweeping it (\<^verbatim>\<open>lib/destination/utils\<close>), the Kafka readers and the
  Pub/Sub subscriptions (\<^verbatim>\<open>processes/consumer\<close>), and \<^verbatim>\<open>main.go\<close>, which puts them together. The
  result of a start is the destination and the formats that the steps of \<open>Consumer\<close> then use.

  The SQL driver, the Pub/Sub client, AWS and the environment variables are the parameter
  \<open>platform\<close>, which acts on the same state as the driver of the warehouse.
\<close>

section \<open>The platform\<close>

record gosnowflake_Config =
  gs_Account :: string
  gs_User :: string
  gs_Password :: string
  gs_Warehouse :: string
  gs_Region :: string
  gs_Application :: string
  gs_Host :: string

record 'w platform =
  pf_sql_Open :: "string \<Rightarrow> string \<Rightarrow> 'w \<Rightarrow> 'w \<times> goerr option"
  pf_Ping :: "string \<Rightarrow> 'w \<Rightarrow> 'w \<times> goerr option"
  pf_snowflake_DSN :: "gosnowflake_Config \<Rightarrow> string outcome"
  pf_Setenv :: "string \<Rightarrow> string \<Rightarrow> 'w \<Rightarrow> 'w \<times> goerr option"
  pf_LoadDefaultConfig :: "'w \<Rightarrow> 'w \<times> goerr option"
  pf_pubsub_NewClient :: "string \<Rightarrow> string \<Rightarrow> 'w \<Rightarrow> 'w \<times> goerr option"
  pf_sub_Exists :: "string \<Rightarrow> 'w \<Rightarrow> 'w \<times> bool outcome"
  pf_topic_Exists :: "string \<Rightarrow> 'w \<Rightarrow> 'w \<times> bool \<times> goerr option"
  pf_CreateSubscription :: "string \<Rightarrow> string \<Rightarrow> int \<Rightarrow> bool \<Rightarrow> 'w \<Rightarrow> 'w \<times> goerr option"

text \<open>\<^verbatim>\<open>db.Open\<close>: a connection that cannot be opened or does not answer ends the process.\<close>

definition db_Open :: "'w platform \<Rightarrow> string \<Rightarrow> string \<Rightarrow> 'w \<Rightarrow> 'w \<times> unit outcome" where
  "db_Open pf driverName dsn w =
     (case pf_sql_Open pf driverName dsn w of
        (w1, Some e) \<Rightarrow> (w1, Panic ''Failed to start a SQL client'')
      | (w1, None) \<Rightarrow>
          (case pf_Ping pf driverName w1 of
             (w2, Some e) \<Rightarrow> (w2, Panic ''Failed to validate the DB connection'')
           | (w2, None) \<Rightarrow> (w2, Ret ())))"

section \<open>Loading a destination\<close>

definition snowflake_connection :: "Snowflake_config \<Rightarrow> gosnowflake_Config" where
  "snowflake_connection c =
     (let cfg = \<lparr>gs_Account = sn_AccountID c, gs_User = sn_Username c, gs_Password = sn_Password c,
                 gs_Warehouse = sn_Warehouse c, gs_Region = sn_Region c,
                 gs_Application = sn_Application c, gs_Host = []\<rparr>
      in if sn_Host c \<noteq> [] then cfg\<lparr>gs_Host := sn_Host c, gs_Region := []\<rparr> else cfg)"

definition reestablishConnection :: "'w platform \<Rightarrow> Config \<Rightarrow> 'w \<Rightarrow> 'w \<times> unit outcome" where
  "reestablishConnection pf cfg w =
     (case cfg_Snowflake cfg of
        None \<Rightarrow> (w, Panic nil_dereference)
      | Some c \<Rightarrow>
          (case pf_snowflake_DSN pf (snowflake_connection c) of
             Ret dsn \<Rightarrow> db_Open pf ''snowflake'' dsn w
           | Err e \<Rightarrow> (w, Panic ''Failed to get snowflake dsn'')
           | Panic m \<Rightarrow> (w, Panic m)))"

definition redshift_connStr :: "Redshift_config \<Rightarrow> string" where
  "redshift_connStr r =
     ''host='' @ rs_Host r @ '' port='' @ show_int (rs_Port r) @ '' user='' @ rs_Username r @
     '' password='' @ rs_Password r @ '' dbname='' @ rs_Database r @ '' sslmode=require''"

text \<open>What a loaded destination keeps of its section of the configuration.\<close>

datatype loaded =
  LSnowflake
| LRedshift redshift_settings
| LBigQuery BigQuery_config
| LMSSQL
| LS3 S3Settings

definition load_with :: "'w \<times> unit outcome \<Rightarrow> loaded \<Rightarrow> 'w \<times> loaded outcome" where
  "load_with x l = (case x of (w, r) \<Rightarrow> (w, bind_out r (\<lambda>_. Ret l)))"

definition LoadSnowflake :: "'w platform \<Rightarrow> Config \<Rightarrow> 'w \<Rightarrow> 'w \<times> loaded outcome" where
  "LoadSnowflake pf cfg w = load_with (reestablishConnection pf cfg w) LSnowflake"

definition LoadRedshift :: "'w platform \<Rightarrow> Config \<Rightarrow> 'w \<Rightarrow> 'w \<times> loaded outcome" where
  "LoadRedshift pf cfg w =
     (case cfg_Redshift cfg of
        None \<Rightarrow> (w, Panic nil_dereference)
      | Some r \<Rightarrow>
          load_with (db_Open pf ''postgres'' (redshift_connStr r) w)
            (LRedshift \<lparr>rd_credentialsClause = rs_CredentialsClause r, rd_bucket = rs_Bucket r,
                        rd_optionalS3Prefix = rs_OptionalS3Prefix r, rd_skipLgCols = rs_SkipLgCols r\<rparr>))"

definition LoadBigQuery :: "'w platform \<Rightarrow> Config \<Rightarrow> 'w \<Rightarrow> 'w \<times> loaded outcome" where
  "LoadBigQuery pf cfg w =
     (case cfg_BigQuery cfg of
        None \<Rightarrow> (w, Panic nil_dereference)
      | Some bq0 \<Rightarrow>
          (let bq = BigQuery_LoadDefaultValues bq0
           in case (if bq_PathToCredentials bq \<noteq> []
                    then pf_Setenv pf ''GOOGLE_APPLICATION_CREDENTIALS'' (bq_PathToCredentials bq) w
                    else (w, None)) of
                (w1, Some e) \<Rightarrow> (w1, Panic ''Error setting env var for GOOGLE_APPLICATION_CREDENTIALS'')
              | (w1, None) \<Rightarrow> load_with (db_Open pf ''bigquery'' (BigQuery_DSN bq) w1) (LBigQuery bq)))"


text \<open>
  The URL of an MSSQL connection, as \<^verbatim>\<open>net/url\<close> prints it: bytes that a part of the URL does not
  keep are written in hexadecimal, and a space in a query is a plus sign.
\<close>

definition hex_digit :: "nat \<Rightarrow> char" where
  "hex_digit n = char_of (if n < 10 then 48 + n else 55 + n)"

definition percent :: "char \<Rightarrow> string" where
  "percent c = [CHR ''%'', hex_digit ((of_char c :: nat) div 16), hex_digit ((of_char c :: nat) mod 16)]"

definition unreserved :: "char \<Rightarrow> bool" where
  "unreserved c =
     (let n = (of_char c :: nat)
      in 48 \<le> n \<and> n \<le> 57 \<or> 65 \<le> n \<and> n \<le> 90 \<or> 97 \<le> n \<and> n \<le> 122 \<or> c \<in> set ''-_.~'')"

definition keep_user :: "char \<Rightarrow> bool" where
  "keep_user c = (unreserved c \<or> c \<in> set ''$&+,;='')"

definition keep_host :: "char \<Rightarrow> bool" where
  "keep_host c = (unreserved c \<or> c \<in> set (CHR 0x27 # CHR 0x22 # ''!$&()*+,;=:[]<>''))"

definition url_escape :: "(char \<Rightarrow> bool) \<Rightarrow> string \<Rightarrow> string" where
  "url_escape keep s = concat (map (\<lambda>c. if keep c then [c] else percent c) s)"

definition QueryEscape :: "string \<Rightarrow> string" where
  "QueryEscape s =
     concat (map (\<lambda>c. if c = CHR '' '' then ''+'' else if unreserved c then [c] else percent c) s)"

definition MSSQL_DSN :: "MSSQL_config \<Rightarrow> string" where
  "MSSQL_DSN m =
     ''sqlserver://'' @ url_escape keep_user (ms_Username m) @ '':'' @ url_escape keep_user (ms_Password m) @
     ''@'' @ url_escape keep_host (ms_Host m @ '':'' @ show_int (ms_Port m)) @ ''?database='' @
     QueryEscape (ms_Database m)"

definition mssql_LoadStore :: "'w platform \<Rightarrow> Config \<Rightarrow> 'w \<Rightarrow> 'w \<times> loaded outcome" where
  "mssql_LoadStore pf cfg w =
     (case cfg_MSSQL cfg of
        None \<Rightarrow> (w, Panic nil_dereference)
      | Some m \<Rightarrow> load_with (db_Open pf ''mssql'' (MSSQL_DSN m) w) LMSSQL)"

definition s3_LoadStore :: "Config \<Rightarrow> loaded outcome" where
  "s3_LoadStore cfg =
     bind_out (wrap_out ''failed to validate settings: '' (S3Settings_Validate (cfg_S3 cfg))) (\<lambda>_.
     deref (cfg_S3 cfg) LS3)"

section \<open>Choosing the destination\<close>

definition store_of :: "gostd \<Rightarrow> Config \<Rightarrow> 'w driver \<Rightarrow> loaded \<Rightarrow> 'w store" where
  "store_of std cfg dr l =
     (case l of
        LRedshift rs \<Rightarrow> redshift_store std cfg rs dr
      | LBigQuery bq \<Rightarrow> bigquery_store std cfg bq dr
      | LMSSQL \<Rightarrow> mssql_store std cfg dr
      | _ \<Rightarrow> snowflake_store std cfg dr)"

text \<open>A destination is loaded and then swept; an error of the sweep ends the process.\<close>

definition load_and_sweep ::
  "gostd \<Rightarrow> (string \<Rightarrow> gotime) \<Rightarrow> Config \<Rightarrow> 'w driver \<Rightarrow> (DatabaseSchemaPair \<Rightarrow> string \<times> string list)
     \<Rightarrow> string \<Rightarrow> ('w \<Rightarrow> 'w \<times> loaded outcome) \<Rightarrow> 'w session \<Rightarrow> 'w session \<times> loaded outcome" where
  "load_and_sweep std clk cfg dr query failure load s =
     (case load (db_state s) of
        (w, Ret l) \<Rightarrow>
          (case store_Sweep std clk (store_of std cfg dr l) cfg query (s\<lparr>db_state := w\<rparr>) of
             (s1, Ret _) \<Rightarrow> (s1, Ret l)
           | (s1, Err e) \<Rightarrow> (s1, Panic failure)
           | (s1, Panic m) \<Rightarrow> (s1, Panic m))
      | (w, r) \<Rightarrow> (s\<lparr>db_state := w\<rparr>, r))"

definition DataWarehouse ::
  "gostd \<Rightarrow> (string \<Rightarrow> gotime) \<Rightarrow> 'w platform \<Rightarrow> 'w driver \<Rightarrow> Config \<Rightarrow> 'w session
     \<Rightarrow> 'w session \<times> loaded outcome" where
  "DataWarehouse std clk pf dr cfg s =
     (case cfg_Output cfg of
        Test \<Rightarrow> (s, Ret LSnowflake)
      | Snowflake \<Rightarrow> load_and_sweep std clk cfg dr snowflake_sweep_query ''Failed to clean up snowflake''
                       (LoadSnowflake pf cfg) s
      | BigQuery \<Rightarrow> (case LoadBigQuery pf cfg (db_state s) of (w, r) \<Rightarrow> (s\<lparr>db_state := w\<rparr>, r))
      | MSSQL \<Rightarrow> load_and_sweep std clk cfg dr mssql_sweepQuery ''Failed to clean up mssql''
                   (mssql_LoadStore pf cfg) s
      | Redshift \<Rightarrow> load_and_sweep std clk cfg dr redshift_sweep_query ''Failed to clean up redshift''
                      (LoadRedshift pf cfg) s
      | _ \<Rightarrow> (s, Panic ''No valid output sources specified''))"

definition Baseline :: "Config \<Rightarrow> loaded outcome" where
  "Baseline cfg =
     (if cfg_Output cfg = S3
      then case s3_LoadStore cfg of
             Ret l \<Rightarrow> Ret l
           | Err e \<Rightarrow> Panic ''Failed to load s3''
           | Panic m \<Rightarrow> Panic m
      else Panic ''No valid output sources specified'')"

definition load_destination ::
  "gostd \<Rightarrow> (string \<Rightarrow> gotime) \<Rightarrow> 'w platform \<Rightarrow> 'w driver \<Rightarrow> Config \<Rightarrow> 'w session
     \<Rightarrow> 'w session \<times> loaded outcome" where
  "load_destination std clk pf dr cfg s =
     (if IsOutputBaseline cfg then (s, Baseline cfg) else DataWarehouse std clk pf dr cfg s)"

section \<open>Kafka\<close>

datatype SASLMechanism = MSK_IAM | Plain string string

record Dialer =
  dl_Timeout :: int
  dl_DualStack :: bool
  dl_SASLMechanism :: "SASLMechanism option"
  dl_TLS :: bool

record ReaderConfig =
  rc_GroupID :: string
  rc_Dialer :: Dialer
  rc_Topic :: string
  rc_Brokers :: "string list"

definition kafka_dialer :: "'w platform \<Rightarrow> Kafka_config \<Rightarrow> 'w \<Rightarrow> 'w \<times> Dialer outcome" where
  "kafka_dialer pf k w =
     (let d = \<lparr>dl_Timeout = 10 * nanos_per_second, dl_DualStack = True, dl_SASLMechanism = None, dl_TLS = False\<rparr>;
          plain = (\<lambda>d. if k_Username k \<noteq> []
                        then d\<lparr>dl_SASLMechanism := Some (Plain (k_Username k) (k_Password k)), dl_TLS := True\<rparr>
                        else d)
      in if k_EnableAWSMSKIAM k
         then case pf_LoadDefaultConfig pf w of
                (w1, Some e) \<Rightarrow> (w1, Panic ''Failed to load aws configuration'')
              | (w1, None) \<Rightarrow> (w1, Ret (plain (d\<lparr>dl_SASLMechanism := Some MSK_IAM, dl_TLS := True\<rparr>)))
         else (w, Ret (plain d)))"

text \<open>\<^verbatim>\<open>StartConsumer\<close> up to its loop: the formats of the topics, a reader for each, and the consumers.\<close>

definition kafka_readers :: "Kafka_config \<Rightarrow> Dialer \<Rightarrow> string list \<Rightarrow> ReaderConfig list" where
  "kafka_readers k d topics =
     map (\<lambda>topic. \<lparr>rc_GroupID = k_GroupID k, rc_Dialer = d, rc_Topic = topic,
                   rc_Brokers = BootstrapServers k\<rparr>) topics"

definition register_consumers :: "string list \<Rightarrow> TopicToConsumer" where
  "register_consumers topics = foldl (\<lambda>t topic. TopicToConsumer_Add topic t) NewTopicToConsumer topics"

definition StartConsumer ::
  "'w platform \<Rightarrow> Config \<Rightarrow> 'w \<Rightarrow> 'w \<times> (TcFmtMap \<times> ReaderConfig list \<times> TopicToConsumer) outcome" where
  "StartConsumer pf cfg w =
     (case cfg_Kafka cfg of
        None \<Rightarrow> (w, Panic nil_dereference)
      | Some k \<Rightarrow>
          (case kafka_dialer pf k w of
             (w1, r) \<Rightarrow>
               (w1, bind_out r (\<lambda>d.
                    bind_out (load_formats (k_TopicConfigs k) NewTcFmtMap) (\<lambda>fm.
                    let topics = map tc_Topic (k_TopicConfigs k)
                    in Ret (fm, kafka_readers k d topics, register_consumers topics))))))"

section \<open>Pub/Sub\<close>

definition defaultAckDeadline :: int where
  "defaultAckDeadline = 10 * 60 * nanos_per_second"

record ReceiveSettings =
  MaxOutstandingMessages :: int
  NumGoroutines :: int

definition topic_missing :: "bool \<Rightarrow> goerr option \<Rightarrow> goerr" where
  "topic_missing exists err =
     (let pre = ''failed to fetch gcp topic, topic exists: '' @ show_bool exists @ '', err: ''
      in case err of Some e \<Rightarrow> wrapf pre e [] | None \<Rightarrow> errorf (pre @ ''%!w(<nil>)''))"

definition create_subscription ::
  "'w platform \<Rightarrow> string \<Rightarrow> string \<Rightarrow> 'w \<Rightarrow> 'w \<times> unit outcome" where
  "create_subscription pf topic subName w =
     (case pf_topic_Exists pf topic w of
        (w1, exists, err) \<Rightarrow>
          if \<not> exists \<or> err \<noteq> None then (w1, Err (topic_missing exists err))
          else (case pf_CreateSubscription pf subName topic defaultAckDeadline True w1 of
                  (w2, Some e) \<Rightarrow>
                    (w2, Err (wrapf (''failed to create subscription for topic '' @ topic @ '': '') e []))
                | (w2, None) \<Rightarrow> (w2, Ret ())))"

definition findOrCreateSubscription ::
  "'w platform \<Rightarrow> Config \<Rightarrow> string \<Rightarrow> string \<Rightarrow> 'w \<Rightarrow> 'w \<times> ReceiveSettings outcome" where
  "findOrCreateSubscription pf cfg topic subName w =
     (let settings = \<lparr>MaxOutstandingMessages = sint (cfg_BufferRows cfg + 1), NumGoroutines = 1\<rparr>
      in case pf_sub_Exists pf subName w of
           (w1, Err e) \<Rightarrow> (w1, Err (wrapf ''failed to fetch subscription: '' e []))
         | (w1, Panic m) \<Rightarrow> (w1, Panic m)
         | (w1, Ret True) \<Rightarrow> (w1, Ret settings)
         | (w1, Ret False) \<Rightarrow>
             (case create_subscription pf topic subName w1 of
                (w2, r) \<Rightarrow> (w2, bind_out r (\<lambda>_. Ret settings))))"

fun subscribe_all ::
  "'w platform \<Rightarrow> Config \<Rightarrow> TopicConfig list \<Rightarrow> 'w \<Rightarrow> 'w \<times> (string \<times> ReceiveSettings) list outcome" where
  "subscribe_all pf cfg [] w = (w, Ret [])"
| "subscribe_all pf cfg (tc # tcs) w =
     (case findOrCreateSubscription pf cfg (tc_Topic tc) (''transfer_'' @ tc_Topic tc) w of
        (w1, Ret rs) \<Rightarrow>
          (case subscribe_all pf cfg tcs w1 of
             (w2, r) \<Rightarrow> (w2, bind_out r (\<lambda>subs. Ret ((''transfer_'' @ tc_Topic tc, rs) # subs))))
      | (w1, Err e) \<Rightarrow> (w1, Panic ''Failed to find or create subscription'')
      | (w1, Panic m) \<Rightarrow> (w1, Panic m))"

definition StartSubscriber ::
  "'w platform \<Rightarrow> Config \<Rightarrow> 'w \<Rightarrow> 'w \<times> (TcFmtMap \<times> (string \<times> ReceiveSettings) list) outcome" where
  "StartSubscriber pf cfg w =
     (case cfg_Pubsub cfg of
        None \<Rightarrow> (w, Panic nil_dereference)
      | Some p \<Rightarrow>
          (case pf_pubsub_NewClient pf (ps_ProjectID p) (ps_PathToCredentials p) w of
             (w1, Some e) \<Rightarrow> (w1, Panic ''Failed to create a pubsub client'')
           | (w1, None) \<Rightarrow>
               (case load_formats (ps_TopicConfigs p) NewTcFmtMap of
                  Ret fm \<Rightarrow>
                    (case subscribe_all pf cfg (ps_TopicConfigs p) w1 of
                       (w2, r) \<Rightarrow> (w2, bind_out r (\<lambda>subs. Ret (fm, subs))))
                | Err e \<Rightarrow> (w1, Err e)
                | Panic m \<Rightarrow> (w1, Panic m))))"

section \<open>The entry point\<close>

record started =
  sd_config :: Config
  sd_metrics :: base_Client
  sd_destination :: loaded
  sd_formats :: TcFmtMap
  sd_consumers :: TopicToConsumer

definition start_queue ::
  "'w platform \<Rightarrow> Config \<Rightarrow> 'w \<Rightarrow> 'w \<times> (TcFmtMap \<times> TopicToConsumer) outcome" where
  "start_queue pf cfg w =
     (case cfg_Queue cfg of
        KafkaQueue \<Rightarrow>
          (case StartConsumer pf cfg w of (w1, r) \<Rightarrow> (w1, bind_out r (\<lambda>(fm, readers, cs). Ret (fm, cs))))
      | PubSubQueue \<Rightarrow>
          (case StartSubscriber pf cfg w of (w1, r) \<Rightarrow> (w1, bind_out r (\<lambda>(fm, subs). Ret (fm, NewTopicToConsumer))))
      | OtherQueue q \<Rightarrow> (w, Panic (''Message queue: '' @ q @ '' not supported'')))"

text \<open>
  A process that exits with \<^verbatim>\<open>logger.Fatal\<close> ends like one that panics. The pool and the consumers are
  goroutines that run concurrently, and a Kafka reader registers itself when its goroutine starts;
  here all readers are registered before the first step, and \<open>system_step\<close> interleaves the rest.
\<close>

definition main ::
  "gostd \<Rightarrow> telemetry \<Rightarrow> (string \<Rightarrow> gotime) \<Rightarrow> 'w platform \<Rightarrow> 'w driver \<Rightarrow> Config outcome \<Rightarrow> 'w session
     \<Rightarrow> 'w session \<times> started outcome" where
  "main std te clk pf dr file s =
     (case LoadSettings file of
        Err e \<Rightarrow> (s, Panic ''Failed to initialize config'')
      | Panic m \<Rightarrow> (s, Panic m)
      | Ret cfg \<Rightarrow>
          (case LoadExporter std te cfg of
             Ret metrics \<Rightarrow>
               (case load_destination std clk pf dr cfg s of
                  (s1, Ret l) \<Rightarrow>
                    (case start_queue pf cfg (db_state s1) of
                       (w, r) \<Rightarrow>
                         (s1\<lparr>db_state := w\<rparr>,
                          bind_out r (\<lambda>(fm, cs).
                            Ret \<lparr>sd_config = cfg, sd_metrics = metrics, sd_destination = l,
                                 sd_formats = fm, sd_consumers = cs\<rparr>)))
                | (s1, Err e) \<Rightarrow> (s1, Err e)
                | (s1, Panic m) \<Rightarrow> (s1, Panic m))
           | Err e \<Rightarrow> (s, Err e)
           | Panic m \<Rightarrow> (s, Panic m)))"


section \<open>What a start establishes\<close>

lemma load_formats_get:
  assumes "load_formats tcs fm = Ret fm'"
  shows "GetTopicFmt fm topic \<noteq> None \<or> topic \<in> tc_Topic ` set tcs \<Longrightarrow> GetTopicFmt fm' topic \<noteq> None"
    and "GetTopicFmt fm' topic = Some (tc, f) \<Longrightarrow>
      GetTopicFmt fm topic = Some (tc, f)
      \<or> tc \<in> set tcs \<and> tc_Topic tc = topic \<and> GetFormatParser (tc_CDCFormat tc) = Ret f"
proof -
  have "(GetTopicFmt fm topic \<noteq> None \<or> topic \<in> tc_Topic ` set tcs \<longrightarrow> GetTopicFmt fm' topic \<noteq> None)
     \<and> (GetTopicFmt fm' topic = Some (tc, f) \<longrightarrow> GetTopicFmt fm topic = Some (tc, f)
        \<or> tc \<in> set tcs \<and> tc_Topic tc = topic \<and> GetFormatParser (tc_CDCFormat tc) = Ret f)"
    using assms
  proof (induction tcs arbitrary: fm)
    case (Cons t tcs)
    then obtain g where g: "GetFormatParser (tc_CDCFormat t) = Ret g"
      and rest: "load_formats tcs (TcFmtMap_Add (tc_Topic t) (t, g) fm) = Ret fm'" by auto
    from Cons.IH [OF rest] g show ?case
      by (auto simp: TcFmtMap_Add_def GetTopicFmt_def update_conv' split: if_splits)
  qed simp
  then show "GetTopicFmt fm topic \<noteq> None \<or> topic \<in> tc_Topic ` set tcs \<Longrightarrow> GetTopicFmt fm' topic \<noteq> None"
    and "GetTopicFmt fm' topic = Some (tc, f) \<Longrightarrow>
      GetTopicFmt fm topic = Some (tc, f)
      \<or> tc \<in> set tcs \<and> tc_Topic tc = topic \<and> GetFormatParser (tc_CDCFormat tc) = Ret f" by blast+
qed

lemma register_consumers_get: "TopicToConsumer_Get (register_consumers topics) t = (if t \<in> set topics then Some () else None)"
proof -
  have "gm_get (foldl (\<lambda>m topic. TopicToConsumer_Add topic m) m topics) t =
      (if t \<in> set topics then Some () else gm_get m t)" for m
    by (induction topics arbitrary: m) (auto simp: TopicToConsumer_Add_def update_conv')
  then show ?thesis
    by (simp add: register_consumers_def TopicToConsumer_Get_def NewTopicToConsumer_def)
qed

fun loaded_for :: "destination_kind \<Rightarrow> loaded \<Rightarrow> bool" where
  "loaded_for Snowflake LSnowflake = True"
| "loaded_for Test LSnowflake = True"
| "loaded_for Redshift (LRedshift rs) = True"
| "loaded_for BigQuery (LBigQuery bq) = True"
| "loaded_for MSSQL LMSSQL = True"
| "loaded_for S3 (LS3 s3) = True"
| "loaded_for d l = False"

lemma load_with_Ret: "load_with x l = (w, Ret l') \<Longrightarrow> l' = l"
  by (auto simp: load_with_def split: prod.splits)

lemma load_and_sweep_effect:
  assumes "load_and_sweep std clk cfg dr query failure load s = (s', r)"
  shows "\<exists>qs. db_log s' = db_log s @ qs \<and> (\<forall>q\<in>set qs. expired_drop clk q)"
    and "r = Ret l \<Longrightarrow> \<exists>w. load (db_state s) = (w, Ret l)"
proof -
  obtain w x where l: "load (db_state s) = (w, x)" by fastforce
  have "(\<exists>qs. db_log s' = db_log s @ qs \<and> (\<forall>q\<in>set qs. expired_drop clk q)) \<and> (r = Ret l \<longrightarrow> x = Ret l)"
  proof (cases x)
    case (Ret l')
    obtain s1 y where sw: "store_Sweep std clk (store_of std cfg dr l') cfg query (s\<lparr>db_state := w\<rparr>) = (s1, y)"
      by fastforce
    have "\<exists>qs. db_log s1 = db_log s @ qs \<and> (\<forall>q\<in>set qs. expired_drop clk q)"
      using sw Sweep_log [of std clk "store_of std cfg dr l'" _ query "s\<lparr>db_state := w\<rparr>" s1 y]
      by (cases "TopicConfigs cfg") (auto simp: store_Sweep_def)
    with assms l Ret sw show ?thesis
      by (cases y) (auto simp: load_and_sweep_def)
  qed (use assms l in \<open>auto simp: load_and_sweep_def\<close>)
  with l show "\<exists>qs. db_log s' = db_log s @ qs \<and> (\<forall>q\<in>set qs. expired_drop clk q)"
    and "r = Ret l \<Longrightarrow> \<exists>w. load (db_state s) = (w, Ret l)" by auto
qed

lemmas loaders = LoadSnowflake_def LoadRedshift_def mssql_LoadStore_def LoadBigQuery_def

lemma loaders_Ret:
  "LoadSnowflake pf cfg w = (w', Ret l) \<Longrightarrow> loaded_for Snowflake l"
  "LoadRedshift pf cfg w = (w', Ret l) \<Longrightarrow> loaded_for Redshift l"
  "mssql_LoadStore pf cfg w = (w', Ret l) \<Longrightarrow> loaded_for MSSQL l"
  "LoadBigQuery pf cfg w = (w', Ret l) \<Longrightarrow> loaded_for BigQuery l"
  "Baseline cfg = Ret l \<Longrightarrow> loaded_for S3 l"
  by (auto simp: loaders Baseline_def s3_LoadStore_def Let_def
      dest!: load_with_Ret split: option.splits prod.splits if_splits outcome.splits)

lemma load_destination_log:
  assumes "load_destination std clk pf dr cfg s = (s', r)"
  shows "\<exists>qs. db_log s' = db_log s @ qs \<and> (\<forall>q\<in>set qs. expired_drop clk q)"
  using assms load_and_sweep_effect(1)
  by (fastforce simp: load_destination_def DataWarehouse_def split: if_splits destination_kind.splits prod.splits)

lemma load_destination_Ret:
  assumes "load_destination std clk pf dr cfg s = (s', Ret l)"
  shows "loaded_for (cfg_Output cfg) l"
proof (cases "cfg_Output cfg")
  case Snowflake
  with assms have "load_and_sweep std clk cfg dr snowflake_sweep_query ''Failed to clean up snowflake''
      (LoadSnowflake pf cfg) s = (s', Ret l)"
    by (simp add: load_destination_def DataWarehouse_def IsOutputBaseline_def)
  with Snowflake show ?thesis using load_and_sweep_effect(2) loaders_Ret(1) by fastforce
next
  case MSSQL
  with assms have "load_and_sweep std clk cfg dr mssql_sweepQuery ''Failed to clean up mssql''
      (mssql_LoadStore pf cfg) s = (s', Ret l)"
    by (simp add: load_destination_def DataWarehouse_def IsOutputBaseline_def)
  with MSSQL show ?thesis using load_and_sweep_effect(2) loaders_Ret(3) by fastforce
next
  case Redshift
  with assms have "load_and_sweep std clk cfg dr redshift_sweep_query ''Failed to clean up redshift''
      (LoadRedshift pf cfg) s = (s', Ret l)"
    by (simp add: load_destination_def DataWarehouse_def IsOutputBaseline_def)
  with Redshift show ?thesis using load_and_sweep_effect(2) loaders_Ret(2) by fastforce
qed (use assms loaders_Ret(4,5) in
      \<open>fastforce simp: load_destination_def DataWarehouse_def IsOutputBaseline_def split: prod.splits\<close>)+

lemma start_queue_Ret:
  assumes "start_queue pf cfg w = (w', Ret (fm, cs))"
  obtains tcs where "TopicConfigs cfg = Ret tcs" "load_formats tcs NewTcFmtMap = Ret fm"
    "cfg_Queue cfg = KafkaQueue \<longrightarrow> cs = register_consumers (map tc_Topic tcs)"
  using assms
  by (cases "cfg_Queue cfg")
     (auto simp: start_queue_def StartConsumer_def StartSubscriber_def TopicConfigs_def Let_def
       split: option.splits prod.splits outcome.splits)

lemma main_Ret:
  assumes "main std te clk pf dr file s = (s', Ret x)"
  obtains s1 w where "LoadSettings file = Ret (sd_config x)"
    "load_destination std clk pf dr (sd_config x) s = (s1, Ret (sd_destination x))"
    "start_queue pf (sd_config x) (db_state s1) = (w, Ret (sd_formats x, sd_consumers x))"
    "s' = s1\<lparr>db_state := w\<rparr>"
  using assms by (auto simp: main_def split: outcome.splits prod.splits)

text \<open>
  C9. A process that starts has a valid configuration, the destination of its configured output, and
  for each configured topic a format, which is the one the topic names, and, on Kafka, a consumer to
  commit its offsets with. Until then it sent nothing to the warehouse but drops of expired
  temporary tables.
\<close>

theorem main_starts:
  assumes "main std te clk pf dr file s = (s', Ret x)"
  shows "LoadSettings file = Ret (sd_config x)
    \<and> loaded_for (cfg_Output (sd_config x)) (sd_destination x)
    \<and> (\<exists>tcs. TopicConfigs (sd_config x) = Ret tcs
        \<and> (\<forall>tc\<in>set tcs. \<exists>tc' f. GetTopicFmt (sd_formats x) (tc_Topic tc) = Some (tc', f)
              \<and> tc' \<in> set tcs \<and> tc_Topic tc' = tc_Topic tc \<and> GetFormatParser (tc_CDCFormat tc') = Ret f)
        \<and> (cfg_Queue (sd_config x) = KafkaQueue \<longrightarrow>
              (\<forall>tc\<in>set tcs. TopicToConsumer_Get (sd_consumers x) (tc_Topic tc) \<noteq> None)))
    \<and> (\<exists>qs. db_log s' = db_log s @ qs \<and> (\<forall>q\<in>set qs. expired_drop clk q))"
proof -
  from assms obtain s1 w where cfg: "LoadSettings file = Ret (sd_config x)"
    and dest: "load_destination std clk pf dr (sd_config x) s = (s1, Ret (sd_destination x))"
    and queue: "start_queue pf (sd_config x) (db_state s1) = (w, Ret (sd_formats x, sd_consumers x))"
    and s': "s' = s1\<lparr>db_state := w\<rparr>" by (rule main_Ret)
  from queue obtain tcs where tcs: "TopicConfigs (sd_config x) = Ret tcs"
    and fm: "load_formats tcs NewTcFmtMap = Ret (sd_formats x)"
    and cs: "cfg_Queue (sd_config x) = KafkaQueue \<longrightarrow> sd_consumers x = register_consumers (map tc_Topic tcs)"
    by (rule start_queue_Ret)
  have "\<exists>tc' f. GetTopicFmt (sd_formats x) (tc_Topic tc) = Some (tc', f)
      \<and> tc' \<in> set tcs \<and> tc_Topic tc' = tc_Topic tc \<and> GetFormatParser (tc_CDCFormat tc') = Ret f"
    if "tc \<in> set tcs" for tc
    using that load_formats_get(1) [OF fm, of "tc_Topic tc"] load_formats_get(2) [OF fm, of "tc_Topic tc"]
    by (auto simp: NewTcFmtMap_def GetTopicFmt_def)
  moreover have "cfg_Queue (sd_config x) = KafkaQueue \<longrightarrow>
      (\<forall>tc\<in>set tcs. TopicToConsumer_Get (sd_consumers x) (tc_Topic tc) \<noteq> None)"
    using cs by (auto simp: register_consumers_get)
  ultimately show ?thesis
    using cfg tcs load_destination_Ret [OF dest] load_destination_log [OF dest] s' by auto
qed


definition sample_platform :: "unit platform" where
  "sample_platform =
     \<lparr>pf_sql_Open = (\<lambda>d n w. (w, None)), pf_Ping = (\<lambda>d w. (w, None)), pf_snowflake_DSN = (\<lambda>c. Ret (gs_Account c)),
      pf_Setenv = (\<lambda>k v w. (w, None)), pf_LoadDefaultConfig = (\<lambda>w. (w, None)),
      pf_pubsub_NewClient = (\<lambda>p c w. (w, None)), pf_sub_Exists = (\<lambda>n w. (w, Ret False)),
      pf_topic_Exists = (\<lambda>t w. (w, True, None)), pf_CreateSubscription = (\<lambda>n t d o' w. (w, None))\<rparr>"

definition sample_telemetry :: telemetry where
  "sample_telemetry =
     \<lparr>te_Getenv = (\<lambda>k. []), te_statsd_New = (\<lambda>a. Ret ()), te_yaml_Marshal = (\<lambda>v. Ret []),
      te_yaml_Unmarshal = (\<lambda>s. Ret [])\<rparr>"

definition started_file :: "Config outcome" where
  "started_file = Ret (sample_config\<lparr>cfg_Snowflake := Some \<lparr>sn_AccountID = ''acme'', sn_Username = ''u'',
     sn_Password = ''p'', sn_Warehouse = ''w'', sn_Region = [], sn_Host = [], sn_Application = []\<rparr>\<rparr>)"

definition started_run :: "unit session \<times> started outcome" where
  "started_run = main sample_std sample_telemetry (\<lambda>_. at_nanos 5000000000) sample_platform
     (sample_driver\<lparr>dr_Query := so_Query swept_store\<rparr>) started_file \<lparr>db_state = (), db_log = []\<rparr>"

theorem main_starts_witness:
  "\<exists>s' x. started_run = (s', Ret x) \<and> loaded_for Snowflake (sd_destination x)
     \<and> db_log s' = [''DROP TABLE IF EXISTS db.public.orders___artie_x_1'']
     \<and> GetTopicFmt (sd_formats x) ''orders'' \<noteq> None"
proof -
  have ret: "is_ret (snd started_run)" by code_simp
  have log: "db_log (fst started_run) = [''DROP TABLE IF EXISTS db.public.orders___artie_x_1'']" by code_simp
  obtain s' x where r: "started_run = (s', Ret x)" using ret by (metis is_ret_iff prod.collapse)
  have cfg: "LoadSettings started_file = Ret (load_topics (config_defaults (case started_file of Ret c \<Rightarrow> c)))"
    by code_simp
  note m = main_starts [OF r [unfolded started_run_def]]
  with cfg have c: "sd_config x = load_topics (config_defaults (case started_file of Ret c \<Rightarrow> c))" by simp
  have out: "cfg_Output (sd_config x) = Snowflake" unfolding c by code_simp
  have "TopicConfigs (sd_config x) = Ret [TopicConfig_Load sample_topic]" unfolding c by code_simp
  moreover have "tc_Topic (TopicConfig_Load sample_topic) = ''orders''" by code_simp
  ultimately have "GetTopicFmt (sd_formats x) ''orders'' \<noteq> None" using m by force
  moreover from m out have "loaded_for Snowflake (sd_destination x)" by simp
  moreover from log have "db_log s' = [''DROP TABLE IF EXISTS db.public.orders___artie_x_1'']"
    unfolding r fst_conv .
  ultimately show ?thesis using r by blast
qed

text \<open>
  The sections of Redshift, MSSQL and S3 are there once a configuration is loaded; those of
  Snowflake and BigQuery are not checked, and a file without them starts with a nil dereference.
\<close>

lemma loaded_sections:
  assumes "LoadSettings file = Ret cfg"
  shows "cfg_Output cfg = Redshift \<Longrightarrow> cfg_Redshift cfg \<noteq> None"
    and "cfg_Output cfg = MSSQL \<Longrightarrow> cfg_MSSQL cfg \<noteq> None"
    and "cfg_Output cfg = S3 \<Longrightarrow> Baseline cfg \<noteq> Panic m"
proof -
  from assms have v: "Config_Validate cfg = Ret ()" by (rule LoadSettings_Ret)
  then have o': "validate_output cfg = Ret ()" by (auto simp: Config_Validate_def split: if_splits)
  from o' show "cfg_Output cfg = Redshift \<Longrightarrow> cfg_Redshift cfg \<noteq> None"
    by (auto simp: validate_output_def ValidateRedshift_def split: if_splits option.splits)
  from o' show "cfg_Output cfg = MSSQL \<Longrightarrow> cfg_MSSQL cfg \<noteq> None"
    by (auto simp: validate_output_def ValidateMSSQL_def split: if_splits option.splits)
  show "Baseline cfg \<noteq> Panic m" if "cfg_Output cfg = S3"
    using o' that
    by (cases "cfg_S3 cfg") (auto simp: validate_output_def Baseline_def s3_LoadStore_def S3Settings_Validate_def)
qed

lemma missing_snowflake_section:
  "snd (main std te clk pf dr (Ret sample_config) s) = Panic nil_dereference"
proof -
  let ?c = "load_topics (config_defaults sample_config)"
  have "LoadSettings (Ret sample_config) = Ret ?c" "cfg_Output ?c = Snowflake" "cfg_Snowflake ?c = None"
    "LoadExporter std te ?c = Ret NullMetricsProvider"
    by code_simp+
  then show ?thesis
    by (simp add: main_def load_destination_def IsOutputBaseline_def DataWarehouse_def load_and_sweep_def
        LoadSnowflake_def reestablishConnection_def load_with_def)
qed

text \<open>A Kafka connection that authenticates is encrypted, and a user name takes precedence over IAM.\<close>

lemma kafka_dialer_secure:
  assumes "kafka_dialer pf k w = (w', Ret d)"
  shows "dl_TLS d \<longleftrightarrow> dl_SASLMechanism d \<noteq> None"
    and "k_Username k \<noteq> [] \<Longrightarrow> dl_SASLMechanism d = Some (Plain (k_Username k) (k_Password k))"
  using assms by (auto simp: kafka_dialer_def Let_def split: if_splits prod.splits option.splits)


section \<open>Connection strings\<close>

definition hex_value :: "char \<Rightarrow> nat" where
  "hex_value c = (let n = of_char c in if n < 58 then n - 48 else n - 55)"

function url_unescape :: "string \<Rightarrow> string" where
  "url_unescape [] = []"
| "url_unescape (c # s) =
     (if c = CHR ''%''
      then (case s of
              a # b # r \<Rightarrow> char_of (16 * hex_value a + hex_value b) # url_unescape r
            | _ \<Rightarrow> c # url_unescape s)
      else c # url_unescape s)"
  by pat_completeness auto
termination by (relation "measure length") auto


lemma hex_value_digit: "n < 16 \<Longrightarrow> hex_value (hex_digit n) = n"
  by (simp add: hex_value_def hex_digit_def Let_def)

lemma unreserved_hex: "n < 16 \<Longrightarrow> unreserved (hex_digit n)"
  by (simp add: unreserved_def hex_digit_def Let_def)

lemma of_char_halves: "(of_char c :: nat) div 16 < 16" "(of_char c :: nat) mod 16 < 16"
  by (intro less_mult_imp_div_less) simp_all

lemma percent_chars: "set (percent c) \<subseteq> {CHR ''%''} \<union> Collect unreserved"
  using of_char_halves [of c] by (auto simp: percent_def intro!: unreserved_hex)

lemma url_unescape_percent: "url_unescape (percent c @ s) = c # url_unescape s"
proof -
  have "char_of (16 * hex_value (hex_digit ((of_char c :: nat) div 16)) + hex_value (hex_digit ((of_char c :: nat) mod 16))) = c"
    using of_char_halves [of c] by (simp add: hex_value_digit)
  then show ?thesis by (simp add: percent_def)
qed

lemma url_escape_Cons:
  "url_escape keep [] = []" "url_escape keep (c # s) = (if keep c then [c] else percent c) @ url_escape keep s"
  by (simp_all add: url_escape_def)

lemma url_unescape_escape: "\<not> keep (CHR ''%'') \<Longrightarrow> url_unescape (url_escape keep s) = s"
  by (induction s) (auto simp: url_escape_Cons url_unescape_percent)

lemma url_escape_free:
  assumes "\<not> keep c" "c \<noteq> CHR ''%''" "\<not> unreserved c"
  shows "c \<notin> set (url_escape keep s)"
  using assms percent_chars by (induction s) (auto simp: url_escape_Cons)

lemma QueryEscape_Cons:
  "QueryEscape [] = []"
  "QueryEscape (c # s) = (if c = CHR '' '' then ''+'' else if unreserved c then [c] else percent c) @ QueryEscape s"
  by (simp_all add: QueryEscape_def)

definition query_unescape :: "string \<Rightarrow> string" where
  "query_unescape s = url_unescape (map (\<lambda>c. if c = CHR ''+'' then CHR '' '' else c) s)"

lemma not_unreserved:
  "\<not> unreserved (CHR ''+'')" "\<not> unreserved (CHR ''%'')" "\<not> unreserved (CHR '':'')" "\<not> unreserved (CHR ''@'')"
  "\<not> unreserved (CHR ''?'')"
  by code_simp+

lemma query_unescape_escape: "query_unescape (QueryEscape s) = s"
proof (induction s)
  case Nil
  then show ?case by (simp add: QueryEscape_Cons query_unescape_def)
next
  case (Cons c s)
  have "map (\<lambda>c. if c = CHR ''+'' then CHR '' '' else c) (percent c) = percent c"
    using percent_chars [of c] not_unreserved(1) by (auto intro!: map_idI)
  with Cons show ?case
    using not_unreserved by (auto simp: QueryEscape_Cons query_unescape_def url_unescape_percent)
qed

lemma split_unique:
  "c \<notin> set a \<Longrightarrow> c \<notin> set a' \<Longrightarrow> a @ c # b = a' @ c # b' \<Longrightarrow> a = a' \<and> b = b'"
proof (induction a arbitrary: a')
  case Nil
  then show ?case by (cases a') auto
next
  case (Cons x a)
  then show ?case by (cases a') auto
qed

lemma split_unique_last:
  assumes "c \<notin> set b" "c \<notin> set b'" "a @ c # b = a' @ c # b'"
  shows "a = a' \<and> b = b'"
proof -
  have "rev b @ c # rev a = rev b' @ c # rev a'" using arg_cong [OF assms(3), of rev] by simp
  then show ?thesis using split_unique [of c "rev b" "rev b'" "rev a" "rev a'"] assms(1,2) by auto
qed

text \<open>The URL of an MSSQL connection determines the settings it was made from, whatever they contain.\<close>

theorem MSSQL_DSN_inj:
  assumes "MSSQL_DSN m = MSSQL_DSN n"
  shows "m = n"
proof -
  note parts = assms [unfolded MSSQL_DSN_def, simplified]
  have keep: "\<not> keep_user (CHR ''%'')" "\<not> keep_host (CHR ''%'')" "\<not> keep_user (CHR '':'')" "\<not> keep_user (CHR ''@'')"
    "\<not> keep_host (CHR ''?'')" by code_simp+
  have free: "CHR '':'' \<notin> set (url_escape keep_user s)" "CHR ''@'' \<notin> set (url_escape keep_user s)"
    "CHR ''?'' \<notin> set (url_escape keep_host s)" for s
    using keep not_unreserved url_escape_free [of keep_user "CHR '':''" s]
      url_escape_free [of keep_user "CHR ''@''" s] url_escape_free [of keep_host "CHR ''?''" s] by simp_all
  note user = split_unique [OF free(1) free(1) parts]
  note pass = split_unique [OF free(2) free(2) conjunct2 [OF user]]
  note host = split_unique [OF free(3) free(3) conjunct2 [OF pass]]
  have undo: "url_unescape (url_escape keep_user s) = s" "url_unescape (url_escape keep_host s) = s" for s
    using keep(1,2) by (simp_all add: url_unescape_escape)
  have "ms_Username m = ms_Username n" "ms_Password m = ms_Password n"
    using user pass undo(1) by metis+
  moreover have hp: "ms_Host m @ CHR '':'' # show_int (ms_Port m) = ms_Host n @ CHR '':'' # show_int (ms_Port n)"
    using host undo(2) by metis
  moreover have "ms_Database m = ms_Database n"
    using host query_unescape_escape by (metis list.inject)
  moreover have "ms_Host m = ms_Host n \<and> show_int (ms_Port m) = show_int (ms_Port n)"
    using not_in_show_int by (intro split_unique_last [OF _ _ hp]) (auto simp: is_digit_def)
  ultimately show ?thesis by (simp add: show_int_inj)
qed


text \<open>The connection string of Redshift is not quoted: different settings can give the same string.\<close>

lemma redshift_connStr_ambiguous:
  "redshift_connStr (r\<lparr>rs_Password := ''a dbname=b'', rs_Database := ''c''\<rparr>) =
   redshift_connStr (r\<lparr>rs_Password := ''a'', rs_Database := ''b dbname=c''\<rparr>)"
  by (simp add: redshift_connStr_def)

end
