(* ===== verification/Spec2Isabelle.thy ===== *)
theory Spec2Isabelle
  imports Startup
begin

text \<open>
  \<^bold>\<open>The program.\<close> A change-data-capture pipeline. Debezium events arrive on Kafka topics or Pub/Sub
  subscriptions, are turned into rows, buffered per table in an in-memory database, and flushed to
  a destination: Snowflake, Redshift, BigQuery and Microsoft SQL Server are merged into, S3 receives
  Parquet files. When a table was flushed the offsets of its messages are committed (Kafka) or the
  messages acknowledged (Pub/Sub).

  \<^bold>\<open>The parts, and the theories that model them.\<close> All paths are below \<^verbatim>\<open>src/\<close>.

  \<^item> \<open>Prelude\<close>: outcomes of a Go call (\<open>Ret\<close>, \<open>Err\<close>, \<open>Panic\<close>), Go maps as association lists with
    distinct keys, the functions of \<^verbatim>\<open>strings\<close>, \<^verbatim>\<open>strconv\<close> and \<^verbatim>\<open>fmt\<close> that the code uses; the
    locale \<open>step_invariant\<close>.
  \<^item> \<open>Constants\<close> (\<^verbatim>\<open>lib/config/constants\<close>), \<open>Stringutil\<close> (\<^verbatim>\<open>lib/stringutil\<close>, \<^verbatim>\<open>lib/array\<close>,
    \<^verbatim>\<open>lib/numbers\<close>, \<^verbatim>\<open>lib/sql\<close>), \<open>Values\<close> (Go's dynamic values; \<^verbatim>\<open>lib/size\<close>, \<^verbatim>\<open>lib/maputil\<close>),
    \<open>Typing\<close> (\<^verbatim>\<open>lib/typing\<close>: kinds, inference, decimals, extended times, the type names of the
    four warehouses in both directions), \<open>Columns\<close> (\<^verbatim>\<open>lib/typing/columns\<close>).
  \<^item> \<open>Config\<close> (\<^verbatim>\<open>lib/config\<close>, \<^verbatim>\<open>lib/kafkalib\<close>): sections, defaults, validation, loading.
  \<^item> \<open>Message\<close> (\<^verbatim>\<open>lib/artie\<close>), \<open>Debezium\<close> (\<^verbatim>\<open>lib/debezium\<close>, \<^verbatim>\<open>lib/jsonutil\<close>: keys, decimals,
    schema, field values), \<open>Bson\<close> (\<^verbatim>\<open>lib/typing/mongo\<close>: extended JSON documents), \<open>Cdc\<close> (\<^verbatim>\<open>lib/cdc\<close>: the
    relational and MongoDB events and the format registry), \<open>Event\<close> (\<^verbatim>\<open>models\<close>: the in-memory database and saving an event into it),
    \<open>TableData\<close> (\<^verbatim>\<open>lib/optimization\<close>: the buffer of a table).
  \<^item> \<open>DDL\<close> (\<^verbatim>\<open>lib/destination/types\<close>, \<^verbatim>\<open>lib/destination/ddl\<close>: table configs, schema changes, temporary
    tables), \<open>DML\<close> (\<^verbatim>\<open>lib/destination/dml\<close>: the merge statements), \<open>Shared\<close> (\<^verbatim>\<open>clients/shared\<close>: reading
    a schema, merge, append, backfill, sweep), \<open>Staging\<close> (how a value becomes staged text or a
    Parquet or driver value), \<open>Retry\<close> (\<^verbatim>\<open>lib/jitter\<close>, \<^verbatim>\<open>lib/retry\<close>, \<^verbatim>\<open>lib/db\<close>), \<open>Warehouses\<close> (the five
    clients and \<^verbatim>\<open>lib/s3lib\<close>).
  \<^item> \<open>Consumer\<close> (\<^verbatim>\<open>processes/consumer\<close>, \<^verbatim>\<open>processes/pool\<close>): processing a message, flushing,
    committing, the timed flush, and the steps of the whole system. \<open>Replay\<close>: a batch as the replay
    of the rows saved for its table since its last flush.
  \<^item> \<open>Metrics\<close> (\<^verbatim>\<open>lib/telemetry\<close>): the exporter and the lags of a message. \<open>Startup\<close> (\<^verbatim>\<open>main.go\<close>,
    \<^verbatim>\<open>lib/destination/utils\<close>): connections, loading and sweeping the destination, Kafka readers and
    Pub/Sub subscriptions.

  \<^bold>\<open>How the parts meet.\<close> A state of the process (\<open>consumer\<close>) is the in-memory database, the state of
  the outside (\<open>cn_world\<close>), a trace of effects (a row saved, a batch merged, an offset committed, a
  message acknowledged) and whether the process has panicked. \<open>system_step\<close> takes a Kafka message, a
  Pub/Sub message or a tick of the timer; \<open>reachable\<close> is what these steps reach from an empty
  database, in any order and with any clock, random numbers and answers of the outside. What the
  consumer needs of a destination is the locale \<open>destination_contract\<close>: a merge or an append keeps
  the batch it was given. \<open>Warehouses\<close> interprets it on \<open>pipeline_env\<close>, the five destinations of the
  code, whose drivers stay parameters.

  \<^bold>\<open>What the lemmas show.\<close> This theory: offsets are committed only after the rows of their topic were
  merged, when a topic feeds one table; that a flush of one of two tables on a topic commits past the
  rows the other still buffers; acknowledgements always follow a merge; a batch that is merged replays exactly the rows saved since the last one;
  no saved row is lost; buffers stay well formed; a failed flush keeps its
  batch. That a row is merged or buffered (\<open>holds\<close>) means an entry for its key, in history mode the
  row itself; what the entry contains is the replay. \<open>Consumer\<close>: a successful flush empties exactly its table; a message that fails leaves no
  trace. \<open>TableData\<close>: the recorded size is exact, an insert refines a write to an abstract map, a
  value that was not sent never overwrites one that was, when a flush is due. \<open>Event\<close>: what saving
  does, when it fails, and that key strings can collide. \<open>DDL\<close>: a column is only dropped after the
  padding has passed since it was first missed, schema changes have exactly their effect,
  only temporary tables are dropped. \<open>DML\<close>: when statements are produced, and the text of Redshift's.
  \<open>Typing\<close>: which kinds come back from the type names the warehouses report. \<open>Warehouses\<close>: chunks of
  BigQuery, and that Snowflake's copy reads each column from its own field.
  \<open>Shared\<close>: a merge that reports success ran its statements, the temporary table is always dropped
  afterwards, backfills are bounded, sweeping drops only expired tables. \<open>Staging\<close>: batches cover all
  rows, values fit their columns, null markers. \<open>Retry\<close>: the number of attempts and the bounds of
  the jitter on 64-bit integers. \<open>Debezium\<close>, \<open>Cdc\<close>: the byte form of decimals, keys, the columns of
  an event. \<open>Bson\<close>: replacing literals against a reference on JSON tokens, and which dates survive.
  \<open>Config\<close>: what a loaded configuration guarantees. \<open>Startup\<close>: what a started process has, and that
  the URL of an MSSQL connection determines its settings.

  \<^bold>\<open>Fuel and bounds.\<close> Loops are structural or have a measure, with one exception: the loop over
  BigQuery batches does not end for every batch size, so \<open>put_chunks\<close> and \<open>put_loop\<close> take fuel and
  are \<open>None\<close> when it runs out. The number of rows is enough for every positive size, which is
  proved; \<open>bigquery_prepare\<close> turns a call that does not return into the end of the process.
  Machine integers are words where the code relies on their width (jitter, \<^verbatim>\<open>BufferRows\<close>).

  \<^bold>\<open>Abstractions.\<close> \<open>to_lower\<close> and \<open>to_upper\<close> change ASCII letters only, \<^verbatim>\<open>strings.ToLower\<close> all of Unicode.
  A floating-point value (\<open>VFloat\<close>) is a rational number, so there are no NaN and no infinities. Where the
  code ranges over a Go map, whose order is arbitrary, the model takes the order of insertion. The
  lemma on sweeping is proved for every list of pairs, and the invariants of the process are preserved by the
  flush of each single table, so neither depends on that order. \<^verbatim>\<open>main\<close> starts the pool
  and the consumers as goroutines, and every Kafka reader registers itself in its own; the model
  registers all readers before the first step, after which the steps come in any order.

  \<^bold>\<open>Parameters.\<close> Functions of the Go library whose text the model does not reproduce (\<^verbatim>\<open>fmt.Sprint\<close> of a
  dynamic value, JSON, layouts of \<^verbatim>\<open>time\<close>, \<^verbatim>\<open>big.Float\<close>, base64, EWKB) are the record \<open>gostd\<close>; the
  JSON decoders of whole payloads are \<open>decoders\<close>, the BSON library \<open>bsonlib\<close>; a warehouse's driver, the
  file system and the AWS client are \<open>driver\<close>; opening connections, Pub/Sub and the environment are
  \<open>platform\<close> and \<open>telemetry\<close>; the broker's commit is \<open>en_Commit\<close>. No law is assumed of any of them.

  \<^bold>\<open>Not modelled.\<close> Logging (\<^verbatim>\<open>lib/logger\<close>), which only prints; generated mocks (\<^verbatim>\<open>lib/mocks\<close>,
  \<^verbatim>\<open>lib/db/mock\<close>) and with them the test output; reading and decoding the configuration file and the
  command line. The in-memory locks are not modelled: each
  operation runs under the lock of its table and is one step; goroutines of one flush run one after the
  other.
\<close>

section \<open>Runs of the pipeline\<close>

text \<open>A relational payload for a table named by the bytes of the message, used by the concrete runs.\<close>

definition table_payload :: "string \<Rightarrow> SchemaEventPayload" where
  "table_payload name =
     \<lparr>sep_Schema = \<lparr>SchemaType = [], sc_FieldsObject = []\<rparr>,
      sep_Payload = \<lparr>pl_Before = [], pl_After = [(''id'', VInt KInt 1)],
        pl_Source = \<lparr>so_Connector = [], so_TsMs = 0, so_Database = [], so_Schema = [], so_Table = name\<rparr>,
        pl_Operation = ''c''\<rparr>\<rparr>"

definition table_decoders :: decoders where
  "table_decoders = no_decoders\<lparr>dec_relational := (\<lambda>bytes. Ret (table_payload bytes))\<rparr>"

definition table_message :: "string \<Rightarrow> int \<Rightarrow> kafka_Message" where
  "table_message table offset =
     \<lparr>km_Topic = ''orders'', km_Partition = 0, km_Offset = offset, km_Key = ''Struct{id=1}'',
      km_Value = table, km_Time = zero_time\<rparr>"

definition orders_map :: TcFmtMap where
  "orders_map = [(''orders'', ((TopicConfig_Load sample_topic)\<lparr>tc_CDCKeyFormat := StringKeyFmt\<rparr>, PostgresFormat))]"

definition run_config :: Config where
  "run_config = (config_defaults sample_config)\<lparr>cfg_Mode := Replication, cfg_Output := S3,
     cfg_S3 := Some \<lparr>s3_OptionalPrefix = [], s3_Bucket = ''lake'', s3_AwsAccessKeyID = [],
       s3_AwsSecretAccessKey = [], s3_OutputFormat = []\<rparr>\<rparr>"

definition start :: "'w \<Rightarrow> 'w consumer" where
  "start w = \<lparr>cn_db = NewMemoryDB, cn_world = w, cn_trace = [], cn_crashed = False\<rparr>"

definition after_one :: "'w environment \<Rightarrow> 'w \<Rightarrow> 'w consumer" where
  "after_one env w =
     consume sample_std table_decoders zero_time sample_flush_inputs env run_config orders_map
       (table_message ''orders'' 1) (start w)"

text \<open>What a run is told apart by: the kind of an effect, its table and its topic.\<close>

fun effect_summary :: "effect \<Rightarrow> nat \<times> string \<times> string" where
  "effect_summary (Saved T m key r) = (0, T, Message_Topic m)"
| "effect_summary (Merged T td) = (1, T, [])"
| "effect_summary (Committed c) = (2, [], km_Topic c)"
| "effect_summary (Acked p) = (3, [], [])"

lemma effect_summary_simps [simp]:
  "effect_summary e = (0, T, t) \<longleftrightarrow> (\<exists>m key r. e = Saved T m key r \<and> Message_Topic m = t)"
  "effect_summary e = (Suc 0, T, t) \<longleftrightarrow> (\<exists>td. e = Merged T td \<and> t = [])"
  "effect_summary e = (2, T, t) \<longleftrightarrow> (\<exists>c. e = Committed c \<and> T = [] \<and> t = km_Topic c)"
  "effect_summary e = (3, T, t) \<longleftrightarrow> (\<exists>p. e = Acked p \<and> T = [] \<and> t = [])"
  by (cases e; auto)+

lemma after_one_summary: "map effect_summary (cn_trace (after_one env w)) = [(0, ''orders'', ''orders'')]"
  by code_simp

lemma after_one_trace:
  "\<exists>m key r. cn_trace (after_one env w) = [Saved ''orders'' m key r] \<and> Message_Topic m = ''orders''"
  using after_one_summary [of env w] by (auto simp: map_eq_Cons_conv)

lemma after_one_reachable: "reachable sample_std table_decoders env run_config orders_map (after_one env w)"
  unfolding after_one_def
  by (rule reach_step [OF _ step_consume]) (simp_all add: start_def reach_init)

definition run_inputs :: "unit destination_inputs" where
  "run_inputs = \<lparr>di_merge = (\<lambda>_. sample_inputs), di_reconnect = (\<lambda>ss. ss), di_random = (\<lambda>_. [])\<rparr>"

definition run_env :: "unit store_state environment" where
  "run_env = pipeline_env sample_std run_inputs sample_store sample_driver run_config (\<lambda>t km ss. (ss, None))
     [(''orders'', ())]"

text \<open>A whole run against S3: a message is consumed, then the timer flushes its table.\<close>

definition full_run :: "unit store_state consumer" where
  "full_run = pool_tick run_env sample_flush_inputs 0 (after_one run_env sample_state)"

lemma full_run_summary:
  "map effect_summary (cn_trace full_run) =
     [(0, ''orders'', ''orders''), (1, ''orders'', []), (2, [], ''orders'')]"
  by code_simp

lemma after_one_alive: "\<not> cn_crashed (after_one env w)"
  by code_simp

lemma full_run_trace:
  "\<exists>m key r td c. cn_trace full_run = [Saved ''orders'' m key r, Merged ''orders'' td, Committed c]
     \<and> Message_Topic m = ''orders'' \<and> km_Topic c = ''orders''"
  using full_run_summary by (auto simp: map_eq_Cons_conv)

lemma run_env_reachable:
  "reachable sample_std table_decoders run_env run_config orders_map (after_one run_env sample_state)"
  "reachable sample_std table_decoders run_env run_config orders_map full_run"
proof -
  show one: "reachable sample_std table_decoders run_env run_config orders_map (after_one run_env sample_state)"
    by (rule after_one_reachable)
  show "reachable sample_std table_decoders run_env run_config orders_map full_run"
    unfolding full_run_def by (rule reach_step [OF one step_tick]) (rule after_one_alive)
qed

text \<open>The same with a Pub/Sub message.\<close>

definition received :: "unit store_state consumer" where
  "received =
     receive sample_std table_decoders zero_time sample_flush_inputs run_env run_config orders_map
       \<lparr>pm_topic = ''orders'', pm_ID = ''7'', pm_OrderingKey = ''Struct{id=1}'', pm_Data = ''orders'',
        pm_PublishTime = zero_time\<rparr> ''orders'' (start sample_state)"

definition pubsub_run :: "unit store_state consumer" where
  "pubsub_run = pool_tick run_env sample_flush_inputs 0 received"

lemma pubsub_run_summary:
  "map effect_summary (cn_trace pubsub_run) =
     [(0, ''orders'', ''orders''), (1, ''orders'', []), (3, [], [])]"
  by code_simp

lemma pubsub_run_reachable: "reachable sample_std table_decoders run_env run_config orders_map pubsub_run"
proof -
  have "reachable sample_std table_decoders run_env run_config orders_map received"
    unfolding received_def by (rule reach_step [OF _ step_receive]) (simp_all add: start_def reach_init)
  moreover have "\<not> cn_crashed received" by code_simp
  ultimately show ?thesis unfolding pubsub_run_def by (rule reach_step [OF _ step_tick])
qed

lemmas run_reachable = run_env_reachable [unfolded run_env_def]

section \<open>Properties of the whole pipeline\<close>

text \<open>
  C1. An offset is committed only after everything saved from its topic has been merged: in every
  state the process can reach, with any of the destinations behind the flush and any behaviour of
  the warehouse, the database driver and the queue, when each topic feeds one table, every committed
  offset is preceded, for each row saved from its topic before, by a successful merge of a batch
  that has an entry for the key of the row, and in history mode the row itself. What a batch holds
  under its keys is the subject of C2.
\<close>

theorem commit_safety:
  assumes "reachable std dec (pipeline_env std di dw dr cfg commit consumers) cfg fmtMap st"
    and "one_table tbl (cn_trace st)"
  shows "commits_safe (cn_trace st)"
  using pl.system_inv_reachable [OF assms(1)] assms(2) unfolding system_inv_def by blast

theorem commit_safety_witness:
  "\<exists>c. Committed c \<in> set (cn_trace full_run) \<and> commits_safe (cn_trace full_run)"
proof -
  obtain m key r td c where tr: "cn_trace full_run = [Saved ''orders'' m key r, Merged ''orders'' td, Committed c]"
    using full_run_trace by blast
  then have "one_table (\<lambda>_. ''orders'') (cn_trace full_run)" by (simp add: one_table_def)
  with commit_safety [OF run_reachable(2)] tr show ?thesis by auto
qed

text \<open>
  C4. A Pub/Sub message is acknowledged only after a merge of a batch that has an entry for the key of
  the row saved for it, and in history mode the row itself, however tables and subscriptions are
  related.
\<close>

theorem ack_safety:
  assumes "reachable std dec (pipeline_env std di dw dr cfg commit consumers) cfg fmtMap st"
  shows "acks_safe (cn_trace st)"
  using pl.system_inv_reachable [OF assms] unfolding system_inv_def by blast

theorem ack_safety_witness: "\<exists>p. Acked p \<in> set (cn_trace pubsub_run) \<and> acks_safe (cn_trace pubsub_run)"
proof -
  have "\<exists>p. Acked p \<in> set (cn_trace pubsub_run)" using pubsub_run_summary by (auto simp: map_eq_Cons_conv)
  with ack_safety [OF pubsub_run_reachable [unfolded run_env_def]] show ?thesis by blast
qed

text \<open>
  C3. No saved row is lost: at every moment, for a row that was ever saved, the buffered batch of its
  table, or a batch of the table that was merged after the row was saved, has an entry for its key,
  and in history mode the row itself.
\<close>

theorem no_row_lost:
  assumes "reachable std dec (pipeline_env std di dw dr cfg commit consumers) cfg fmtMap st"
    and "cn_trace st = a @ Saved T m key r # b"
  shows "(\<exists>td. Merged T td \<in> set b \<and> holds td key r)
    \<or> (\<exists>td. buffered T (cn_db st) = Some td \<and> holds td key r)"
  using pl.system_inv_reachable [OF assms(1)] assms(2) unfolding system_inv_def covered_def by blast

theorem no_row_lost_witness:
  "\<exists>td key r. buffered ''orders'' (cn_db (after_one run_env sample_state)) = Some td \<and> holds td key r"
proof -
  obtain m key r where "cn_trace (after_one run_env sample_state) = [] @ Saved ''orders'' m key r # []"
    using after_one_trace [of run_env sample_state] by auto
  from no_row_lost [OF run_reachable(1) this [unfolded run_env_def]] show ?thesis unfolding run_env_def by auto
qed

lemma run_buffered: "\<exists>td. buffered ''orders'' (cn_db (after_one run_env sample_state)) = Some td"
proof -
  obtain m key r where "cn_trace (after_one run_env sample_state) = [] @ Saved ''orders'' m key r # []"
    using after_one_trace [of run_env sample_state] by auto
  moreover have "covered (after_one run_env sample_state)"
    using pl.system_inv_reachable [OF run_reachable(1)] unfolding system_inv_def run_env_def by blast
  ultimately show ?thesis unfolding covered_def by fastforce
qed

text \<open>
  C2. A batch is exactly what was saved: every batch that was ever merged is the replay, in order, of
  the rows saved for its table since some point before which every row had been merged. In history
  mode the batch lists those rows; in replication mode it is the result of writing them one after
  the other by primary key, where an unavailable value keeps the previous one.
\<close>

theorem batches_replay_saves:
  assumes "reachable std dec (pipeline_env std di dw dr cfg commit consumers) cfg fmtMap st"
    and "cn_trace st = pre @ Merged T td # post"
  shows "\<exists>a b. pre = a @ b \<and> all_merged T a
    \<and> (if td_mode td = History then td_rows td = map snd (saves T b) else abs_rows td = replay (saves T b))"
  using pl.replay_inv_reachable [OF assms(1)] assms(2)
  unfolding replay_inv_def replayed_def batch_of_def replays_def by blast

theorem batches_replay_saves_witness:
  "\<exists>m key r td c a b. cn_trace full_run = [Saved ''orders'' m key r] @ Merged ''orders'' td # [Committed c]
     \<and> [Saved ''orders'' m key r] = a @ b \<and> all_merged ''orders'' a
     \<and> (if td_mode td = History then td_rows td = map snd (saves ''orders'' b)
        else abs_rows td = replay (saves ''orders'' b))"
proof -
  obtain m key r td c where tr: "cn_trace full_run = [Saved ''orders'' m key r] @ Merged ''orders'' td # [Committed c]"
    using full_run_trace by fastforce
  with batches_replay_saves [OF run_reachable(2) tr] show ?thesis by blast
qed

text \<open>
  C8. Every buffered batch of a reachable state is well formed: its columns are distinct and named,
  and in replication mode its recorded size is the size of its rows.
\<close>

theorem buffers_wellformed:
  assumes "reachable std dec (pipeline_env std di dw dr cfg commit consumers) cfg fmtMap st"
    and "buffered T (cn_db st) = Some td"
  shows "table_ok std td"
  using pl.system_inv_reachable [OF assms(1)] assms(2) memory_inv_buffered unfolding system_inv_def by blast

theorem buffers_wellformed_witness:
  "\<exists>td. buffered ''orders'' (cn_db (after_one run_env sample_state)) = Some td \<and> table_ok sample_std td"
  using run_buffered buffers_wellformed [OF run_reachable(1)] unfolding run_env_def by blast

text \<open>
  C5. A failed flush loses nothing, whether the size of the batch or the timer started it: when the
  destination would refuse the batch, a flush of the table records no effect, commits nothing and
  leaves the process running; the table holds the same batch, with at most the types of its columns
  refined, and no other table changes. A timer flush within the cooldown does not reach the
  destination at all.
\<close>

theorem flush_failure_keeps_batch:
  assumes "\<not> cn_crashed st" and "buffered T (cn_db st) = Some td0"
    and "td = ResetTempTableSuffix (fi_rand fi T) td0"
    and "(if td_mode td = History then destination_Append std di dw dr cfg else destination_Merge std di dw dr cfg)
           td (cn_world st) = (w, td', Err e)"
    and "st' = flush_table (pipeline_env std di dw dr cfg commit consumers) fi args T st"
  shows "cn_trace st' = cn_trace st \<and> \<not> cn_crashed st'
    \<and> (\<exists>td2. buffered T (cn_db st') = Some td2 \<and> same_buffer td0 td2)
    \<and> (\<forall>n. n \<noteq> T \<longrightarrow> gm_get (cn_db st') n = gm_get (cn_db st) n)"
proof -
  from assms(2) obtain table where t: "gm_get (cn_db st) T = Some table" "mt_data table = Some td0"
    by (auto simp: buffered_def bind_eq_Some_conv)
  show ?thesis
  proof (cases "case CoolDown args of None \<Rightarrow> False | Some cd \<Rightarrow> ShouldSkipFlush (fi_check fi T) cd table")
    case True
    then have "st' = st" using assms(1,5) t by (simp add: flush_table_def)
    with assms(1,2) show ?thesis by simp
  next
    case False
    have "same_buffer td td'"
      using assms(4) by (auto split: if_splits dest: same_buffer_destination_Merge same_buffer_destination_Append)
    with same_buffer_Reset have sb: "same_buffer td0 td'" unfolding assms(3) by (rule same_buffer_trans)
    have "st' = st\<lparr>cn_world := w, cn_db := gm_put T (SetTableData td' table) (cn_db st)\<rparr>"
      using assms(1,4) False t
      by (cases "td_mode td = History")
        (simp_all add: assms(5) flush_table_def pipeline_env_def Let_def assms(3) [symmetric])
    with assms(1) sb show ?thesis by (simp add: buffered_def SetTableData_def)
  qed
qed

text \<open>A warehouse whose schema cannot be read, and a process that holds one batch.\<close>

definition refusing_store :: "unit store" where
  "refusing_store = sample_store\<lparr>so_GetTableConfig := (\<lambda>td ss. (ss, Err (errorf ''no connection'')))\<rparr>"

definition holding :: "unit store_state consumer" where
  "holding = (start sample_state)
     \<lparr>cn_db := [(''orders'', \<lparr>mt_data = Some sample_batch, mt_lastFlushTime = zero_time\<rparr>)]\<rparr>"

definition mssql_run :: Config where
  "mssql_run = run_config\<lparr>cfg_Output := MSSQL\<rparr>"

theorem flush_failure_keeps_batch_witness:
  "\<exists>td2. buffered ''orders'' (cn_db (flush_table
       (pipeline_env sample_std run_inputs refusing_store sample_driver mssql_run (\<lambda>t km ss. (ss, None)) [])
       sample_flush_inputs \<lparr>CoolDown = Some 0, SpecificTable = [], Reason = ''time''\<rparr> ''orders'' holding)) = Some td2
     \<and> same_buffer sample_batch td2"
proof -
  let ?td = "ResetTempTableSuffix (fi_rand sample_flush_inputs ''orders'') sample_batch"
  have running: "\<not> cn_crashed holding" by (simp add: holding_def start_def)
  have held: "buffered ''orders'' (cn_db holding) = Some sample_batch"
    by (simp add: holding_def buffered_def gm_get_def)
  have "\<exists>w td' e. (if td_mode ?td = History
        then destination_Append sample_std run_inputs refusing_store sample_driver mssql_run
        else destination_Merge sample_std run_inputs refusing_store sample_driver mssql_run)
      ?td (cn_world holding) = (w, td', Err e)"
    by (simp add: destination_Merge_def mssql_Merge_def mssql_run_def Merge_def refusing_store_def
        sample_batch_def NewTableData_def ShouldSkipUpdate_def NumberOfRows_def ReadOnlyInMemoryCols_def
        ResetTempTableSuffix_def CloneColumns_def)
  then obtain w td' e where refused: "(if td_mode ?td = History
        then destination_Append sample_std run_inputs refusing_store sample_driver mssql_run
        else destination_Merge sample_std run_inputs refusing_store sample_driver mssql_run)
      ?td (cn_world holding) = (w, td', Err e)" by blast
  from flush_failure_keeps_batch [OF running held refl refused refl] show ?thesis by blast
qed

section \<open>Two tables on one topic\<close>

text \<open>
  A state of the S3 pipeline in which a row of each of two tables has arrived on one topic, and what
  a flush of the second table depends on.
\<close>

definition two_tables :: "unit store_state consumer" where
  "two_tables =
     consume sample_std table_decoders zero_time sample_flush_inputs run_env run_config orders_map
       (table_message ''b'' 2) (after_one run_env sample_state)"

fun saved_of :: "effect \<Rightarrow> (string \<times> kafka_Message option) option" where
  "saved_of (Saved T m key r) = Some (T, KafkaMsg m)"
| "saved_of e = None"

definition run_action :: "TableData \<Rightarrow> unit store_state \<Rightarrow> unit store_state \<times> TableData \<times> unit outcome" where
  "run_action td0 =
     (let td = ResetTempTableSuffix (fi_rand sample_flush_inputs ''b'') td0
      in (if td_mode td = History
          then destination_Append sample_std run_inputs sample_store sample_driver run_config
          else destination_Merge sample_std run_inputs sample_store sample_driver run_config) td)"

definition second_flushable :: "unit store_state consumer \<Rightarrow> bool" where
  "second_flushable st \<longleftrightarrow> \<not> cn_crashed st
     \<and> map saved_of (cn_trace st) =
         [Some (''orders'', Some (table_message ''orders'' 1)), Some (''b'', Some (table_message ''b'' 2))]
     \<and> (case buffered ''b'' (cn_db st) of None \<Rightarrow> False
        | Some td \<Rightarrow> tc_Topic (td_TopicConfig td) = ''orders''
            \<and> map KafkaMsg (concat (map snd (td_PartitionsToLastMessage td))) = [Some (table_message ''b'' 2)]
            \<and> is_ret (snd (snd (run_action td (cn_world st)))))"

lemma two_tables_flushable: "second_flushable two_tables"
  by code_simp

lemma two_tables_reachable: "reachable sample_std table_decoders run_env run_config orders_map two_tables"
  unfolding two_tables_def
  by (rule reach_step [OF run_env_reachable(1) step_consume]) (rule after_one_alive)

lemma two_tables_trace:
  obtains m key r e where "cn_trace two_tables = [] @ Saved ''orders'' m key r # [e]"
    and "KafkaMsg m = Some (table_message ''orders'' 1)" and "\<forall>x. Merged ''orders'' x \<notin> set [e]"
proof -
  have "map saved_of (cn_trace two_tables) =
      [Some (''orders'', Some (table_message ''orders'' 1)), Some (''b'', Some (table_message ''b'' 2))]"
    using two_tables_flushable by (simp add: second_flushable_def)
  then show ?thesis by (auto simp: map_eq_Cons_conv elim!: saved_of.elims intro: that)
qed

lemma two_tables_second:
  obtains td0 table l w td' where "tc_Topic (td_TopicConfig td0) = ''orders''"
    and "gm_get (cn_db two_tables) ''b'' = Some table" and "mt_data table = Some td0"
    and "l \<in> set (concat (map snd (td_PartitionsToLastMessage td0)))" and "KafkaMsg l = Some (table_message ''b'' 2)"
    and "run_action td0 (cn_world two_tables) = (w, td', Ret ())"
proof -
  obtain td0 where td0: "buffered ''b'' (cn_db two_tables) = Some td0"
    and topic: "tc_Topic (td_TopicConfig td0) = ''orders''"
    and msgs: "map KafkaMsg (concat (map snd (td_PartitionsToLastMessage td0))) = [Some (table_message ''b'' 2)]"
    and taken: "is_ret (snd (snd (run_action td0 (cn_world two_tables))))"
    using two_tables_flushable unfolding second_flushable_def by (auto split: option.splits)
  obtain table where "gm_get (cn_db two_tables) ''b'' = Some table" "mt_data table = Some td0"
    using td0 by (auto simp: buffered_def bind_eq_Some_conv)
  moreover obtain l where l: "concat (map snd (td_PartitionsToLastMessage td0)) = [l]"
    "KafkaMsg l = Some (table_message ''b'' 2)"
    using msgs by (auto simp: map_eq_Cons_conv)
  moreover have "l \<in> set (concat (map snd (td_PartitionsToLastMessage td0)))" unfolding l(1) by simp
  moreover obtain w td' where "run_action td0 (cn_world two_tables) = (w, td', Ret ())"
    using taken by (metis is_ret_iff old.unit.exhaust prod.collapse)
  ultimately show ?thesis using topic that by blast
qed

text \<open>
  C40. Committing is not safe when two tables share a topic. Suppose a row of the table \<open>U\<close> was saved
  from a message and \<open>U\<close> was not merged since, and another table \<open>T\<close> buffers a message of the same
  topic and partition whose offset is not smaller. Then every flush of \<open>T\<close> that the destination takes
  and the broker accepts commits that offset, and with it the message of the row of \<open>U\<close>, after which
  the key of the row is still only in the buffer of \<open>U\<close>.
\<close>

theorem shared_topic_commits_unmerged:
  assumes "reachable std dec (pipeline_env std di dw dr cfg commit consumers) cfg fmtMap st"
    and "\<not> cn_crashed st"
    and "cn_trace st = pre @ Saved U m key r # mid" and "KafkaMsg m = Some km" and "\<And>x. Merged U x \<notin> set mid"
    and "U \<noteq> T" and "gm_get (cn_db st) T = Some table" and "mt_data table = Some td0"
    and "lastMsg \<in> set (concat (map snd (td_PartitionsToLastMessage td0)))" and "KafkaMsg lastMsg = Some c"
    and "km_Topic c = km_Topic km" and "km_Partition c = km_Partition km" and "km_Offset km \<le> km_Offset c"
    and "\<not> (case CoolDown args of None \<Rightarrow> False | Some cd \<Rightarrow> ShouldSkipFlush (fi_check fi T) cd table)"
    and "td = ResetTempTableSuffix (fi_rand fi T) td0"
    and "(if td_mode td = History then destination_Append std di dw dr cfg else destination_Merge std di dw dr cfg)
           td (cn_world st) = (w, td', Ret ())"
    and "TopicToConsumer_Get consumers (tc_Topic (td_TopicConfig td0)) = Some u"
    and "\<And>msg w. snd (commit (tc_Topic (td_TopicConfig td0)) msg w) = None"
    and "st' = flush_table (pipeline_env std di dw dr cfg commit consumers) fi args T st"
  shows "\<exists>between post. cn_trace st' = pre @ Saved U m key r # between @ Committed c # post
    \<and> (\<forall>x. Merged U x \<notin> set between)
    \<and> (\<exists>x. buffered U (cn_db st') = Some x \<and> holds x key r)
    \<and> \<not> commits_safe (cn_trace st')"
proof -
  let ?env = "pipeline_env std di dw dr cfg commit consumers"
  let ?effects = "concat (map message_effects (concat (map snd (td_PartitionsToLastMessage td0))))"
  have "same_buffer td td'"
    using assms(16) by (auto split: if_splits dest: same_buffer_destination_Merge same_buffer_destination_Append)
  with same_buffer_Reset have "same_buffer td0 td'" unfolding assms(15) by (rule same_buffer_trans)
  then have same: "td_TopicConfig td' = td_TopicConfig td0"
    "td_PartitionsToLastMessage td' = td_PartitionsToLastMessage td0" by (simp_all add: same_buffer_def)
  have action: "(if td_mode td = History then en_Append ?env else en_Merge ?env) td (cn_world st) = (w, td', Ret ())"
    using assms(16) by (simp add: pipeline_env_def split: if_splits)
  have flushed: "cn_trace st' = cn_trace st @ [Merged T td] @ ?effects"
    "\<forall>n. n \<noteq> T \<longrightarrow> gm_get (cn_db st') n = gm_get (cn_db st) n"
    using flush_table_done [OF assms(2,7,8,14,15) action, of u st'] assms(17,18,19)
    by (simp_all add: same pipeline_env_def)
  have "Committed c \<in> set ?effects"
    using assms(9,10) by (force simp: message_effects_def)
  then obtain es post where es: "?effects = es @ Committed c # post" by (meson split_list)
  have quiet: "Merged U x \<notin> set ?effects" for x
    by (auto simp: message_effects_def split: option.splits)
  define between where "between = mid @ Merged T td # es"
  have tr: "cn_trace st' = pre @ Saved U m key r # between @ Committed c # post"
    using flushed(1) assms(3) es by (simp add: between_def)
  have unmerged: "\<forall>x. Merged U x \<notin> set between"
    using assms(5,6) quiet es by (auto simp: between_def)
  have "covered st"
    using pl.system_inv_reachable [OF assms(1)] unfolding system_inv_def by blast
  with assms(3,5) have "\<exists>x. buffered U (cn_db st) = Some x \<and> holds x key r"
    unfolding covered_def by blast
  then have held: "\<exists>x. buffered U (cn_db st') = Some x \<and> holds x key r"
    using flushed(2) assms(6) by (simp add: buffered_def)
  have "Message_Topic m = km_Topic c" using assms(4,11) by (simp add: Message_Topic_def)
  then have "\<not> merged_before (pre @ Saved U m key r # between) c"
    unfolding merged_before_def using unmerged by blast
  then have "\<not> commits_safe (cn_trace st')" unfolding commits_safe_def using tr by (metis append.assoc append_Cons)
  with tr unmerged held show ?thesis by blast
qed

theorem shared_topic_commits_unmerged_witness:
  "\<exists>m key r between c post x.
     cn_trace (flush_table run_env sample_flush_inputs \<lparr>CoolDown = None, SpecificTable = [], Reason = []\<rparr> ''b'' two_tables) =
       Saved ''orders'' m key r # between @ Committed c # post
     \<and> map_option km_Offset (KafkaMsg m) = Some 1 \<and> km_Offset c = 2
     \<and> buffered ''orders'' (cn_db (flush_table run_env sample_flush_inputs
           \<lparr>CoolDown = None, SpecificTable = [], Reason = []\<rparr> ''b'' two_tables)) = Some x \<and> holds x key r"
proof -
  let ?args = "\<lparr>CoolDown = None, SpecificTable = [], Reason = []\<rparr>"
  obtain m key r e where tr: "cn_trace two_tables = [] @ Saved ''orders'' m key r # [e]"
    and km: "KafkaMsg m = Some (table_message ''orders'' 1)" and quiet: "\<forall>x. Merged ''orders'' x \<notin> set [e]"
    by (rule two_tables_trace)
  obtain td0 table l w td' where td0: "tc_Topic (td_TopicConfig td0) = ''orders''"
    and table: "gm_get (cn_db two_tables) ''b'' = Some table" "mt_data table = Some td0"
    and l: "l \<in> set (concat (map snd (td_PartitionsToLastMessage td0)))" "KafkaMsg l = Some (table_message ''b'' 2)"
    and merged: "run_action td0 (cn_world two_tables) = (w, td', Ret ())"
    by (rule two_tables_second)
  have alive: "\<not> cn_crashed two_tables" using two_tables_flushable by (simp add: second_flushable_def)
  have same: "km_Topic (table_message ''b'' 2) = km_Topic (table_message ''orders'' 1)"
    "km_Partition (table_message ''b'' 2) = km_Partition (table_message ''orders'' 1)"
    "km_Offset (table_message ''orders'' 1) \<le> km_Offset (table_message ''b'' 2)"
    by (simp_all add: table_message_def)
  have due: "\<not> (case CoolDown ?args of None \<Rightarrow> False
      | Some cd \<Rightarrow> ShouldSkipFlush (fi_check sample_flush_inputs ''b'') cd table)" by simp
  have found: "TopicToConsumer_Get [(''orders'', ())] (tc_Topic (td_TopicConfig td0)) = Some ()"
    by (simp add: td0 TopicToConsumer_Get_def gm_get_def)
  have committed: "snd ((\<lambda>t km ss. (ss, None)) (tc_Topic (td_TopicConfig td0)) msg w) = None" for msg w by simp
  have other: "''orders'' \<noteq> ''b''" by simp
  from shared_topic_commits_unmerged [OF two_tables_reachable [unfolded run_env_def] alive tr km quiet [rule_format] other table l
      same due refl merged [unfolded run_action_def Let_def] found committed refl, folded run_env_def] km
  show ?thesis by (fastforce simp: table_message_def)
qed

end
